(* ===== verification/Prelude.thy ===== *)
theory Prelude
  imports Complex_Main
begin

text \<open>
  Shared ground of the MoistureLoop development: the Python-level value types the
  components use (floats with their non-finite values, UTC instants, exceptions as values),
  the result type with its bind, and the generic list and option facts that the component
  proofs rest on.  The collections below gather the equations of each component, so that
  \<open>simp add: decide_simps\<close> carries the proofs of \<open>State_Machine\<close> and its clients.

  Instants are aware UTC datetimes at Python's resolution, an integer number of
  microseconds; a naive or non-UTC datetime (\<open>_require_utc\<close> of \<open>models.py\<close>) has no
  value of this type.  A finite float is the rational it denotes; sums and differences of
  floats are exact here, their rounding to 53 bits is not modelled.
\<close>

named_theorems decide_simps \<open>equations of the pure state machine\<close>
named_theorems fault_simps \<open>the fault property matrix\<close>
named_theorems slot_simps \<open>equations of the slot manager\<close>
named_theorems store_simps \<open>equations of the safety store\<close>
named_theorems ctrl_simps \<open>equations of the zone controller\<close>

section \<open>Exceptions as values\<close>

datatype py_error =
    ValueError string
  | AssertionError
  | KeyError
  | OverflowError
  | RuntimeError string
  | MalformedStoreData string
  | FutureStoreVersion
  | StoreWriteVerificationError string
  | StoreNotLoadedError string

type_synonym 'a result = "py_error + 'a"

fun res_bind :: "'a result \<Rightarrow> ('a \<Rightarrow> 'b result) \<Rightarrow> 'b result" where
  "res_bind (Inl e) f = Inl e"
| "res_bind (Inr x) f = f x"

definition is_ok :: "'a result \<Rightarrow> bool" where
  "is_ok r \<longleftrightarrow> (case r of Inl _ \<Rightarrow> False | Inr _ \<Rightarrow> True)"

text \<open>\<open>holds r P\<close>: whenever \<open>r\<close> returns, the value has \<open>P\<close>.\<close>

definition holds :: "'a result \<Rightarrow> ('a \<Rightarrow> bool) \<Rightarrow> bool" where
  "holds r P \<longleftrightarrow> (case r of Inl _ \<Rightarrow> True | Inr x \<Rightarrow> P x)"

text \<open>A tuple or list comprehension whose element expression may raise: the first
  exception, in order, is the result.\<close>

fun res_map :: "('a \<Rightarrow> 'b result) \<Rightarrow> 'a list \<Rightarrow> 'b list result" where
  "res_map f [] = Inr []"
| "res_map f (x # xs) = res_bind (f x) (\<lambda>y. res_bind (res_map f xs) (\<lambda>ys. Inr (y # ys)))"

section \<open>Python floats\<close>

datatype pyfloat = Fin rat | PosInf | NegInf | NaN

fun fl_isfinite :: "pyfloat \<Rightarrow> bool" where
  "fl_isfinite (Fin _) = True"
| "fl_isfinite _ = False"

text \<open>IEEE comparison: every comparison with NaN is false.\<close>

fun fl_less :: "pyfloat \<Rightarrow> pyfloat \<Rightarrow> bool" where
  "fl_less NaN _ = False"
| "fl_less _ NaN = False"
| "fl_less (Fin a) (Fin b) = (a < b)"
| "fl_less (Fin _) PosInf = True"
| "fl_less (Fin _) NegInf = False"
| "fl_less PosInf _ = False"
| "fl_less NegInf NegInf = False"
| "fl_less NegInf _ = True"

fun fl_le :: "pyfloat \<Rightarrow> pyfloat \<Rightarrow> bool" where
  "fl_le NaN _ = False"
| "fl_le _ NaN = False"
| "fl_le x y = (\<not> fl_less y x)"

text \<open>Python's \<open>min(x, *xs)\<close>: the first argument that no later one is less than.\<close>

fun py_min :: "pyfloat \<Rightarrow> pyfloat list \<Rightarrow> pyfloat" where
  "py_min best [] = best"
| "py_min best (x # xs) = py_min (if fl_less x best then x else best) xs"

section \<open>Instants and durations\<close>

type_synonym utc = int
type_synonym local_date = int

definition timedelta_s :: "int \<Rightarrow> int" where
  "timedelta_s n = n * 1000000"

text \<open>\<open>timedelta(seconds=x)\<close> of a float rounds to whole microseconds, ties to even, and
  raises on a non-finite argument.\<close>

definition round_half_even :: "rat \<Rightarrow> int" where
  "round_half_even x =
     (let f = \<lfloor>x\<rfloor>; d = x - of_int f
      in if d < 1 / 2 then f else if d > 1 / 2 then f + 1 else if even f then f else f + 1)"

fun timedelta_float :: "pyfloat \<Rightarrow> int result" where
  "timedelta_float (Fin s) = Inr (round_half_even (s * 1000000))"
| "timedelta_float NaN = Inl (ValueError ''cannot convert float NaN to integer'')"
| "timedelta_float PosInf = Inl OverflowError"
| "timedelta_float NegInf = Inl OverflowError"

definition total_seconds :: "int \<Rightarrow> rat" where
  "total_seconds d = of_int d / 1000000"

section \<open>Order of occurrence in a list\<close>

text \<open>\<open>guarded_by g p xs\<close>: no element with \<open>p\<close> occurs before the first one with
  \<open>g\<close>.\<close>

fun guarded_by :: "('a \<Rightarrow> bool) \<Rightarrow> ('a \<Rightarrow> bool) \<Rightarrow> 'a list \<Rightarrow> bool" where
  "guarded_by g p [] = True"
| "guarded_by g p (x # xs) = (g x \<or> (\<not> p x \<and> guarded_by g p xs))"

section \<open>Lemmas\<close>

lemma is_ok_Inr [simp]: "is_ok (Inr x)"
  by (simp add: is_ok_def)

lemma is_ok_Inl [simp]: "\<not> is_ok (Inl e)"
  by (simp add: is_ok_def)

lemma is_ok_iff: "is_ok r \<longleftrightarrow> (\<exists>x. r = Inr x)"
  by (cases r) auto

lemma res_bind_eq_Inr: "res_bind r f = Inr y \<longleftrightarrow> (\<exists>x. r = Inr x \<and> f x = Inr y)"
  by (cases r) auto

lemma res_bind_ok: "is_ok (res_bind r f) \<longleftrightarrow> (\<exists>x. r = Inr x \<and> is_ok (f x))"
  by (cases r) auto

lemma holds_Inl [simp]: "holds (Inl e) P"
  by (simp add: holds_def)

lemma holds_Inr [simp]: "holds (Inr x) P \<longleftrightarrow> P x"
  by (simp add: holds_def)

lemma holds_bind [simp]: "holds (res_bind r f) P \<longleftrightarrow> (\<forall>x. r = Inr x \<longrightarrow> holds (f x) P)"
  by (cases r) auto

lemma holds_iff: "holds r P \<longleftrightarrow> (\<forall>x. r = Inr x \<longrightarrow> P x)"
  by (cases r) auto

lemma holdsD: "holds r P \<Longrightarrow> r = Inr x \<Longrightarrow> P x"
  by simp

lemma res_map_Inr_length: "res_map f xs = Inr ys \<Longrightarrow> length ys = length xs"
  by (induction xs arbitrary: ys) (auto simp: res_bind_eq_Inr)

lemma res_map_map: "(\<And>x. x \<in> set xs \<Longrightarrow> f (g x) = Inr (h x)) \<Longrightarrow> res_map f (map g xs) = Inr (map h xs)"
  by (induction xs) auto

lemma fl_less_Fin_iff: "fl_less x (Fin b) \<longleftrightarrow> (\<exists>a. x = Fin a \<and> a < b) \<or> x = NegInf"
  by (cases x) auto

lemma fl_le_Fin_Fin [simp]: "fl_le (Fin a) (Fin b) \<longleftrightarrow> a \<le> b"
  by auto

lemma fl_less_irrefl [simp]: "\<not> fl_less x x"
  by (cases x) auto

lemma fl_isfinite_iff: "fl_isfinite x \<longleftrightarrow> (\<exists>r. x = Fin r)"
  by (cases x) auto

lemma py_min_Fin: "py_min (Fin a) (map Fin xs) = Fin (foldl min a xs)"
proof (induction xs arbitrary: a)
  case (Cons x xs)
  have "(if fl_less (Fin x) (Fin a) then Fin x else Fin a) = Fin (min a x)"
    by (auto simp: min_def)
  with Cons.IH [of "min a x"] show ?case by simp
qed simp

lemma round_half_even_of_int [simp]: "round_half_even (of_int n) = n"
  by (simp add: round_half_even_def Let_def)

lemma round_half_even_mono: "x \<le> y \<Longrightarrow> round_half_even x \<le> round_half_even y"
proof -
  assume le: "x \<le> y"
  then have fl: "\<lfloor>x\<rfloor> \<le> \<lfloor>y\<rfloor>" by (rule floor_mono)
  have up: "\<And>z. round_half_even z \<le> \<lfloor>z\<rfloor> + 1" and lo: "\<And>z. \<lfloor>z\<rfloor> \<le> round_half_even z"
    by (auto simp: round_half_even_def Let_def)
  show ?thesis
  proof (cases "\<lfloor>x\<rfloor> = \<lfloor>y\<rfloor>")
    case True
    with le show ?thesis by (auto simp: round_half_even_def Let_def)
  next
    case False
    with fl have "\<lfloor>x\<rfloor> + 1 \<le> \<lfloor>y\<rfloor>" by simp
    with up [of x] lo [of y] show ?thesis by linarith
  qed
qed

lemma total_seconds_mono: "a \<le> b \<Longrightarrow> total_seconds a \<le> total_seconds b"
  by (simp add: total_seconds_def divide_right_mono)

lemma total_seconds_nonneg [simp]: "0 \<le> total_seconds d \<longleftrightarrow> 0 \<le> d"
  by (simp add: total_seconds_def zero_le_divide_iff)

lemma guarded_byD:
  assumes "guarded_by g p (ys @ x # zs)" and "p x" and "\<not> g x"
  shows "\<exists>y \<in> set ys. g y"
  using assms by (induction ys) auto

lemma guarded_by_noneI: "(\<And>x. x \<in> set xs \<Longrightarrow> \<not> p x) \<Longrightarrow> guarded_by g p xs"
  by (induction xs) auto

end
