(* ===== verification/Vocabulary.thy ===== *)
theory Vocabulary
  imports Prelude
begin

text \<open>
  The vocabulary of \<open>const.py\<close> and the enumerations of \<open>models.py\<close>: the bounds of the
  zone configuration, the guard identifiers, and one datatype per \<open>StrEnum\<close> with its
  constructors in the order of the source.  Where two enumerations share a member name
  (\<open>FAULT\<close>, \<open>ON\<close>, \<open>MAX_SESSION_RUNTIME\<close>, \<open>NONE\<close>, \<open>OFF_UNCONFIRMED\<close>), the
  one of the smaller enumeration carries a prefix.  The fault property matrix
  (\<open>FaultCode\<close>) and the completion-reason classes close the theory.
\<close>

section \<open>Constants (const.py)\<close>

definition STORE_SCHEMA_VERSION :: int where "STORE_SCHEMA_VERSION = 3"
definition PRIOR_STORE_SCHEMA_VERSION :: int where "PRIOR_STORE_SCHEMA_VERSION = 2"
definition LEGACY_STORE_SCHEMA_VERSION :: int where "LEGACY_STORE_SCHEMA_VERSION = 1"

definition NAME_MIN_LENGTH :: nat where "NAME_MIN_LENGTH = 1"
definition NAME_MAX_LENGTH :: nat where "NAME_MAX_LENGTH = 64"
definition START_THRESHOLD_MIN :: rat where "START_THRESHOLD_MIN = 1"
definition START_THRESHOLD_MAX :: rat where "START_THRESHOLD_MAX = 99"
definition TARGET_THRESHOLD_MIN :: rat where "TARGET_THRESHOLD_MIN = 2"
definition TARGET_THRESHOLD_MAX :: rat where "TARGET_THRESHOLD_MAX = 100"
definition PULSE_DURATION_MIN_S :: int where "PULSE_DURATION_MIN_S = 30"
definition PULSE_DURATION_MAX_S :: int where "PULSE_DURATION_MAX_S = 60 * 60"
definition SOAK_DURATION_MIN_S :: int where "SOAK_DURATION_MIN_S = 60"
definition SOAK_DURATION_MAX_S :: int where "SOAK_DURATION_MAX_S = 4 * 60 * 60"
definition MAX_CYCLES_MIN :: int where "MAX_CYCLES_MIN = 1"
definition MAX_CYCLES_MAX :: int where "MAX_CYCLES_MAX = 20"
definition MAX_SESSION_RUNTIME_MAX_S :: int where "MAX_SESSION_RUNTIME_MAX_S = 4 * 60 * 60"
definition MAX_DAILY_RUNTIME_MAX_S :: int where "MAX_DAILY_RUNTIME_MAX_S = 12 * 60 * 60"
definition MIN_SESSION_INTERVAL_MIN_S :: int where "MIN_SESSION_INTERVAL_MIN_S = 15 * 60"
definition MIN_SESSION_INTERVAL_MAX_S :: int where "MIN_SESSION_INTERVAL_MAX_S = 7 * 24 * 60 * 60"
definition SENSOR_MAX_AGE_MIN_S :: int where "SENSOR_MAX_AGE_MIN_S = 5 * 60"
definition SENSOR_MAX_AGE_MAX_S :: int where "SENSOR_MAX_AGE_MAX_S = 24 * 60 * 60"
definition ACTUATOR_CONFIRM_TIMEOUT_MIN_S :: int where "ACTUATOR_CONFIRM_TIMEOUT_MIN_S = 5"
definition ACTUATOR_CONFIRM_TIMEOUT_MAX_S :: int where "ACTUATOR_CONFIRM_TIMEOUT_MAX_S = 5 * 60"
definition MANUAL_MAX_DURATION_MIN_S :: int where "MANUAL_MAX_DURATION_MIN_S = 60"
definition MANUAL_MAX_DURATION_MAX_S :: int where "MANUAL_MAX_DURATION_MAX_S = 2 * 60 * 60"

definition MOISTURE_MIN :: rat where "MOISTURE_MIN = 0"
definition MOISTURE_MAX :: rat where "MOISTURE_MAX = 100"

definition ACTUATOR_DOMAIN_SWITCH :: string where "ACTUATOR_DOMAIN_SWITCH = ''switch''"
definition ACTUATOR_DOMAIN_VALVE :: string where "ACTUATOR_DOMAIN_VALVE = ''valve''"
definition SENSOR_DOMAIN :: string where "SENSOR_DOMAIN = ''sensor''"

definition OFF_TOTAL_ATTEMPTS :: nat where "OFF_TOTAL_ATTEMPTS = 3"

definition IMPLAUSIBLE_MAX_GAP_S :: int where "IMPLAUSIBLE_MAX_GAP_S = 15 * 60"
definition IMPLAUSIBLE_MIN_DROP :: rat where "IMPLAUSIBLE_MIN_DROP = 8"
definition IMPLAUSIBLE_MAX_RATIO :: rat where "IMPLAUSIBLE_MAX_RATIO = 65 / 100"
definition RESPONSE_MIN_RISE :: rat where "RESPONSE_MIN_RISE = 2"
definition UNRESPONSIVE_STREAK :: int where "UNRESPONSIVE_STREAK = 3"

definition GUARD_ENABLED :: string where "GUARD_ENABLED = ''G-EN''"
definition GUARD_FRESH :: string where "GUARD_FRESH = ''G-FRESH''"
definition GUARD_START :: string where "GUARD_START = ''G-START''"
definition GUARD_POST :: string where "GUARD_POST = ''G-POST''"
definition GUARD_ACTUATOR :: string where "GUARD_ACTUATOR = ''G-ACT''"
definition GUARD_SLOT :: string where "GUARD_SLOT = ''G-SLOT''"
definition GUARD_DAILY_FIT :: string where "GUARD_DAILY_FIT = ''G-DAY''"
definition GUARD_INTERVAL :: string where "GUARD_INTERVAL = ''G-INT''"
definition GUARD_MANUAL_SENSOR :: string where "GUARD_MANUAL_SENSOR = ''G-MANUAL-SENSOR''"
definition GUARD_MANUAL_SAFE :: string where "GUARD_MANUAL_SAFE = ''G-MANUAL-SAFE''"

section \<open>Enumerations (models.py)\<close>

datatype ControllerState = DISABLED | IDLE | WATERING | SOAKING | FAULT

datatype SessionMode = AUTO | MANUAL

datatype MoistureClassification = VALID | STALE | INVALID | UNAVAILABLE

datatype FaultCode =
    SENSOR_UNAVAILABLE
  | SENSOR_STALE
  | SENSOR_INVALID
  | ACTUATOR_UNAVAILABLE
  | ACTUATOR_ON_TIMEOUT
  | ACTUATOR_OFF_TIMEOUT
  | CONFIGURATION_INVALID
  | RESTORED_FROM_UNSAFE_STATE

datatype ReasonClass =
    RC_SUCCESS | RC_CONSTRAINED | RC_CANCELLATION | RC_RECOVERY | RC_FAULT

datatype CompletionReason =
    TARGET_REACHED
  | MANUAL_COMPLETE
  | MAX_CYCLES
  | MAX_SESSION_RUNTIME
  | DAILY_RUNTIME_LIMIT
  | USER_STOP
  | ZONE_DISABLED
  | EXTERNAL_ACTUATOR_STATE_CHANGE
  | CONFIG_RELOAD
  | CONFIG_CHANGED
  | HOME_ASSISTANT_SHUTDOWN
  | RESTART_RECOVERY
  | SENSOR_FAULT
  | ACTUATOR_FAULT

datatype RuntimeEstimationReason =
    EST_NONE | RESTART_FOUND_ON | RESTART_FOUND_OFF_UNKNOWN_STOP | OFF_UNCONFIRMED

datatype BlockerReason =
    EXTERNAL_FLOW | INTEGRATION_OFF_UNCONFIRMED | ACTUATOR_NOT_PROVEN_OFF

datatype RuntimeLifecycle = ACTIVE | DELETE_PENDING | RETIRED

datatype IdentityStatus =
    REGISTRY_CONFIRMED | REGISTRY_UNAVAILABLE | MISSING | CONFLICT

datatype PossibleFlowOwner = INTEGRATION | EXTERNAL

datatype IdentityIncidentKind =
    MIGRATION_UNRESOLVED | IDENTITY_MISSING | IDENTITY_CONFLICT

datatype ManualClampReason =
    CLAMP_MANUAL_MAX_DURATION | CLAMP_MAX_SESSION_RUNTIME | CLAMP_REMAINING_DAILY_BUDGET

datatype ActuatorFinding = FOUND_ON | FOUND_OFF | FOUND_UNPROVEN

datatype TimerKind = PULSE_END | MANUAL_END | SOAK_END | GRACE | ON_CONFIRM_TIMEOUT

section \<open>The fault property matrix\<close>

definition blocks_automatic :: "FaultCode \<Rightarrow> bool" where
  "blocks_automatic f = True"

definition is_sensor_only :: "FaultCode \<Rightarrow> bool" where
  "is_sensor_only f \<longleftrightarrow> f \<in> {SENSOR_UNAVAILABLE, SENSOR_STALE, SENSOR_INVALID}"

definition allows_manual :: "FaultCode \<Rightarrow> bool" where
  "allows_manual f = is_sensor_only f"

definition auto_clears :: "FaultCode \<Rightarrow> bool" where
  "auto_clears f \<longleftrightarrow>
     f \<in> {SENSOR_UNAVAILABLE, SENSOR_STALE, SENSOR_INVALID, ACTUATOR_UNAVAILABLE,
          ACTUATOR_ON_TIMEOUT}"

definition requires_user_ack :: "FaultCode \<Rightarrow> bool" where
  "requires_user_ack f \<longleftrightarrow> f \<in> {ACTUATOR_OFF_TIMEOUT, RESTORED_FROM_UNSAFE_STATE}"

definition requires_reconfigure :: "FaultCode \<Rightarrow> bool" where
  "requires_reconfigure f \<longleftrightarrow> f = CONFIGURATION_INVALID"

fun reason_class :: "CompletionReason \<Rightarrow> ReasonClass" where
  "reason_class TARGET_REACHED = RC_SUCCESS"
| "reason_class MANUAL_COMPLETE = RC_SUCCESS"
| "reason_class MAX_CYCLES = RC_CONSTRAINED"
| "reason_class MAX_SESSION_RUNTIME = RC_CONSTRAINED"
| "reason_class DAILY_RUNTIME_LIMIT = RC_CONSTRAINED"
| "reason_class USER_STOP = RC_CANCELLATION"
| "reason_class ZONE_DISABLED = RC_CANCELLATION"
| "reason_class EXTERNAL_ACTUATOR_STATE_CHANGE = RC_CANCELLATION"
| "reason_class CONFIG_RELOAD = RC_CANCELLATION"
| "reason_class CONFIG_CHANGED = RC_CANCELLATION"
| "reason_class HOME_ASSISTANT_SHUTDOWN = RC_CANCELLATION"
| "reason_class RESTART_RECOVERY = RC_RECOVERY"
| "reason_class SENSOR_FAULT = RC_FAULT"
| "reason_class ACTUATOR_FAULT = RC_FAULT"

text \<open>The two scopes into which the persisted faults are partitioned
  (\<open>_ACTUATOR_FAULTS\<close> and \<open>_ZONE_FAULTS\<close> of \<open>models.py\<close> and \<open>storage.py\<close>).\<close>

definition ACTUATOR_FAULTS :: "FaultCode set" where
  "ACTUATOR_FAULTS =
     {ACTUATOR_UNAVAILABLE, ACTUATOR_ON_TIMEOUT, ACTUATOR_OFF_TIMEOUT,
      RESTORED_FROM_UNSAFE_STATE}"

definition ZONE_FAULTS :: "FaultCode set" where
  "ZONE_FAULTS = {SENSOR_UNAVAILABLE, SENSOR_STALE, SENSOR_INVALID, CONFIGURATION_INVALID}"

section \<open>Lemmas\<close>

lemmas fault_matrix_defs [fault_simps] =
  blocks_automatic_def is_sensor_only_def allows_manual_def auto_clears_def
  requires_user_ack_def requires_reconfigure_def

lemma fault_scope_partition:
  "ACTUATOR_FAULTS \<inter> ZONE_FAULTS = {}" "f \<in> ACTUATOR_FAULTS \<or> f \<in> ZONE_FAULTS"
  by (auto simp: ACTUATOR_FAULTS_def ZONE_FAULTS_def) (cases f; simp)

lemma sensor_only_scope: "is_sensor_only f \<Longrightarrow> f \<in> ZONE_FAULTS"
  by (auto simp: fault_simps ZONE_FAULTS_def)

lemma requires_user_ack_scope: "requires_user_ack f \<Longrightarrow> f \<in> ACTUATOR_FAULTS"
  by (auto simp: fault_simps ACTUATOR_FAULTS_def)

text \<open>Each fault is cleared by exactly one of the three routes: automatically, by an
  acknowledgement, by a reconfiguration.\<close>

lemma fault_clearing_routes:
  "(auto_clears f \<and> \<not> requires_user_ack f \<and> \<not> requires_reconfigure f) \<or>
   (\<not> auto_clears f \<and> requires_user_ack f \<and> \<not> requires_reconfigure f) \<or>
   (\<not> auto_clears f \<and> \<not> requires_user_ack f \<and> requires_reconfigure f)"
  by (cases f) (simp_all add: fault_simps)

end
