(* ===== verification/Zone_Config.thy ===== *)
theory Zone_Config
  imports Vocabulary
begin

text \<open>
  \<open>ZoneConfig\<close> of \<open>models.py\<close>: the per-zone settings, the complete list of bound
  violations (\<open>validation_errors\<close>, in the order of the source) and the raising
  \<open>validate\<close>.  Thresholds are finite floats, durations integer seconds.  The entity
  domain is \<open>str.partition\<close> at the first dot.
\<close>

record ZoneConfig =
  cfg_name :: string
  cfg_moisture_sensor :: string
  cfg_actuator :: string
  cfg_start_threshold :: rat
  cfg_target_threshold :: rat
  cfg_pulse_duration_s :: int
  cfg_soak_duration_s :: int
  cfg_max_cycles :: int
  cfg_max_session_runtime_s :: int
  cfg_max_daily_runtime_s :: int
  cfg_min_session_interval_s :: int
  cfg_sensor_max_age_s :: int
  cfg_actuator_confirm_timeout_s :: int
  cfg_manual_max_duration_s :: int

text \<open>\<open>str.partition(sep)\<close> with a one-character separator: the part before the first
  occurrence, whether it occurs, and the part after it.\<close>

fun py_partition :: "char \<Rightarrow> string \<Rightarrow> string \<times> bool \<times> string" where
  "py_partition c [] = ([], False, [])"
| "py_partition c (x # xs) =
     (if x = c then ([], True, xs)
      else (case py_partition c xs of (a, s, b) \<Rightarrow> (x # a, s, b)))"

definition entity_domain :: "string \<Rightarrow> string" where
  "entity_domain entity_id =
     (case py_partition (CHR ''.'') entity_id of (domain, sep, obj) \<Rightarrow>
        if \<not> sep \<or> domain = [] \<or> obj = [] then [] else domain)"

text \<open>One check of \<open>validation_errors\<close>: the message is listed when the condition fails.\<close>

definition check :: "bool \<Rightarrow> string \<Rightarrow> string list" where
  "check ok msg = (if ok then [] else [msg])"

definition validation_errors :: "ZoneConfig \<Rightarrow> string list" where
  "validation_errors c =
     check (NAME_MIN_LENGTH \<le> length (cfg_name c) \<and> length (cfg_name c) \<le> NAME_MAX_LENGTH)
       ''name must be 1-64 characters'' @
     check (entity_domain (cfg_moisture_sensor c) = SENSOR_DOMAIN)
       ''moisture_sensor must be a sensor entity ID'' @
     check (entity_domain (cfg_actuator c) \<in> {ACTUATOR_DOMAIN_SWITCH, ACTUATOR_DOMAIN_VALVE})
       ''actuator must be a switch or valve entity ID'' @
     check (START_THRESHOLD_MIN \<le> cfg_start_threshold c \<and> cfg_start_threshold c \<le> START_THRESHOLD_MAX)
       ''start_threshold must be within 1-99'' @
     check (TARGET_THRESHOLD_MIN \<le> cfg_target_threshold c \<and> cfg_target_threshold c \<le> TARGET_THRESHOLD_MAX)
       ''target_threshold must be within 2-100'' @
     check (cfg_start_threshold c < cfg_target_threshold c)
       ''start_threshold must be strictly less than target_threshold'' @
     check (PULSE_DURATION_MIN_S \<le> cfg_pulse_duration_s c \<and> cfg_pulse_duration_s c \<le> PULSE_DURATION_MAX_S)
       ''pulse_duration must be within 30 s-60 min'' @
     check (SOAK_DURATION_MIN_S \<le> cfg_soak_duration_s c \<and> cfg_soak_duration_s c \<le> SOAK_DURATION_MAX_S)
       ''soak_duration must be within 1 min-4 h'' @
     check (MAX_CYCLES_MIN \<le> cfg_max_cycles c \<and> cfg_max_cycles c \<le> MAX_CYCLES_MAX)
       ''max_cycles must be within 1-20'' @
     check (cfg_pulse_duration_s c \<le> cfg_max_session_runtime_s c
            \<and> cfg_max_session_runtime_s c \<le> MAX_SESSION_RUNTIME_MAX_S)
       ''max_session_runtime must be within pulse duration-4 h'' @
     check (cfg_pulse_duration_s c \<le> cfg_max_daily_runtime_s c
            \<and> cfg_max_daily_runtime_s c \<le> MAX_DAILY_RUNTIME_MAX_S)
       ''max_daily_runtime must be within pulse duration-12 h'' @
     check (MIN_SESSION_INTERVAL_MIN_S \<le> cfg_min_session_interval_s c
            \<and> cfg_min_session_interval_s c \<le> MIN_SESSION_INTERVAL_MAX_S)
       ''min_session_interval must be within 15 min-7 d'' @
     check (SENSOR_MAX_AGE_MIN_S \<le> cfg_sensor_max_age_s c \<and> cfg_sensor_max_age_s c \<le> SENSOR_MAX_AGE_MAX_S)
       ''sensor_max_age must be within 5 min-24 h'' @
     check (ACTUATOR_CONFIRM_TIMEOUT_MIN_S \<le> cfg_actuator_confirm_timeout_s c
            \<and> cfg_actuator_confirm_timeout_s c \<le> ACTUATOR_CONFIRM_TIMEOUT_MAX_S)
       ''actuator_confirm_timeout must be within 5 s-5 min'' @
     check (MANUAL_MAX_DURATION_MIN_S \<le> cfg_manual_max_duration_s c
            \<and> cfg_manual_max_duration_s c \<le> MANUAL_MAX_DURATION_MAX_S)
       ''manual_max_duration must be within 1 min-2 h''"

text \<open>\<open>"; ".join(errors)\<close>.\<close>

fun join_errors :: "string list \<Rightarrow> string" where
  "join_errors [] = []"
| "join_errors [e] = e"
| "join_errors (e # es) = e @ ''; '' @ join_errors es"

definition config_validate :: "ZoneConfig \<Rightarrow> unit result" where
  "config_validate c =
     (let errors = validation_errors c
      in if errors \<noteq> [] then Inl (ValueError (join_errors errors)) else Inr ())"

section \<open>Lemmas\<close>

lemmas config_bounds =
  NAME_MIN_LENGTH_def NAME_MAX_LENGTH_def START_THRESHOLD_MIN_def START_THRESHOLD_MAX_def
  TARGET_THRESHOLD_MIN_def TARGET_THRESHOLD_MAX_def PULSE_DURATION_MIN_S_def
  PULSE_DURATION_MAX_S_def SOAK_DURATION_MIN_S_def SOAK_DURATION_MAX_S_def
  MAX_CYCLES_MIN_def MAX_CYCLES_MAX_def MAX_SESSION_RUNTIME_MAX_S_def
  MAX_DAILY_RUNTIME_MAX_S_def MIN_SESSION_INTERVAL_MIN_S_def MIN_SESSION_INTERVAL_MAX_S_def
  SENSOR_MAX_AGE_MIN_S_def SENSOR_MAX_AGE_MAX_S_def ACTUATOR_CONFIRM_TIMEOUT_MIN_S_def
  ACTUATOR_CONFIRM_TIMEOUT_MAX_S_def MANUAL_MAX_DURATION_MIN_S_def
  MANUAL_MAX_DURATION_MAX_S_def

lemmas domain_defs = ACTUATOR_DOMAIN_SWITCH_def ACTUATOR_DOMAIN_VALVE_def SENSOR_DOMAIN_def

lemma check_Nil [simp]: "check ok msg = [] \<longleftrightarrow> ok"
  by (simp add: check_def)

lemma config_validate_iff: "config_validate c = Inr () \<longleftrightarrow> validation_errors c = []"
  by (simp add: config_validate_def Let_def)

lemma py_partition_join:
  "py_partition c s = (a, sep, b) \<Longrightarrow> s = (if sep then a @ c # b else a) \<and> c \<notin> set a"
  by (induction s arbitrary: a) (auto split: if_splits prod.splits)

lemma entity_domain_prefix:
  assumes "entity_domain s = d" and "d \<noteq> []"
  shows "\<exists>obj. obj \<noteq> [] \<and> s = d @ CHR ''.'' # obj \<and> CHR ''.'' \<notin> set d"
proof -
  obtain a sep b where p: "py_partition (CHR ''.'') s = (a, sep, b)"
    by (cases "py_partition (CHR ''.'') s") auto
  with assms have "sep" "a = d" "b \<noteq> []"
    by (auto simp: entity_domain_def split: if_splits)
  with py_partition_join [OF p] show ?thesis by auto
qed

text \<open>The bounds that the rest of the development uses of a validated configuration.\<close>

lemma config_ok_bounds:
  assumes "validation_errors c = []"
  shows "1 \<le> cfg_start_threshold c" "cfg_start_threshold c < cfg_target_threshold c"
    "cfg_target_threshold c \<le> 100"
    "30 \<le> cfg_pulse_duration_s c" "cfg_pulse_duration_s c \<le> 3600"
    "60 \<le> cfg_soak_duration_s c" "1 \<le> cfg_max_cycles c" "cfg_max_cycles c \<le> 20"
    "cfg_pulse_duration_s c \<le> cfg_max_session_runtime_s c"
    "cfg_max_session_runtime_s c \<le> 14400"
    "cfg_pulse_duration_s c \<le> cfg_max_daily_runtime_s c"
    "cfg_max_daily_runtime_s c \<le> 43200"
    "900 \<le> cfg_min_session_interval_s c" "300 \<le> cfg_sensor_max_age_s c"
    "5 \<le> cfg_actuator_confirm_timeout_s c"
    "60 \<le> cfg_manual_max_duration_s c" "cfg_manual_max_duration_s c \<le> 7200"
  using assms by (simp_all add: validation_errors_def config_bounds)

end
