(* ===== verification/Observation.thy ===== *)
theory Observation
  imports Vocabulary
begin

text \<open>
  The normalized inputs of a zone.  From \<open>models.py\<close>: \<open>MoistureObservation\<close> with its
  structural check and freshness tests, the reading-plausibility detector, and
  \<open>ActuatorAssessment\<close>.  From \<open>zone_controller.py\<close>: \<open>classify_moisture\<close>, which turns
  one Home Assistant state into an observation, and the conservative reading of an actuator
  state by \<open>ActuatorAdapter\<close>.

  A Home Assistant state is its text and its optional \<open>current_position\<close> attribute.  The
  two texts that Home Assistant reserves (its constants for an unavailable and an unknown
  entity) are constructors of their own, so that no literal of that library is repeated
  here.  \<open>py_float\<close> is Python's \<open>float(str)\<close> on ASCII text: surrounding white space,
  sign, digits with single underscores between them, fraction, exponent, \<open>inf\<close>,
  \<open>infinity\<close> and \<open>nan\<close>; a magnitude that rounds beyond the largest double is infinite.
\<close>

section \<open>MoistureObservation (models.py)\<close>

record MoistureObservation =
  obs_value :: "pyfloat option"
  obs_classification :: MoistureClassification
  obs_reported_at_utc :: "utc option"
  obs_age_s :: "rat option"

definition mk_observation ::
  "pyfloat option \<Rightarrow> MoistureClassification \<Rightarrow> utc option \<Rightarrow> rat option \<Rightarrow> MoistureObservation" where
  "mk_observation v c r a =
     \<lparr>obs_value = v, obs_classification = c, obs_reported_at_utc = r, obs_age_s = a\<rparr>"

definition observation_validate :: "MoistureObservation \<Rightarrow> unit result" where
  "observation_validate o1 =
     (case obs_classification o1 of
        UNAVAILABLE \<Rightarrow>
          if obs_value o1 \<noteq> None
          then Inl (ValueError ''unavailable observation must not carry a value'')
          else Inr ()
      | INVALID \<Rightarrow> Inr ()
      | _ \<Rightarrow>
          (case obs_value o1 of
             None \<Rightarrow> Inl (ValueError ''observation requires a finite value'')
           | Some v \<Rightarrow>
               if \<not> fl_isfinite v then Inl (ValueError ''observation requires a finite value'')
               else if \<not> (fl_le (Fin MOISTURE_MIN) v \<and> fl_le v (Fin MOISTURE_MAX))
               then Inl (ValueError ''observation value out of [0, 100]'')
               else if obs_reported_at_utc o1 = None
               then Inl (ValueError ''observation requires reported_at_utc'')
               else (case obs_age_s o1 of
                       None \<Rightarrow> Inl (ValueError ''observation requires non-negative age_s'')
                     | Some a \<Rightarrow>
                         if a < 0
                         then Inl (ValueError ''observation requires non-negative age_s'')
                         else Inr ())))"

definition fresh_until :: "MoistureObservation \<Rightarrow> int \<Rightarrow> utc option" where
  "fresh_until o1 sensor_max_age_s =
     (case obs_reported_at_utc o1 of
        None \<Rightarrow> None
      | Some r \<Rightarrow> Some (r + timedelta_s sensor_max_age_s))"

definition is_fresh :: "MoistureObservation \<Rightarrow> utc \<Rightarrow> int \<Rightarrow> bool" where
  "is_fresh o1 now_utc sensor_max_age_s =
     (case obs_reported_at_utc o1 of
        None \<Rightarrow> False
      | Some r \<Rightarrow> r \<ge> now_utc - timedelta_s sensor_max_age_s)"

section \<open>Python's float(str)\<close>

definition char_code :: "char \<Rightarrow> nat" where
  "char_code c = of_char c"

definition is_digit :: "char \<Rightarrow> bool" where
  "is_digit c \<longleftrightarrow> 48 \<le> char_code c \<and> char_code c \<le> 57"

definition is_space :: "char \<Rightarrow> bool" where
  "is_space c \<longleftrightarrow>
     (9 \<le> char_code c \<and> char_code c \<le> 13) \<or> (28 \<le> char_code c \<and> char_code c \<le> 32)"

definition strip :: "string \<Rightarrow> string" where
  "strip s = rev (dropWhile is_space (rev (dropWhile is_space s)))"

definition lower :: "char \<Rightarrow> char" where
  "lower c =
     (if 65 \<le> char_code c \<and> char_code c \<le> 90 then char_of (char_code c + 32) else c)"

text \<open>Underscores are allowed between two digits only; the second argument is the
  character before.\<close>

fun drop_underscores :: "string \<Rightarrow> char \<Rightarrow> string option" where
  "drop_underscores [] prev = Some []"
| "drop_underscores (c # cs) prev =
     (if c = CHR ''_''
      then (case cs of
              [] \<Rightarrow> None
            | d # _ \<Rightarrow> if is_digit prev \<and> is_digit d then drop_underscores cs c else None)
      else map_option (Cons c) (drop_underscores cs c))"

fun digits_value :: "string \<Rightarrow> nat \<Rightarrow> nat" where
  "digits_value [] n = n"
| "digits_value (c # cs) n = digits_value cs (10 * n + (char_code c - 48))"

definition parse_exponent :: "string \<Rightarrow> int option" where
  "parse_exponent s =
     (case s of
        [] \<Rightarrow> Some 0
      | c # cs \<Rightarrow>
          if lower c \<noteq> CHR ''e'' then None
          else (let (neg, ds) =
                  (case cs of
                     d # ds' \<Rightarrow> if d = CHR ''-'' then (True, ds')
                                else if d = CHR ''+'' then (False, ds') else (False, cs)
                   | [] \<Rightarrow> (False, []))
                in if ds = [] \<or> \<not> list_all is_digit ds then None
                   else Some (if neg then - int (digits_value ds 0) else int (digits_value ds 0))))"

definition scale10 :: "nat \<Rightarrow> int \<Rightarrow> rat" where
  "scale10 m e = (if e \<ge> 0 then of_nat m * 10 ^ nat e else of_nat m / 10 ^ nat (- e))"

definition to_float :: "bool \<Rightarrow> rat \<Rightarrow> pyfloat" where
  "to_float neg m =
     (if m \<ge> 2 ^ 1024 - 2 ^ 970 then (if neg then NegInf else PosInf)
      else Fin (if neg then - m else m))"

definition parse_decimal :: "bool \<Rightarrow> string \<Rightarrow> pyfloat option" where
  "parse_decimal neg s =
     (let ip = takeWhile is_digit s; r = dropWhile is_digit s;
          dot = (case r of c # _ \<Rightarrow> c = CHR ''.'' | [] \<Rightarrow> False);
          fp = (if dot then takeWhile is_digit (tl r) else []);
          ex = (if dot then dropWhile is_digit (tl r) else r)
      in if ip @ fp = [] then None
         else (case parse_exponent ex of
                 None \<Rightarrow> None
               | Some e \<Rightarrow>
                   Some (to_float neg (scale10 (digits_value (ip @ fp) 0) (e - int (length fp))))))"

definition py_float :: "string \<Rightarrow> pyfloat option" where
  "py_float s =
     (case drop_underscores (strip s) (CHR '' '') of
        None \<Rightarrow> None
      | Some t \<Rightarrow>
          (let neg = (case t of c # _ \<Rightarrow> c = CHR ''-'' | [] \<Rightarrow> False);
               pos = (case t of c # _ \<Rightarrow> c = CHR ''+'' | [] \<Rightarrow> False);
               b = (if neg \<or> pos then tl t else t);
               l = map lower b
           in if l = ''inf'' \<or> l = ''infinity'' then Some (if neg then NegInf else PosInf)
              else if l = ''nan'' then Some NaN
              else parse_decimal neg b))"

section \<open>classify_moisture (zone_controller.py)\<close>

datatype state_text = StateUnavailable | StateUnknown | StateText string

record HaState =
  st_state :: state_text
  st_current_position :: "int option"

definition age_s :: "utc option \<Rightarrow> utc \<Rightarrow> rat option" where
  "age_s reported_at_utc now_utc =
     (case reported_at_utc of
        None \<Rightarrow> None
      | Some r \<Rightarrow> Some (max 0 (total_seconds (now_utc - r))))"

definition classify_moisture ::
  "HaState option \<Rightarrow> utc option \<Rightarrow> utc \<Rightarrow> int \<Rightarrow> MoistureObservation" where
  "classify_moisture st reported_at_utc now_utc sensor_max_age_s =
     (case map_option st_state st of
        None \<Rightarrow> mk_observation None UNAVAILABLE None None
      | Some StateUnavailable \<Rightarrow> mk_observation None UNAVAILABLE None None
      | Some StateUnknown \<Rightarrow>
          mk_observation None INVALID reported_at_utc (age_s reported_at_utc now_utc)
      | Some (StateText txt) \<Rightarrow>
          (case py_float txt of
             None \<Rightarrow> mk_observation None INVALID reported_at_utc (age_s reported_at_utc now_utc)
           | Some val \<Rightarrow>
               if \<not> fl_isfinite val \<or> fl_less val (Fin MOISTURE_MIN) \<or> fl_less (Fin MOISTURE_MAX) val
               then mk_observation (if fl_isfinite val then Some val else None) INVALID
                      reported_at_utc (age_s reported_at_utc now_utc)
               else
                 let age = age_s reported_at_utc now_utc
                 in if reported_at_utc = None
                    then mk_observation (Some val) INVALID None None
                    else
                      let fresh = is_fresh (mk_observation (Some val) VALID reported_at_utc age)
                                    now_utc sensor_max_age_s
                      in mk_observation (Some val) (if fresh then VALID else STALE)
                           reported_at_utc age))"

section \<open>Reading plausibility (models.py)\<close>

record ReadingPlausibility =
  rp_reference_value :: "pyfloat option"
  rp_reference_reported_at_utc :: "utc option"
  rp_suspect_since_utc :: "utc option"

definition mk_plausibility ::
  "pyfloat option \<Rightarrow> utc option \<Rightarrow> utc option \<Rightarrow> ReadingPlausibility" where
  "mk_plausibility v r s =
     \<lparr>rp_reference_value = v, rp_reference_reported_at_utc = r, rp_suspect_since_utc = s\<rparr>"

definition suspect :: "ReadingPlausibility \<Rightarrow> bool" where
  "suspect p \<longleftrightarrow> rp_suspect_since_utc p \<noteq> None"

fun fl_neg :: "pyfloat \<Rightarrow> pyfloat" where
  "fl_neg (Fin a) = Fin (- a)"
| "fl_neg PosInf = NegInf"
| "fl_neg NegInf = PosInf"
| "fl_neg NaN = NaN"

fun fl_add :: "pyfloat \<Rightarrow> pyfloat \<Rightarrow> pyfloat" where
  "fl_add (Fin a) (Fin b) = Fin (a + b)"
| "fl_add NaN _ = NaN"
| "fl_add _ NaN = NaN"
| "fl_add PosInf NegInf = NaN"
| "fl_add NegInf PosInf = NaN"
| "fl_add PosInf _ = PosInf"
| "fl_add NegInf _ = NegInf"
| "fl_add (Fin _) x = x"

text \<open>Multiplication by a positive finite constant.\<close>

fun fl_scale :: "rat \<Rightarrow> pyfloat \<Rightarrow> pyfloat" where
  "fl_scale c (Fin a) = Fin (c * a)"
| "fl_scale c x = x"

definition implausible_drop :: "pyfloat \<Rightarrow> pyfloat \<Rightarrow> bool" where
  "implausible_drop reference val \<longleftrightarrow>
     fl_le (Fin IMPLAUSIBLE_MIN_DROP) (fl_add reference (fl_neg val)) \<and>
     fl_le val (fl_scale IMPLAUSIBLE_MAX_RATIO reference)"

definition assess_reading_plausibility ::
  "ReadingPlausibility \<Rightarrow> MoistureObservation \<Rightarrow> ReadingPlausibility result" where
  "assess_reading_plausibility st o1 =
     (if obs_classification o1 \<noteq> VALID then Inr st
      else (case (obs_value o1, obs_reported_at_utc o1) of
          (Some val, Some reported_at) \<Rightarrow>
            (case (rp_reference_value st, rp_reference_reported_at_utc st) of
               (Some reference, Some reference_at) \<Rightarrow>
                 if reported_at \<le> reference_at then Inr st
                 else if suspect st then
                   (if implausible_drop reference val then Inr st
                    else Inr (mk_plausibility (Some val) (Some reported_at) None))
                 else if reported_at - reference_at \<le> timedelta_s IMPLAUSIBLE_MAX_GAP_S
                         \<and> implausible_drop reference val
                 then Inr (mk_plausibility (Some reference) (Some reference_at) (Some reported_at))
                 else Inr (mk_plausibility (Some val) (Some reported_at) None)
             | _ \<Rightarrow> Inr (mk_plausibility (Some val) (Some reported_at) None))
        | _ \<Rightarrow> Inl AssertionError))"

section \<open>Actuator assessment (models.py, zone_controller.py)\<close>

record ActuatorAssessment =
  act_available :: bool
  act_proven_off :: bool
  act_observed_on :: bool

definition mk_assessment :: "bool \<Rightarrow> bool \<Rightarrow> bool \<Rightarrow> ActuatorAssessment result" where
  "mk_assessment available proven_off observed_on =
     (if proven_off \<and> observed_on
      then Inl (ValueError ''an actuator cannot be both proven OFF and observed ON'')
      else Inr \<lparr>act_available = available, act_proven_off = proven_off,
                 act_observed_on = observed_on\<rparr>)"

definition adapter_domain :: "string \<Rightarrow> string" where
  "adapter_domain entity_id = takeWhile (\<lambda>c. c \<noteq> CHR ''.'') entity_id"

definition assess :: "string \<Rightarrow> HaState option \<Rightarrow> ActuatorAssessment result" where
  "assess entity_id st =
     (case st of
        None \<Rightarrow> mk_assessment False False False
      | Some s \<Rightarrow>
          (case st_state s of
             StateUnavailable \<Rightarrow> mk_assessment False False False
           | StateUnknown \<Rightarrow> mk_assessment False False False
           | StateText raw \<Rightarrow>
               if adapter_domain entity_id = ''valve'' then
                 (let position = st_current_position s
                  in if raw = ''open'' then mk_assessment True False True
                     else if raw = ''closed'' then
                       (if position = None \<or> position = Some 0
                        then mk_assessment True True False
                        else mk_assessment True False True)
                     else if raw = ''opening'' \<or> raw = ''closing'' then
                       mk_assessment True False
                         (case position of None \<Rightarrow> False | Some p \<Rightarrow> p \<noteq> 0 \<and> p > 0)
                     else mk_assessment True False False)
               else if raw = ''on'' then mk_assessment True False True
               else if raw = ''off'' then mk_assessment True True False
               else mk_assessment True False False))"

definition is_terminal_on :: "string \<Rightarrow> HaState option \<Rightarrow> bool" where
  "is_terminal_on entity_id st =
     (case st of
        None \<Rightarrow> False
      | Some s \<Rightarrow>
          if adapter_domain entity_id = ''valve'' then st_state s = StateText ''open''
          else st_state s = StateText ''on'')"

end
