(* ===== verification/Session.thy ===== *)
theory Session
  imports Zone_Config Observation
begin

text \<open>
  The data exchanged with the pure state machine (\<open>models.py\<close>): the session context and
  its persisted summary, the normalized events, the requested side effects, the complete
  input of one decision and the decision itself.  A dataclass is a record whose fields keep
  their names under a prefix (\<open>ses_\<close>, \<open>sum_\<close>, \<open>inp_\<close>, \<open>dec_\<close>), a union of event or
  action classes is a datatype with one constructor per class.  \<open>replace\<close>/\<open>evolve\<close> is
  record update.  A constructor call whose \<open>__post_init__\<close> may raise is the function
  \<open>mk_...\<close> with a result.
\<close>

section \<open>Session structures\<close>

record SessionContext =
  ses_session_id :: string
  ses_owner_run_id :: string
  ses_config_fingerprint :: string
  ses_mode :: SessionMode
  ses_started_at_utc :: utc
  ses_cycle :: int
  ses_session_runtime_s :: rat
  ses_runtime_estimated :: bool
  ses_runtime_estimation_reason :: RuntimeEstimationReason
  ses_pulse_intent_at_utc :: "utc option"
  ses_pulse_commanded_at_utc :: "utc option"
  ses_pulse_confirmed_at_utc :: "utc option"
  ses_pulse_ends_at_utc :: "utc option"
  ses_sensor_fresh_until_utc :: "utc option"
  ses_sensor_freshness_watchdog_generation :: int
  ses_off_confirmed_at_utc :: "utc option"
  ses_soak_ends_at_utc :: "utc option"
  ses_recheck_not_before_utc :: "utc option"
  ses_recheck_grace_deadline_at_utc :: "utc option"
  ses_manual_requested_duration_s :: "pyfloat option"
  ses_manual_effective_duration_s :: "pyfloat option"
  ses_manual_clamp_reasons :: "ManualClampReason list"
  ses_moisture_at_start :: "pyfloat option"
  ses_last_recheck_value :: "pyfloat option"
  ses_retained_sensor_fault :: "FaultCode option"
  ses_pending_termination_reason :: "CompletionReason option"

text \<open>The dataclass defaults; the five fields without a default are arguments.\<close>

definition session_defaults ::
  "string \<Rightarrow> string \<Rightarrow> string \<Rightarrow> SessionMode \<Rightarrow> utc \<Rightarrow> SessionContext" where
  "session_defaults session_id owner_run_id config_fingerprint mode started_at_utc =
     \<lparr>ses_session_id = session_id, ses_owner_run_id = owner_run_id,
      ses_config_fingerprint = config_fingerprint, ses_mode = mode,
      ses_started_at_utc = started_at_utc, ses_cycle = 0, ses_session_runtime_s = 0,
      ses_runtime_estimated = False, ses_runtime_estimation_reason = EST_NONE,
      ses_pulse_intent_at_utc = None, ses_pulse_commanded_at_utc = None,
      ses_pulse_confirmed_at_utc = None, ses_pulse_ends_at_utc = None,
      ses_sensor_fresh_until_utc = None, ses_sensor_freshness_watchdog_generation = 0,
      ses_off_confirmed_at_utc = None, ses_soak_ends_at_utc = None,
      ses_recheck_not_before_utc = None, ses_recheck_grace_deadline_at_utc = None,
      ses_manual_requested_duration_s = None, ses_manual_effective_duration_s = None,
      ses_manual_clamp_reasons = [], ses_moisture_at_start = None,
      ses_last_recheck_value = None, ses_retained_sensor_fault = None,
      ses_pending_termination_reason = None\<rparr>"

definition mk_session :: "SessionContext \<Rightarrow> SessionContext result" where
  "mk_session s =
     (case ses_retained_sensor_fault s of
        Some f \<Rightarrow>
          if \<not> is_sensor_only f
          then Inl (ValueError ''retained_sensor_fault must be a sensor-only fault'')
          else Inr s
      | None \<Rightarrow> Inr s)"

record SessionSummary =
  sum_mode :: SessionMode
  sum_reason :: CompletionReason
  sum_runtime_s :: rat
  sum_runtime_estimated :: bool
  sum_runtime_estimation_reason :: RuntimeEstimationReason
  sum_requested_duration_s :: "pyfloat option"
  sum_effective_duration_s :: "pyfloat option"
  sum_clamp_reasons :: "ManualClampReason list"
  sum_cycles :: int
  sum_moisture_before :: "pyfloat option"
  sum_moisture_after :: "pyfloat option"
  sum_started_at_utc :: utc
  sum_ended_at_utc :: utc

definition next_unresponsive_streak :: "int \<Rightarrow> SessionSummary \<Rightarrow> pyfloat option \<Rightarrow> int" where
  "next_unresponsive_streak streak summary peak_rise =
     (if sum_mode summary \<noteq> AUTO \<or> sum_runtime_estimated summary then streak
      else if sum_reason summary = TARGET_REACHED then 0
      else if sum_reason summary \<notin> {MAX_CYCLES, MAX_SESSION_RUNTIME, DAILY_RUNTIME_LIMIT}
      then streak
      else (case peak_rise of
              None \<Rightarrow> streak
            | Some rise \<Rightarrow> if fl_less rise (Fin RESPONSE_MIN_RISE) then streak + 1 else 0))"

record GuardResult =
  gr_passed :: bool
  gr_failed_guards :: "string list"

definition mk_guard_result :: "bool \<Rightarrow> string list \<Rightarrow> GuardResult result" where
  "mk_guard_result passed failed_guards =
     (if passed \<and> failed_guards \<noteq> []
      then Inl (ValueError ''a passing guard result cannot list failed guards'')
      else if \<not> passed \<and> failed_guards = []
      then Inl (ValueError ''a failing guard result must name the failed guards'')
      else Inr \<lparr>gr_passed = passed, gr_failed_guards = failed_guards\<rparr>)"

record ResourceAssessment =
  res_slot_granted :: bool
  res_blockers_empty :: bool

section \<open>Events\<close>

record WatchdogToken =
  tok_generation :: int
  tok_deadline_utc :: utc

definition mk_token :: "int \<Rightarrow> utc \<Rightarrow> WatchdogToken" where
  "mk_token g d = \<lparr>tok_generation = g, tok_deadline_utc = d\<rparr>"

datatype ControllerEvent =
    AutoEvaluate
  | ManualStartRequested pyfloat
  | StopRequested
  | DisableRequested
  | EnableRequested
  | ClearFaultRequested
  | PulseDeadlineReached
  | ManualDeadlineReached
  | SoakDeadlineReached
  | GraceDeadlineReached
  | WatchdogFired WatchdogToken
  | MoistureReport MoistureObservation
  | OnConfirmed utc
  | OnConfirmTimeout
  | OffConfirmed utc
  | OffNotConfirmed
  | ActuatorBecameUnavailable
  | ExternalActuatorOn
  | ExternalActuatorOff utc
  | HomeAssistantShutdown
  | ConfigEntryReload
  | ConfigChangedPrepare
  | ConfigurationInvalid bool
  | StoreIntegrityLost
  | StartupPersistedWatering ActuatorFinding
  | StartupPersistedSoaking bool "string option" "FaultCode option"
  | SlotGranted

section \<open>Requested side effects\<close>

datatype Action =
    PersistState string
  | TurnOn
  | ExecuteOff bool
  | ArmTimer TimerKind utc
  | ArmWatchdog WatchdogToken
  | RequestSlot
  | ReleaseSlot
  | RequeueSlotTail
  | AddBlocker BlockerReason
  | RemoveBlocker BlockerReason
  | SetExternalOn bool
  | EmitSessionStarted
  | EmitSessionFinished
  | EmitFaultSet FaultCode "FaultCode option"
  | EmitFaultCleared FaultCode
  | ScheduleEvaluation

record SessionIdentity =
  sid_session_id :: string
  sid_owner_run_id :: string
  sid_config_fingerprint :: string

section \<open>Transition input and decision\<close>

record TransitionInput =
  inp_now_utc :: utc
  inp_config :: ZoneConfig
  inp_state :: ControllerState
  inp_enabled :: bool
  inp_session :: "SessionContext option"
  inp_active_fault :: "FaultCode option"
  inp_secondary_fault :: "FaultCode option"
  inp_observation :: MoistureObservation
  inp_daily_runtime_s :: rat
  inp_last_session_end_utc :: "utc option"
  inp_actuator :: ActuatorAssessment
  inp_resource :: ResourceAssessment
  inp_armed_watchdog :: "WatchdogToken option"
  inp_event :: ControllerEvent
  inp_external_on :: bool
  inp_new_session_identity :: "SessionIdentity option"

definition mk_input :: "TransitionInput \<Rightarrow> TransitionInput result" where
  "mk_input inp =
     (if inp_daily_runtime_s inp < 0
      then Inl (ValueError ''daily_runtime_s must be non-negative'') else Inr inp)"

record Decision =
  dec_transition_id :: "string option"
  dec_new_state :: "ControllerState option"
  dec_actions :: "Action list"
  dec_reason :: "CompletionReason option"
  dec_fault :: "FaultCode option"
  dec_secondary_fault :: "FaultCode option"
  dec_clear_fault :: bool
  dec_session :: "SessionContext option"
  dec_clear_session :: bool
  dec_final_session :: "SessionContext option"
  dec_guard_result :: "GuardResult option"
  dec_no_op :: bool

definition decision_defaults :: "string option \<Rightarrow> ControllerState option \<Rightarrow> Decision" where
  "decision_defaults transition_id new_state =
     \<lparr>dec_transition_id = transition_id, dec_new_state = new_state, dec_actions = [],
      dec_reason = None, dec_fault = None, dec_secondary_fault = None,
      dec_clear_fault = False, dec_session = None, dec_clear_session = False,
      dec_final_session = None, dec_guard_result = None, dec_no_op = False\<rparr>"

definition mk_decision :: "Decision \<Rightarrow> Decision result" where
  "mk_decision d =
     (if dec_no_op d \<and> (dec_new_state d \<noteq> None \<or> dec_actions d \<noteq> [])
      then Inl (ValueError ''a no-op decision cannot change state or request actions'')
      else if dec_session d \<noteq> None \<and> dec_clear_session d
      then Inl (ValueError ''cannot both set and clear the session'')
      else if dec_final_session d \<noteq> None \<and> \<not> dec_clear_session d
      then Inl (ValueError ''final_session accompanies clear_session only'')
      else Inr d)"

section \<open>Lemmas\<close>

lemmas construct_defs [decide_simps] =
  mk_decision_def decision_defaults_def mk_guard_result_def mk_token_def

lemma mk_session_ok [simp]:
  "mk_session s = Inr s \<longleftrightarrow> (\<forall>f. ses_retained_sensor_fault s = Some f \<longrightarrow> is_sensor_only f)"
  by (auto simp: mk_session_def split: option.splits)

lemma mk_session_eq_Inr:
  "mk_session s = Inr s' \<longleftrightarrow>
   s' = s \<and> (\<forall>f. ses_retained_sensor_fault s = Some f \<longrightarrow> is_sensor_only f)"
  by (auto simp: mk_session_def split: option.splits)

end
