(* ===== verification/State_Machine.thy ===== *)
theory State_Machine
  imports Session
begin

text \<open>
  The pure state machine of \<open>state_machine.py\<close>: one function per helper of the source, in
  its order, composed into \<open>decide\<close>.  Every function returns a result: a \<open>raise\<close>, a
  failing \<open>assert\<close>, a missing dictionary key and a rejecting \<open>__post_init__\<close> are errors
  of the model.  Transition identifiers and persistence tags are the strings of the source.
  (\<open>_fresh_valid\<close> has an optional observation argument that no caller passes; it is
  left out.)
\<close>

section \<open>Row tables\<close>

fun sensor_fault_row :: "FaultCode \<Rightarrow> string result" where
  "sensor_fault_row SENSOR_UNAVAILABLE = Inr ''T10''"
| "sensor_fault_row SENSOR_INVALID = Inr ''T11''"
| "sensor_fault_row SENSOR_STALE = Inr ''T57''"
| "sensor_fault_row _ = Inl KeyError"

fun cancellation_row :: "CompletionReason \<Rightarrow> string result" where
  "cancellation_row USER_STOP = Inr ''T17''"
| "cancellation_row ZONE_DISABLED = Inr ''T18''"
| "cancellation_row HOME_ASSISTANT_SHUTDOWN = Inr ''T19''"
| "cancellation_row CONFIG_RELOAD = Inr ''T20''"
| "cancellation_row CONFIG_CHANGED = Inr ''T21''"
| "cancellation_row EXTERNAL_ACTUATOR_STATE_CHANGE = Inr ''T16''"
| "cancellation_row _ = Inl KeyError"

section \<open>Guard helpers\<close>

definition fresh_valid :: "TransitionInput \<Rightarrow> bool" where
  "fresh_valid inp \<longleftrightarrow>
     obs_classification (inp_observation inp) = VALID \<and>
     is_fresh (inp_observation inp) (inp_now_utc inp) (cfg_sensor_max_age_s (inp_config inp))"

definition interval_elapsed :: "TransitionInput \<Rightarrow> bool" where
  "interval_elapsed inp =
     (case inp_last_session_end_utc inp of
        None \<Rightarrow> True
      | Some e \<Rightarrow>
          inp_now_utc inp - e \<ge> timedelta_s (cfg_min_session_interval_s (inp_config inp)))"

definition actuator_ready :: "TransitionInput \<Rightarrow> bool" where
  "actuator_ready inp \<longleftrightarrow>
     act_available (inp_actuator inp) \<and> act_proven_off (inp_actuator inp)"

definition daily_fits :: "TransitionInput \<Rightarrow> bool" where
  "daily_fits inp \<longleftrightarrow>
     inp_daily_runtime_s inp + of_int (cfg_pulse_duration_s (inp_config inp))
       \<le> of_int (cfg_max_daily_runtime_s (inp_config inp))"

definition session_fits :: "TransitionInput \<Rightarrow> SessionContext \<Rightarrow> bool" where
  "session_fits inp s \<longleftrightarrow>
     ses_session_runtime_s s + of_int (cfg_pulse_duration_s (inp_config inp))
       \<le> of_int (cfg_max_session_runtime_s (inp_config inp))"

definition post_qualifies :: "TransitionInput \<Rightarrow> bool result" where
  "post_qualifies inp =
     (case inp_session inp of
        None \<Rightarrow> Inr False
      | Some s \<Rightarrow>
          (case ses_recheck_not_before_utc s of
             None \<Rightarrow> Inr False
           | Some not_before \<Rightarrow>
               if \<not> fresh_valid inp then Inr False
               else (case obs_reported_at_utc (inp_observation inp) of
                       None \<Rightarrow> Inl AssertionError
                     | Some r \<Rightarrow> Inr (r \<ge> not_before))))"

definition daily_remaining :: "TransitionInput \<Rightarrow> rat" where
  "daily_remaining inp =
     of_int (cfg_max_daily_runtime_s (inp_config inp)) - inp_daily_runtime_s inp"

definition no_op :: "Decision result" where
  "no_op = mk_decision ((decision_defaults None None)\<lparr>dec_no_op := True\<rparr>)"

section \<open>Cross-state rows\<close>

definition integrity_lost :: "TransitionInput \<Rightarrow> Decision result" where
  "integrity_lost inp =
     mk_decision ((decision_defaults (Some ''T52'') (Some FAULT))
       \<lparr>dec_actions :=
          [PersistState ''integrity_reconstruction'',
           EmitFaultSet RESTORED_FROM_UNSAFE_STATE (inp_active_fault inp)],
        dec_fault := Some RESTORED_FROM_UNSAFE_STATE\<rparr>)"

definition configuration_invalid :: "TransitionInput \<Rightarrow> string \<Rightarrow> Decision result" where
  "configuration_invalid inp row =
     mk_decision ((decision_defaults (Some row) (Some FAULT))
       \<lparr>dec_actions :=
          [PersistState ''configuration_invalid'',
           EmitFaultSet CONFIGURATION_INVALID (inp_active_fault inp)],
        dec_fault := Some CONFIGURATION_INVALID\<rparr>)"

section \<open>IDLE: automatic start\<close>

definition confirm_deadline :: "TransitionInput \<Rightarrow> utc" where
  "confirm_deadline inp =
     inp_now_utc inp + timedelta_s (cfg_actuator_confirm_timeout_s (inp_config inp))"

definition start_auto_pulse ::
  "TransitionInput \<Rightarrow> SessionContext option \<Rightarrow> Decision result" where
  "start_auto_pulse inp session =
     (case obs_reported_at_utc (inp_observation inp) of
        None \<Rightarrow> Inl AssertionError
      | Some reported \<Rightarrow>
          let fresh = reported + timedelta_s (cfg_sensor_max_age_s (inp_config inp));
              emit = (\<lambda>row generation new_session started.
                mk_decision ((decision_defaults (Some row) (Some WATERING))
                  \<lparr>dec_actions :=
                     [PersistState ''hazard_intent'',
                      ArmWatchdog (mk_token generation fresh),
                      TurnOn,
                      ArmTimer ON_CONFIRM_TIMEOUT (confirm_deadline inp)] @ started,
                   dec_session := Some new_session\<rparr>))
          in (case session of
                None \<Rightarrow>
                  (case inp_new_session_identity inp of
                     None \<Rightarrow>
                       Inl (ValueError ''new_session_identity is required to create a session'')
                   | Some identity \<Rightarrow>
                       res_bind (mk_session
                         ((session_defaults (sid_session_id identity) (sid_owner_run_id identity)
                             (sid_config_fingerprint identity) AUTO (inp_now_utc inp))
                          \<lparr>ses_cycle := 1,
                           ses_pulse_intent_at_utc := Some (inp_now_utc inp),
                           ses_sensor_fresh_until_utc := Some fresh,
                           ses_sensor_freshness_watchdog_generation := 1,
                           ses_moisture_at_start := obs_value (inp_observation inp)\<rparr>))
                         (\<lambda>new_session. emit ''T1'' 1 new_session [EmitSessionStarted]))
              | Some s \<Rightarrow>
                  let generation = ses_sensor_freshness_watchdog_generation s + 1
                  in emit ''T25'' generation
                       (s\<lparr>ses_cycle := ses_cycle s + 1,
                          ses_pulse_intent_at_utc := Some (inp_now_utc inp),
                          ses_pulse_commanded_at_utc := None,
                          ses_pulse_confirmed_at_utc := None,
                          ses_pulse_ends_at_utc := None,
                          ses_off_confirmed_at_utc := None,
                          ses_soak_ends_at_utc := None,
                          ses_recheck_not_before_utc := None,
                          ses_recheck_grace_deadline_at_utc := None,
                          ses_sensor_fresh_until_utc := Some fresh,
                          ses_sensor_freshness_watchdog_generation := generation\<rparr>)
                       []))"

definition auto_guard_failures :: "TransitionInput \<Rightarrow> string list result" where
  "auto_guard_failures inp =
     res_bind
       (if \<not> fresh_valid inp then Inr [GUARD_FRESH]
        else (case obs_value (inp_observation inp) of
                None \<Rightarrow> Inl AssertionError
              | Some v \<Rightarrow>
                  Inr (check (fl_less v (Fin (cfg_start_threshold (inp_config inp)))) GUARD_START)))
       (\<lambda>data.
          Inr (check (inp_enabled inp) GUARD_ENABLED @ data @
               check (interval_elapsed inp) GUARD_INTERVAL @
               check (actuator_ready inp) GUARD_ACTUATOR @
               check (daily_fits inp) GUARD_DAILY_FIT))"

definition evaluate_auto_start :: "TransitionInput \<Rightarrow> Decision result" where
  "evaluate_auto_start inp =
     res_bind (auto_guard_failures inp) (\<lambda>failed.
       if failed \<noteq> [] then
         res_bind (mk_guard_result False failed) (\<lambda>g.
           mk_decision ((decision_defaults (Some ''T2'') (Some IDLE))
             \<lparr>dec_actions := (if inp_event inp = SlotGranted then [ReleaseSlot] else []),
              dec_guard_result := Some g\<rparr>))
       else if \<not> (res_slot_granted (inp_resource inp) \<and> res_blockers_empty (inp_resource inp)) then
         res_bind (mk_guard_result False [GUARD_SLOT]) (\<lambda>g.
           mk_decision ((decision_defaults None None)
             \<lparr>dec_actions := [RequestSlot], dec_guard_result := Some g\<rparr>))
       else start_auto_pulse inp None)"

section \<open>Manual watering\<close>

definition manual_guard_failures :: "TransitionInput \<Rightarrow> pyfloat \<Rightarrow> string list" where
  "manual_guard_failures inp requested_s =
     check (fl_isfinite requested_s \<and> fl_less (Fin 0) requested_s)
       (GUARD_MANUAL_SAFE @ '':invalid_duration'') @
     check (inp_enabled inp) GUARD_ENABLED @
     check (inp_session inp = None) (GUARD_MANUAL_SAFE @ '':active_session'') @
     check (case inp_active_fault inp of None \<Rightarrow> True | Some f \<Rightarrow> allows_manual f)
       GUARD_MANUAL_SENSOR @
     check (actuator_ready inp) GUARD_ACTUATOR @
     check (\<not> daily_remaining inp \<le> 0) (GUARD_MANUAL_SAFE @ '':daily_exhausted'') @
     check (res_blockers_empty (inp_resource inp))
       (GUARD_MANUAL_SAFE @ '':water_resource_occupied'')"

definition clamp_manual ::
  "TransitionInput \<Rightarrow> pyfloat \<Rightarrow> pyfloat \<times> ManualClampReason list" where
  "clamp_manual inp requested_s =
     (let caps =
        [(Fin (of_int (cfg_manual_max_duration_s (inp_config inp))), CLAMP_MANUAL_MAX_DURATION),
         (Fin (of_int (cfg_max_session_runtime_s (inp_config inp))), CLAMP_MAX_SESSION_RUNTIME),
         (Fin (daily_remaining inp), CLAMP_REMAINING_DAILY_BUDGET)]
      in (py_min requested_s (map fst caps),
          map snd (filter (\<lambda>c. fl_less (fst c) requested_s) caps)))"

definition manual_start ::
  "TransitionInput \<Rightarrow> pyfloat \<Rightarrow> string \<Rightarrow> Decision result" where
  "manual_start inp requested_s row =
     (let failed = manual_guard_failures inp requested_s
      in if failed \<noteq> [] then
           res_bind (mk_guard_result False failed) (\<lambda>g.
             mk_decision ((decision_defaults (if row = ''T40'' then Some ''T41'' else None)
                             (Some (inp_state inp)))\<lparr>dec_guard_result := Some g\<rparr>))
         else if \<not> res_slot_granted (inp_resource inp) then
           res_bind (mk_guard_result False [GUARD_SLOT]) (\<lambda>g.
             mk_decision ((decision_defaults None None)
               \<lparr>dec_actions := [RequestSlot], dec_guard_result := Some g\<rparr>))
         else
           (case inp_new_session_identity inp of
              None \<Rightarrow> Inl (ValueError ''new_session_identity is required to create a session'')
            | Some identity \<Rightarrow>
                (case clamp_manual inp requested_s of (effective, clamp_reasons) \<Rightarrow>
                   res_bind (mk_session
                     ((session_defaults (sid_session_id identity) (sid_owner_run_id identity)
                         (sid_config_fingerprint identity) MANUAL (inp_now_utc inp))
                      \<lparr>ses_cycle := 0,
                       ses_pulse_intent_at_utc := Some (inp_now_utc inp),
                       ses_manual_requested_duration_s := Some requested_s,
                       ses_manual_effective_duration_s := Some effective,
                       ses_manual_clamp_reasons := clamp_reasons,
                       ses_retained_sensor_fault :=
                         (if row = ''T40'' then inp_active_fault inp else None),
                       ses_moisture_at_start :=
                         (if obs_classification (inp_observation inp) = VALID
                          then obs_value (inp_observation inp) else None)\<rparr>))
                     (\<lambda>session.
                        mk_decision ((decision_defaults (Some row) (Some WATERING))
                          \<lparr>dec_actions :=
                             [PersistState ''hazard_intent'',
                              TurnOn,
                              ArmTimer ON_CONFIRM_TIMEOUT (confirm_deadline inp),
                              EmitSessionStarted],
                           dec_session := Some session\<rparr>)))))"

section \<open>Delayed OFF-proof accounting closure\<close>

definition close_runtime ::
  "SessionContext \<Rightarrow> utc \<Rightarrow> CompletionReason \<Rightarrow> SessionContext" where
  "close_runtime s off_at reason =
     (let anchor = (if reason = RESTART_RECOVERY then ses_pulse_intent_at_utc s
                    else ses_pulse_commanded_at_utc s);
          delta = (case anchor of
                     None \<Rightarrow> 0
                   | Some a \<Rightarrow> max 0 (total_seconds (off_at - a)))
      in s\<lparr>ses_off_confirmed_at_utc := Some off_at,
           ses_session_runtime_s := ses_session_runtime_s s + delta\<rparr>)"

definition close_open_accounting :: "TransitionInput \<Rightarrow> utc \<Rightarrow> Decision result" where
  "close_open_accounting inp off_at =
     (case inp_session inp of
        None \<Rightarrow> Inl AssertionError
      | Some s \<Rightarrow>
          (case ses_pending_termination_reason s of
             None \<Rightarrow> Inl AssertionError
           | Some reason \<Rightarrow>
               mk_decision ((decision_defaults None None)
                 \<lparr>dec_actions :=
                    [PersistState ''delayed_accounting_closed'',
                     RemoveBlocker INTEGRATION_OFF_UNCONFIRMED,
                     ReleaseSlot,
                     EmitSessionFinished],
                  dec_reason := Some reason,
                  dec_clear_session := True,
                  dec_final_session := Some (close_runtime s off_at reason)\<rparr>)))"

section \<open>IDLE and DISABLED\<close>

definition decide_idle :: "TransitionInput \<Rightarrow> Decision result" where
  "decide_idle inp =
     (case inp_event inp of
        AutoEvaluate \<Rightarrow> evaluate_auto_start inp
      | MoistureReport _ \<Rightarrow> evaluate_auto_start inp
      | SlotGranted \<Rightarrow> evaluate_auto_start inp
      | ManualStartRequested d \<Rightarrow> manual_start inp d ''T3''
      | DisableRequested \<Rightarrow>
          mk_decision ((decision_defaults (Some ''T4'') (Some DISABLED))
            \<lparr>dec_actions := [PersistState ''disabled'', ReleaseSlot]\<rparr>)
      | ConfigurationInvalid _ \<Rightarrow> configuration_invalid inp ''T5''
      | ExternalActuatorOn \<Rightarrow>
          if inp_external_on inp then no_op
          else mk_decision ((decision_defaults (Some ''T54'') (Some IDLE))
                 \<lparr>dec_actions := [SetExternalOn True, AddBlocker EXTERNAL_FLOW]\<rparr>)
      | ExternalActuatorOff _ \<Rightarrow>
          if \<not> inp_external_on inp then no_op
          else mk_decision ((decision_defaults (Some ''T58'') (Some IDLE))
                 \<lparr>dec_actions := [SetExternalOn False, RemoveBlocker EXTERNAL_FLOW]\<rparr>)
      | _ \<Rightarrow> no_op)"

definition decide_disabled :: "TransitionInput \<Rightarrow> Decision result" where
  "decide_disabled inp =
     (case inp_event inp of
        EnableRequested \<Rightarrow>
          if inp_active_fault inp \<noteq> None
          then mk_decision ((decision_defaults (Some ''T46'') (Some FAULT))
                 \<lparr>dec_actions := [PersistState ''enabled''], dec_fault := inp_active_fault inp\<rparr>)
          else mk_decision ((decision_defaults (Some ''T47'') (Some IDLE))
                 \<lparr>dec_actions := [PersistState ''enabled'', ScheduleEvaluation]\<rparr>)
      | ExternalActuatorOn \<Rightarrow>
          if inp_external_on inp then no_op
          else mk_decision ((decision_defaults (Some ''T55'') (Some DISABLED))
                 \<lparr>dec_actions := [SetExternalOn True, AddBlocker EXTERNAL_FLOW]\<rparr>)
      | ExternalActuatorOff at_utc \<Rightarrow>
          if inp_external_on inp
          then mk_decision ((decision_defaults (Some ''T59'') (Some DISABLED))
                 \<lparr>dec_actions := [SetExternalOn False, RemoveBlocker EXTERNAL_FLOW]\<rparr>)
          else if inp_session inp \<noteq> None then close_open_accounting inp at_utc
          else no_op
      | OffConfirmed at_utc \<Rightarrow>
          if inp_session inp \<noteq> None then close_open_accounting inp at_utc else no_op
      | ManualStartRequested _ \<Rightarrow>
          res_bind (mk_guard_result False [GUARD_ENABLED]) (\<lambda>g.
            mk_decision ((decision_defaults None None)\<lparr>dec_guard_result := Some g\<rparr>))
      | _ \<Rightarrow> no_op)"

section \<open>WATERING\<close>

definition on_confirmed :: "TransitionInput \<Rightarrow> SessionContext \<Rightarrow> utc \<Rightarrow> Decision result" where
  "on_confirmed inp s at_utc =
     res_bind
       (if ses_mode s = AUTO
        then Inr (at_utc + timedelta_s (cfg_pulse_duration_s (inp_config inp)), PULSE_END)
        else (case ses_manual_effective_duration_s s of
                None \<Rightarrow> Inl AssertionError
              | Some eff \<Rightarrow> res_bind (timedelta_float eff) (\<lambda>d. Inr (at_utc + d, MANUAL_END))))
       (\<lambda>(ends, timer).
          mk_decision ((decision_defaults None None)
            \<lparr>dec_actions :=
               PersistState ''on_confirmed'' #
               (if ses_pending_termination_reason s = None then [ArmTimer timer ends] else []),
             dec_session :=
               Some (s\<lparr>ses_pulse_confirmed_at_utc := Some at_utc, ses_pulse_ends_at_utc := Some ends\<rparr>)\<rparr>))"

definition commit_termination ::
  "SessionContext \<Rightarrow> CompletionReason \<Rightarrow> FaultCode option \<Rightarrow> bool \<Rightarrow> Decision result" where
  "commit_termination s reason fault defensive =
     mk_decision ((decision_defaults None None)
       \<lparr>dec_actions :=
          PersistState ''termination_committed'' #
          (case fault of None \<Rightarrow> [] | Some f \<Rightarrow> [EmitFaultSet f (ses_retained_sensor_fault s)]) @
          [ExecuteOff defensive],
        dec_fault := fault,
        dec_session := Some (s\<lparr>ses_pending_termination_reason := Some reason\<rparr>)\<rparr>)"

definition watering_moisture ::
  "TransitionInput \<Rightarrow> SessionContext \<Rightarrow> MoistureObservation \<Rightarrow> Decision result" where
  "watering_moisture inp s obs =
     (if ses_mode s = MANUAL then mk_decision (decision_defaults (Some ''T12'') (Some WATERING))
      else if ses_pending_termination_reason s \<noteq> None then no_op
      else (case obs_classification obs of
          VALID \<Rightarrow>
            (case obs_reported_at_utc obs of
               None \<Rightarrow> Inl AssertionError
             | Some r \<Rightarrow>
                 let new_fresh = r + timedelta_s (cfg_sensor_max_age_s (inp_config inp));
                     generation = ses_sensor_freshness_watchdog_generation s + 1
                 in if (case ses_sensor_fresh_until_utc s of
                          None \<Rightarrow> False | Some cur \<Rightarrow> new_fresh < cur)
                    then no_op
                    else mk_decision ((decision_defaults (Some ''T56'') (Some WATERING))
                      \<lparr>dec_actions := [ArmWatchdog (mk_token generation new_fresh)],
                       dec_session :=
                         Some (s\<lparr>ses_sensor_fresh_until_utc := Some new_fresh,
                                 ses_sensor_freshness_watchdog_generation := generation\<rparr>)\<rparr>))
        | INVALID \<Rightarrow> commit_termination s SENSOR_FAULT (Some SENSOR_INVALID) False
        | UNAVAILABLE \<Rightarrow> commit_termination s SENSOR_FAULT (Some SENSOR_UNAVAILABLE) False
        | STALE \<Rightarrow> no_op))"

definition watchdog_fired ::
  "TransitionInput \<Rightarrow> SessionContext \<Rightarrow> WatchdogToken \<Rightarrow> Decision result" where
  "watchdog_fired inp s token =
     (if ses_mode s \<noteq> AUTO then no_op
      else if ses_pending_termination_reason s \<noteq> None then no_op
      else if inp_armed_watchdog inp \<noteq> Some token then no_op
      else (case ses_sensor_fresh_until_utc s of
              None \<Rightarrow> Inl AssertionError
            | Some fresh \<Rightarrow>
                if fresh > inp_now_utc inp
                then mk_decision ((decision_defaults None None)
                       \<lparr>dec_actions :=
                          [ArmWatchdog (mk_token (ses_sensor_freshness_watchdog_generation s) fresh)]\<rparr>)
                else commit_termination s SENSOR_FAULT (Some SENSOR_STALE) False))"

definition pulse_off_to_soaking ::
  "TransitionInput \<Rightarrow> SessionContext \<Rightarrow> utc \<Rightarrow> Decision result" where
  "pulse_off_to_soaking inp s off_at =
     (let soak_ends = off_at + timedelta_s (cfg_soak_duration_s (inp_config inp));
          grace = soak_ends + timedelta_s (cfg_sensor_max_age_s (inp_config inp));
          closed_s = close_runtime s off_at TARGET_REACHED
      in mk_decision ((decision_defaults (Some ''T6'') (Some SOAKING))
           \<lparr>dec_actions :=
              [PersistState ''soaking'', ArmTimer SOAK_END soak_ends, ReleaseSlot],
            dec_session :=
              Some (closed_s\<lparr>ses_soak_ends_at_utc := Some soak_ends,
                           ses_recheck_not_before_utc := Some soak_ends,
                           ses_recheck_grace_deadline_at_utc := Some grace\<rparr>)\<rparr>))"

definition finalize_manual_complete ::
  "TransitionInput \<Rightarrow> SessionContext \<Rightarrow> Action list \<Rightarrow> Decision result" where
  "finalize_manual_complete inp closed_s extra_actions =
     (let base_actions =
            extra_actions @
            [PersistState ''session_finalized'',
             RemoveBlocker INTEGRATION_OFF_UNCONFIRMED,
             ReleaseSlot,
             EmitSessionFinished];
          (row, destination, actions, fault, clear) =
            (case ses_retained_sensor_fault closed_s of
               None \<Rightarrow> (''T7'', IDLE, base_actions, None, False)
             | Some retained \<Rightarrow>
                 if fresh_valid inp
                 then (''T9'', IDLE, base_actions @ [EmitFaultCleared retained], None, True)
                 else (''T8'', FAULT, base_actions, Some retained, False))
      in mk_decision ((decision_defaults (Some row)
             (Some (if \<not> inp_enabled inp then DISABLED else destination)))
           \<lparr>dec_actions := actions,
            dec_reason := Some MANUAL_COMPLETE,
            dec_fault := fault,
            dec_clear_fault := clear,
            dec_clear_session := True,
            dec_final_session := Some closed_s\<rparr>))"

definition post_destination ::
  "TransitionInput \<Rightarrow> SessionContext \<Rightarrow> CompletionReason \<Rightarrow>
   ControllerState \<times> FaultCode option \<times> Action list \<times> bool" where
  "post_destination inp closed_s reason =
     (if reason = ZONE_DISABLED then (DISABLED, None, [], False)
      else if reason \<in> {SENSOR_FAULT, ACTUATOR_FAULT}
      then (if \<not> inp_enabled inp then DISABLED else FAULT, inp_active_fault inp, [], False)
      else if \<not> inp_enabled inp then (DISABLED, None, [], False)
      else
        (let retained = ses_retained_sensor_fault closed_s;
             new_fault = (if inp_active_fault inp \<noteq> retained then inp_active_fault inp else None)
         in if new_fault \<noteq> None then (FAULT, new_fault, [], False)
            else (case retained of
                    Some r \<Rightarrow>
                      if fresh_valid inp then (IDLE, None, [EmitFaultCleared r], True)
                      else (FAULT, Some r, [], False)
                  | None \<Rightarrow> (IDLE, None, [], False))))"

definition finalize_row :: "TransitionInput \<Rightarrow> CompletionReason \<Rightarrow> string result" where
  "finalize_row inp reason =
     (if reason = RESTART_RECOVERY then Inr ''T48''
      else if reason = SENSOR_FAULT then
        (case inp_active_fault inp of None \<Rightarrow> Inl AssertionError | Some f \<Rightarrow> sensor_fault_row f)
      else if reason = ACTUATOR_FAULT then
        Inr (if inp_active_fault inp = Some ACTUATOR_UNAVAILABLE then ''T13'' else ''T14'')
      else cancellation_row reason)"

definition finalize_watering ::
  "TransitionInput \<Rightarrow> SessionContext \<Rightarrow> CompletionReason \<Rightarrow> utc \<Rightarrow> Action list \<Rightarrow> Decision result" where
  "finalize_watering inp s reason off_at extra_actions =
     (let closed_s = close_runtime s off_at reason
      in if reason = MANUAL_COMPLETE then finalize_manual_complete inp closed_s extra_actions
         else res_bind (finalize_row inp reason) (\<lambda>row.
           (case post_destination inp closed_s reason of
              (destination, dest_fault, clear_actions, clear_fault) \<Rightarrow>
                mk_decision ((decision_defaults (Some row) (Some destination))
                  \<lparr>dec_actions :=
                     extra_actions @
                     [PersistState ''session_finalized'',
                      RemoveBlocker INTEGRATION_OFF_UNCONFIRMED,
                      ReleaseSlot,
                      EmitSessionFinished] @ clear_actions,
                   dec_reason := Some reason,
                   dec_fault := dest_fault,
                   dec_secondary_fault :=
                     (if reason = ACTUATOR_FAULT then ses_retained_sensor_fault closed_s else None),
                   dec_clear_fault := clear_fault,
                   dec_clear_session := True,
                   dec_final_session := Some closed_s\<rparr>))))"

definition off_not_confirmed :: "TransitionInput \<Rightarrow> SessionContext \<Rightarrow> Decision result" where
  "off_not_confirmed inp s =
     (let (row, committed) =
            (if ses_pending_termination_reason s = Some RESTART_RECOVERY
             then (''T49'', RESTART_RECOVERY) else (''T15'', ACTUATOR_FAULT))
      in mk_decision ((decision_defaults (Some row) (Some FAULT))
           \<lparr>dec_actions :=
              [PersistState ''off_unconfirmed'',
               AddBlocker INTEGRATION_OFF_UNCONFIRMED,
               EmitFaultSet ACTUATOR_OFF_TIMEOUT (inp_active_fault inp)],
            dec_reason := Some committed,
            dec_fault := Some ACTUATOR_OFF_TIMEOUT,
            dec_secondary_fault := ses_retained_sensor_fault s,
            dec_session :=
              Some (s\<lparr>ses_pending_termination_reason := Some committed,
                      ses_runtime_estimated := True,
                      ses_runtime_estimation_reason := OFF_UNCONFIRMED\<rparr>)\<rparr>))"

definition startup_persisted_watering ::
  "TransitionInput \<Rightarrow> SessionContext \<Rightarrow> ActuatorFinding \<Rightarrow> Decision result" where
  "startup_persisted_watering inp s finding =
     (if finding = FOUND_OFF then
        finalize_watering inp
          (s\<lparr>ses_pending_termination_reason := Some RESTART_RECOVERY,
             ses_runtime_estimated := True,
             ses_runtime_estimation_reason := RESTART_FOUND_OFF_UNKNOWN_STOP\<rparr>)
          RESTART_RECOVERY (inp_now_utc inp) []
      else
        mk_decision ((decision_defaults None None)
          \<lparr>dec_actions :=
             [PersistState ''restart_recovery'',
              AddBlocker INTEGRATION_OFF_UNCONFIRMED,
              ExecuteOff True],
           dec_session :=
             Some (s\<lparr>ses_pending_termination_reason := Some RESTART_RECOVERY,
                     ses_runtime_estimated := True,
                     ses_runtime_estimation_reason :=
                       (if finding = FOUND_ON then RESTART_FOUND_ON else OFF_UNCONFIRMED)\<rparr>)\<rparr>))"

definition commit_if_first ::
  "SessionContext \<Rightarrow> CompletionReason \<Rightarrow> FaultCode option \<Rightarrow> bool \<Rightarrow> Decision result" where
  "commit_if_first s reason fault defensive =
     (if ses_pending_termination_reason s \<noteq> None then no_op
      else commit_termination s reason fault defensive)"

definition refuse_active_session :: "Decision result" where
  "refuse_active_session =
     res_bind (mk_guard_result False [GUARD_MANUAL_SAFE @ '':active_session'']) (\<lambda>g.
       mk_decision ((decision_defaults None None)\<lparr>dec_guard_result := Some g\<rparr>))"

definition watering_event :: "TransitionInput \<Rightarrow> SessionContext \<Rightarrow> Decision result" where
  "watering_event inp s =
     (case inp_event inp of
        OnConfirmed at_utc \<Rightarrow> on_confirmed inp s at_utc
      | OnConfirmTimeout \<Rightarrow>
          if ses_pending_termination_reason s \<noteq> None \<or> ses_pulse_confirmed_at_utc s \<noteq> None
          then no_op
          else commit_termination s ACTUATOR_FAULT (Some ACTUATOR_ON_TIMEOUT) True
      | PulseDeadlineReached \<Rightarrow>
          if ses_mode s = AUTO \<and> ses_pending_termination_reason s = None
          then mk_decision ((decision_defaults None None)\<lparr>dec_actions := [ExecuteOff False]\<rparr>)
          else no_op
      | ManualDeadlineReached \<Rightarrow>
          if ses_mode s = MANUAL \<and> ses_pending_termination_reason s = None
          then commit_termination s MANUAL_COMPLETE None False
          else no_op
      | MoistureReport obs \<Rightarrow> watering_moisture inp s obs
      | WatchdogFired token \<Rightarrow> watchdog_fired inp s token
      | StopRequested \<Rightarrow> commit_if_first s USER_STOP None False
      | DisableRequested \<Rightarrow> commit_if_first s ZONE_DISABLED None False
      | HomeAssistantShutdown \<Rightarrow> commit_if_first s HOME_ASSISTANT_SHUTDOWN None False
      | ConfigEntryReload \<Rightarrow> commit_if_first s CONFIG_RELOAD None False
      | ConfigChangedPrepare \<Rightarrow> commit_if_first s CONFIG_CHANGED None False
      | ActuatorBecameUnavailable \<Rightarrow>
          commit_if_first s ACTUATOR_FAULT (Some ACTUATOR_UNAVAILABLE) True
      | ExternalActuatorOff at_utc \<Rightarrow>
          (case ses_pending_termination_reason s of
             Some pending \<Rightarrow> finalize_watering inp s pending at_utc []
           | None \<Rightarrow>
               finalize_watering inp s EXTERNAL_ACTUATOR_STATE_CHANGE at_utc [ExecuteOff True])
      | OffConfirmed at_utc \<Rightarrow>
          (case ses_pending_termination_reason s of
             Some pending \<Rightarrow> finalize_watering inp s pending at_utc []
           | None \<Rightarrow>
               if ses_mode s = AUTO then pulse_off_to_soaking inp s at_utc
               else finalize_watering inp s MANUAL_COMPLETE at_utc [])
      | OffNotConfirmed \<Rightarrow> off_not_confirmed inp s
      | StartupPersistedWatering finding \<Rightarrow> startup_persisted_watering inp s finding
      | ManualStartRequested _ \<Rightarrow> refuse_active_session
      | _ \<Rightarrow> no_op)"

definition decide_watering :: "TransitionInput \<Rightarrow> Decision result" where
  "decide_watering inp =
     (case inp_session inp of
        None \<Rightarrow> Inl (ValueError ''WATERING requires an active session'')
      | Some s \<Rightarrow> watering_event inp s)"

section \<open>SOAKING\<close>

definition finalize_soaking_completion ::
  "TransitionInput \<Rightarrow> SessionContext \<Rightarrow> string \<Rightarrow> CompletionReason \<Rightarrow> Decision result" where
  "finalize_soaking_completion inp s row reason =
     mk_decision ((decision_defaults (Some row)
         (Some (if inp_enabled inp then IDLE else DISABLED)))
       \<lparr>dec_actions := [PersistState ''session_finalized'', ReleaseSlot, EmitSessionFinished],
        dec_reason := Some reason,
        dec_clear_session := True,
        dec_final_session := Some s\<rparr>)"

definition finalize_soaking_fault ::
  "SessionContext \<Rightarrow> string \<Rightarrow> CompletionReason \<Rightarrow> FaultCode \<Rightarrow> Decision result" where
  "finalize_soaking_fault s row reason fault =
     mk_decision ((decision_defaults (Some row) (Some FAULT))
       \<lparr>dec_actions :=
          [PersistState ''session_finalized'',
           EmitFaultSet fault (ses_retained_sensor_fault s),
           ReleaseSlot,
           EmitSessionFinished],
        dec_reason := Some reason,
        dec_fault := Some fault,
        dec_clear_session := True,
        dec_final_session := Some s\<rparr>)"

definition finalize_soaking_cancel ::
  "SessionContext \<Rightarrow> string \<Rightarrow> CompletionReason \<Rightarrow> ControllerState \<Rightarrow> Decision result" where
  "finalize_soaking_cancel s row reason destination =
     mk_decision ((decision_defaults (Some row) (Some destination))
       \<lparr>dec_actions :=
          [PersistState ''session_finalized'',
           ExecuteOff True,
           ReleaseSlot,
           EmitSessionFinished],
        dec_reason := Some reason,
        dec_clear_session := True,
        dec_final_session := Some s\<rparr>)"

definition finalize_soaking_external ::
  "TransitionInput \<Rightarrow> SessionContext \<Rightarrow> utc \<Rightarrow> Decision result" where
  "finalize_soaking_external inp s off_at =
     mk_decision ((decision_defaults (Some ''T33'')
         (Some (if inp_enabled inp then IDLE else DISABLED)))
       \<lparr>dec_actions :=
          [PersistState ''session_finalized'',
           RemoveBlocker INTEGRATION_OFF_UNCONFIRMED,
           ReleaseSlot,
           EmitSessionFinished],
        dec_reason := Some EXTERNAL_ACTUATOR_STATE_CHANGE,
        dec_clear_session := True,
        dec_final_session := Some (close_runtime s off_at EXTERNAL_ACTUATOR_STATE_CHANGE)\<rparr>)"

definition soaking_off_not_confirmed ::
  "TransitionInput \<Rightarrow> SessionContext \<Rightarrow> Decision result" where
  "soaking_off_not_confirmed inp s =
     mk_decision ((decision_defaults (Some ''T34'') (Some FAULT))
       \<lparr>dec_actions :=
          [PersistState ''off_unconfirmed'',
           EmitFaultSet ACTUATOR_OFF_TIMEOUT (inp_active_fault inp)],
        dec_reason := Some ACTUATOR_FAULT,
        dec_fault := Some ACTUATOR_OFF_TIMEOUT,
        dec_secondary_fault := ses_retained_sensor_fault s,
        dec_session :=
          Some (s\<lparr>ses_pending_termination_reason := Some ACTUATOR_FAULT,
                  ses_runtime_estimated := True,
                  ses_runtime_estimation_reason := OFF_UNCONFIRMED\<rparr>)\<rparr>)"

definition soaking_recheck :: "TransitionInput \<Rightarrow> SessionContext \<Rightarrow> Decision result" where
  "soaking_recheck inp s =
     (case obs_value (inp_observation inp) of
        None \<Rightarrow> Inl AssertionError
      | Some v \<Rightarrow>
          let updated = s\<lparr>ses_last_recheck_value := Some v\<rparr>
          in if fl_le (Fin (cfg_target_threshold (inp_config inp))) v
             then finalize_soaking_completion inp updated ''T24'' TARGET_REACHED
             else if \<not> ses_cycle updated < cfg_max_cycles (inp_config inp)
             then finalize_soaking_completion inp updated ''T26'' MAX_CYCLES
             else if \<not> session_fits inp updated
             then finalize_soaking_completion inp updated ''T27'' MAX_SESSION_RUNTIME
             else if \<not> daily_fits inp
             then finalize_soaking_completion inp updated ''T28'' DAILY_RUNTIME_LIMIT
             else if \<not> act_available (inp_actuator inp)
             then finalize_soaking_fault updated ''T32'' ACTUATOR_FAULT ACTUATOR_UNAVAILABLE
             else if \<not> (res_slot_granted (inp_resource inp)
                        \<and> res_blockers_empty (inp_resource inp)
                        \<and> act_proven_off (inp_actuator inp))
             then res_bind (mk_guard_result False [GUARD_SLOT]) (\<lambda>g.
                    mk_decision ((decision_defaults None None)
                      \<lparr>dec_actions := [RequestSlot],
                       dec_guard_result := Some g,
                       dec_session := Some updated\<rparr>))
             else start_auto_pulse inp (Some updated))"

definition effective_at :: "TransitionInput \<Rightarrow> MoistureObservation \<Rightarrow> utc" where
  "effective_at inp obs =
     (case obs_reported_at_utc obs of Some r \<Rightarrow> r | None \<Rightarrow> inp_now_utc inp)"

definition soaking_moisture ::
  "TransitionInput \<Rightarrow> SessionContext \<Rightarrow> MoistureObservation \<Rightarrow> Decision result" where
  "soaking_moisture inp s obs =
     (case ses_soak_ends_at_utc s of
        None \<Rightarrow> Inl AssertionError
      | Some soak_ends \<Rightarrow>
          if effective_at inp obs < soak_ends
          then mk_decision (decision_defaults (Some ''T22'') (Some SOAKING))
          else if obs_classification obs = INVALID
          then finalize_soaking_fault s ''T29'' SENSOR_FAULT SENSOR_INVALID
          else if obs_classification obs = UNAVAILABLE
          then finalize_soaking_fault s ''T30'' SENSOR_FAULT SENSOR_UNAVAILABLE
          else res_bind (post_qualifies inp) (\<lambda>q.
            if q then soaking_recheck inp s else no_op))"

definition soaking_deadline_or_evaluate ::
  "TransitionInput \<Rightarrow> SessionContext \<Rightarrow> ControllerEvent \<Rightarrow> Decision result" where
  "soaking_deadline_or_evaluate inp s event =
     (case ses_soak_ends_at_utc s of
        None \<Rightarrow> Inl AssertionError
      | Some soak_ends \<Rightarrow>
          if inp_now_utc inp < soak_ends then no_op
          else res_bind (post_qualifies inp) (\<lambda>q.
            if q then soaking_recheck inp s
            else if event = SlotGranted then
              res_bind (mk_guard_result False [GUARD_POST]) (\<lambda>g.
                mk_decision ((decision_defaults None None)
                  \<lparr>dec_actions := [ReleaseSlot], dec_guard_result := Some g\<rparr>))
            else if event = SoakDeadlineReached then
              (case ses_recheck_grace_deadline_at_utc s of
                 None \<Rightarrow> Inl AssertionError
               | Some grace \<Rightarrow>
                   mk_decision ((decision_defaults (Some ''T23'') (Some SOAKING))
                     \<lparr>dec_actions := [ArmTimer GRACE grace]\<rparr>))
            else no_op))"

definition soaking_grace :: "TransitionInput \<Rightarrow> SessionContext \<Rightarrow> Decision result" where
  "soaking_grace inp s =
     res_bind (post_qualifies inp) (\<lambda>q.
       if q then soaking_recheck inp s
       else (case ses_soak_ends_at_utc s of
               None \<Rightarrow> Inl AssertionError
             | Some soak_ends \<Rightarrow>
                 let obs = inp_observation inp
                 in if obs_classification obs = INVALID \<and> effective_at inp obs \<ge> soak_ends
                    then finalize_soaking_fault s ''T29'' SENSOR_FAULT SENSOR_INVALID
                    else if obs_classification obs = UNAVAILABLE
                    then finalize_soaking_fault s ''T30'' SENSOR_FAULT SENSOR_UNAVAILABLE
                    else finalize_soaking_fault s ''T31'' SENSOR_FAULT SENSOR_STALE))"

definition startup_persisted_soaking ::
  "TransitionInput \<Rightarrow> SessionContext \<Rightarrow> bool \<Rightarrow> string option \<Rightarrow> FaultCode option \<Rightarrow> Decision result" where
  "startup_persisted_soaking inp s trusted current_run_id unsafe_fault =
     (if trusted then
        (case current_run_id of
           None \<Rightarrow> Inl (ValueError ''trusted SOAKING adoption requires current_run_id'')
         | Some run_id \<Rightarrow>
             (case (ses_soak_ends_at_utc s, ses_recheck_grace_deadline_at_utc s) of
                (Some soak_ends, Some grace) \<Rightarrow>
                  mk_decision ((decision_defaults (Some ''T50'') (Some SOAKING))
                    \<lparr>dec_actions :=
                       PersistState ''soaking_owner_rebase'' #
                       (if soak_ends > inp_now_utc inp then [ArmTimer SOAK_END soak_ends]
                        else if grace > inp_now_utc inp then [ArmTimer GRACE grace]
                        else []),
                     dec_session := Some (s\<lparr>ses_owner_run_id := run_id\<rparr>)\<rparr>)
              | _ \<Rightarrow> Inl AssertionError))
      else (case unsafe_fault of
              Some f \<Rightarrow>
                mk_decision ((decision_defaults (Some ''T51'') (Some FAULT))
                  \<lparr>dec_actions :=
                     [PersistState ''session_finalized'',
                      EmitFaultSet f (inp_active_fault inp),
                      EmitSessionFinished],
                   dec_reason := Some RESTART_RECOVERY,
                   dec_fault := Some f,
                   dec_clear_session := True,
                   dec_final_session := Some s\<rparr>)
            | None \<Rightarrow>
                mk_decision ((decision_defaults (Some ''T51'')
                    (Some (if inp_enabled inp then IDLE else DISABLED)))
                  \<lparr>dec_actions := [PersistState ''session_finalized'', EmitSessionFinished],
                   dec_reason := Some RESTART_RECOVERY,
                   dec_clear_session := True,
                   dec_final_session := Some s\<rparr>)))"

definition external_interference :: "SessionContext \<Rightarrow> Decision result" where
  "external_interference s =
     mk_decision ((decision_defaults None None)
       \<lparr>dec_actions :=
          [PersistState ''external_interference'',
           AddBlocker INTEGRATION_OFF_UNCONFIRMED,
           ExecuteOff True],
        dec_session :=
          Some (s\<lparr>ses_pending_termination_reason := Some EXTERNAL_ACTUATOR_STATE_CHANGE,
                  ses_last_recheck_value := None\<rparr>)\<rparr>)"

definition soaking_event :: "TransitionInput \<Rightarrow> SessionContext \<Rightarrow> Decision result" where
  "soaking_event inp s =
     (if ses_pending_termination_reason s \<noteq> None then
        (case inp_event inp of
           OffConfirmed at_utc \<Rightarrow> finalize_soaking_external inp s at_utc
         | ExternalActuatorOff at_utc \<Rightarrow> finalize_soaking_external inp s at_utc
         | OffNotConfirmed \<Rightarrow> soaking_off_not_confirmed inp s
         | _ \<Rightarrow> no_op)
      else
        (case inp_event inp of
           MoistureReport obs \<Rightarrow> soaking_moisture inp s obs
         | SoakDeadlineReached \<Rightarrow> soaking_deadline_or_evaluate inp s SoakDeadlineReached
         | AutoEvaluate \<Rightarrow> soaking_deadline_or_evaluate inp s AutoEvaluate
         | SlotGranted \<Rightarrow> soaking_deadline_or_evaluate inp s SlotGranted
         | GraceDeadlineReached \<Rightarrow> soaking_grace inp s
         | ActuatorBecameUnavailable \<Rightarrow>
             finalize_soaking_fault s ''T32'' ACTUATOR_FAULT ACTUATOR_UNAVAILABLE
         | ExternalActuatorOn \<Rightarrow> external_interference s
         | StopRequested \<Rightarrow> finalize_soaking_cancel s ''T35'' USER_STOP IDLE
         | DisableRequested \<Rightarrow> finalize_soaking_cancel s ''T36'' ZONE_DISABLED DISABLED
         | HomeAssistantShutdown \<Rightarrow>
             mk_decision ((decision_defaults (Some ''T37'') (Some SOAKING))
               \<lparr>dec_actions := [PersistState ''soaking_preserved'']\<rparr>)
         | ConfigEntryReload \<Rightarrow> finalize_soaking_cancel s ''T38'' CONFIG_RELOAD IDLE
         | ConfigChangedPrepare \<Rightarrow> finalize_soaking_cancel s ''T39'' CONFIG_CHANGED IDLE
         | StartupPersistedSoaking trusted run_id unsafe \<Rightarrow>
             startup_persisted_soaking inp s trusted run_id unsafe
         | ManualStartRequested _ \<Rightarrow> refuse_active_session
         | _ \<Rightarrow> no_op))"

definition decide_soaking :: "TransitionInput \<Rightarrow> Decision result" where
  "decide_soaking inp =
     (case inp_session inp of
        None \<Rightarrow> Inl (ValueError ''SOAKING requires an active session'')
      | Some s \<Rightarrow> soaking_event inp s)"

section \<open>FAULT\<close>

definition fault_resolved :: "TransitionInput \<Rightarrow> FaultCode \<Rightarrow> bool" where
  "fault_resolved inp fault = (if is_sensor_only fault then fresh_valid inp else actuator_ready inp)"

definition fault_auto_clear_check :: "TransitionInput \<Rightarrow> FaultCode option \<Rightarrow> Decision result" where
  "fault_auto_clear_check inp fault =
     (case fault of
        None \<Rightarrow> no_op
      | Some f \<Rightarrow>
          if \<not> auto_clears f \<or> inp_session inp \<noteq> None then no_op
          else if \<not> fault_resolved inp f then no_op
          else mk_decision ((decision_defaults (Some ''T42'') (Some IDLE))
                 \<lparr>dec_actions := [PersistState ''fault_cleared'', EmitFaultCleared f],
                  dec_clear_fault := True\<rparr>))"

definition refuse_clear :: "string \<Rightarrow> Decision result" where
  "refuse_clear guard =
     res_bind (mk_guard_result False [guard]) (\<lambda>g.
       mk_decision ((decision_defaults (Some ''T44'') (Some FAULT))\<lparr>dec_guard_result := Some g\<rparr>))"

definition clear_fault_request :: "TransitionInput \<Rightarrow> FaultCode option \<Rightarrow> Decision result" where
  "clear_fault_request inp fault =
     (case fault of
        None \<Rightarrow> no_op
      | Some f \<Rightarrow>
          if requires_reconfigure f then refuse_clear ''fault-requires-reconfigure''
          else if \<not> fault_resolved inp f then refuse_clear ''fault-condition-unresolved''
          else mk_decision ((decision_defaults (Some ''T43'') (Some IDLE))
                 \<lparr>dec_actions := [PersistState ''fault_cleared'', EmitFaultCleared f],
                  dec_clear_fault := True\<rparr>))"

definition decide_fault :: "TransitionInput \<Rightarrow> Decision result" where
  "decide_fault inp =
     (case inp_event inp of
        ManualStartRequested d \<Rightarrow> manual_start inp d ''T40''
      | MoistureReport _ \<Rightarrow> fault_auto_clear_check inp (inp_active_fault inp)
      | ExternalActuatorOff at_utc \<Rightarrow>
          if inp_session inp \<noteq> None then close_open_accounting inp at_utc
          else if inp_external_on inp
          then mk_decision ((decision_defaults None None)
                 \<lparr>dec_actions := [SetExternalOn False, RemoveBlocker EXTERNAL_FLOW]\<rparr>)
          else fault_auto_clear_check inp (inp_active_fault inp)
      | OffConfirmed at_utc \<Rightarrow>
          if inp_session inp \<noteq> None then close_open_accounting inp at_utc else no_op
      | ExternalActuatorOn \<Rightarrow>
          if inp_external_on inp then no_op
          else mk_decision ((decision_defaults None None)
                 \<lparr>dec_actions := [SetExternalOn True, AddBlocker EXTERNAL_FLOW]\<rparr>)
      | ClearFaultRequested \<Rightarrow> clear_fault_request inp (inp_active_fault inp)
      | DisableRequested \<Rightarrow>
          mk_decision ((decision_defaults (Some ''T45'') (Some DISABLED))
            \<lparr>dec_actions := [PersistState ''disabled'', ReleaseSlot]\<rparr>)
      | ConfigurationInvalid _ \<Rightarrow>
          if inp_active_fault inp = Some CONFIGURATION_INVALID then no_op
          else configuration_invalid inp ''T5''
      | _ \<Rightarrow> no_op)"

section \<open>decide\<close>

definition decide :: "TransitionInput \<Rightarrow> Decision result" where
  "decide inp =
     (if inp_event inp = StoreIntegrityLost then integrity_lost inp
      else if inp_event inp = ConfigurationInvalid True then configuration_invalid inp ''T53''
      else (case inp_state inp of
              IDLE \<Rightarrow> decide_idle inp
            | DISABLED \<Rightarrow> decide_disabled inp
            | WATERING \<Rightarrow> decide_watering inp
            | SOAKING \<Rightarrow> decide_soaking inp
            | FAULT \<Rightarrow> decide_fault inp))"

section \<open>Lemmas\<close>

text \<open>The equations of the state machine, for proofs that fix the state and the event and
  let the simplifier run the machine.\<close>

lemmas decide_state_defs [decide_simps] =
  decide_def decide_idle_def decide_disabled_def decide_watering_def watering_event_def
  decide_soaking_def soaking_event_def decide_fault_def

lemmas decide_row_defs [decide_simps] =
  evaluate_auto_start_def manual_start_def start_auto_pulse_def close_open_accounting_def
  integrity_lost_def configuration_invalid_def no_op_def on_confirmed_def
  commit_termination_def commit_if_first_def watering_moisture_def watchdog_fired_def
  pulse_off_to_soaking_def finalize_watering_def finalize_manual_complete_def
  off_not_confirmed_def startup_persisted_watering_def refuse_active_session_def
  finalize_soaking_completion_def finalize_soaking_fault_def finalize_soaking_cancel_def
  finalize_soaking_external_def soaking_off_not_confirmed_def soaking_recheck_def
  soaking_moisture_def soaking_deadline_or_evaluate_def soaking_grace_def
  startup_persisted_soaking_def external_interference_def fault_auto_clear_check_def
  refuse_clear_def clear_fault_request_def

lemmas decide_splits =
  option.split prod.split MoistureClassification.split if_split

lemma holds_mk_decision [simp]:
  "holds (mk_decision d) P \<longleftrightarrow> (is_ok (mk_decision d) \<longrightarrow> P d)"
  by (auto simp: mk_decision_def)

lemma mk_decision_eq_Inr: "mk_decision d = Inr d' \<longleftrightarrow> is_ok (mk_decision d) \<and> d' = d"
  by (auto simp: mk_decision_def)

text \<open>What the destination rule adds to a closure is at most one \<open>EmitFaultCleared\<close>.\<close>

lemma post_destination_actions:
  "post_destination inp c r = (dest, f, acts, clr) \<Longrightarrow>
   acts = [] \<or> (\<exists>g. acts = [EmitFaultCleared g] \<and> ses_retained_sensor_fault c = Some g)"
  by (auto simp: post_destination_def Let_def split: if_splits option.splits)

lemma post_destination_state:
  "post_destination inp c r = (dest, f, acts, clr) \<Longrightarrow>
   dest \<in> {IDLE, FAULT, DISABLED} \<and> (r = ZONE_DISABLED \<longrightarrow> dest = DISABLED) \<and>
   (\<not> inp_enabled inp \<longrightarrow> dest = DISABLED)"
  by (auto simp: post_destination_def Let_def split: if_splits option.splits)

lemma close_runtime_sel [simp]:
  "ses_retained_sensor_fault (close_runtime s t r) = ses_retained_sensor_fault s"
  "ses_mode (close_runtime s t r) = ses_mode s"
  "ses_session_id (close_runtime s t r) = ses_session_id s"
  "ses_cycle (close_runtime s t r) = ses_cycle s"
  "ses_pending_termination_reason (close_runtime s t r) = ses_pending_termination_reason s"
  "ses_off_confirmed_at_utc (close_runtime s t r) = Some t"
  "ses_pulse_intent_at_utc (close_runtime s t r) = ses_pulse_intent_at_utc s"
  "ses_runtime_estimated (close_runtime s t r) = ses_runtime_estimated s"
  by (simp_all add: close_runtime_def Let_def)

lemma close_runtime_mono: "ses_session_runtime_s s \<le> ses_session_runtime_s (close_runtime s t r)"
  by (simp add: close_runtime_def Let_def split: option.split)

lemma clamp_manual_Fin:
  "fst (clamp_manual inp (Fin q)) =
   Fin (min (min (min q (of_int (cfg_manual_max_duration_s (inp_config inp))))
              (of_int (cfg_max_session_runtime_s (inp_config inp)))) (daily_remaining inp))"
  by (simp add: clamp_manual_def Let_def min_def)

lemma manual_guards_iff:
  "manual_guard_failures inp q = [] \<longleftrightarrow>
   (\<exists>r. q = Fin r \<and> 0 < r) \<and> inp_enabled inp \<and> inp_session inp = None \<and>
   (\<forall>f. inp_active_fault inp = Some f \<longrightarrow> is_sensor_only f) \<and> actuator_ready inp \<and>
   0 < daily_remaining inp \<and> res_blockers_empty (inp_resource inp)"
  by (cases q) (auto simp: manual_guard_failures_def allows_manual_def split: option.split)

lemma auto_guards_iff:
  "auto_guard_failures inp = Inr [] \<longleftrightarrow>
   (\<exists>v. obs_value (inp_observation inp) = Some v \<and>
        fl_less v (Fin (cfg_start_threshold (inp_config inp)))) \<and>
   fresh_valid inp \<and> inp_enabled inp \<and> interval_elapsed inp \<and> actuator_ready inp \<and>
   daily_fits inp"
  by (auto simp: auto_guard_failures_def split: option.split)

end
