(* ===== verification/Samples.thy ===== *)
theory Samples
  imports State_Machine
begin

text \<open>
  Concrete zones for the witnesses: one valid configuration, a fresh reading, a session in its
  first cycle, and the input built from them with the actuator proven OFF and the slot granted.
\<close>

definition sample_config :: ZoneConfig where
  "sample_config =
     \<lparr>cfg_name = ''Bed'', cfg_moisture_sensor = ''sensor.bed'', cfg_actuator = ''switch.bed'',
      cfg_start_threshold = 30, cfg_target_threshold = 45, cfg_pulse_duration_s = 300,
      cfg_soak_duration_s = 1200, cfg_max_cycles = 4, cfg_max_session_runtime_s = 1800,
      cfg_max_daily_runtime_s = 3600, cfg_min_session_interval_s = 21600,
      cfg_sensor_max_age_s = 3600, cfg_actuator_confirm_timeout_s = 30,
      cfg_manual_max_duration_s = 1800\<rparr>"

definition sample_obs :: "rat \<Rightarrow> utc \<Rightarrow> MoistureObservation" where
  "sample_obs v r = mk_observation (Some (Fin v)) VALID (Some r) (Some 0)"

definition sample_session :: "SessionMode \<Rightarrow> SessionContext" where
  "sample_session m =
     (session_defaults ''s1'' ''run1'' ''fp1'' m 0)
       \<lparr>ses_cycle := 1, ses_pulse_intent_at_utc := Some 0, ses_pulse_commanded_at_utc := Some 0,
        ses_sensor_fresh_until_utc := Some 3600000000,
        ses_sensor_freshness_watchdog_generation := 1,
        ses_soak_ends_at_utc := Some 1500000000,
        ses_recheck_not_before_utc := Some 1500000000,
        ses_recheck_grace_deadline_at_utc := Some 5100000000,
        ses_manual_effective_duration_s := (if m = MANUAL then Some (Fin 600) else None)\<rparr>"

definition sample_input :: "ControllerState \<Rightarrow> SessionContext option \<Rightarrow> utc \<Rightarrow> ControllerEvent \<Rightarrow> TransitionInput" where
  "sample_input z s now ev =
     \<lparr>inp_now_utc = now, inp_config = sample_config, inp_state = z, inp_enabled = True,
      inp_session = s, inp_active_fault = None, inp_secondary_fault = None,
      inp_observation = sample_obs 20 now, inp_daily_runtime_s = 0,
      inp_last_session_end_utc = None,
      inp_actuator = \<lparr>act_available = True, act_proven_off = True, act_observed_on = False\<rparr>,
      inp_resource = \<lparr>res_slot_granted = True, res_blockers_empty = True\<rparr>,
      inp_armed_watchdog = None, inp_event = ev, inp_external_on = False,
      inp_new_session_identity =
        Some \<lparr>sid_session_id = ''s2'', sid_owner_run_id = ''run1'', sid_config_fingerprint = ''fp1''\<rparr>\<rparr>"

lemmas sample_defs =
  sample_config_def sample_obs_def sample_session_def sample_input_def session_defaults_def
  mk_observation_def

lemma sample_config_ok: "config_validate sample_config = Inr ()"
  by (simp add: config_validate_iff validation_errors_def check_def entity_domain_def config_bounds
      domain_defs sample_config_def)

lemmas sample_run =
  sample_defs decide_simps Let_def mk_session_def auto_guard_failures_def
  fresh_valid_def is_fresh_def actuator_ready_def interval_elapsed_def daily_fits_def
  timedelta_s_def confirm_deadline_def check_def manual_guard_failures_def allows_manual_def
  daily_remaining_def clamp_manual_def post_qualifies_def session_fits_def

lemma sample_auto_on:
  "\<exists>d. decide (sample_input IDLE None 0 AutoEvaluate) = Inr d \<and> TurnOn \<in> set (dec_actions d)"
  by (simp add: sample_run)

lemma sample_manual_on:
  "\<exists>d. decide (sample_input IDLE None 0 (ManualStartRequested (Fin 600))) = Inr d \<and> TurnOn \<in> set (dec_actions d)"
  by (simp add: sample_run)

end
