(* ===== verification/Zone_Safety.thy ===== *)
theory Zone_Safety
  imports Samples
begin

text \<open>
  What the pure state machine guarantees.  The first section classifies the decisions that
  turn an actuator ON (there are three routes: T1, T3/T40 and T25) and gives their shape; the
  safety, budget and accounting properties follow from it.
\<close>

section \<open>The decisions that turn water ON\<close>

text \<open>The conditions under which a qualifying recheck starts another pulse.\<close>

definition recheck_continues :: "TransitionInput \<Rightarrow> SessionContext \<Rightarrow> pyfloat \<Rightarrow> bool" where
  "recheck_continues inp s v \<longleftrightarrow>
     \<not> fl_le (Fin (cfg_target_threshold (inp_config inp))) v \<and>
     ses_cycle s < cfg_max_cycles (inp_config inp) \<and>
     session_fits inp s \<and> daily_fits inp \<and> actuator_ready inp \<and>
     res_slot_granted (inp_resource inp) \<and> res_blockers_empty (inp_resource inp)"

lemma no_on_watering:
  assumes "inp_state inp = WATERING"
  shows "holds (decide inp) (\<lambda>d. TurnOn \<notin> set (dec_actions d))"
  using assms
  by (cases "inp_event inp")
    (auto simp add: decide_simps Let_def dest: post_destination_actions
      split: option.split prod.split MoistureClassification.split)

lemma no_on_disabled:
  assumes "inp_state inp = DISABLED"
  shows "holds (decide inp) (\<lambda>d. TurnOn \<notin> set (dec_actions d))"
  using assms by (cases "inp_event inp") (simp_all add: decide_simps Let_def split: option.split)

lemma on_idle:
  assumes "inp_state inp = IDLE"
  shows "holds (decide inp) (\<lambda>d. TurnOn \<in> set (dec_actions d) \<longrightarrow>
    (auto_guard_failures inp = Inr [] \<and> res_slot_granted (inp_resource inp) \<and>
       res_blockers_empty (inp_resource inp) \<and> start_auto_pulse inp None = Inr d) \<or>
    (\<exists>q. inp_event inp = ManualStartRequested q \<and> manual_guard_failures inp q = [] \<and>
       res_slot_granted (inp_resource inp) \<and> manual_start inp q ''T3'' = Inr d))"
  using assms
  by (cases "inp_event inp") 
     (auto simp add: decide_state_defs evaluate_auto_start_def manual_start_def integrity_lost_def
       configuration_invalid_def no_op_def construct_defs holds_iff res_bind_eq_Inr Let_def
        split: option.split prod.split)

lemma on_fault:
  assumes "inp_state inp = FAULT"
  shows "holds (decide inp) (\<lambda>d. TurnOn \<in> set (dec_actions d) \<longrightarrow>
    (\<exists>q. inp_event inp = ManualStartRequested q \<and> manual_guard_failures inp q = [] \<and>
       res_slot_granted (inp_resource inp) \<and> manual_start inp q ''T40'' = Inr d))"
  using assms
  by (cases "inp_event inp") 
     (auto simp add: decide_state_defs close_open_accounting_def manual_start_def integrity_lost_def
       fault_auto_clear_check_def clear_fault_request_def refuse_clear_def
       configuration_invalid_def no_op_def construct_defs holds_iff res_bind_eq_Inr Let_def
        split: option.split prod.split)

lemma on_recheck:
  "holds (soaking_recheck inp s) (\<lambda>d. TurnOn \<in> set (dec_actions d) \<longrightarrow>
    (\<exists>v. obs_value (inp_observation inp) = Some v \<and> recheck_continues inp s v \<and>
       start_auto_pulse inp (Some (s\<lparr>ses_last_recheck_value := Some v\<rparr>)) = Inr d))"
  by (auto simp: soaking_recheck_def recheck_continues_def finalize_soaking_completion_def
       finalize_soaking_fault_def construct_defs actuator_ready_def session_fits_def Let_def
       holds_iff split: option.split)

lemma on_soaking:
  assumes "inp_state inp = SOAKING"
  shows "holds (decide inp) (\<lambda>d. TurnOn \<in> set (dec_actions d) \<longrightarrow>
    (\<exists>s. inp_session inp = Some s \<and> ses_pending_termination_reason s = None \<and>
       post_qualifies inp = Inr True \<and> soaking_recheck inp s = Inr d))"
  using assms
  by (cases "inp_event inp") 
     (auto simp add: decide_state_defs soaking_moisture_def soaking_deadline_or_evaluate_def
       soaking_grace_def finalize_soaking_fault_def finalize_soaking_cancel_def
       finalize_soaking_external_def soaking_off_not_confirmed_def external_interference_def
       startup_persisted_soaking_def refuse_active_session_def integrity_lost_def
       configuration_invalid_def no_op_def construct_defs holds_iff res_bind_eq_Inr Let_def
        split: option.split prod.split)


lemma auto_pulse_shape:
  assumes "start_auto_pulse inp so = Inr d"
  obtains s' row r rest where
    "dec_session d = Some s'" "dec_new_state d = Some WATERING" "dec_transition_id d = Some row"
    "dec_actions d =
       [PersistState ''hazard_intent'',
        ArmWatchdog (mk_token (ses_sensor_freshness_watchdog_generation s')
          (r + timedelta_s (cfg_sensor_max_age_s (inp_config inp)))),
        TurnOn, ArmTimer ON_CONFIRM_TIMEOUT (confirm_deadline inp)] @ rest"
    "obs_reported_at_utc (inp_observation inp) = Some r"
    "ses_pulse_intent_at_utc s' = Some (inp_now_utc inp)"
    "ses_sensor_fresh_until_utc s' = Some (r + timedelta_s (cfg_sensor_max_age_s (inp_config inp)))"
    "rest = [] \<or> rest = [EmitSessionStarted]"
    "so = None \<longrightarrow> ses_mode s' = AUTO \<and> ses_cycle s' = 1 \<and> ses_session_runtime_s s' = 0 \<and> row = ''T1''"
    "\<forall>s. so = Some s \<longrightarrow> ses_mode s' = ses_mode s \<and> ses_cycle s' = ses_cycle s + 1 \<and>
         ses_session_runtime_s s' = ses_session_runtime_s s \<and>
         ses_session_id s' = ses_session_id s \<and> row = ''T25''"
  using assms
  by (intro that [of "the (dec_session d)" "the (dec_transition_id d)"
        "the (obs_reported_at_utc (inp_observation inp))" "drop 4 (dec_actions d)"]; cases so)
    (auto simp: start_auto_pulse_def construct_defs mk_session_def session_defaults_def Let_def
      res_bind_eq_Inr split: option.splits if_splits)

lemma manual_pulse_shape:
  assumes "manual_start inp q row = Inr d" and "manual_guard_failures inp q = []"
    and "res_slot_granted (inp_resource inp)"
  obtains s' where
    "dec_session d = Some s'" "dec_new_state d = Some WATERING" "dec_transition_id d = Some row"
    "dec_actions d =
       [PersistState ''hazard_intent'', TurnOn,
        ArmTimer ON_CONFIRM_TIMEOUT (confirm_deadline inp), EmitSessionStarted]"
    "ses_pulse_intent_at_utc s' = Some (inp_now_utc inp)"
    "ses_mode s' = MANUAL" "ses_cycle s' = 0" "ses_session_runtime_s s' = 0"
    "ses_manual_requested_duration_s s' = Some q"
    "ses_manual_effective_duration_s s' = Some (fst (clamp_manual inp q))"
    "ses_manual_clamp_reasons s' = snd (clamp_manual inp q)"
    "ses_retained_sensor_fault s' = (if row = ''T40'' then inp_active_fault inp else None)"
  using assms
  by (auto simp: manual_start_def construct_defs mk_session_def session_defaults_def Let_def
      res_bind_eq_Inr split: option.splits if_splits prod.splits)

lemma on_cases:
  assumes "decide inp = Inr d" and "TurnOn \<in> set (dec_actions d)"
  obtains
    (auto_start) "inp_state inp = IDLE" "auto_guard_failures inp = Inr []"
      "res_slot_granted (inp_resource inp)" "res_blockers_empty (inp_resource inp)"
      "start_auto_pulse inp None = Inr d"
  | (manual) q row where "inp_state inp = IDLE \<and> row = ''T3'' \<or> inp_state inp = FAULT \<and> row = ''T40''"
      "inp_event inp = ManualStartRequested q"
      "manual_guard_failures inp q = []" "res_slot_granted (inp_resource inp)"
      "manual_start inp q row = Inr d"
  | (next_cycle) s v where "inp_state inp = SOAKING" "inp_session inp = Some s"
      "ses_pending_termination_reason s = None" "post_qualifies inp = Inr True"
      "obs_value (inp_observation inp) = Some v" "recheck_continues inp s v"
      "start_auto_pulse inp (Some (s\<lparr>ses_last_recheck_value := Some v\<rparr>)) = Inr d"
proof (cases "inp_state inp")
  case IDLE
  from holdsD [OF on_idle [OF IDLE] assms(1)] assms(2) IDLE auto_start manual show ?thesis by blast
next
  case DISABLED
  from holdsD [OF no_on_disabled [OF DISABLED] assms(1)] assms(2) show ?thesis by blast
next
  case WATERING
  from holdsD [OF no_on_watering [OF WATERING] assms(1)] assms(2) show ?thesis by blast
next
  case FAULT
  from holdsD [OF on_fault [OF FAULT] assms(1)] assms(2) FAULT manual show ?thesis by blast
next
  case SOAKING
  from holdsD [OF on_soaking [OF SOAKING] assms(1)] assms(2) obtain s where
    s: "inp_session inp = Some s" "ses_pending_termination_reason s = None"
       "post_qualifies inp = Inr True" "soaking_recheck inp s = Inr d" by blast
  from holdsD [OF on_recheck s(4)] assms(2) SOAKING s next_cycle show ?thesis by blast
qed

text \<open>(C2) An ON command is requested only from IDLE, SOAKING or FAULT, and only with the
  actuator available and proven OFF, the water slot granted and no blocker; outside SOAKING the
  zone is enabled, and in FAULT the active fault concerns the sensor alone.\<close>

theorem on_only_when_safe:
  assumes "decide inp = Inr d" and "TurnOn \<in> set (dec_actions d)"
  shows "inp_state inp \<in> {IDLE, SOAKING, FAULT} \<and>
     act_available (inp_actuator inp) \<and> act_proven_off (inp_actuator inp) \<and>
     res_slot_granted (inp_resource inp) \<and> res_blockers_empty (inp_resource inp) \<and>
     (inp_state inp \<noteq> SOAKING \<longrightarrow> inp_enabled inp) \<and>
     (inp_state inp = FAULT \<longrightarrow> (\<forall>f. inp_active_fault inp = Some f \<longrightarrow> is_sensor_only f))"
  using assms
  by (cases rule: on_cases)
    (auto simp: auto_guards_iff manual_guards_iff recheck_continues_def actuator_ready_def)

theorem on_only_when_safe_witness:
  "\<exists>d. decide (sample_input IDLE None 0 AutoEvaluate) = Inr d \<and> TurnOn \<in> set (dec_actions d) \<and>
     act_proven_off (inp_actuator (sample_input IDLE None 0 AutoEvaluate))"
  using sample_auto_on on_only_when_safe [of "sample_input IDLE None 0 AutoEvaluate"] by blast

text \<open>Write-ahead of the hazard: a decision that turns the actuator ON turns it ON once,
  only after the state with the pulse intent has been persisted, enters WATERING with the intent
  recorded at the current instant, and arms the confirmation timeout.\<close>

theorem hazard_write_ahead:
  assumes "decide inp = Inr d" and "TurnOn \<in> set (dec_actions d)"
  shows "\<exists>s. dec_session d = Some s \<and> dec_new_state d = Some WATERING \<and>
      ses_pulse_intent_at_utc s = Some (inp_now_utc inp) \<and>
      guarded_by (\<lambda>a. a = PersistState ''hazard_intent'') (\<lambda>a. a = TurnOn) (dec_actions d) \<and>
      length (filter (\<lambda>a. a = TurnOn) (dec_actions d)) = 1 \<and>
      ArmTimer ON_CONFIRM_TIMEOUT
        (inp_now_utc inp + timedelta_s (cfg_actuator_confirm_timeout_s (inp_config inp)))
        \<in> set (dec_actions d)"
  using assms
proof (cases rule: on_cases)
  case auto_start
  from auto_start(5) show ?thesis 
    by (rule auto_pulse_shape) (auto simp: confirm_deadline_def)
next
  case (manual q row)
  from manual(5,3,4) show ?thesis
    by (rule manual_pulse_shape) (auto simp: confirm_deadline_def)
next
  case (next_cycle s v)
  from next_cycle(7) show ?thesis
    by (rule auto_pulse_shape) (auto simp: confirm_deadline_def)
qed


theorem hazard_write_ahead_witness:
  "\<exists>d. decide (sample_input IDLE None 0 (ManualStartRequested (Fin 600))) = Inr d \<and>
     dec_new_state d = Some WATERING"
  using sample_manual_on hazard_write_ahead [of "sample_input IDLE None 0 (ManualStartRequested (Fin 600))"]
  by blast

section \<open>Automatic pulses: data freshness and budgets\<close>

text \<open>An automatic pulse never runs on stale data: the reading behind it is valid and not older than
  the configured maximum, and a freshness watchdog with the generation of the session and the exact
  expiry instant of that reading is armed before the actuator is turned ON.\<close>

theorem auto_on_has_watchdog:
  assumes "decide inp = Inr d" and "TurnOn \<in> set (dec_actions d)"
  shows "\<exists>s. dec_session d = Some s \<and> (ses_mode s = AUTO \<longrightarrow>
     (\<exists>r deadline. obs_classification (inp_observation inp) = VALID \<and>
        obs_reported_at_utc (inp_observation inp) = Some r \<and>
        deadline = r + timedelta_s (cfg_sensor_max_age_s (inp_config inp)) \<and>
        inp_now_utc inp \<le> deadline \<and> ses_sensor_fresh_until_utc s = Some deadline \<and>
        guarded_by (\<lambda>a. a = ArmWatchdog (mk_token (ses_sensor_freshness_watchdog_generation s) deadline))
          (\<lambda>a. a = TurnOn) (dec_actions d)))"
  using assms
proof (cases rule: on_cases)
  case auto_start
  from auto_start(5) show ?thesis
    by (rule auto_pulse_shape) (use auto_start(2) in \<open>auto simp: auto_guards_iff fresh_valid_def is_fresh_def\<close>)
next
  case (manual q row)
  from manual(5,3,4) show ?thesis by (rule manual_pulse_shape) auto
next
  case (next_cycle s v)
  from next_cycle(7) show ?thesis
    by (rule auto_pulse_shape)
      (use next_cycle(4) in \<open>auto simp: post_qualifies_def fresh_valid_def is_fresh_def split: option.splits if_splits\<close>)
qed

theorem auto_on_has_watchdog_witness:
  "\<exists>d s. decide (sample_input IDLE None 0 AutoEvaluate) = Inr d \<and> dec_session d = Some s"
  using sample_auto_on auto_on_has_watchdog [of "sample_input IDLE None 0 AutoEvaluate"] by blast

text \<open>(C24) With a validated configuration no ON command exceeds a budget: an automatic pulse fits the
  session limit, the daily limit and the cycle limit, and a manual session has a positive effective
  duration within the remaining daily budget, the session limit and the manual limit.\<close>

theorem on_within_budgets:
  assumes "decide inp = Inr d" and "TurnOn \<in> set (dec_actions d)"
    and "config_validate (inp_config inp) = Inr ()"
  shows "\<exists>s. dec_session d = Some s \<and>
     ((ses_mode s = AUTO \<or> inp_state inp = SOAKING) \<and>
        ses_session_runtime_s s + of_int (cfg_pulse_duration_s (inp_config inp))
          \<le> of_int (cfg_max_session_runtime_s (inp_config inp)) \<and>
        inp_daily_runtime_s inp + of_int (cfg_pulse_duration_s (inp_config inp))
          \<le> of_int (cfg_max_daily_runtime_s (inp_config inp)) \<and>
        ses_cycle s \<le> cfg_max_cycles (inp_config inp)
      \<or> ses_mode s = MANUAL \<and>
        (\<exists>e. ses_manual_effective_duration_s s = Some (Fin e) \<and> 0 < e \<and>
             inp_daily_runtime_s inp + e \<le> of_int (cfg_max_daily_runtime_s (inp_config inp)) \<and>
             e \<le> of_int (cfg_max_session_runtime_s (inp_config inp)) \<and>
             e \<le> of_int (cfg_manual_max_duration_s (inp_config inp))))"
  using assms(1,2)
proof (cases rule: on_cases)
  case auto_start
  from auto_start(5) show ?thesis
  proof (rule auto_pulse_shape)
    fix s' row r rest
    assume "dec_session d = Some s'" 
      "None = None \<longrightarrow> ses_mode s' = AUTO \<and> ses_cycle s' = 1 \<and> ses_session_runtime_s s' = 0 \<and> row = ''T1''"
    then show ?thesis using auto_start(2) assms(3) config_ok_bounds [of "inp_config inp"]
     by (simp add: auto_guards_iff daily_fits_def config_validate_iff)
  qed
next
  case (manual q row)
  from manual(3) obtain e where q: "q = Fin e" "0 < e" "0 < daily_remaining inp"
    by (auto simp: manual_guards_iff)
  from manual(5,3,4) show ?thesis
    by (rule manual_pulse_shape) 
     (use q assms(3) config_ok_bounds [of "inp_config inp"] in \<open>auto simp: clamp_manual_Fin config_validate_iff min_def daily_remaining_def\<close>)
next
  case (next_cycle s v)
  from next_cycle(7) show ?thesis
    by (rule auto_pulse_shape)
      (use next_cycle(1,6) in \<open>auto simp: recheck_continues_def session_fits_def daily_fits_def\<close>)
qed

theorem on_within_budgets_witness:
  "\<exists>d s. decide (sample_input IDLE None 0 (ManualStartRequested (Fin 600))) = Inr d \<and>
     dec_session d = Some s"
proof -
  have "inp_config (sample_input IDLE None 0 (ManualStartRequested (Fin 600))) = sample_config"
    by (simp add: sample_input_def)
  with sample_manual_on sample_config_ok
    on_within_budgets [of "sample_input IDLE None 0 (ManualStartRequested (Fin 600))"]
  show ?thesis by fastforce
qed

text \<open>(C23) The automatic start, exactly: from IDLE an evaluation turns water ON if and only if the zone is
  enabled, the reading is valid, fresh and strictly below the start threshold, the minimum interval
  since the last session has elapsed, the actuator is available and proven OFF, one pulse fits the
  daily budget, the slot is granted and no blocker exists.\<close>

theorem auto_start_iff:
  assumes "inp_state inp = IDLE"
    and "inp_event inp \<in> {AutoEvaluate, SlotGranted} \<or> (\<exists>o1. inp_event inp = MoistureReport o1)"
    and "observation_validate (inp_observation inp) = Inr ()"
    and "inp_new_session_identity inp \<noteq> None"
  shows "(\<exists>d. decide inp = Inr d \<and> TurnOn \<in> set (dec_actions d)) \<longleftrightarrow>
    inp_enabled inp \<and>
    (\<exists>v r. obs_classification (inp_observation inp) = VALID \<and>
         obs_value (inp_observation inp) = Some (Fin v) \<and>
         v < cfg_start_threshold (inp_config inp) \<and>
         obs_reported_at_utc (inp_observation inp) = Some r \<and>
         inp_now_utc inp - r \<le> cfg_sensor_max_age_s (inp_config inp) * 1000000) \<and>
    (\<forall>e. inp_last_session_end_utc inp = Some e \<longrightarrow>
         cfg_min_session_interval_s (inp_config inp) * 1000000 \<le> inp_now_utc inp - e) \<and>
    act_available (inp_actuator inp) \<and> act_proven_off (inp_actuator inp) \<and>
    inp_daily_runtime_s inp + of_int (cfg_pulse_duration_s (inp_config inp))
      \<le> of_int (cfg_max_daily_runtime_s (inp_config inp)) \<and>
    res_slot_granted (inp_resource inp) \<and> res_blockers_empty (inp_resource inp)"
  (is "?on \<longleftrightarrow> ?guards")
proof -
  have ev: "decide inp = evaluate_auto_start inp"
    using assms(1,2) by (auto simp: decide_def decide_idle_def)
  have g: "?guards \<longleftrightarrow> auto_guard_failures inp = Inr [] \<and> 
     res_slot_granted (inp_resource inp) \<and> res_blockers_empty (inp_resource inp)"
    using assms(3)
    by (auto simp: auto_guards_iff fresh_valid_def is_fresh_def interval_elapsed_def
        actuator_ready_def daily_fits_def observation_validate_def fl_isfinite_iff timedelta_s_def
        split: option.splits if_splits)
  have "?on \<Longrightarrow> ?guards" unfolding g
    using assms(1,2) by (elim exE conjE on_cases) auto
  moreover have "?guards \<Longrightarrow> ?on"
  proof -
    assume ?guards
    then obtain r where r: "obs_reported_at_utc (inp_observation inp) = Some r" by blast
    from assms(4) obtain i where i: "inp_new_session_identity inp = Some i" by blast
    from \<open>?guards\<close> [unfolded g] show ?on unfolding ev
      by (simp add: evaluate_auto_start_def start_auto_pulse_def construct_defs Let_def
          mk_session_def session_defaults_def r i)
  qed
  ultimately show ?thesis by blast
qed


theorem auto_start_iff_witness:
  "\<exists>d. decide (sample_input IDLE None 0 AutoEvaluate) = Inr d \<and> TurnOn \<in> set (dec_actions d)"
  by (subst auto_start_iff) (simp_all add: sample_defs observation_validate_def
      MOISTURE_MIN_def MOISTURE_MAX_def)

section \<open>Soak and recheck\<close>

lemma post_qualifies_True:
  "post_qualifies inp = Inr True \<longleftrightarrow>
   (\<exists>s nb r. inp_session inp = Some s \<and> ses_recheck_not_before_utc s = Some nb \<and>
      fresh_valid inp \<and> obs_reported_at_utc (inp_observation inp) = Some r \<and> nb \<le> r)"
  by (auto simp: post_qualifies_def split: option.splits if_splits)

abbreviation recheck_reasons :: "CompletionReason set" where
  "recheck_reasons \<equiv> {TARGET_REACHED, MAX_CYCLES, MAX_SESSION_RUNTIME, DAILY_RUNTIME_LIMIT}"

lemma reason_soaking:
  assumes "inp_state inp = SOAKING"
  shows "holds (decide inp) (\<lambda>d. dec_reason d \<in> Some ` recheck_reasons \<longrightarrow>
           post_qualifies inp = Inr True)"
  using assms
  by (cases "inp_event inp")
    (auto simp: decide_state_defs soaking_moisture_def soaking_deadline_or_evaluate_def
       soaking_grace_def finalize_soaking_fault_def finalize_soaking_cancel_def
       finalize_soaking_external_def soaking_off_not_confirmed_def external_interference_def
       startup_persisted_soaking_def refuse_active_session_def integrity_lost_def
       configuration_invalid_def no_op_def construct_defs holds_iff res_bind_eq_Inr Let_def
       split: option.split prod.split)

text \<open>A recheck decision (another pulse, target reached, or a limit reached) is taken only on a
  valid fresh report whose own timestamp is not before the end of the soak.\<close>

theorem soak_uses_post_soak_report:
  assumes "decide inp = Inr d" and "inp_state inp = SOAKING"
    and "TurnOn \<in> set (dec_actions d) \<or>
         dec_reason d \<in> Some ` {TARGET_REACHED, MAX_CYCLES, MAX_SESSION_RUNTIME, DAILY_RUNTIME_LIMIT}"
  shows "\<exists>s not_before r. inp_session inp = Some s \<and>
     ses_recheck_not_before_utc s = Some not_before \<and>
     obs_classification (inp_observation inp) = VALID \<and>
     obs_reported_at_utc (inp_observation inp) = Some r \<and> not_before \<le> r \<and>
     inp_now_utc inp - r \<le> cfg_sensor_max_age_s (inp_config inp) * 1000000"
proof -
  have "post_qualifies inp = Inr True"
    using assms(3) holdsD [OF on_soaking [OF assms(2)] assms(1)]
      holdsD [OF reason_soaking [OF assms(2)] assms(1)] by blast
  then show ?thesis
    by (auto simp: post_qualifies_True fresh_valid_def is_fresh_def timedelta_s_def)
qed

theorem soak_uses_post_soak_report_witness:
  "\<exists>d r. decide (sample_input SOAKING (Some (sample_session AUTO)) 1500000000 SoakDeadlineReached) = Inr d \<and>
     obs_reported_at_utc (inp_observation
       (sample_input SOAKING (Some (sample_session AUTO)) 1500000000 SoakDeadlineReached)) = Some r"
proof -
  let ?i = "sample_input SOAKING (Some (sample_session AUTO)) 1500000000 SoakDeadlineReached"
  have "\<exists>d. decide ?i = Inr d \<and> TurnOn \<in> set (dec_actions d)" by (simp add: sample_run)
  then obtain d where d: "decide ?i = Inr d" "TurnOn \<in> set (dec_actions d)" by blast
  have "inp_state ?i = SOAKING" by (simp add: sample_input_def)
  from soak_uses_post_soak_report [OF d(1) this] d show ?thesis by blast
qed

text \<open>The recheck, exactly: the session ends with the target reached if and only if the value is at
  least the target, with the cycle limit if and only if it is below the target and the cycles are used
  up; and another pulse starts if and only if all limits, the actuator and the slot permit it.\<close>

theorem soak_recheck_outcome:
  assumes "inp_state inp = SOAKING" and "inp_session inp = Some s"
    and "ses_pending_termination_reason s = None"
    and "inp_event inp \<in> {SoakDeadlineReached, AutoEvaluate, SlotGranted}"
    and "ses_soak_ends_at_utc s = Some soak_ends" "soak_ends \<le> inp_now_utc inp"
    and "post_qualifies inp = Inr True" and "obs_value (inp_observation inp) = Some (Fin v)"
  shows "\<exists>d. decide inp = Inr d \<and>
    (dec_reason d = Some TARGET_REACHED \<longleftrightarrow> cfg_target_threshold (inp_config inp) \<le> v) \<and>
    (dec_reason d = Some MAX_CYCLES \<longleftrightarrow>
       v < cfg_target_threshold (inp_config inp) \<and> cfg_max_cycles (inp_config inp) \<le> ses_cycle s) \<and>
    (TurnOn \<in> set (dec_actions d) \<longleftrightarrow>
       v < cfg_target_threshold (inp_config inp) \<and> ses_cycle s < cfg_max_cycles (inp_config inp) \<and>
       ses_session_runtime_s s + of_int (cfg_pulse_duration_s (inp_config inp))
         \<le> of_int (cfg_max_session_runtime_s (inp_config inp)) \<and>
       inp_daily_runtime_s inp + of_int (cfg_pulse_duration_s (inp_config inp))
         \<le> of_int (cfg_max_daily_runtime_s (inp_config inp)) \<and>
       act_available (inp_actuator inp) \<and> act_proven_off (inp_actuator inp) \<and>
       res_slot_granted (inp_resource inp) \<and> res_blockers_empty (inp_resource inp)) \<and>
    (dec_clear_session d \<longrightarrow> (\<exists>s'. dec_final_session d = Some s' \<and>
       ses_last_recheck_value s' = Some (Fin v) \<and> ses_session_runtime_s s' = ses_session_runtime_s s))"
proof -
  from assms(7) obtain r where r: "obs_reported_at_utc (inp_observation inp) = Some r"
    by (auto simp: post_qualifies_True)
  have "decide inp = soaking_recheck inp s"
    using assms by (auto simp: decide_state_defs soaking_deadline_or_evaluate_def)
  then show ?thesis
    by (auto simp: r assms(8) soaking_recheck_def finalize_soaking_completion_def session_fits_def
       daily_fits_def finalize_soaking_fault_def start_auto_pulse_def construct_defs Let_def)
qed

theorem soak_recheck_outcome_witness:
  "\<exists>d. decide (sample_input SOAKING (Some (sample_session AUTO)) 1500000000 SoakDeadlineReached) = Inr d \<and>
     TurnOn \<in> set (dec_actions d)"
  using soak_recheck_outcome
    [of "sample_input SOAKING (Some (sample_session AUTO)) 1500000000 SoakDeadlineReached"
        "sample_session AUTO" 1500000000 20]
  by (auto simp: sample_defs post_qualifies_def fresh_valid_def is_fresh_def timedelta_s_def)

text \<open>Fail-safe on the sensor: in automatic watering with no termination committed, an invalid or
  unavailable reading, or the armed watchdog firing after the freshness deadline, commits a sensor fault
  and requests OFF after persisting the commitment.\<close>

theorem sensor_failsafe:
  assumes "inp_state inp = WATERING" and "inp_session inp = Some s" and "ses_mode s = AUTO"
    and "ses_pending_termination_reason s = None"
    and "(\<exists>o1. inp_event inp = MoistureReport o1 \<and> obs_classification o1 \<in> {INVALID, UNAVAILABLE}) \<or>
         (\<exists>t. inp_event inp = WatchdogFired t \<and> inp_armed_watchdog inp = Some t \<and>
            (\<exists>f. ses_sensor_fresh_until_utc s = Some f \<and> f \<le> inp_now_utc inp))"
  shows "\<exists>d f. decide inp = Inr d \<and> is_sensor_only f \<and> dec_fault d = Some f \<and>
     dec_session d = Some (s\<lparr>ses_pending_termination_reason := Some SENSOR_FAULT\<rparr>) \<and>
     ExecuteOff False \<in> set (dec_actions d) \<and>
     guarded_by (\<lambda>a. a = PersistState ''termination_committed'') (\<lambda>a. a = ExecuteOff False) (dec_actions d)"
  using assms
  by (auto simp: decide_state_defs watering_moisture_def watchdog_fired_def commit_termination_def
      construct_defs is_sensor_only_def)

theorem sensor_failsafe_witness:
  "\<exists>d f. decide (sample_input WATERING (Some (sample_session AUTO)) 100
       (MoistureReport (mk_observation None UNAVAILABLE None None))) = Inr d \<and> dec_fault d = Some f"
  using sensor_failsafe
    [of "sample_input WATERING (Some (sample_session AUTO)) 100
           (MoistureReport (mk_observation None UNAVAILABLE None None))" "sample_session AUTO"]
  by (auto simp: sample_defs)

fun reports_off :: "ControllerEvent \<Rightarrow> bool" where
  "reports_off (OffConfirmed _) = True"
| "reports_off (ExternalActuatorOff _) = True"
| "reports_off (StartupPersistedWatering _) = True"
| "reports_off _ = False"

text \<open>Manual watering does not depend on the sensor: until the actuator is reported OFF the decision
  is the same for every observation, a reading changes nothing, and a watchdog callback is ignored.\<close>

theorem manual_sensor_independent:
  assumes "inp_state inp = WATERING" and "inp_session inp = Some s" and "ses_mode s = MANUAL"
    and "\<not> reports_off (inp_event inp)"
  shows "decide (inp\<lparr>inp_observation := o1\<rparr>) = decide inp \<and>
     (\<forall>o2. \<exists>d. decide (inp\<lparr>inp_event := MoistureReport o2\<rparr>) = Inr d \<and> dec_actions d = [] \<and>
        dec_session d = None \<and> \<not> dec_clear_session d \<and> dec_new_state d = Some WATERING) \<and>
     (\<forall>t. decide (inp\<lparr>inp_event := WatchdogFired t\<rparr>) = no_op)"
proof -
  have "decide (inp\<lparr>inp_observation := o1\<rparr>) = decide inp"
    using assms by (cases "inp_event inp")
      (simp_all add: decide_state_defs on_confirmed_def watering_moisture_def watchdog_fired_def
       commit_if_first_def off_not_confirmed_def integrity_lost_def configuration_invalid_def)
  with assms(1-3) show ?thesis
    by (simp add: decide_state_defs watering_moisture_def watchdog_fired_def construct_defs)
qed

theorem manual_sensor_independent_witness:
  "decide ((sample_input WATERING (Some (sample_session MANUAL)) 100 StopRequested)
     \<lparr>inp_observation := sample_obs 99 0\<rparr>) =
   decide (sample_input WATERING (Some (sample_session MANUAL)) 100 StopRequested)"
  using manual_sensor_independent
    [of "sample_input WATERING (Some (sample_session MANUAL)) 100 StopRequested" "sample_session MANUAL"
        "sample_obs 99 0"]
  by (simp add: sample_defs)

lemma finalize_watering_reason:
  "holds (finalize_watering inp s r t acts) (\<lambda>d. dec_reason d = Some r \<and> dec_clear_session d \<and>
     dec_final_session d = Some (close_runtime s t r) \<and> dec_new_state d \<in> Some ` {IDLE, FAULT, DISABLED})"
  by (auto simp: finalize_watering_def finalize_manual_complete_def construct_defs Let_def
      dest: post_destination_state
     split: prod.split option.split)



end
