(* ===== verification/Zone_Lifecycle.thy ===== *)
theory Zone_Lifecycle
  imports Zone_Safety
begin

text \<open>
  The life of a session in the pure state machine: the machine refines the transition table of
  the specification (section 14), closes each session exactly once, never raises on well-formed
  input, and accounts for interrupted and unconfirmed pulses conservatively.
\<close>

section \<open>The transition table\<close>

text \<open>The rows of the table: start state, row, end state, completion reason.  The table's
  \<open>POST\<close> destination is any of IDLE, FAULT and DISABLED.  Two places are wider than the
  printed table, as the code is: T5 also starts in FAULT, and a completed session of a zone
  that is no longer enabled ends in DISABLED.\<close>

abbreviation post_states :: "ControllerState set" where
  "post_states \<equiv> {IDLE, FAULT, DISABLED}"

inductive spec_row ::
  "ControllerState \<Rightarrow> string \<Rightarrow> ControllerState \<Rightarrow> CompletionReason option \<Rightarrow> bool" where
  T1: "spec_row IDLE ''T1'' WATERING None"
| T2: "spec_row IDLE ''T2'' IDLE None"
| T3: "spec_row IDLE ''T3'' WATERING None"
| T4: "spec_row IDLE ''T4'' DISABLED None"
| T5: "z \<in> {IDLE, FAULT} \<Longrightarrow> spec_row z ''T5'' FAULT None"
| T6: "spec_row WATERING ''T6'' SOAKING None"
| T7: "z \<in> {IDLE, DISABLED} \<Longrightarrow> spec_row WATERING ''T7'' z (Some MANUAL_COMPLETE)"
| T8: "z \<in> {FAULT, DISABLED} \<Longrightarrow> spec_row WATERING ''T8'' z (Some MANUAL_COMPLETE)"
| T9: "z \<in> {IDLE, DISABLED} \<Longrightarrow> spec_row WATERING ''T9'' z (Some MANUAL_COMPLETE)"
| sensor: "row \<in> {''T10'', ''T11'', ''T57''} \<Longrightarrow> z \<in> {FAULT, DISABLED} \<Longrightarrow>
    spec_row WATERING row z (Some SENSOR_FAULT)"
| T12: "spec_row WATERING ''T12'' WATERING None"
| actuator: "row \<in> {''T13'', ''T14''} \<Longrightarrow> z \<in> {FAULT, DISABLED} \<Longrightarrow>
    spec_row WATERING row z (Some ACTUATOR_FAULT)"
| T15: "spec_row WATERING ''T15'' FAULT (Some ACTUATOR_FAULT)"
| T16: "z \<in> post_states \<Longrightarrow> spec_row WATERING ''T16'' z (Some EXTERNAL_ACTUATOR_STATE_CHANGE)"
| T17: "z \<in> post_states \<Longrightarrow> spec_row WATERING ''T17'' z (Some USER_STOP)"
| T18: "spec_row WATERING ''T18'' DISABLED (Some ZONE_DISABLED)"
| T19: "z \<in> post_states \<Longrightarrow> spec_row WATERING ''T19'' z (Some HOME_ASSISTANT_SHUTDOWN)"
| T20: "z \<in> post_states \<Longrightarrow> spec_row WATERING ''T20'' z (Some CONFIG_RELOAD)"
| T21: "z \<in> post_states \<Longrightarrow> spec_row WATERING ''T21'' z (Some CONFIG_CHANGED)"
| T22: "spec_row SOAKING ''T22'' SOAKING None"
| T23: "spec_row SOAKING ''T23'' SOAKING None"
| T24: "z \<in> {IDLE, DISABLED} \<Longrightarrow> spec_row SOAKING ''T24'' z (Some TARGET_REACHED)"
| T25: "spec_row SOAKING ''T25'' WATERING None"
| T26: "z \<in> {IDLE, DISABLED} \<Longrightarrow> spec_row SOAKING ''T26'' z (Some MAX_CYCLES)"
| T27: "z \<in> {IDLE, DISABLED} \<Longrightarrow> spec_row SOAKING ''T27'' z (Some MAX_SESSION_RUNTIME)"
| T28: "z \<in> {IDLE, DISABLED} \<Longrightarrow> spec_row SOAKING ''T28'' z (Some DAILY_RUNTIME_LIMIT)"
| recheck_fault: "row \<in> {''T29'', ''T30'', ''T31''} \<Longrightarrow> spec_row SOAKING row FAULT (Some SENSOR_FAULT)"
| T32: "spec_row SOAKING ''T32'' FAULT (Some ACTUATOR_FAULT)"
| T33: "z \<in> {IDLE, DISABLED} \<Longrightarrow> spec_row SOAKING ''T33'' z (Some EXTERNAL_ACTUATOR_STATE_CHANGE)"
| T34: "spec_row SOAKING ''T34'' FAULT (Some ACTUATOR_FAULT)"
| T35: "spec_row SOAKING ''T35'' IDLE (Some USER_STOP)"
| T36: "spec_row SOAKING ''T36'' DISABLED (Some ZONE_DISABLED)"
| T37: "spec_row SOAKING ''T37'' SOAKING None"
| T38: "spec_row SOAKING ''T38'' IDLE (Some CONFIG_RELOAD)"
| T39: "spec_row SOAKING ''T39'' IDLE (Some CONFIG_CHANGED)"
| T40: "spec_row FAULT ''T40'' WATERING None"
| T41: "spec_row FAULT ''T41'' FAULT None"
| T42: "spec_row FAULT ''T42'' IDLE None"
| T43: "spec_row FAULT ''T43'' IDLE None"
| T44: "spec_row FAULT ''T44'' FAULT None"
| T45: "spec_row FAULT ''T45'' DISABLED None"
| T46: "spec_row DISABLED ''T46'' FAULT None"
| T47: "spec_row DISABLED ''T47'' IDLE None"
| T48: "z \<in> post_states \<Longrightarrow> spec_row WATERING ''T48'' z (Some RESTART_RECOVERY)"
| T49: "spec_row WATERING ''T49'' FAULT (Some RESTART_RECOVERY)"
| T50: "spec_row SOAKING ''T50'' SOAKING None"
| T51: "z \<in> post_states \<Longrightarrow> spec_row SOAKING ''T51'' z (Some RESTART_RECOVERY)"
| T52: "spec_row z ''T52'' FAULT None"
| T53: "spec_row z ''T53'' FAULT None"
| T54: "spec_row IDLE ''T54'' IDLE None"
| T55: "spec_row DISABLED ''T55'' DISABLED None"
| T56: "spec_row WATERING ''T56'' WATERING None"
| T58: "spec_row IDLE ''T58'' IDLE None"
| T59: "spec_row DISABLED ''T59'' DISABLED None"

definition in_table :: "TransitionInput \<Rightarrow> Decision \<Rightarrow> bool" where
  "in_table inp d \<longleftrightarrow>
     (case dec_transition_id d of
        Some row \<Rightarrow> (\<exists>z. dec_new_state d = Some z \<and> spec_row (inp_state inp) row z (dec_reason d))
      | None \<Rightarrow> dec_new_state d \<in> {None, Some (inp_state inp)})"

lemma sensor_row_in: "sensor_fault_row f = Inr row \<Longrightarrow> row \<in> {''T10'', ''T11'', ''T57''}"
  by (cases f) auto

lemma cancellation_row_in:
  "cancellation_row r = Inr row \<Longrightarrow> z \<in> post_states \<Longrightarrow> (r = ZONE_DISABLED \<longrightarrow> z = DISABLED) \<Longrightarrow>
   spec_row WATERING row z (Some r)"
  by (cases r) (auto intro: spec_row.intros)

lemma finalize_row_in:
  assumes "finalize_row inp r = Inr row" and "post_destination inp c r = (z, f, acts, clr)"
  shows "spec_row WATERING row z (Some r)"
proof -
  have z: "z \<in> post_states" "r = ZONE_DISABLED \<longrightarrow> z = DISABLED"
    using post_destination_state [OF assms(2)] by auto
  have f: "r \<in> {SENSOR_FAULT, ACTUATOR_FAULT} \<longrightarrow> z \<in> {FAULT, DISABLED}"
    using assms(2) by (auto simp: post_destination_def split: if_splits)
  show ?thesis
    using assms(1) z f unfolding finalize_row_def
    by (auto split: if_splits option.splits
        intro: T48 actuator cancellation_row_in sensor dest!: sensor_row_in)
qed

lemma finalize_in_table:
  assumes "inp_state inp = WATERING"
  shows "holds (finalize_watering inp s r t acts) (in_table inp)"
  using assms
  by (auto simp: finalize_watering_def finalize_manual_complete_def construct_defs Let_def in_table_def
      dest: finalize_row_in intro: spec_row.intros split: prod.split option.split)

lemma table_watering:
  assumes "inp_state inp = WATERING"
  shows "holds (decide inp) (in_table inp)"
  using assms finalize_in_table [OF assms]
  by (cases "inp_event inp")
    (auto simp: decide_state_defs integrity_lost_def configuration_invalid_def no_op_def on_confirmed_def
  commit_termination_def commit_if_first_def watering_moisture_def watchdog_fired_def
  pulse_off_to_soaking_def 
  off_not_confirmed_def startup_persisted_watering_def refuse_active_session_def construct_defs Let_def in_table_def
   intro: spec_row.intros 
      split: option.split prod.split MoistureClassification.split)

lemma recheck_in_table:
  assumes "inp_state inp = SOAKING"
  shows "holds (soaking_recheck inp s) (in_table inp)"
  using assms
  by (simp add: soaking_recheck_def finalize_soaking_completion_def finalize_soaking_fault_def start_auto_pulse_def construct_defs
      Let_def in_table_def spec_row.intros split: option.split)

lemma table_soaking:
  assumes "inp_state inp = SOAKING"
  shows "holds (decide inp) (in_table inp)"
  using assms recheck_in_table [OF assms]
  by (cases "inp_event inp")
    (simp_all add: decide_state_defs soaking_moisture_def soaking_deadline_or_evaluate_def
       soaking_grace_def finalize_soaking_fault_def finalize_soaking_cancel_def
       finalize_soaking_external_def soaking_off_not_confirmed_def external_interference_def
       startup_persisted_soaking_def refuse_active_session_def integrity_lost_def
       configuration_invalid_def no_op_def construct_defs Let_def in_table_def spec_row.intros
      split: option.split prod.split MoistureClassification.split)

lemma table_other:
  assumes "inp_state inp = DISABLED \<or> inp_state inp = IDLE \<or> inp_state inp = FAULT"
  shows "holds (decide inp) (in_table inp)"
  using assms
  by (cases "inp_event inp"; elim disjE)
    (simp_all add: decide_simps Let_def in_table_def spec_row.intros
      split: option.split prod.split)




section \<open>Closing a session\<close>

definition closes_once :: "TransitionInput \<Rightarrow> Decision \<Rightarrow> bool" where
  "closes_once inp d \<longleftrightarrow>
     length (filter (\<lambda>a. a = EmitSessionFinished) (dec_actions d)) = (if dec_clear_session d then 1 else 0) \<and>
     guarded_by (\<lambda>a. a \<in> {PersistState ''session_finalized'', PersistState ''delayed_accounting_closed''})
       (\<lambda>a. a = EmitSessionFinished) (dec_actions d) \<and>
     (dec_clear_session d \<longrightarrow>
        (\<exists>s s' r. inp_session inp = Some s \<and> dec_final_session d = Some s' \<and> dec_reason d = Some r \<and>
           ses_session_id s' = ses_session_id s \<and> ses_mode s' = ses_mode s \<and>
           ses_session_runtime_s s \<le> ses_session_runtime_s s'))"

lemma finalize_watering_closes:
  assumes "ses_session_id s' = ses_session_id s" "ses_mode s' = ses_mode s" "inp_session inp = Some s"
     "ses_session_runtime_s s' = ses_session_runtime_s s" "acts = [] \<or> acts = [ExecuteOff True]"
  shows "holds (finalize_watering inp s' r t acts) (closes_once inp)"
  using assms close_runtime_mono [of s']
  by (auto simp: finalize_watering_def finalize_manual_complete_def construct_defs Let_def closes_once_def
      dest!: post_destination_actions split: prod.split option.split)

lemma recheck_closes:
  assumes "inp_session inp = Some s"
  shows "holds (soaking_recheck inp s) (closes_once inp)"
  using assms
  by (simp add: soaking_recheck_def finalize_soaking_completion_def finalize_soaking_fault_def start_auto_pulse_def construct_defs
      Let_def closes_once_def split: option.split)

lemma closes_watering:
  assumes "inp_state inp = WATERING"
  shows "holds (decide inp) (closes_once inp)"
  using assms finalize_watering_closes [of _ _ inp]
  by (cases "inp_event inp")
    (auto simp: decide_state_defs integrity_lost_def configuration_invalid_def no_op_def on_confirmed_def
  commit_termination_def commit_if_first_def watering_moisture_def watchdog_fired_def
  pulse_off_to_soaking_def 
  off_not_confirmed_def startup_persisted_watering_def refuse_active_session_def construct_defs Let_def closes_once_def
      split: option.split prod.split MoistureClassification.split)

lemma closes_soaking:
  assumes "inp_state inp = SOAKING"
  shows "holds (decide inp) (closes_once inp)"
  using assms recheck_closes [of inp] close_runtime_mono
  by (cases "inp_event inp")
    (simp_all add: decide_state_defs soaking_moisture_def soaking_deadline_or_evaluate_def
       soaking_grace_def finalize_soaking_fault_def finalize_soaking_cancel_def
       finalize_soaking_external_def soaking_off_not_confirmed_def external_interference_def
       startup_persisted_soaking_def refuse_active_session_def integrity_lost_def
       configuration_invalid_def no_op_def construct_defs Let_def closes_once_def
      split: option.split prod.split MoistureClassification.split)

lemma closes_other:
  assumes "inp_state inp = DISABLED \<or> inp_state inp = IDLE \<or> inp_state inp = FAULT"
  shows "holds (decide inp) (closes_once inp)"
  using assms close_runtime_mono
  by (cases "inp_event inp"; elim disjE)
    (simp_all add: decide_simps Let_def closes_once_def
      split: option.split prod.split)

text \<open>A session is closed at most once and never silently: a decision emits the finished event exactly
  when it clears the session, once and after the closure was persisted, and then it names a reason and a final
  record of the same session whose runtime has not decreased.\<close>

theorem session_closed_once:
  assumes "decide inp = Inr d"
  shows "length (filter (\<lambda>a. a = EmitSessionFinished) (dec_actions d)) = (if dec_clear_session d then 1 else 0) \<and>
     guarded_by (\<lambda>a. a \<in> {PersistState ''session_finalized'', PersistState ''delayed_accounting_closed''})
       (\<lambda>a. a = EmitSessionFinished) (dec_actions d) \<and>
     (dec_clear_session d \<longrightarrow>
        (\<exists>s s' r. inp_session inp = Some s \<and> dec_final_session d = Some s' \<and> dec_reason d = Some r \<and>
           ses_session_id s' = ses_session_id s \<and> ses_mode s' = ses_mode s \<and>
           ses_session_runtime_s s \<le> ses_session_runtime_s s'))"
proof -
  have "holds (decide inp) (closes_once inp)"
    by (cases "inp_state inp") (auto intro: closes_watering closes_soaking closes_other)
  from holdsD [OF this assms] show ?thesis by (simp add: closes_once_def)
qed

theorem session_closed_once_witness:
  "\<exists>d. decide (sample_input SOAKING (Some (sample_session AUTO)) 100 StopRequested) = Inr d \<and>
     length (filter (\<lambda>a. a = EmitSessionFinished) (dec_actions d)) = 1"
proof -
  have "\<exists>d. decide (sample_input SOAKING (Some (sample_session AUTO)) 100 StopRequested) = Inr d \<and>
      dec_clear_session d"
    by (simp add: sample_run)
  with session_closed_once [of "sample_input SOAKING (Some (sample_session AUTO)) 100 StopRequested"]
  show ?thesis by fastforce
qed

section \<open>The machine never raises on well-formed input\<close>

definition session_wf :: "TransitionInput \<Rightarrow> SessionContext \<Rightarrow> bool" where
  "session_wf inp s \<longleftrightarrow>
     (case inp_state inp of
        WATERING \<Rightarrow>
          (ses_mode s = AUTO \<longrightarrow> ses_sensor_fresh_until_utc s \<noteq> None) \<and>
          (ses_mode s \<noteq> AUTO \<longrightarrow>
             (case ses_manual_effective_duration_s s of Some (Fin _) \<Rightarrow> True | _ \<Rightarrow> False)) \<and>
          (ses_pending_termination_reason s = Some SENSOR_FAULT \<longrightarrow>
             (case inp_active_fault inp of Some f \<Rightarrow> is_sensor_only f | None \<Rightarrow> False)) \<and>
          (case ses_pending_termination_reason s of
             Some r \<Rightarrow> r \<notin> {TARGET_REACHED, MAX_CYCLES, MAX_SESSION_RUNTIME, DAILY_RUNTIME_LIMIT}
           | None \<Rightarrow> True)
      | SOAKING \<Rightarrow>
          ses_soak_ends_at_utc s \<noteq> None \<and> ses_recheck_grace_deadline_at_utc s \<noteq> None
      | _ \<Rightarrow> ses_pending_termination_reason s \<noteq> None)"

definition event_wf :: "TransitionInput \<Rightarrow> bool" where
  "event_wf inp \<longleftrightarrow>
     (case inp_event inp of
        MoistureReport o1 \<Rightarrow> observation_validate o1 = Inr ()
      | StartupPersistedSoaking trusted run_id _ \<Rightarrow> trusted \<longrightarrow> run_id \<noteq> None
      | _ \<Rightarrow> True)"

definition input_wf :: "TransitionInput \<Rightarrow> bool" where
  "input_wf inp \<longleftrightarrow>
     observation_validate (inp_observation inp) = Inr () \<and> event_wf inp \<and>
     inp_new_session_identity inp \<noteq> None \<and>
     (case inp_session inp of
        Some s \<Rightarrow> session_wf inp s
      | None \<Rightarrow> inp_state inp \<notin> {WATERING, SOAKING})"

lemma observation_valid_fields:
  assumes "observation_validate o1 = Inr ()" "obs_classification o1 \<in> {VALID, STALE}"
  obtains v r where "obs_value o1 = Some (Fin v)" "obs_reported_at_utc o1 = Some r"
  using assms by (auto simp: observation_validate_def fl_isfinite_iff split: option.splits if_splits)

lemma is_ok_mk_decision: "is_ok (mk_decision d) \<longleftrightarrow>
   \<not> (dec_no_op d \<and> (dec_new_state d \<noteq> None \<or> dec_actions d \<noteq> [])) \<and>
   \<not> (dec_session d \<noteq> None \<and> dec_clear_session d) \<and>
   \<not> (dec_final_session d \<noteq> None \<and> \<not> dec_clear_session d)"
  by (auto simp: mk_decision_def)

lemma finalize_row_ok:
  assumes "r \<notin> {TARGET_REACHED, MAX_CYCLES, MAX_SESSION_RUNTIME, DAILY_RUNTIME_LIMIT, MANUAL_COMPLETE}"
    and "r = SENSOR_FAULT \<Longrightarrow> \<exists>f. inp_active_fault inp = Some f \<and> is_sensor_only f"
  shows "\<exists>row. finalize_row inp r = Inr row"
  using assms by (cases r) (auto simp: finalize_row_def is_sensor_only_def)

lemma finalize_watering_ok:
  assumes "r \<notin> {TARGET_REACHED, MAX_CYCLES, MAX_SESSION_RUNTIME, DAILY_RUNTIME_LIMIT}"
    and "r = SENSOR_FAULT \<Longrightarrow> \<exists>f. inp_active_fault inp = Some f \<and> is_sensor_only f"
  shows "is_ok (finalize_watering inp s r t acts)"
proof (cases "r = MANUAL_COMPLETE")
  case True
  then show ?thesis
    by (auto simp: finalize_watering_def finalize_manual_complete_def is_ok_mk_decision decision_defaults_def Let_def
        split: option.split prod.split)
next
  case False
  with assms finalize_row_ok [of r inp] obtain row where "finalize_row inp r = Inr row" by auto
  with False show ?thesis
    by (simp add: finalize_watering_def is_ok_mk_decision decision_defaults_def Let_def split: prod.split)
qed

lemma total_watering:
  assumes "inp_state inp = WATERING" "input_wf inp"
  shows "is_ok (decide inp)"
proof -
  from assms obtain s where s: "inp_session inp = Some s" "session_wf inp s"
    by (auto simp: input_wf_def split: option.splits)
  have pend: "\<And>r t acts. ses_pending_termination_reason s = Some r \<Longrightarrow> is_ok (finalize_watering inp s r t acts)"
    using s(2) assms(1) by (intro finalize_watering_ok) (auto simp: session_wf_def split: option.splits)
  show ?thesis
  proof (cases "inp_event inp")
    case (MoistureReport o1)
    then show ?thesis using s assms
      by (cases "obs_classification o1")
        (auto simp: decide_state_defs watering_moisture_def commit_termination_def no_op_def construct_defs Let_def 
          input_wf_def event_wf_def elim!: observation_valid_fields split: option.splits)
  next
    case (StartupPersistedWatering f)
    then show ?thesis using s assms
      by (auto simp: decide_state_defs startup_persisted_watering_def construct_defs intro: finalize_watering_ok)
  next
    case (ExternalActuatorOff t)
    then show ?thesis using s assms pend
      by (auto simp: decide_state_defs intro: finalize_watering_ok split: option.split)
  next
    case (OffConfirmed t)
    then show ?thesis using s assms pend
      by (auto simp: decide_state_defs pulse_off_to_soaking_def construct_defs Let_def intro: finalize_watering_ok split: option.split)
  next
    case (OnConfirmed t)
    then show ?thesis using s assms
      by (auto simp: decide_state_defs on_confirmed_def construct_defs session_wf_def split: option.splits pyfloat.splits)
  qed (use s assms in \<open>auto simp: decide_state_defs integrity_lost_def configuration_invalid_def no_op_def
        commit_termination_def commit_if_first_def watchdog_fired_def session_wf_def
        off_not_confirmed_def  refuse_active_session_def construct_defs Let_def 
        split: option.splits\<close>)
qed

lemma recheck_ok:
  assumes "observation_validate (inp_observation inp) = Inr ()" "fresh_valid inp"
  shows "is_ok (soaking_recheck inp s)"
proof -
  from assms obtain v r where "obs_value (inp_observation inp) = Some (Fin v)"
    "obs_reported_at_utc (inp_observation inp) = Some r"
    by (auto simp: fresh_valid_def elim: observation_valid_fields)
  then show ?thesis
    by (simp add: soaking_recheck_def finalize_soaking_completion_def finalize_soaking_fault_def
       start_auto_pulse_def construct_defs Let_def)
qed

lemma fresh_valid_reported: "fresh_valid inp \<Longrightarrow> \<exists>r. obs_reported_at_utc (inp_observation inp) = Some r"
  by (auto simp: fresh_valid_def is_fresh_def split: option.splits)

lemma post_qualifies_ok:
  "post_qualifies inp = Inr False \<or> post_qualifies inp = Inr True \<and> fresh_valid inp"
  using fresh_valid_reported [of inp] by (auto simp: post_qualifies_def split: option.split)

lemma total_soaking:
  assumes "inp_state inp = SOAKING" "input_wf inp"
  shows "is_ok (decide inp)"
proof -
  from assms obtain s where s: "inp_session inp = Some s" "session_wf inp s"
    by (auto simp: input_wf_def split: option.splits)
  have obs: "observation_validate (inp_observation inp) = Inr ()" using assms by (simp add: input_wf_def)
  from s assms(1) obtain e g where "ses_soak_ends_at_utc s = Some e" "ses_recheck_grace_deadline_at_utc s = Some g"
    by (auto simp: session_wf_def)
  note t = this s(1) assms(1)
  have ok: "\<And>s. fresh_valid inp \<Longrightarrow> is_ok (soaking_recheck inp s)" using recheck_ok [OF obs] .
  have ev: "event_wf inp" using assms(2) by (simp add: input_wf_def)
  show ?thesis
    using post_qualifies_ok [of inp] ok ev
    by (elim disjE; cases "inp_event inp")
     (auto simp: t decide_state_defs soaking_moisture_def soaking_deadline_or_evaluate_def
       soaking_grace_def finalize_soaking_fault_def finalize_soaking_cancel_def event_wf_def
       finalize_soaking_external_def soaking_off_not_confirmed_def external_interference_def
       startup_persisted_soaking_def refuse_active_session_def integrity_lost_def
       configuration_invalid_def no_op_def construct_defs Let_def split: option.split)
qed

lemma evaluate_auto_start_ok:
  assumes "input_wf inp"
  shows "is_ok (evaluate_auto_start inp)"
proof -
  from assms obtain i where i: "inp_new_session_identity inp = Some i" by (auto simp: input_wf_def)
  show ?thesis
  proof (cases "fresh_valid inp")
    case True
    with assms obtain v r where "obs_value (inp_observation inp) = Some (Fin v)"
       "obs_reported_at_utc (inp_observation inp) = Some r"
       by (auto simp: fresh_valid_def input_wf_def elim: observation_valid_fields)
    then show ?thesis
     by (simp add: i evaluate_auto_start_def auto_guard_failures_def start_auto_pulse_def construct_defs
       mk_session_def session_defaults_def Let_def)
  qed (simp add: evaluate_auto_start_def auto_guard_failures_def construct_defs check_def)
qed

lemma manual_start_ok:
  assumes "input_wf inp"
  shows "is_ok (manual_start inp q row)"
  using assms by (auto simp: input_wf_def manual_start_def manual_guards_iff construct_defs mk_session_def
     session_defaults_def Let_def split: option.split prod.split)

lemma total_other:
  assumes "inp_state inp = DISABLED \<or> inp_state inp = IDLE \<or> inp_state inp = FAULT" "input_wf inp"
  shows "is_ok (decide inp)"
proof -
  have "\<And>s. inp_session inp = Some s \<Longrightarrow> ses_pending_termination_reason s \<noteq> None"
    using assms by (auto simp: input_wf_def session_wf_def)
  then have c: "inp_session inp \<noteq> None \<Longrightarrow> is_ok (close_open_accounting inp t)" for t
    by (auto simp: close_open_accounting_def construct_defs split: option.split)
  show ?thesis
  using assms(1) c evaluate_auto_start_ok [OF assms(2)] manual_start_ok [OF assms(2)]
  by (cases "inp_event inp"; elim disjE)
    (simp_all add: decide_state_defs no_op_def integrity_lost_def configuration_invalid_def
       fault_auto_clear_check_def clear_fault_request_def refuse_clear_def construct_defs Let_def
      split: option.split)
qed




section \<open>Accounting, OFF proof and faults\<close>

text \<open>Restart accounting: a pulse found possibly running after a restart is never resumed; it is commanded
  OFF under a blocker, and when OFF is proven the session is charged from the persisted intent of the pulse to that
  instant and marked as estimated.\<close>

theorem restart_charges_from_intent:
  assumes "inp_state inp = WATERING" and "inp_session inp = Some s"
    and "inp_event inp = StartupPersistedWatering finding" and "finding \<noteq> FOUND_OFF"
    and "ses_pulse_intent_at_utc s = Some intent" and "intent \<le> off_at"
  shows "\<exists>d s1 d2 s2. decide inp = Inr d \<and> dec_session d = Some s1 \<and> \<not> dec_clear_session d \<and>
     AddBlocker INTEGRATION_OFF_UNCONFIRMED \<in> set (dec_actions d) \<and> ExecuteOff True \<in> set (dec_actions d) \<and>
     decide (inp\<lparr>inp_session := Some s1, inp_event := OffConfirmed off_at\<rparr>) = Inr d2 \<and>
     dec_reason d2 = Some RESTART_RECOVERY \<and> dec_final_session d2 = Some s2 \<and>
     ses_runtime_estimated s2 \<and>
     ses_session_runtime_s s2 = ses_session_runtime_s s + of_int (off_at - intent) / 1000000"
  using assms
  by (auto simp: decide_state_defs startup_persisted_watering_def finalize_watering_def finalize_row_def
     construct_defs Let_def close_runtime_def total_seconds_def split: prod.split)

theorem restart_charges_from_intent_witness:
  "\<exists>d. decide (sample_input WATERING (Some (sample_session AUTO)) 100 (StartupPersistedWatering FOUND_ON)) = Inr d \<and>
     ExecuteOff True \<in> set (dec_actions d)"
  using restart_charges_from_intent
    [of "sample_input WATERING (Some (sample_session AUTO)) 100 (StartupPersistedWatering FOUND_ON)"
        "sample_session AUTO" FOUND_ON 0 5000000]
  by (auto simp: sample_defs)

text \<open>The end of an automatic pulse: on the OFF proof the zone enters SOAKING with the soak end, the
  earliest qualifying report and the grace deadline derived from the OFF instant, the runtime charged from ON command to
  OFF proof, the soak timer armed and the slot released.\<close>

theorem pulse_end_soak_timing:
  assumes "inp_state inp = WATERING" and "inp_session inp = Some s" and "ses_mode s = AUTO"
    and "ses_pending_termination_reason s = None" and "inp_event inp = OffConfirmed off_at"
    and "ses_pulse_commanded_at_utc s = Some on_at" and "on_at \<le> off_at"
  shows "\<exists>d s'. decide inp = Inr d \<and> dec_new_state d = Some SOAKING \<and> dec_session d = Some s' \<and>
    ses_off_confirmed_at_utc s' = Some off_at \<and>
    ses_soak_ends_at_utc s' = Some (off_at + cfg_soak_duration_s (inp_config inp) * 1000000) \<and>
    ses_recheck_not_before_utc s' = ses_soak_ends_at_utc s' \<and>
    ses_recheck_grace_deadline_at_utc s' =
      Some (off_at + (cfg_soak_duration_s (inp_config inp) + cfg_sensor_max_age_s (inp_config inp)) * 1000000) \<and>
    ses_session_runtime_s s' = ses_session_runtime_s s + of_int (off_at - on_at) / 1000000 \<and>
    ReleaseSlot \<in> set (dec_actions d) \<and>
    (\<forall>e. ses_soak_ends_at_utc s' = Some e \<longrightarrow> ArmTimer SOAK_END e \<in> set (dec_actions d))"
  using assms
  by (auto simp: decide_state_defs pulse_off_to_soaking_def construct_defs Let_def close_runtime_def
     total_seconds_def timedelta_s_def algebra_simps)

theorem pulse_end_soak_timing_witness:
  "\<exists>d s'. decide (sample_input WATERING (Some (sample_session AUTO)) 300000000 (OffConfirmed 300000000)) = Inr d \<and>
     dec_session d = Some s' \<and> ses_session_runtime_s s' = 300"
  using pulse_end_soak_timing
    [of "sample_input WATERING (Some (sample_session AUTO)) 300000000 (OffConfirmed 300000000)"
        "sample_session AUTO" 300000000 0]
  by (auto simp: sample_defs)

text \<open>When OFF cannot be proven the zone enters FAULT with ACTUATOR_OFF_TIMEOUT, the session stays open
  with estimated runtime, nothing is reported finished, and no slot or blocker is released.\<close>

theorem off_unconfirmed_keeps_open:
  assumes "inp_state inp = WATERING \<or> inp_state inp = SOAKING \<and> ses_pending_termination_reason s \<noteq> None"
    and "inp_session inp = Some s" and "inp_event inp = OffNotConfirmed"
  shows "\<exists>d s'. decide inp = Inr d \<and> dec_new_state d = Some FAULT \<and>
     dec_fault d = Some ACTUATOR_OFF_TIMEOUT \<and> \<not> dec_clear_session d \<and> dec_session d = Some s' \<and>
     ses_pending_termination_reason s' \<noteq> None \<and> ses_runtime_estimated s' \<and>
     ses_session_runtime_s s' = ses_session_runtime_s s \<and>
     EmitSessionFinished \<notin> set (dec_actions d) \<and> ReleaseSlot \<notin> set (dec_actions d) \<and>
     (\<forall>b. RemoveBlocker b \<notin> set (dec_actions d)) \<and>
     (inp_state inp = WATERING \<longrightarrow> AddBlocker INTEGRATION_OFF_UNCONFIRMED \<in> set (dec_actions d))"
  using assms
  by (auto simp: decide_state_defs off_not_confirmed_def soaking_off_not_confirmed_def construct_defs Let_def)

theorem off_unconfirmed_keeps_open_witness:
  "\<exists>d. decide (sample_input WATERING (Some (sample_session AUTO)) 100 OffNotConfirmed) = Inr d \<and>
     dec_fault d = Some ACTUATOR_OFF_TIMEOUT"
  using off_unconfirmed_keeps_open
    [of "sample_input WATERING (Some (sample_session AUTO)) 100 OffNotConfirmed" "sample_session AUTO"]
  by (auto simp: sample_defs)

lemma clear_fault_in_fault:
  assumes "inp_state inp = FAULT"
  shows "holds (decide inp) (\<lambda>d. dec_clear_fault d \<longrightarrow>
     (\<exists>f. inp_active_fault inp = Some f \<and> \<not> requires_reconfigure f \<and>
       (is_sensor_only f \<longrightarrow> fresh_valid inp) \<and> (\<not> is_sensor_only f \<longrightarrow> actuator_ready inp) \<and>
       (inp_event inp \<noteq> ClearFaultRequested \<longrightarrow> auto_clears f \<and> inp_session inp = None)))"
  using assms
  by (cases "inp_event inp")
    (simp_all add: decide_simps Let_def fault_resolved_def split: option.split prod.split, 
     (fastforce simp: requires_reconfigure_def auto_clears_def)+)

text \<open>In FAULT a fault is cleared only when its condition is resolved: a sensor fault by a fresh valid
  reading, an actuator fault by an available actuator proven OFF; an invalid configuration is never cleared here, and the
  two unsafe-state faults only by an explicit acknowledgement.\<close>

theorem fault_cleared_only_when_resolved:
  assumes "inp_state inp = FAULT" and "decide inp = Inr d" and "dec_clear_fault d"
  shows "\<exists>f. inp_active_fault inp = Some f \<and> f \<noteq> CONFIGURATION_INVALID \<and>
     (f \<in> {SENSOR_UNAVAILABLE, SENSOR_STALE, SENSOR_INVALID} \<longrightarrow> fresh_valid inp) \<and>
     (f \<notin> {SENSOR_UNAVAILABLE, SENSOR_STALE, SENSOR_INVALID} \<longrightarrow>
        act_available (inp_actuator inp) \<and> act_proven_off (inp_actuator inp)) \<and>
     (f \<in> {ACTUATOR_OFF_TIMEOUT, RESTORED_FROM_UNSAFE_STATE} \<longrightarrow> inp_event inp = ClearFaultRequested)"
  using holdsD [OF clear_fault_in_fault [OF assms(1)] assms(2)] assms(3)
  by (auto simp: fault_simps actuator_ready_def)

theorem fault_cleared_only_when_resolved_witness:
  "\<exists>d. decide ((sample_input FAULT None 0 ClearFaultRequested)\<lparr>inp_active_fault := Some ACTUATOR_OFF_TIMEOUT\<rparr>)
      = Inr d \<and> dec_clear_fault d \<and>
      act_proven_off (inp_actuator (sample_input FAULT None 0 ClearFaultRequested))"
proof -
  let ?i = "(sample_input FAULT None 0 ClearFaultRequested)\<lparr>inp_active_fault := Some ACTUATOR_OFF_TIMEOUT\<rparr>"
  have "\<exists>d. decide ?i = Inr d \<and> dec_clear_fault d"
    by (simp add: sample_run fault_simps fault_resolved_def)
  then obtain d where d: "decide ?i = Inr d" "dec_clear_fault d" by blast
  have "inp_state ?i = FAULT" by (simp add: sample_input_def)
  from fault_cleared_only_when_resolved [OF this d] d show ?thesis
    by (auto simp: sample_input_def)
qed

section \<open>An acknowledged fault with an open session\<close>

text \<open>Auto-clear waits until no session exists; the acknowledgement does not look at the session.  Once the
  actuator reads OFF, an acknowledgement that comes before the OFF event is processed moves the zone to IDLE with the
  session still open, and in IDLE the OFF event no longer closes it.\<close>

lemma acknowledgement_leaves_session_open:
  assumes "inp_state inp = FAULT" and "inp_session inp = Some s" and "inp_active_fault inp = Some ACTUATOR_OFF_TIMEOUT"
    and "actuator_ready inp" and "inp_event inp = ClearFaultRequested"
  shows "\<exists>d. decide inp = Inr d \<and> dec_new_state d = Some IDLE \<and> \<not> dec_clear_session d"
    and "\<And>now. \<exists>d. decide (inp\<lparr>inp_state := IDLE, inp_active_fault := None, inp_event := ExternalActuatorOff now\<rparr>) = Inr d \<and>
      \<not> dec_clear_session d"
  using assms
  by (auto simp: decide_simps Let_def actuator_ready_def fault_resolved_def requires_reconfigure_def
      is_sensor_only_def)

end
