(* ===== verification/Transition_System.thy ===== *)
theory Transition_System
  imports Prelude
begin

text \<open>
  The interface of a component that is driven by steps: a step relation, its initial states and
  an invariant.  \<open>guarded_system\<close> adds a resource that a step may acquire and the condition
  under which the component promises to hand it out; its lemmas speak about whole runs and are
  proved once here.
\<close>

inductive reach :: "('s \<Rightarrow> bool) \<Rightarrow> ('s \<Rightarrow> 's \<Rightarrow> bool) \<Rightarrow> 's \<Rightarrow> bool"
  for init :: "'s \<Rightarrow> bool" and step :: "'s \<Rightarrow> 's \<Rightarrow> bool" where
  start: "init s \<Longrightarrow> reach init step s"
| more: "reach init step s \<Longrightarrow> step s s' \<Longrightarrow> reach init step s'"

text \<open>A run from a state: the states after each step, in order.\<close>

fun run :: "('s \<Rightarrow> 's \<Rightarrow> bool) \<Rightarrow> 's \<Rightarrow> 's list \<Rightarrow> bool" where
  "run step s [] = True"
| "run step s (t # ts) = (step s t \<and> run step t ts)"

locale inv_system =
  fixes init :: "'s \<Rightarrow> bool" and step :: "'s \<Rightarrow> 's \<Rightarrow> bool" and inv :: "'s \<Rightarrow> bool"
  assumes inv_init: "init s \<Longrightarrow> inv s"
    and inv_step: "inv s \<Longrightarrow> step s s' \<Longrightarrow> inv s'"
begin

lemma reach_inv: "reach init step s \<Longrightarrow> inv s"
  by (induction rule: reach.induct) (auto intro: inv_init inv_step)

lemma run_inv: "inv s \<Longrightarrow> run step s ts \<Longrightarrow> t \<in> set ts \<Longrightarrow> inv t"
  by (induction ts arbitrary: s) (auto intro: inv_step)

end

locale guarded_system = inv_system init step inv
  for init :: "'s \<Rightarrow> bool" and step and inv +
  fixes holder :: "'s \<Rightarrow> 'h option" and permits :: "'s \<Rightarrow> bool"
  assumes acquire_permitted:
    "inv s \<Longrightarrow> step s s' \<Longrightarrow> holder s' = Some h \<Longrightarrow> holder s \<noteq> Some h \<Longrightarrow> permits s'"
begin

text \<open>While the component never permits it, nobody becomes a new holder.\<close>

lemma no_acquire_while_closed:
  assumes "inv s" and "run step s ts" and "\<forall>t\<in>set ts. \<not> permits t"
    and "t \<in> set ts"
    and "holder t = Some h"
  shows "holder s = Some h"
  using assms
proof (induction ts arbitrary: s)
  case (Cons u us)
  then have u: "step s u" "run step u us" "\<not> permits u" by auto
  have prev: "holder u = Some h \<Longrightarrow> holder s = Some h"
    using acquire_permitted [OF Cons.prems(1) u(1)] u(3) by blast
  show ?case
  proof (cases "t = u")
    case False
    with Cons.prems have "holder u = Some h"
      using Cons.IH [OF inv_step [OF Cons.prems(1) u(1)] u(2)] by auto
    with prev show ?thesis .
  qed (use prev Cons.prems(5) in simp)
qed simp

end

end
