(* ===== verification/Slot_Manager.thy ===== *)
theory Slot_Manager
  imports Vocabulary Transition_System "HOL-Library.Sublist"
begin

text \<open>
  \<open>slot_manager.py\<close>: the integration-wide watering slot with its FIFO queue, the keyed
  blocker set and the reconciliation barrier.

  A \<open>SlotRequest\<close> is an object whose future the holder of the handle observes, so a request
  is an identity and a zone, and the futures are a store indexed by that identity.  The one
  \<open>asyncio.Lock\<close> is held across the single \<open>await\<close> of the module, the blocker write; the
  two synchronous methods do not take it and may run in between.  An operation that awaits is
  therefore split at the await: \<open>..._begin\<close> up to it, \<open>..._persisted\<close> after it.  The
  whole operations (\<open>add_blocker\<close>, \<open>remove_blocker\<close>) compose the halves with the
  persistence callback as an argument.  The blocker listener is a counter of notifications.
\<close>

section \<open>State\<close>

type_synonym BlockerKey = "string \<times> BlockerReason"

datatype FutureState = PENDING | RESULT_SET | CANCELLED

record SlotRequest =
  rq_ref :: nat
  rq_zone_id :: string

record ReconciliationBarrier =
  bar_dirty :: bool
  bar_reconciling :: bool
  bar_failed :: bool

definition barrier_clear :: "ReconciliationBarrier \<Rightarrow> bool" where
  "barrier_clear b \<longleftrightarrow> \<not> (bar_dirty b \<or> bar_reconciling b \<or> bar_failed b)"

record SlotManager =
  sl_owner :: "string option"
  sl_queue :: "SlotRequest list"
  sl_blockers :: "BlockerKey set"
  sl_unpersisted :: "BlockerKey set"
  sl_grants_enabled :: bool
  sl_reconciliation :: ReconciliationBarrier
  sl_persistent :: bool
  sl_futures :: "nat \<Rightarrow> FutureState"
  sl_next_ref :: nat
  sl_notified :: nat

definition slot_init :: "bool \<Rightarrow> SlotManager" where
  "slot_init persistent =
     \<lparr>sl_owner = None, sl_queue = [], sl_blockers = {}, sl_unpersisted = {},
      sl_grants_enabled = False,
      sl_reconciliation = \<lparr>bar_dirty = False, bar_reconciling = False, bar_failed = False\<rparr>,
      sl_persistent = persistent, sl_futures = (\<lambda>_. PENDING), sl_next_ref = 0,
      sl_notified = 0\<rparr>"

definition request_pending :: "SlotManager \<Rightarrow> SlotRequest \<Rightarrow> bool" where
  "request_pending m r \<longleftrightarrow> sl_futures m (rq_ref r) = PENDING"

definition blockers_empty :: "SlotManager \<Rightarrow> bool" where
  "blockers_empty m \<longleftrightarrow> sl_blockers m = {}"

definition admission_open :: "SlotManager \<Rightarrow> bool" where
  "admission_open m \<longleftrightarrow> sl_grants_enabled m \<and> barrier_clear (sl_reconciliation m)"

section \<open>The grant decision\<close>

text \<open>The loop of \<open>_try_grant_locked\<close>: cancelled requests are dropped, the first other
  one becomes the owner and its future is resolved.\<close>

fun grant_loop :: "SlotRequest list \<Rightarrow> SlotManager \<Rightarrow> SlotManager" where
  "grant_loop [] m = m\<lparr>sl_queue := []\<rparr>"
| "grant_loop (r # rs) m =
     (if sl_futures m (rq_ref r) = CANCELLED then grant_loop rs m
      else m\<lparr>sl_queue := rs, sl_owner := Some (rq_zone_id r),
             sl_futures := (sl_futures m)(rq_ref r := RESULT_SET)\<rparr>)"

definition try_grant_locked :: "SlotManager \<Rightarrow> SlotManager" where
  "try_grant_locked m =
     (if \<not> sl_grants_enabled m then m
      else if \<not> barrier_clear (sl_reconciliation m) then m
      else if sl_owner m \<noteq> None then m
      else if sl_blockers m \<noteq> {} then m
      else grant_loop (sl_queue m) m)"

section \<open>Blockers\<close>

definition notify_blocker_listener :: "SlotManager \<Rightarrow> SlotManager" where
  "notify_blocker_listener m = m\<lparr>sl_notified := sl_notified m + 1\<rparr>"

text \<open>The first half of an operation that may await: it has returned, or it is suspended in
  the write.\<close>

datatype 'a suspension = Returned 'a | Awaiting 'a

definition add_blocker_begin :: "SlotManager \<Rightarrow> BlockerKey \<Rightarrow> SlotManager suspension result" where
  "add_blocker_begin m key =
     (if fst key = [] then Inl (ValueError ''safety_record_id must be non-empty'')
      else if key \<in> sl_blockers m \<and> key \<notin> sl_unpersisted m then Inr (Returned m)
      else if sl_persistent m
      then Inr (Awaiting (m\<lparr>sl_blockers := insert key (sl_blockers m),
                            sl_unpersisted := insert key (sl_unpersisted m)\<rparr>))
      else Inr (Returned (notify_blocker_listener
                  (m\<lparr>sl_blockers := insert key (sl_blockers m)\<rparr>))))"

definition add_blocker_persisted :: "SlotManager \<Rightarrow> BlockerKey \<Rightarrow> SlotManager" where
  "add_blocker_persisted m key =
     notify_blocker_listener (m\<lparr>sl_unpersisted := sl_unpersisted m - {key}\<rparr>)"

definition remove_blocker_persisted :: "SlotManager \<Rightarrow> BlockerKey \<Rightarrow> SlotManager result" where
  "remove_blocker_persisted m key =
     (if key \<notin> sl_blockers m then Inl KeyError
      else Inr (notify_blocker_listener (try_grant_locked
             (m\<lparr>sl_blockers := sl_blockers m - {key},
                sl_unpersisted := sl_unpersisted m - {key}\<rparr>))))"

definition remove_blocker_begin :: "SlotManager \<Rightarrow> BlockerKey \<Rightarrow> SlotManager suspension result" where
  "remove_blocker_begin m key =
     (if key \<notin> sl_blockers m then Inr (Returned m)
      else if sl_persistent m then Inr (Awaiting m)
      else res_bind (remove_blocker_persisted m key) (\<lambda>m'. Inr (Returned m')))"

text \<open>The whole operations, with nothing running during the write: the new state and the
  exception that is propagated, if any.\<close>

type_synonym blocker_write = "BlockerKey \<Rightarrow> bool \<Rightarrow> py_error option"

definition add_blocker ::
  "blocker_write \<Rightarrow> SlotManager \<Rightarrow> BlockerKey \<Rightarrow> SlotManager \<times> py_error option" where
  "add_blocker persist m key =
     (case add_blocker_begin m key of
        Inl e \<Rightarrow> (m, Some e)
      | Inr (Returned m') \<Rightarrow> (m', None)
      | Inr (Awaiting m') \<Rightarrow>
          (case persist key True of
             Some e \<Rightarrow> (m', Some e)
           | None \<Rightarrow> (add_blocker_persisted m' key, None)))"

definition remove_blocker ::
  "blocker_write \<Rightarrow> SlotManager \<Rightarrow> BlockerKey \<Rightarrow> SlotManager \<times> py_error option" where
  "remove_blocker persist m key =
     (case remove_blocker_begin m key of
        Inl e \<Rightarrow> (m, Some e)
      | Inr (Returned m') \<Rightarrow> (m', None)
      | Inr (Awaiting m') \<Rightarrow>
          (case persist key False of
             Some e \<Rightarrow> (m', Some e)
           | None \<Rightarrow> (case remove_blocker_persisted m' key of
                        Inl e \<Rightarrow> (m', Some e) | Inr m'' \<Rightarrow> (m'', None))))"

section \<open>Lifecycle\<close>

definition enable_grants :: "SlotManager \<Rightarrow> SlotManager" where
  "enable_grants m = try_grant_locked (m\<lparr>sl_grants_enabled := True\<rparr>)"

definition disable_grants :: "SlotManager \<Rightarrow> SlotManager" where
  "disable_grants m = m\<lparr>sl_grants_enabled := False\<rparr>"

definition cancel_future :: "nat \<Rightarrow> SlotManager \<Rightarrow> SlotManager" where
  "cancel_future i m =
     (if sl_futures m i = PENDING then m\<lparr>sl_futures := (sl_futures m)(i := CANCELLED)\<rparr> else m)"

definition close_admission_now :: "SlotManager \<Rightarrow> SlotManager" where
  "close_admission_now m =
     fold (\<lambda>r. cancel_future (rq_ref r)) (sl_queue m) (m\<lparr>sl_grants_enabled := False, sl_queue := []\<rparr>)"

text \<open>\<open>async_set_reconciliation_barrier\<close> and its synchronous twin; \<open>None\<close> keeps a flag.\<close>

definition set_reconciliation_state ::
  "bool option \<Rightarrow> bool option \<Rightarrow> bool option \<Rightarrow> SlotManager \<Rightarrow> SlotManager" where
  "set_reconciliation_state dirty reconciling failed m =
     (let current = sl_reconciliation m;
          keep = (\<lambda>new old. case new of None \<Rightarrow> old | Some b \<Rightarrow> b)
      in try_grant_locked (m\<lparr>sl_reconciliation :=
           \<lparr>bar_dirty = keep dirty (bar_dirty current),
            bar_reconciling = keep reconciling (bar_reconciling current),
            bar_failed = keep failed (bar_failed current)\<rparr>\<rparr>))"

section \<open>FIFO ownership\<close>

text \<open>\<open>SlotRequest(zone_id)\<close>: a new object with a pending future.\<close>

definition new_request :: "string \<Rightarrow> SlotManager \<Rightarrow> SlotRequest \<times> SlotManager" where
  "new_request zone_id m =
     (\<lparr>rq_ref = sl_next_ref m, rq_zone_id = zone_id\<rparr>,
      m\<lparr>sl_next_ref := sl_next_ref m + 1,
        sl_futures := (sl_futures m)(sl_next_ref m := PENDING)\<rparr>)"

definition slot_request :: "string \<Rightarrow> SlotManager \<Rightarrow> SlotRequest \<times> SlotManager" where
  "slot_request zone_id m =
     (if sl_owner m = Some zone_id
      then (case new_request zone_id m of (r, m') \<Rightarrow>
              (r, m'\<lparr>sl_futures := (sl_futures m')(rq_ref r := RESULT_SET)\<rparr>))
      else (case find (\<lambda>q. rq_zone_id q = zone_id) (sl_queue m) of
              Some queued \<Rightarrow> (queued, m)
            | None \<Rightarrow>
                (case new_request zone_id m of (r, m') \<Rightarrow>
                   (r, try_grant_locked (m'\<lparr>sl_queue := sl_queue m' @ [r]\<rparr>)))))"

definition cancel_request :: "string \<Rightarrow> SlotManager \<Rightarrow> SlotManager" where
  "cancel_request zone_id m = m\<lparr>sl_queue := filter (\<lambda>r. rq_zone_id r \<noteq> zone_id) (sl_queue m)\<rparr>"

definition slot_release :: "string \<Rightarrow> SlotManager \<Rightarrow> bool \<times> SlotManager" where
  "slot_release zone_id m =
     (if sl_owner m \<noteq> Some zone_id then (False, m)
      else (True, try_grant_locked (m\<lparr>sl_owner := None\<rparr>)))"

definition requeue_tail :: "string \<Rightarrow> SlotManager \<Rightarrow> SlotRequest option \<times> SlotManager" where
  "requeue_tail zone_id m =
     (if sl_owner m \<noteq> Some zone_id then (None, m)
      else (case new_request zone_id (m\<lparr>sl_owner := None\<rparr>) of (r, m') \<Rightarrow>
              (Some r, try_grant_locked (m'\<lparr>sl_queue := sl_queue m' @ [r]\<rparr>))))"

section \<open>Interleaved execution\<close>

text \<open>The manager together with the operation that is suspended in a blocker write and holds
  the lock.  An operation that takes the lock runs only when it is free; the synchronous
  methods and the cancellation of a future by its awaiting task run at any time.\<close>

datatype lock_holder = Adding BlockerKey | Removing BlockerKey

type_synonym slot_sys = "SlotManager \<times> lock_holder option"

inductive slot_step :: "slot_sys \<Rightarrow> slot_sys \<Rightarrow> bool" where
  add_now: "add_blocker_begin m key = Inr (Returned m') \<Longrightarrow> slot_step (m, None) (m', None)"
| add_wait: "add_blocker_begin m key = Inr (Awaiting m') \<Longrightarrow>
    slot_step (m, None) (m', Some (Adding key))"
| add_done: "slot_step (m, Some (Adding key)) (add_blocker_persisted m key, None)"
| add_failed: "slot_step (m, Some (Adding key)) (m, None)"
| remove_now: "remove_blocker_begin m key = Inr (Returned m') \<Longrightarrow> slot_step (m, None) (m', None)"
| remove_wait: "remove_blocker_begin m key = Inr (Awaiting m') \<Longrightarrow>
    slot_step (m, None) (m', Some (Removing key))"
| remove_done: "remove_blocker_persisted m key = Inr m' \<Longrightarrow>
    slot_step (m, Some (Removing key)) (m', None)"
| remove_failed: "slot_step (m, Some (Removing key)) (m, None)"
| enable: "slot_step (m, None) (enable_grants m, None)"
| disable: "slot_step (m, None) (disable_grants m, None)"
| barrier: "slot_step (m, None) (set_reconciliation_state d r f m, None)"
| request: "slot_step (m, None) (snd (slot_request z m), None)"
| cancel: "slot_step (m, None) (cancel_request z m, None)"
| release: "slot_step (m, None) (snd (slot_release z m), None)"
| requeue: "slot_step (m, None) (snd (requeue_tail z m), None)"
| close_now: "slot_step (m, l) (close_admission_now m, l)"
| barrier_now: "slot_step (m, l) (set_reconciliation_state d r f m, l)"
| client_cancel: "slot_step (m, l) (cancel_future i m, l)"

end
