(* ===== verification/Slot_Safety.thy ===== *)
theory Slot_Safety
  imports Slot_Manager
begin

text \<open>
  What the slot manager guarantees under interleaving: its invariant, the exact shape of a grant,
  and the fail-closed blocker updates.  The manager interprets the interface of a guarded system.
\<close>

section \<open>Invariant\<close>

definition queue_wf :: "SlotManager \<Rightarrow> bool" where
  "queue_wf m \<longleftrightarrow>
     distinct (map rq_zone_id (sl_queue m)) \<and> distinct (map rq_ref (sl_queue m)) \<and>
     (\<forall>r \<in> set (sl_queue m). rq_ref r < sl_next_ref m \<and> sl_futures m (rq_ref r) \<noteq> RESULT_SET \<and>
        sl_owner m \<noteq> Some (rq_zone_id r)) \<and>
     sl_unpersisted m \<subseteq> sl_blockers m"

text \<open>The slot does not idle: with admission open, no owner and no blocker, nobody waits.\<close>

definition not_idle :: "SlotManager \<Rightarrow> bool" where
  "not_idle m \<longleftrightarrow>
     (admission_open m \<and> sl_owner m = None \<and> sl_blockers m = {} \<longrightarrow>
        (\<forall>r \<in> set (sl_queue m). sl_futures m (rq_ref r) = CANCELLED))"

fun lock_wf :: "slot_sys \<Rightarrow> bool" where
  "lock_wf (m, None) = True"
| "lock_wf (m, Some (Adding k)) = (k \<in> sl_blockers m \<and> k \<in> sl_unpersisted m)"
| "lock_wf (m, Some (Removing k)) = (k \<in> sl_blockers m)"

definition slot_inv :: "slot_sys \<Rightarrow> bool" where
  "slot_inv c \<longleftrightarrow> queue_wf (fst c) \<and> not_idle (fst c) \<and> lock_wf c"

lemma grant_loop_result:
  "(\<forall>r \<in> set rs. sl_futures m (rq_ref r) = CANCELLED) \<and> grant_loop rs m = m\<lparr>sl_queue := []\<rparr> \<or>
   (\<exists>pre r post. rs = pre @ r # post \<and>
      (\<forall>q \<in> set pre. sl_futures m (rq_ref q) = CANCELLED) \<and> sl_futures m (rq_ref r) \<noteq> CANCELLED \<and>
      grant_loop rs m = m\<lparr>sl_queue := post, sl_owner := Some (rq_zone_id r),
             sl_futures := (sl_futures m)(rq_ref r := RESULT_SET)\<rparr>)"
proof (induction rs)
  case (Cons x xs)
  show ?case
  proof (cases "sl_futures m (rq_ref x) = CANCELLED")
    case True
    with Cons show ?thesis
      by (elim disjE exE) (simp, rule disjI2, rule_tac x = "x # pre" in exI, simp, blast)
  next
    case False
    then show ?thesis by (intro disjI2 exI [of _ "[]"]) (simp add: fun_upd_def)
  qed
qed simp

lemma try_grant_cases:
  obtains (same) "try_grant_locked m = m"
      "\<not> (admission_open m \<and> sl_owner m = None \<and> sl_blockers m = {})"
  | (none) "\<forall>r \<in> set (sl_queue m). sl_futures m (rq_ref r) = CANCELLED"
      "try_grant_locked m = m\<lparr>sl_queue := []\<rparr>"
  | (grant) pre r post where "admission_open m" "sl_owner m = None" "sl_blockers m = {}"
      "sl_queue m = pre @ r # post" "\<forall>q \<in> set pre. sl_futures m (rq_ref q) = CANCELLED"
      "sl_futures m (rq_ref r) \<noteq> CANCELLED"
      "try_grant_locked m = m\<lparr>sl_queue := post, sl_owner := Some (rq_zone_id r),
             sl_futures := (sl_futures m)(rq_ref r := RESULT_SET)\<rparr>"
proof (cases "admission_open m \<and> sl_owner m = None \<and> sl_blockers m = {}")
  case True
  then have eq: "try_grant_locked m = grant_loop (sl_queue m) m"
    by (simp add: try_grant_locked_def admission_open_def)
  from grant_loop_result [of "sl_queue m" m] True eq none grant show ?thesis by auto
next
  case False
  then have "try_grant_locked m = m" by (auto simp: try_grant_locked_def admission_open_def)
  with False same show ?thesis by blast
qed

lemma try_grant_wf:
  assumes "queue_wf m" shows "queue_wf (try_grant_locked m)"
  using assms
  by (cases rule: try_grant_cases [of m]) (auto simp: queue_wf_def image_iff)

lemma try_grant_not_idle: "not_idle (try_grant_locked m)"
  by (cases rule: try_grant_cases [of m]) (auto simp: not_idle_def admission_open_def)

lemma try_grant_frame [simp]:
  "sl_blockers (try_grant_locked m) = sl_blockers m"
  "sl_unpersisted (try_grant_locked m) = sl_unpersisted m"
  "admission_open (try_grant_locked m) = admission_open m"
  "sl_next_ref (try_grant_locked m) = sl_next_ref m"
  by (cases rule: try_grant_cases [of m]; simp add: admission_open_def)+

lemma cancel_future_frame [simp]:
  "sl_queue (cancel_future i m) = sl_queue m" "sl_owner (cancel_future i m) = sl_owner m"
  "sl_blockers (cancel_future i m) = sl_blockers m"
  "sl_unpersisted (cancel_future i m) = sl_unpersisted m"
  "sl_next_ref (cancel_future i m) = sl_next_ref m"
  "admission_open (cancel_future i m) = admission_open m"
  "sl_futures (cancel_future i m) j = RESULT_SET \<longleftrightarrow> sl_futures m j = RESULT_SET"
  "sl_futures m j = CANCELLED \<Longrightarrow> sl_futures (cancel_future i m) j = CANCELLED"
  by (auto simp: cancel_future_def admission_open_def)

lemma close_admission_frame [simp]:
  "sl_queue (close_admission_now m) = []" "sl_owner (close_admission_now m) = sl_owner m"
  "sl_blockers (close_admission_now m) = sl_blockers m"
  "sl_unpersisted (close_admission_now m) = sl_unpersisted m"
  "\<not> admission_open (close_admission_now m)"
proof -
  have f: "sl_queue (fold (\<lambda>r. cancel_future (rq_ref r)) rs n) = sl_queue n \<and>
      sl_owner (fold (\<lambda>r. cancel_future (rq_ref r)) rs n) = sl_owner n \<and>
      sl_blockers (fold (\<lambda>r. cancel_future (rq_ref r)) rs n) = sl_blockers n \<and>
      sl_unpersisted (fold (\<lambda>r. cancel_future (rq_ref r)) rs n) = sl_unpersisted n \<and>
      admission_open (fold (\<lambda>r. cancel_future (rq_ref r)) rs n) = admission_open n" for rs :: "SlotRequest list" and n
    by (induction rs arbitrary: n) simp_all
  show "sl_queue (close_admission_now m) = []" "sl_owner (close_admission_now m) = sl_owner m"
    "sl_blockers (close_admission_now m) = sl_blockers m"
    "sl_unpersisted (close_admission_now m) = sl_unpersisted m"
    "\<not> admission_open (close_admission_now m)"
    by (simp_all add: close_admission_now_def f) (simp add: admission_open_def)
qed

lemma wf_frame:
  "queue_wf m \<Longrightarrow> queue_wf (m\<lparr>sl_grants_enabled := b\<rparr>)"
  "queue_wf m \<Longrightarrow> queue_wf (m\<lparr>sl_reconciliation := c\<rparr>)"
  "queue_wf m \<Longrightarrow> queue_wf (m\<lparr>sl_owner := None\<rparr>)"
  "queue_wf m \<Longrightarrow> queue_wf (m\<lparr>sl_notified := n\<rparr>)"
  "queue_wf m \<Longrightarrow> queue_wf (cancel_future i m)"
  by (auto simp: queue_wf_def)

lemma wf_append:
  assumes "queue_wf m" "z \<notin> rq_zone_id ` set (sl_queue m)" "sl_owner m \<noteq> Some z"
    "new_request z m = (r, m')"
  shows "queue_wf (m'\<lparr>sl_queue := sl_queue m' @ [r]\<rparr>)"
  using assms by (force simp: queue_wf_def new_request_def less_Suc_eq)

lemma request_wf: "queue_wf m \<Longrightarrow> not_idle m \<Longrightarrow> queue_wf (snd (slot_request z m)) \<and> not_idle (snd (slot_request z m))"
  unfolding slot_request_def
  by (auto simp: try_grant_not_idle find_None_iff split: option.splits prod.splits
     intro!: try_grant_wf wf_append [of m z])
    (auto simp: queue_wf_def not_idle_def new_request_def admission_open_def)

lemma requeue_wf: "queue_wf m \<Longrightarrow> not_idle m \<Longrightarrow> queue_wf (snd (requeue_tail z m)) \<and> not_idle (snd (requeue_tail z m))"
  unfolding requeue_tail_def
  by (auto simp: try_grant_not_idle split: prod.splits intro!: try_grant_wf wf_append [of "m\<lparr>sl_owner := None\<rparr>" z] wf_frame)
    (auto simp: queue_wf_def)


lemmas slot_op_defs [slot_simps] =
  add_blocker_begin_def add_blocker_persisted_def remove_blocker_begin_def remove_blocker_persisted_def
  notify_blocker_listener_def enable_grants_def disable_grants_def set_reconciliation_state_def
  cancel_request_def slot_release_def

lemma notify_frame [simp]:
  "queue_wf (m\<lparr>sl_notified := n\<rparr>) = queue_wf m" "not_idle (m\<lparr>sl_notified := n\<rparr>) = not_idle m"
  by (simp_all add: queue_wf_def not_idle_def admission_open_def)

lemma blocker_change_wf:
  "queue_wf m \<Longrightarrow> U \<subseteq> B \<Longrightarrow> queue_wf (m\<lparr>sl_blockers := B, sl_unpersisted := U\<rparr>)"
  "queue_wf m \<Longrightarrow> queue_wf (m\<lparr>sl_blockers := insert k (sl_blockers m)\<rparr>)"
  "queue_wf m \<Longrightarrow> U \<subseteq> sl_blockers m \<Longrightarrow> queue_wf (m\<lparr>sl_unpersisted := U\<rparr>)"
  by (auto simp: queue_wf_def)

lemma remove_key_wf:
  "queue_wf m \<Longrightarrow>
   queue_wf (m\<lparr>sl_blockers := sl_blockers m - {k}, sl_unpersisted := sl_unpersisted m - {k}\<rparr>)"
  by (auto simp: queue_wf_def)

lemma blocker_change_idle:
  "B \<noteq> {} \<Longrightarrow> not_idle (m\<lparr>sl_blockers := B\<rparr>)"
  "B \<noteq> {} \<Longrightarrow> not_idle (m\<lparr>sl_blockers := B, sl_unpersisted := U\<rparr>)"
  "not_idle (m\<lparr>sl_unpersisted := U\<rparr>) = not_idle m"
  by (auto simp: not_idle_def admission_open_def)

lemma lock_wf_frame:
  "sl_blockers m' = sl_blockers m \<Longrightarrow> sl_unpersisted m' = sl_unpersisted m \<Longrightarrow>
   lock_wf (m', l) = lock_wf (m, l)"
  by (cases "(m, l)" rule: lock_wf.cases) auto

lemma slot_inv_step:
  assumes "slot_inv c" and "slot_step c c'" shows "slot_inv c'"
  using assms(2,1)
proof (induction rule: slot_step.induct)
  case (add_now m key m')
  then show ?case
    by (auto simp: slot_inv_def slot_simps blocker_change_wf blocker_change_idle split: if_splits)
next
  case (add_wait m key m')
  then show ?case
    by (auto simp: slot_inv_def slot_simps blocker_change_idle split: if_splits
        intro!: blocker_change_wf) (auto simp: queue_wf_def)
next
  case (add_done m key)
  then show ?case
    by (auto simp: slot_inv_def slot_simps blocker_change_idle intro!: blocker_change_wf)
      (auto simp: queue_wf_def)
next
  case (remove_now m key m')
  then show ?case
    by (auto simp: slot_inv_def slot_simps try_grant_not_idle split: if_splits
        intro!: try_grant_wf remove_key_wf)
next
  case (remove_done m key m')
  then show ?case
    by (auto simp: slot_inv_def slot_simps try_grant_not_idle split: if_splits
        intro!: try_grant_wf remove_key_wf)
next
  case (remove_wait m key m')
  then show ?case by (auto simp: slot_inv_def slot_simps split: if_splits)
next
  case (disable m)
  then show ?case by (auto simp: slot_inv_def slot_simps wf_frame not_idle_def admission_open_def)
next
  case (cancel m z)
  then show ?case
    by (auto simp: slot_inv_def slot_simps queue_wf_def not_idle_def admission_open_def distinct_map
        intro: inj_on_subset)
next
  case (release m z)
  then show ?case
    by (auto simp: slot_inv_def slot_simps try_grant_not_idle intro!: try_grant_wf wf_frame)
next
  case (close_now m l)
  then show ?case
    using lock_wf_frame [of "close_admission_now m" m l]
    by (auto simp: slot_inv_def queue_wf_def not_idle_def)
next
  case (barrier m d r f)
  then show ?case
    by (auto simp: slot_inv_def slot_simps Let_def try_grant_not_idle intro!: try_grant_wf wf_frame)
next
  case (barrier_now m l d r f)
  then show ?case
    using lock_wf_frame [of "set_reconciliation_state d r f m" m l]
    by (auto simp: slot_inv_def slot_simps Let_def try_grant_not_idle intro!: try_grant_wf wf_frame)
next
  case (client_cancel m l i)
  then show ?case
    using lock_wf_frame [of "cancel_future i m" m l]
    by (auto simp: slot_inv_def wf_frame not_idle_def)
qed (auto simp: slot_inv_def request_wf requeue_wf slot_simps Let_def try_grant_not_idle
      intro!: try_grant_wf wf_frame)


definition slot_start :: "slot_sys \<Rightarrow> bool" where
  "slot_start c \<longleftrightarrow> (\<exists>p. c = (slot_init p, None))"

definition slot_free :: "slot_sys \<Rightarrow> bool" where
  "slot_free c \<longleftrightarrow> admission_open (fst c) \<and> sl_blockers (fst c) = {}"

definition slot_owner :: "slot_sys \<Rightarrow> string option" where
  "slot_owner c = sl_owner (fst c)"

text \<open>What a step that makes a new owner looks like: the head of the queue, cancelled requests
  skipped, possibly after one new request was appended.\<close>

definition fifo_grant :: "SlotManager \<Rightarrow> SlotManager \<Rightarrow> string \<Rightarrow> bool" where
  "fifo_grant m m' z \<longleftrightarrow>
     (\<exists>new pre r post. length new \<le> 1 \<and> sl_queue m @ new = pre @ r # post \<and> rq_zone_id r = z \<and>
        (\<forall>q \<in> set pre. sl_futures m' (rq_ref q) = CANCELLED) \<and>
        sl_futures m' (rq_ref r) = RESULT_SET \<and> sl_queue m' = post \<and>
        admission_open m' \<and> sl_blockers m' = {})"

lemma try_grant_new_owner:
  assumes "sl_owner (try_grant_locked m) = Some z" and "sl_owner m \<noteq> Some z" and "queue_wf m"
  shows "\<exists>pre r post. sl_queue m = pre @ r # post \<and> rq_zone_id r = z \<and>
        (\<forall>q \<in> set pre. sl_futures (try_grant_locked m) (rq_ref q) = CANCELLED) \<and>
        sl_futures (try_grant_locked m) (rq_ref r) = RESULT_SET \<and>
        sl_queue (try_grant_locked m) = post \<and> admission_open m \<and> sl_blockers m = {}"
  using assms
proof (cases rule: try_grant_cases [of m])
  case (grant pre r post)
  with assms have "\<forall>q \<in> set pre. rq_ref q \<noteq> rq_ref r" by (auto simp: queue_wf_def image_iff)
  with grant assms(1) show ?thesis by (intro exI [of _ pre] exI [of _ r] exI [of _ post]) auto
qed auto

lemma fifo_try_grant:
  assumes "sl_owner (try_grant_locked n) = Some z" and "sl_owner n \<noteq> Some z" and "queue_wf n"
    and "sl_queue n = sl_queue m @ new" and "length new \<le> 1"
  shows "fifo_grant m (try_grant_locked n) z"
  using try_grant_new_owner [OF assms(1-3)] assms(4,5)
  unfolding fifo_grant_def by (metis try_grant_frame(1,3))

lemma fifo_notified [simp]: "fifo_grant m (m'\<lparr>sl_notified := k\<rparr>) z = fifo_grant m m' z"
  by (simp add: fifo_grant_def admission_open_def)

lemma slot_step_grant:
  assumes "slot_step c c'" and "slot_inv c"
    and "slot_owner c' = Some z" and "slot_owner c \<noteq> Some z"
  shows "fifo_grant (fst c) (fst c') z"
  using assms
proof (induction rule: slot_step.induct)
  case (remove_now m key m')
  then show ?case
    by (auto simp: slot_inv_def slot_owner_def slot_simps split: if_splits
       intro!: fifo_try_grant [where new = "[]"] remove_key_wf)
next
  case (remove_done m key m')
  then show ?case
    by (auto simp: slot_inv_def slot_owner_def slot_simps split: if_splits
       intro!: fifo_try_grant [where new = "[]"] remove_key_wf)
next
  case (request m y)
  have free: "find (\<lambda>q. rq_zone_id q = y) (sl_queue m) = None \<Longrightarrow> y \<notin> rq_zone_id ` set (sl_queue m)"
    by (auto simp: find_None_iff)
  from request free show ?case
    by (cases "find (\<lambda>q. rq_zone_id q = y) (sl_queue m)")
      (auto simp: slot_inv_def slot_owner_def slot_request_def new_request_def split: if_splits
       intro!: fifo_try_grant [where new = "[\<lparr>rq_ref = sl_next_ref m, rq_zone_id = y\<rparr>]"]
         wf_append [of m y, unfolded new_request_def, OF _ _ _ refl, simplified])
next
  case (requeue m y)
  then show ?case
    by (auto simp: slot_inv_def slot_owner_def requeue_tail_def new_request_def
       split: if_splits
       intro!: fifo_try_grant [where new = "[\<lparr>rq_ref = sl_next_ref m, rq_zone_id = y\<rparr>]"]
         wf_append [of "m\<lparr>sl_owner := None\<rparr>" y, unfolded new_request_def, OF _ _ _ refl, simplified] wf_frame)
       (auto simp: queue_wf_def)
qed (auto simp: slot_inv_def slot_owner_def slot_simps Let_def split: if_splits
       intro!: fifo_try_grant [where new = "[]"] wf_frame)

interpretation slot: guarded_system slot_start slot_step slot_inv slot_owner slot_free
proof
  fix c c' :: slot_sys and z :: string
  show "slot_start c \<Longrightarrow> slot_inv c"
    by (auto simp: slot_start_def slot_init_def slot_inv_def queue_wf_def not_idle_def)
  show "slot_inv c \<Longrightarrow> slot_step c c' \<Longrightarrow> slot_inv c'" by (rule slot_inv_step)
  show "slot_inv c \<Longrightarrow> slot_step c c' \<Longrightarrow> slot_owner c' = Some z \<Longrightarrow> slot_owner c \<noteq> Some z \<Longrightarrow> slot_free c'"
    using slot_step_grant [of c c' z] by (auto simp: fifo_grant_def slot_free_def)
qed


lemma slot_reach_start: "reach slot_start slot_step (slot_init p, None)"
  by (rule reach.start) (auto simp: slot_start_def)

lemmas slot_reach_step = reach.more [of slot_start slot_step]

lemma admission_frame [simp]:
  "admission_open (m\<lparr>sl_notified := n\<rparr>) = admission_open m"
  "admission_open (m\<lparr>sl_blockers := B, sl_unpersisted := U\<rparr>) = admission_open m"
  by (simp_all add: admission_open_def)

section \<open>Properties\<close>

text \<open>(C8) Whenever a step of the interleaved slot manager makes a zone the new owner, grants are enabled,
  the reconciliation barrier is clear and the blocker set is empty; and the zone is the one whose request was first in the
  queue, with only cancelled requests ahead of it.\<close>

theorem grant_is_safe_and_fifo:
  assumes "reach slot_start slot_step (m, l)" and "slot_step (m, l) (m', l')"
    and "sl_owner m' = Some z" and "sl_owner m \<noteq> Some z"
  shows "sl_grants_enabled m' \<and> barrier_clear (sl_reconciliation m') \<and> sl_blockers m' = {} \<and>
    (\<exists>new pre r post. length new \<le> 1 \<and> sl_queue m @ new = pre @ r # post \<and> rq_zone_id r = z \<and>
       (\<forall>q \<in> set pre. sl_futures m' (rq_ref q) = CANCELLED) \<and>
       sl_futures m' (rq_ref r) = RESULT_SET \<and> sl_queue m' = post)"
  using slot_step_grant [OF assms(2) slot.reach_inv [OF assms(1)], of z] assms(3,4)
  by (auto simp: slot_owner_def fifo_grant_def admission_open_def)

theorem grant_is_safe_and_fifo_witness:
  "let m' = snd (slot_request ''z'' (enable_grants (slot_init True)))
   in sl_owner m' = Some ''z'' \<and> sl_grants_enabled m' \<and> sl_blockers m' = {}"
proof -
  let ?m = "enable_grants (slot_init True)"
  have r: "reach slot_start slot_step (?m, None)" by (rule slot_reach_step [OF slot_reach_start enable])
  have "sl_owner (snd (slot_request ''z'' ?m)) = Some ''z''" "sl_owner ?m \<noteq> Some ''z''"
    by (simp_all add: slot_request_def new_request_def enable_grants_def try_grant_locked_def
        slot_init_def barrier_clear_def)
  with grant_is_safe_and_fifo [OF r request this] show ?thesis by (simp add: Let_def)
qed

text \<open>In every reachable state a zone has at most one queued request, the owner is not queued, no queued
  request has been granted, and the slot never idles: with admission open, no owner and no blocker nobody is waiting.\<close>

theorem slot_queue_invariant:
  assumes "reach slot_start slot_step (m, l)"
  shows "distinct (map rq_zone_id (sl_queue m)) \<and>
     (\<forall>r \<in> set (sl_queue m). sl_owner m \<noteq> Some (rq_zone_id r) \<and> sl_futures m (rq_ref r) \<noteq> RESULT_SET) \<and>
     (sl_grants_enabled m \<and> barrier_clear (sl_reconciliation m) \<and> sl_owner m = None \<and> sl_blockers m = {} \<longrightarrow>
        (\<forall>r \<in> set (sl_queue m). sl_futures m (rq_ref r) = CANCELLED))"
  using slot.reach_inv [OF assms] by (auto simp: slot_inv_def queue_wf_def not_idle_def admission_open_def)

theorem slot_queue_invariant_witness:
  "distinct (map rq_zone_id (sl_queue (snd (slot_request ''b'' (snd (slot_request ''a'' (slot_init True)))))))"
  by (rule slot_queue_invariant [THEN conjunct1])
    (rule slot_reach_step [OF slot_reach_step [OF slot_reach_start request] request])

text \<open>Over a whole run, with the synchronous methods interleaved anywhere: while every state has a blocker
  or closed admission, no zone becomes owner that was not owner before.\<close>

theorem no_new_owner_while_blocked:
  assumes "reach slot_start slot_step c" and "run slot_step c cs"
    and "\<forall>c' \<in> set cs. sl_blockers (fst c') \<noteq> {} \<or> \<not> sl_grants_enabled (fst c') \<or>
           \<not> barrier_clear (sl_reconciliation (fst c'))"
    and "c' \<in> set cs" and "sl_owner (fst c') = Some z"
  shows "sl_owner (fst c) = Some z"
  using slot.no_acquire_while_closed [OF slot.reach_inv [OF assms(1)] assms(2) _ assms(4), of z] assms(3,5)
  by (auto simp: slot_free_def slot_owner_def admission_open_def)

definition sample_owned :: slot_sys where
  "sample_owned = (snd (slot_request ''z'' (enable_grants (slot_init False))), None)"

theorem no_new_owner_while_blocked_witness:
  "sl_owner (fst sample_owned) = Some ''z''"
proof (rule no_new_owner_while_blocked)
  show "reach slot_start slot_step sample_owned"
    unfolding sample_owned_def
    by (rule slot_reach_step [OF slot_reach_step [OF slot_reach_start enable] request])
  show "run slot_step sample_owned [(disable_grants (fst sample_owned), None)]"
    by (auto simp: sample_owned_def intro: disable)
qed (auto simp: sample_owned_def disable_grants_def slot_request_def new_request_def enable_grants_def
      try_grant_locked_def slot_init_def barrier_clear_def)

text \<open>Adding a blocker fails closed: the key is in the live set whether or not the write succeeded, no other
  key and no owner changes, and after a failed write the key is marked so that a repeated call writes it again.\<close>

theorem blocker_add_fails_closed:
  assumes "add_blocker persist m key = (m', err)" and "fst key \<noteq> []"
  shows "sl_blockers m' = insert key (sl_blockers m) \<and> sl_owner m' = sl_owner m \<and>
     (err \<noteq> None \<longrightarrow> key \<in> sl_unpersisted m' \<and> err = persist key True \<and>
        (\<forall>w. w key True = None \<longrightarrow> key \<notin> sl_unpersisted (fst (add_blocker w m' key))))"
  using assms
  by (auto simp: add_blocker_def slot_simps split: if_splits option.splits)

theorem blocker_add_fails_closed_witness:
  "sl_blockers (fst (add_blocker (\<lambda>_ _. Some (RuntimeError ''disk'')) (slot_init True) (''rec'', EXTERNAL_FLOW)))
     = {(''rec'', EXTERNAL_FLOW)}"
  using blocker_add_fails_closed
    [of "\<lambda>_ _. Some (RuntimeError ''disk'')" "slot_init True" "(''rec'', EXTERNAL_FLOW)"]
  by (auto simp: add_blocker_def slot_simps slot_init_def)

text \<open>Removing a blocker affects its own key only; a failed write leaves the manager unchanged; and a zone
  becomes owner through a removal only when the set is empty and admission is open.\<close>

theorem blocker_remove_exact:
  assumes "remove_blocker persist m key = (m', err)"
  shows "(\<forall>k. k \<noteq> key \<longrightarrow> (k \<in> sl_blockers m' \<longleftrightarrow> k \<in> sl_blockers m)) \<and>
     (err = None \<longrightarrow> key \<notin> sl_blockers m') \<and> (err \<noteq> None \<longrightarrow> m' = m \<and> err = persist key False) \<and>
     (sl_owner m' \<noteq> sl_owner m \<longrightarrow> sl_blockers m' = {} \<and> admission_open m')"
proof -
  have owner: "sl_owner (try_grant_locked n) \<noteq> sl_owner n \<Longrightarrow> sl_blockers n = {} \<and> admission_open n" for n
    by (cases rule: try_grant_cases [of n]) auto
  show ?thesis
    using assms owner [of "m\<lparr>sl_blockers := sl_blockers m - {key}, sl_unpersisted := sl_unpersisted m - {key}\<rparr>"]
    by (auto simp: remove_blocker_def slot_simps split: if_splits option.splits dest!: sym [of "Some _"])
qed

theorem blocker_remove_exact_witness:
  "(''b'', EXTERNAL_FLOW) \<in> sl_blockers (fst (remove_blocker (\<lambda>_ _. None)
     ((slot_init True)\<lparr>sl_blockers := {(''a'', EXTERNAL_FLOW), (''b'', EXTERNAL_FLOW)}\<rparr>) (''a'', EXTERNAL_FLOW)))"
  using blocker_remove_exact
    [of "\<lambda>_ _. None" "(slot_init True)\<lparr>sl_blockers := {(''a'', EXTERNAL_FLOW), (''b'', EXTERNAL_FLOW)}\<rparr>"
      "(''a'', EXTERNAL_FLOW)"]
  by (cases "remove_blocker (\<lambda>_ _. None)
       ((slot_init True)\<lparr>sl_blockers := {(''a'', EXTERNAL_FLOW), (''b'', EXTERNAL_FLOW)}\<rparr>) (''a'', EXTERNAL_FLOW)")
    auto

text \<open>A removal that is suspended in its write always finds its key again, whatever the synchronous methods
  did meanwhile: the set removal does not raise and takes away exactly this key.\<close>

theorem suspended_removal_never_raises:
  assumes "reach slot_start slot_step (m, Some (Removing key))"
  shows "\<exists>m'. remove_blocker_persisted m key = Inr m' \<and> sl_blockers m' = sl_blockers m - {key}"
  using slot.reach_inv [OF assms] by (auto simp: slot_inv_def slot_simps)

definition sample_removing :: SlotManager where
  "sample_removing = add_blocker_persisted
     ((slot_init True)\<lparr>sl_blockers := {(''a'', EXTERNAL_FLOW)}, sl_unpersisted := {(''a'', EXTERNAL_FLOW)}\<rparr>)
     (''a'', EXTERNAL_FLOW)"

theorem suspended_removal_never_raises_witness:
  "\<exists>m'. remove_blocker_persisted sample_removing (''a'', EXTERNAL_FLOW) = Inr m' \<and>
     sl_blockers m' = sl_blockers sample_removing - {(''a'', EXTERNAL_FLOW)}"
proof (rule suspended_removal_never_raises)
  have "slot_step (slot_init True, None)
     ((slot_init True)\<lparr>sl_blockers := {(''a'', EXTERNAL_FLOW)}, sl_unpersisted := {(''a'', EXTERNAL_FLOW)}\<rparr>,
      Some (Adding (''a'', EXTERNAL_FLOW)))"
    by (rule add_wait) (simp add: slot_simps slot_init_def)
  then have "reach slot_start slot_step (sample_removing, None)"
    unfolding sample_removing_def
    by (rule slot_reach_step [OF slot_reach_step [OF slot_reach_start] add_done])
  moreover have "slot_step (sample_removing, None) (sample_removing, Some (Removing (''a'', EXTERNAL_FLOW)))"
    by (rule remove_wait) (simp add: sample_removing_def slot_simps slot_init_def)
  ultimately show "reach slot_start slot_step (sample_removing, Some (Removing (''a'', EXTERNAL_FLOW)))"
    by (rule slot_reach_step)
qed

end
