(* ===== verification/Accounting.thy ===== *)
theory Accounting
  imports Vocabulary "HOL-Library.AList" "HOL-Library.List_Lexorder" "HOL-Library.Char_ord"
begin

text \<open>
  Conservative runtime accounting of \<open>models.py\<close>: daily counters with their contribution
  records, deduplication and merge of contributions, and the split of an interval at local
  midnights.

  Identifiers are compared as Python compares ASCII strings, code point by code point.  The
  time zone of Home Assistant is a parameter: the local date of an instant and the instant of
  the local midnight that begins a date (\<open>astimezone(tz).date()\<close> and \<open>datetime.combine\<close>
  followed by \<open>astimezone(UTC)\<close>); dates are day numbers.
\<close>

section \<open>Daily counters\<close>

record DailyRuntime =
  day_date_local :: local_date
  day_runtime_s :: rat

definition mk_daily :: "local_date \<Rightarrow> rat \<Rightarrow> DailyRuntime result" where
  "mk_daily d r =
     (if r < 0 then Inl (ValueError ''runtime_s must be non-negative'')
      else Inr \<lparr>day_date_local = d, day_runtime_s = r\<rparr>)"

record AccountingContribution =
  con_accounting_contribution_id :: string
  con_source_safety_record_id :: string
  con_start_utc :: "utc option"
  con_end_utc :: "utc option"
  con_runtime_s :: rat
  con_runtime_estimated :: bool
  con_local_date :: "local_date option"

definition mk_contribution :: "AccountingContribution \<Rightarrow> AccountingContribution result" where
  "mk_contribution c =
     (if con_accounting_contribution_id c = [] \<or> con_source_safety_record_id c = []
      then Inl (ValueError ''contribution IDs must be non-empty'')
      else if con_runtime_s c < 0
      then Inl (ValueError ''contribution runtime_s must be finite and non-negative'')
      else if (con_start_utc c = None) \<noteq> (con_end_utc c = None)
      then Inl (ValueError ''contribution interval anchors must both be known or both null'')
      else (case (con_start_utc c, con_end_utc c) of
              (Some a, Some b) \<Rightarrow>
                if b < a then Inl (ValueError ''contribution end precedes start'') else Inr c
            | _ \<Rightarrow> Inr c))"

text \<open>The dictionary of \<open>deduplicate_accounting_contributions\<close> is an association list.\<close>

fun dedup_loop ::
  "(string \<times> AccountingContribution) list \<Rightarrow> AccountingContribution list \<Rightarrow>
   (string \<times> AccountingContribution) list result" where
  "dedup_loop by_id [] = Inr by_id"
| "dedup_loop by_id (c # cs) =
     (case map_of by_id (con_accounting_contribution_id c) of
        Some existing \<Rightarrow>
          if existing \<noteq> c
          then Inl (ValueError ''accounting contribution ID reused with different payload'')
          else dedup_loop (AList.update (con_accounting_contribution_id c) c by_id) cs
      | None \<Rightarrow> dedup_loop (AList.update (con_accounting_contribution_id c) c by_id) cs)"

definition deduplicate_accounting_contributions ::
  "AccountingContribution list \<Rightarrow> AccountingContribution list result" where
  "deduplicate_accounting_contributions cs =
     res_bind (dedup_loop [] cs) (\<lambda>by_id.
       Inr (map (\<lambda>k. the (map_of by_id k)) (sort (map fst by_id))))"

definition known_runtime :: "AccountingContribution list \<Rightarrow> rat" where
  "known_runtime cs = sum_list (map con_runtime_s cs)"

record ZoneDailyRuntime =
  zdr_date_local :: local_date
  zdr_runtime_s :: rat
  zdr_conservative_unattributed_runtime_s :: rat
  zdr_contributions :: "AccountingContribution list"

definition mk_zone_daily :: "ZoneDailyRuntime \<Rightarrow> ZoneDailyRuntime result" where
  "mk_zone_daily z =
     (if zdr_runtime_s z < 0
      then Inl (ValueError ''runtime_s must be finite and non-negative'')
      else if zdr_conservative_unattributed_runtime_s z < 0
      then Inl (ValueError ''conservative_unattributed_runtime_s must be finite and non-negative'')
      else if zdr_conservative_unattributed_runtime_s z > zdr_runtime_s z
      then Inl (ValueError ''unattributed runtime cannot exceed total runtime'')
      else res_bind (deduplicate_accounting_contributions (zdr_contributions z)) (\<lambda>deduplicated.
        if length deduplicated \<noteq> length (zdr_contributions z)
        then Inl (ValueError ''persisted daily contributions must have unique IDs'')
        else if known_runtime (zdr_contributions z) > zdr_runtime_s z
        then Inl (ValueError ''daily runtime cannot be less than its known contributions'')
        else if list_ex (\<lambda>c. con_local_date c \<noteq> None \<and> con_local_date c \<noteq> Some (zdr_date_local z))
                  (zdr_contributions z)
        then Inl (ValueError ''contribution local_date disagrees with daily date'')
        else Inr z))"

definition unresolved_runtime :: "ZoneDailyRuntime \<Rightarrow> rat" where
  "unresolved_runtime z =
     max (zdr_conservative_unattributed_runtime_s z)
         (zdr_runtime_s z - known_runtime (zdr_contributions z))"

definition conservative_merge_daily_runtime ::
  "ZoneDailyRuntime \<Rightarrow> ZoneDailyRuntime \<Rightarrow> ZoneDailyRuntime result" where
  "conservative_merge_daily_runtime left right =
     (if zdr_date_local left \<noteq> zdr_date_local right
      then Inl (ValueError ''daily runtime dates must match'')
      else res_bind (deduplicate_accounting_contributions
                       (zdr_contributions left @ zdr_contributions right)) (\<lambda>contributions.
        let unresolved = unresolved_runtime left + unresolved_runtime right
        in mk_zone_daily
             \<lparr>zdr_date_local = zdr_date_local left,
              zdr_runtime_s = known_runtime contributions + unresolved,
              zdr_conservative_unattributed_runtime_s = unresolved,
              zdr_contributions = contributions\<rparr>))"

section \<open>Local calendar days\<close>

function split_loop ::
  "(utc \<Rightarrow> local_date) \<Rightarrow> (local_date \<Rightarrow> utc) \<Rightarrow> utc \<Rightarrow> utc \<Rightarrow> (local_date \<times> rat) list" where
  "split_loop local_day midnight cursor end_utc =
     (if cursor < end_utc
      then let next_midnight = midnight (local_day cursor + 1);
               boundary = (if next_midnight \<le> cursor then end_utc else next_midnight);
               segment_end = min boundary end_utc
           in (local_day cursor, total_seconds (segment_end - cursor))
                # split_loop local_day midnight segment_end end_utc
      else [])"
  by pat_completeness auto
termination
  by (relation "measure (\<lambda>(_, _, cursor, end_utc). nat (end_utc - cursor))") (auto simp: min_def)

declare split_loop.simps [simp del]

definition split_interval_by_local_days ::
  "(utc \<Rightarrow> local_date) \<Rightarrow> (local_date \<Rightarrow> utc) \<Rightarrow> utc \<Rightarrow> utc \<Rightarrow> (local_date \<times> rat) list result" where
  "split_interval_by_local_days local_day midnight start_utc end_utc =
     (if end_utc < start_utc then Inl (ValueError ''end_utc must not precede start_utc'')
      else let segments = split_loop local_day midnight start_utc end_utc
           in Inr (if segments = [] then [(local_day start_utc, 0)] else segments))"

definition current_day_charge ::
  "(utc \<Rightarrow> local_date) \<Rightarrow> (local_date \<Rightarrow> utc) \<Rightarrow> utc \<Rightarrow> utc \<Rightarrow> local_date \<Rightarrow> rat result" where
  "current_day_charge local_day midnight start_utc end_utc current_local_date =
     res_bind (split_interval_by_local_days local_day midnight start_utc end_utc) (\<lambda>segments.
       Inr (sum_list (map snd (filter (\<lambda>s. fst s = current_local_date) segments))))"

section \<open>Lemmas\<close>

lemma total_seconds_add: "total_seconds a + total_seconds b = total_seconds (a + b)"
  by (simp add: total_seconds_def add_divide_distrib)

lemma total_seconds_0 [simp]: "total_seconds 0 = 0"
  by (simp add: total_seconds_def)

text \<open>One round of the loop, with the end of its segment.\<close>

lemma split_loop_step:
  assumes "cursor < end_utc"
  obtains e where "cursor < e" "e \<le> end_utc"
    "split_loop local_day midnight cursor end_utc =
       (local_day cursor, total_seconds (e - cursor)) # split_loop local_day midnight e end_utc"
    "cursor < midnight (local_day cursor + 1) \<longrightarrow> e = min (midnight (local_day cursor + 1)) end_utc"
proof (rule that)
  let ?e = "min (if midnight (local_day cursor + 1) \<le> cursor then end_utc
    else midnight (local_day cursor + 1)) end_utc"
  show "cursor < ?e" "?e \<le> end_utc"
    "cursor < midnight (local_day cursor + 1) \<longrightarrow> ?e = min (midnight (local_day cursor + 1)) end_utc"
    using assms by auto
  show "split_loop local_day midnight cursor end_utc =
      (local_day cursor, total_seconds (?e - cursor)) # split_loop local_day midnight ?e end_utc"
    using assms by (subst split_loop.simps) (simp add: Let_def)
qed

lemma split_loop_stop: "end_utc \<le> cursor \<Longrightarrow> split_loop local_day midnight cursor end_utc = []"
  by (subst split_loop.simps) simp

lemma split_loop_total:
  "cursor \<le> end_utc \<Longrightarrow>
   sum_list (map snd (split_loop local_day midnight cursor end_utc)) = total_seconds (end_utc - cursor)"
proof (induction "nat (end_utc - cursor)" arbitrary: cursor rule: less_induct)
  case less
  show ?case
  proof (cases "cursor < end_utc")
    case True
    then show ?thesis
    proof (rule split_loop_step)
      fix e
      assume e: "cursor < e" "e \<le> end_utc"
        "split_loop local_day midnight cursor end_utc =
           (local_day cursor, total_seconds (e - cursor)) # split_loop local_day midnight e end_utc"
      with less(1) [of e] True show ?thesis by (simp add: total_seconds_add)
    qed
  qed (use less(2) in \<open>simp add: split_loop_stop\<close>)
qed

lemma split_loop_nonneg: "(d, x) \<in> set (split_loop local_day midnight cursor end_utc) \<Longrightarrow> 0 < x"
proof (induction "nat (end_utc - cursor)" arbitrary: cursor rule: less_induct)
  case less
  show ?case
  proof (cases "cursor < end_utc")
    case True
    then show ?thesis
    proof (rule split_loop_step)
      fix e
      assume e: "cursor < e" "e \<le> end_utc"
        "split_loop local_day midnight cursor end_utc =
           (local_day cursor, total_seconds (e - cursor)) # split_loop local_day midnight e end_utc"
      with less(1) [of e] less(2) True show ?thesis by (auto simp: total_seconds_def)
    qed
  qed (use less(2) in \<open>simp add: split_loop_stop\<close>)
qed

text \<open>What the accounting relies on of the time zone: the dates partition the instants, each
  date lasting from its midnight to the next one.  Days may have any length.\<close>

definition calendar_ok :: "(utc \<Rightarrow> local_date) \<Rightarrow> (local_date \<Rightarrow> utc) \<Rightarrow> bool" where
  "calendar_ok local_day midnight \<longleftrightarrow>
     (\<forall>t d. local_day t = d \<longleftrightarrow> midnight d \<le> t \<and> t < midnight (d + 1))"

text \<open>The part of the interval on local date \<open>d\<close>.\<close>

definition overlap_s :: "(local_date \<Rightarrow> utc) \<Rightarrow> utc \<Rightarrow> utc \<Rightarrow> local_date \<Rightarrow> rat" where
  "overlap_s midnight a b d = total_seconds (max 0 (min b (midnight (d + 1)) - max a (midnight d)))"

lemma overlap_split:
  assumes "calendar_ok local_day midnight" and "a < e" and "e \<le> b"
    and "e = min (midnight (local_day a + 1)) b"
  shows "overlap_s midnight a b d =
     (if d = local_day a then total_seconds (e - a) else 0) + overlap_s midnight e b d"
proof (cases "d = local_day a")
  case True
  from assms(1) have "midnight (local_day a) \<le> a" "a < midnight (local_day a + 1)"
    by (auto simp: calendar_ok_def)
  with True assms(2-4) show ?thesis
    by (auto simp: overlap_s_def total_seconds_add max_def min_def)
next
  case False
  have "\<not> (midnight d \<le> t \<and> t < midnight (d + 1))" if "a \<le> t" "t < e" for t
  proof
    assume "midnight d \<le> t \<and> t < midnight (d + 1)"
    with assms(1) have "local_day t = d" by (simp add: calendar_ok_def)
    moreover have "local_day t = local_day a"
    proof -
      have "midnight (local_day a) \<le> a" using assms(1) by (auto simp: calendar_ok_def)
      with that assms(4) have "midnight (local_day a) \<le> t \<and> t < midnight (local_day a + 1)" by auto
      with assms(1) show ?thesis by (simp add: calendar_ok_def)
    qed
    ultimately show False using False by simp
  qed
  from this [of a] this [of "midnight d"] assms(2,3)
  have "max 0 (min b (midnight (d + 1)) - max a (midnight d)) =
      max 0 (min b (midnight (d + 1)) - max e (midnight d))"
    by (auto simp: max_def min_def)
  with False show ?thesis by (simp add: overlap_s_def)
qed

lemma split_loop_day:
  assumes "calendar_ok local_day midnight"
  shows "cursor \<le> end_utc \<Longrightarrow>
    sum_list (map snd (filter (\<lambda>s. fst s = d) (split_loop local_day midnight cursor end_utc))) =
    overlap_s midnight cursor end_utc d"
proof (induction "nat (end_utc - cursor)" arbitrary: cursor rule: less_induct)
  case less
  show ?case
  proof (cases "cursor < end_utc")
    case True
    have m: "cursor < midnight (local_day cursor + 1)" using assms by (auto simp: calendar_ok_def)
    from True show ?thesis
    proof (rule split_loop_step [of cursor end_utc local_day midnight])
      fix e
      assume e: "cursor < e" "e \<le> end_utc"
        "split_loop local_day midnight cursor end_utc =
           (local_day cursor, total_seconds (e - cursor)) # split_loop local_day midnight e end_utc"
        "cursor < midnight (local_day cursor + 1) \<longrightarrow> e = min (midnight (local_day cursor + 1)) end_utc"
      from overlap_split [OF assms e(1,2)] e(4) m less(1) [of e] e(1-3) show ?thesis by auto
    qed
  next
    case False
    with less(2) show ?thesis by (simp add: split_loop_stop overlap_s_def max_def min_def)
  qed
qed

text \<open>Whatever the time zone data, the split of an interval at local midnights terminates and loses no
  time: the segments are non-negative and add up to the length of the interval.\<close>

theorem split_conserves_time:
  assumes "start_utc \<le> end_utc"
  shows "\<exists>segments. split_interval_by_local_days local_day midnight start_utc end_utc = Inr segments \<and>
     segments \<noteq> [] \<and> (\<forall>(d, x) \<in> set segments. 0 \<le> x) \<and>
     sum_list (map snd segments) = of_int (end_utc - start_utc) / 1000000"
proof -
  let ?l = "split_loop local_day midnight start_utc end_utc"
  have "?l = [] \<Longrightarrow> total_seconds (end_utc - start_utc) = 0"
    using split_loop_total [OF assms, of local_day midnight] by simp
  with assms split_loop_total [OF assms, of local_day midnight]
    split_loop_nonneg [of _ _ local_day midnight start_utc end_utc]
  show ?thesis
    by (force simp: split_interval_by_local_days_def Let_def total_seconds_def less_imp_le)
qed

theorem split_conserves_time_witness:
  "\<exists>segments. split_interval_by_local_days (\<lambda>t. t div 86400000000) (\<lambda>d. d * 86400000000) 0 5000000
     = Inr segments \<and> sum_list (map snd segments) = 5"
  using split_conserves_time [of 0 5000000 "\<lambda>t. t div 86400000000" "\<lambda>d. d * 86400000000"] by auto

text \<open>The charge of a day is exactly the part of the interval between that day's local midnight and
  the next one, for days of any length.\<close>

theorem day_charge_is_overlap:
  assumes "calendar_ok local_day midnight" and "start_utc \<le> end_utc"
  shows "current_day_charge local_day midnight start_utc end_utc d =
     Inr (of_int (max 0 (min end_utc (midnight (d + 1)) - max start_utc (midnight d))) / 1000000)"
proof -
  let ?l = "split_loop local_day midnight start_utc end_utc"
  have eq: "sum_list (map snd (filter (\<lambda>s. fst s = d) ?l)) = overlap_s midnight start_utc end_utc d"
    by (rule split_loop_day [OF assms])
  then have "?l = [] \<Longrightarrow> overlap_s midnight start_utc end_utc d = 0" by simp
  with eq assms(2) show ?thesis
    by (auto simp: current_day_charge_def split_interval_by_local_days_def Let_def overlap_s_def
        total_seconds_def)
qed

lemma utc_calendar_ok: "calendar_ok (\<lambda>t. t div 86400000000) (\<lambda>d. d * 86400000000)"
  unfolding calendar_ok_def by (intro allI, auto; presburger)

theorem day_charge_is_overlap_witness:
  "current_day_charge (\<lambda>t. t div 86400000000) (\<lambda>d. d * 86400000000) 86399000000 86401000000 0 = Inr 1"
  using day_charge_is_overlap [OF utc_calendar_ok, of 86399000000 86401000000 0] by simp

section \<open>Deduplication and merge\<close>

definition consistent :: "AccountingContribution list \<Rightarrow> bool" where
  "consistent cs \<longleftrightarrow>
     (\<forall>x \<in> set cs. \<forall>y \<in> set cs.
        con_accounting_contribution_id x = con_accounting_contribution_id y \<longrightarrow> x = y)"

definition index_of :: "(string \<times> AccountingContribution) list \<Rightarrow> AccountingContribution set \<Rightarrow> bool" where
  "index_of by_id S \<longleftrightarrow>
     distinct (map fst by_id) \<and> snd ` set by_id = S \<and>
     (\<forall>(k, c) \<in> set by_id. k = con_accounting_contribution_id c)"

lemma index_lookup:
  assumes "index_of by_id S"
  shows "map_of by_id k = Some c \<longleftrightarrow> c \<in> S \<and> k = con_accounting_contribution_id c"
proof -
  have "map_of by_id k = Some c \<longleftrightarrow> (k, c) \<in> set by_id"
    using assms by (simp add: index_of_def)
  also have "\<dots> \<longleftrightarrow> c \<in> S \<and> k = con_accounting_contribution_id c"
  proof
    assume "(k, c) \<in> set by_id"
    with assms show "c \<in> S \<and> k = con_accounting_contribution_id c"
      by (auto simp: index_of_def dest!: bspec intro: rev_image_eqI)
  next
    assume c: "c \<in> S \<and> k = con_accounting_contribution_id c"
    with assms obtain k' where k': "(k', c) \<in> set by_id" by (auto simp: index_of_def)
    with assms have "k' = con_accounting_contribution_id c" by (auto simp: index_of_def dest!: bspec)
    with k' c show "(k, c) \<in> set by_id" by simp
  qed
  finally show ?thesis .
qed

lemma alist_update_new: "k \<notin> fst ` set al \<Longrightarrow> AList.update k v al = al @ [(k, v)]"
  by (induction al) auto

lemma index_update_new:
  assumes "index_of by_id S" "map_of by_id (con_accounting_contribution_id c) = None"
  shows "index_of (AList.update (con_accounting_contribution_id c) c by_id) (insert c S)"
  using assms by (auto simp: index_of_def alist_update_new map_of_eq_None_iff)

lemma index_update_same:
  assumes "index_of by_id S" "map_of by_id (con_accounting_contribution_id c) = Some c"
  shows "AList.update (con_accounting_contribution_id c) c by_id = by_id"
  using assms(2) by (induction by_id) (auto split: if_splits)

lemma dedup_loop_ok:
  assumes "index_of by_id S" and "\<forall>x \<in> S \<union> set cs. \<forall>y \<in> S \<union> set cs.
        con_accounting_contribution_id x = con_accounting_contribution_id y \<longrightarrow> x = y"
  shows "\<exists>by_id'. dedup_loop by_id cs = Inr by_id' \<and> index_of by_id' (S \<union> set cs)"
  using assms
proof (induction cs arbitrary: by_id S)
  case (Cons c cs)
  show ?case
  proof (cases "map_of by_id (con_accounting_contribution_id c)")
    case None
    with Cons.IH [OF index_update_new [OF Cons.prems(1) None]] Cons.prems(2) show ?thesis by auto
  next
    case (Some e)
    with Cons.prems have "e = c" "c \<in> S" by (auto simp: index_lookup)
    with Some Cons.IH [OF Cons.prems(1)] Cons.prems index_update_same [OF Cons.prems(1)]
    show ?thesis by (auto simp: insert_absorb)
  qed
qed auto

lemma dedup_loop_consistent:
  assumes "index_of by_id S" and "dedup_loop by_id cs = Inr by_id'"
    and "\<forall>x \<in> S. \<forall>y \<in> S. con_accounting_contribution_id x = con_accounting_contribution_id y \<longrightarrow> x = y"
  shows "\<forall>x \<in> S \<union> set cs. \<forall>y \<in> S \<union> set cs.
        con_accounting_contribution_id x = con_accounting_contribution_id y \<longrightarrow> x = y"
  using assms
proof (induction cs arbitrary: by_id S)
  case (Cons c cs)
  show ?case
  proof (cases "map_of by_id (con_accounting_contribution_id c)")
    case None
    have "\<forall>x \<in> insert c S. \<forall>y \<in> insert c S. con_accounting_contribution_id x = con_accounting_contribution_id y \<longrightarrow> x = y"
      using Cons.prems(1,3) None by (metis index_lookup insert_iff option.distinct(1))
    with Cons.IH [OF index_update_new [OF Cons.prems(1) None]] Cons.prems(2) None show ?thesis by auto
  next
    case (Some e)
    with Cons.prems have e: "e = c" "c \<in> S" by (auto simp: index_lookup split: if_splits)
    with Some Cons.IH [OF Cons.prems(1)] Cons.prems index_update_same [OF Cons.prems(1)]
    show ?thesis by (auto simp: insert_absorb)
  qed
qed auto

lemma dedup_ok_iff: "is_ok (deduplicate_accounting_contributions cs) \<longleftrightarrow> consistent cs"
proof -
  have e: "index_of [] {}" by (simp add: index_of_def)
  show ?thesis
    using dedup_loop_ok [OF e, of cs] dedup_loop_consistent [OF e, of cs]
    by (auto simp: deduplicate_accounting_contributions_def consistent_def res_bind_ok)
qed

lemma index_sorted_map:
  assumes "index_of by_id S"
  defines "ys \<equiv> map (\<lambda>k. the (map_of by_id k)) (sort (map fst by_id))"
  shows "set ys = S" "map con_accounting_contribution_id ys = sort (map fst by_id)"
proof -
  have key: "k \<in> set (map fst by_id) \<Longrightarrow> \<exists>c. map_of by_id k = Some c \<and> c \<in> S \<and> k = con_accounting_contribution_id c" for k
    using index_lookup [OF assms(1)] by (metis in_set_conv_decomp map_of_eq_None_iff not_None_eq list.set_map)
  show "map con_accounting_contribution_id ys = sort (map fst by_id)"
    unfolding ys_def map_map using key
    by (intro map_idI) (force simp del: set_map)
  have "S \<subseteq> set ys"
  proof
    fix c assume "c \<in> S"
    then have m: "map_of by_id (con_accounting_contribution_id c) = Some c" by (simp add: index_lookup [OF assms(1)])
    then have "con_accounting_contribution_id c \<in> set (sort (map fst by_id))"
      by (force dest: map_of_SomeD)
    with m show "c \<in> set ys" unfolding ys_def by (force simp del: set_sort)
  qed
  moreover have "set ys \<subseteq> S"
  proof
    fix c assume "c \<in> set ys"
    then obtain k where k: "k \<in> set (map fst by_id)" "c = the (map_of by_id k)"
      unfolding ys_def by (metis (no_types, lifting) imageE list.set_map set_sort)
    with key [OF k(1)] show "c \<in> S" by auto
  qed
  ultimately show "set ys = S" by blast
qed

lemma dedup_Inr:
  assumes "deduplicate_accounting_contributions cs = Inr ys"
  shows "set ys = set cs" "sorted (map con_accounting_contribution_id ys)"
    "distinct (map con_accounting_contribution_id ys)"
proof -
  have e: "index_of [] {}" by (simp add: index_of_def)
  have "consistent cs" using assms dedup_ok_iff [of cs] by simp
  with dedup_loop_ok [OF e, of cs] obtain by_id where b: "dedup_loop [] cs = Inr by_id" "index_of by_id (set cs)"
    by (auto simp: consistent_def)
  with assms have ys: "ys = map (\<lambda>k. the (map_of by_id k)) (sort (map fst by_id))"
    by (simp add: deduplicate_accounting_contributions_def)
  show "set ys = set cs" "sorted (map con_accounting_contribution_id ys)"
    "distinct (map con_accounting_contribution_id ys)"
    unfolding ys using index_sorted_map [OF b(2)] b(2) by (auto simp: index_of_def)
qed

lemma dedup_unique:
  assumes "deduplicate_accounting_contributions xs = Inr us"
    and "deduplicate_accounting_contributions ys = Inr vs" and "set xs = set ys"
  shows "us = vs"
proof (rule map_sorted_distinct_set_unique)
  show "inj_on con_accounting_contribution_id (set us \<union> set vs)"
    using dedup_Inr [OF assms(1)] dedup_Inr [OF assms(2)] assms(3) by (simp add: distinct_map)
qed (use dedup_Inr [OF assms(1)] dedup_Inr [OF assms(2)] assms(3) in auto)

lemma dedup_length:
  "deduplicate_accounting_contributions cs = Inr ys \<Longrightarrow> length ys = card (set cs)"
  using dedup_Inr [of cs ys] by (metis distinct_card distinct_map)

lemma contribution_nonneg: "mk_contribution c = Inr c \<Longrightarrow> 0 \<le> con_runtime_s c"
  by (rule ccontr) (auto simp: mk_contribution_def split: if_splits)

lemma known_distinct: "distinct cs \<Longrightarrow> known_runtime cs = (\<Sum>c \<in> set cs. con_runtime_s c)"
  by (simp add: known_runtime_def sum_list_distinct_conv_sum_set)

lemma zone_daily_ok_iff:
  "mk_zone_daily z = Inr z \<longleftrightarrow>
     0 \<le> zdr_conservative_unattributed_runtime_s z \<and>
     zdr_conservative_unattributed_runtime_s z \<le> zdr_runtime_s z \<and>
     consistent (zdr_contributions z) \<and> distinct (zdr_contributions z) \<and>
     known_runtime (zdr_contributions z) \<le> zdr_runtime_s z \<and>
     (\<forall>c \<in> set (zdr_contributions z). con_local_date c = None \<or> con_local_date c = Some (zdr_date_local z))"
  (is "_ \<longleftrightarrow> ?ok")
proof (cases "deduplicate_accounting_contributions (zdr_contributions z)")
  case (Inl e)
  then have "\<not> consistent (zdr_contributions z)" using dedup_ok_iff [of "zdr_contributions z"] by simp
  with Inl show ?thesis by (simp add: mk_zone_daily_def)
next
  case (Inr ys)
  then have "consistent (zdr_contributions z)" using dedup_ok_iff [of "zdr_contributions z"] by simp
  moreover have "length ys = length (zdr_contributions z) \<longleftrightarrow> distinct (zdr_contributions z)"
    using dedup_length [OF Inr] by (metis card_distinct distinct_card)
  ultimately show ?thesis
    using Inr by (auto simp: mk_zone_daily_def list_ex_iff not_less)
qed

text \<open>Deduplication succeeds exactly when no identifier is used for two different contributions;
  the result has the same contributions, each identifier once, in the order of the identifiers, whatever the
  order of the input.\<close>

theorem dedup_exact:
  "(is_ok (deduplicate_accounting_contributions cs) \<longleftrightarrow>
     (\<forall>x \<in> set cs. \<forall>y \<in> set cs.
        con_accounting_contribution_id x = con_accounting_contribution_id y \<longrightarrow> x = y)) \<and>
   (\<forall>ys. deduplicate_accounting_contributions cs = Inr ys \<longrightarrow>
      set ys = set cs \<and> distinct (map con_accounting_contribution_id ys) \<and>
      sorted (map con_accounting_contribution_id ys) \<and>
      (\<forall>cs'. set cs' = set cs \<longrightarrow> deduplicate_accounting_contributions cs' = Inr ys))"
proof -
  have "deduplicate_accounting_contributions cs' = Inr ys"
    if ys: "deduplicate_accounting_contributions cs = Inr ys" and eq: "set cs' = set cs" for ys cs'
  proof -
    have "is_ok (deduplicate_accounting_contributions cs')"
      using ys eq dedup_ok_iff [of cs] dedup_ok_iff [of cs'] by (simp add: consistent_def)
    then obtain zs where "deduplicate_accounting_contributions cs' = Inr zs" by (auto simp: is_ok_iff)
    with dedup_unique [OF this ys eq] show ?thesis by simp
  qed
  note order = this
  have ok: "is_ok (deduplicate_accounting_contributions cs) \<longleftrightarrow>
     (\<forall>x \<in> set cs. \<forall>y \<in> set cs.
        con_accounting_contribution_id x = con_accounting_contribution_id y \<longrightarrow> x = y)"
    by (simp only: dedup_ok_iff consistent_def)
  show ?thesis
  proof (rule conjI [OF ok], intro allI impI)
    fix ys
    assume ys: "deduplicate_accounting_contributions cs = Inr ys"
    from dedup_Inr [OF ys] order [OF ys]
    show "set ys = set cs \<and> distinct (map con_accounting_contribution_id ys) \<and>
      sorted (map con_accounting_contribution_id ys) \<and>
      (\<forall>cs'. set cs' = set cs \<longrightarrow> deduplicate_accounting_contributions cs' = Inr ys)" by blast
  qed
qed

definition sample_contribution :: "string \<Rightarrow> rat \<Rightarrow> AccountingContribution" where
  "sample_contribution i s =
     \<lparr>con_accounting_contribution_id = i, con_source_safety_record_id = ''rec'', con_start_utc = None,
      con_end_utc = None, con_runtime_s = s, con_runtime_estimated = False, con_local_date = None\<rparr>"

theorem dedup_exact_witness:
  "set (case deduplicate_accounting_contributions
          [sample_contribution ''b'' 1, sample_contribution ''a'' 2, sample_contribution ''b'' 1] of Inr ys \<Rightarrow> ys)
     = {sample_contribution ''a'' 2, sample_contribution ''b'' 1}"
proof -
  let ?cs = "[sample_contribution ''b'' 1, sample_contribution ''a'' 2, sample_contribution ''b'' 1]"
  have "is_ok (deduplicate_accounting_contributions ?cs)"
    using dedup_exact [of ?cs, THEN conjunct1] by (simp add: sample_contribution_def)
  then obtain ys where ys: "deduplicate_accounting_contributions ?cs = Inr ys" by (auto simp: is_ok_iff)
  with dedup_exact [of ?cs, THEN conjunct2, rule_format, OF ys] show ?thesis by auto
qed

text \<open>The merge of two days of accounting is conservative: for two valid records of the same date
  whose contributions do not contradict each other it succeeds, keeps every contribution once, is not below either
  side, and does not depend on the order of the sides.\<close>

theorem merge_daily_conservative:
  assumes "mk_zone_daily l = Inr l" and "mk_zone_daily r = Inr r"
    and "zdr_date_local l = zdr_date_local r"
    and "\<forall>x \<in> set (zdr_contributions l @ zdr_contributions r). \<forall>y \<in> set (zdr_contributions l @ zdr_contributions r).
       con_accounting_contribution_id x = con_accounting_contribution_id y \<longrightarrow> x = y"
    and "\<forall>c \<in> set (zdr_contributions l @ zdr_contributions r). mk_contribution c = Inr c"
  shows "\<exists>m. conservative_merge_daily_runtime l r = Inr m \<and> conservative_merge_daily_runtime r l = Inr m \<and>
     set (zdr_contributions m) = set (zdr_contributions l) \<union> set (zdr_contributions r) \<and>
     zdr_runtime_s l \<le> zdr_runtime_s m \<and> zdr_runtime_s r \<le> zdr_runtime_s m"
proof -
  let ?c = "zdr_contributions l @ zdr_contributions r" and ?c' = "zdr_contributions r @ zdr_contributions l"
  let ?S = "set (zdr_contributions l) \<union> set (zdr_contributions r)"
  have "consistent ?c" "consistent ?c'" using assms(4) by (auto simp: consistent_def)
  then obtain ys where ys: "deduplicate_accounting_contributions ?c = Inr ys"
    and ys': "deduplicate_accounting_contributions ?c' = Inr ys"
    using dedup_ok_iff [of ?c] dedup_ok_iff [of ?c'] dedup_unique [of ?c _ ?c']
    by (metis is_ok_iff set_append Un_commute)
  have S: "set ys = ?S" "distinct ys" using dedup_Inr [OF ys] by (auto simp: distinct_map)
  have nn: "\<forall>c \<in> ?S. 0 \<le> con_runtime_s c"
    using assms(5) by (auto dest!: bspec intro: contribution_nonneg)
  note l = assms(1) [unfolded zone_daily_ok_iff] and r = assms(2) [unfolded zone_daily_ok_iff]
  have known: "known_runtime (zdr_contributions l) \<le> known_runtime ys"
    "known_runtime (zdr_contributions r) \<le> known_runtime ys" "0 \<le> known_runtime ys"
    using l r S nn by (auto simp: known_distinct intro!: sum_mono2 sum_nonneg)
  have un: "0 \<le> unresolved_runtime l" "0 \<le> unresolved_runtime r"
    "zdr_runtime_s l - known_runtime (zdr_contributions l) \<le> unresolved_runtime l"
    "zdr_runtime_s r - known_runtime (zdr_contributions r) \<le> unresolved_runtime r"
    using l r by (auto simp: unresolved_runtime_def)
  let ?m = "\<lparr>zdr_date_local = zdr_date_local l,
     zdr_runtime_s = known_runtime ys + (unresolved_runtime l + unresolved_runtime r),
     zdr_conservative_unattributed_runtime_s = unresolved_runtime l + unresolved_runtime r,
     zdr_contributions = ys\<rparr>"
  have "mk_zone_daily ?m = Inr ?m"
    unfolding zone_daily_ok_iff using known un S assms(3,4) l r by (auto simp: consistent_def)
  then have "conservative_merge_daily_runtime l r = Inr ?m" "conservative_merge_daily_runtime r l = Inr ?m"
    using ys ys' assms(3) by (simp_all add: conservative_merge_daily_runtime_def Let_def add.commute)
  with known un S show ?thesis by auto
qed

theorem merge_daily_conservative_witness:
  "\<exists>m. conservative_merge_daily_runtime
        \<lparr>zdr_date_local = 1, zdr_runtime_s = 30, zdr_conservative_unattributed_runtime_s = 0,
         zdr_contributions = [sample_contribution ''a'' 10]\<rparr>
        \<lparr>zdr_date_local = 1, zdr_runtime_s = 15, zdr_conservative_unattributed_runtime_s = 5,
         zdr_contributions = [sample_contribution ''a'' 10]\<rparr> = Inr m \<and> 30 \<le> zdr_runtime_s m"
  using merge_daily_conservative
    [of "\<lparr>zdr_date_local = 1, zdr_runtime_s = 30, zdr_conservative_unattributed_runtime_s = 0,
          zdr_contributions = [sample_contribution ''a'' 10]\<rparr>"
        "\<lparr>zdr_date_local = 1, zdr_runtime_s = 15, zdr_conservative_unattributed_runtime_s = 5,
          zdr_contributions = [sample_contribution ''a'' 10]\<rparr>"]
  by (auto simp: zone_daily_ok_iff consistent_def known_runtime_def mk_contribution_def
      sample_contribution_def)

end
