(* ===== verification/Store_Data.thy ===== *)
theory Store_Data
  imports Session Accounting
begin

text \<open>
  The persisted data model of \<open>models.py\<close> (schema 3): entity identities, the applied
  configuration shadow, zone histories, actuator safety records and the complete snapshot, each
  with the checks of its \<open>__post_init__\<close>, and the cross-reference check
  \<open>validate_store_data\<close>.  A dictionary is an association list in insertion order, which is
  the order in which the checks visit it.
\<close>

section \<open>Identities\<close>

record SensorIdentity =
  si_registry_entry_id :: "string option"
  si_last_known_entity_id :: "string option"

definition mk_sensor_identity :: "SensorIdentity \<Rightarrow> SensorIdentity result" where
  "mk_sensor_identity i =
     (if si_registry_entry_id i = Some [] \<or> si_last_known_entity_id i = Some []
      then Inl (ValueError ''sensor identity values must be non-empty or null'')
      else (case si_last_known_entity_id i of
              Some e \<Rightarrow>
                if entity_domain e \<noteq> SENSOR_DOMAIN
                then Inl (ValueError ''sensor last_known_entity_id must use the sensor domain'')
                else Inr i
            | None \<Rightarrow> Inr i))"

record AppliedEntityIdentity =
  ae_registry_entry_id :: "string option"
  ae_last_known_entity_id :: string
  ae_domain :: string

definition mk_applied_identity :: "AppliedEntityIdentity \<Rightarrow> AppliedEntityIdentity result" where
  "mk_applied_identity i =
     (if ae_last_known_entity_id i = [] \<or> entity_domain (ae_last_known_entity_id i) \<noteq> ae_domain i
      then Inl (ValueError ''applied entity identity/domain mismatch'')
      else if ae_registry_entry_id i = Some []
      then Inl (ValueError ''registry_entry_id must be non-empty or null'')
      else Inr i)"

record ActuatorIdentity =
  ai_registry_entry_id :: "string option"
  ai_last_known_entity_id :: "string option"
  ai_domain :: "string option"
  ai_identity_status :: IdentityStatus
  ai_off_service :: "string option"
  ai_confirm_timeout_s :: "int option"

definition expected_off_service :: "string option \<Rightarrow> string option" where
  "expected_off_service domain =
     (if domain = Some ACTUATOR_DOMAIN_SWITCH then Some ''switch.turn_off''
      else if domain = Some ACTUATOR_DOMAIN_VALVE then Some ''valve.close_valve''
      else None)"

definition mk_actuator_identity :: "ActuatorIdentity \<Rightarrow> ActuatorIdentity result" where
  "mk_actuator_identity i =
     (if ai_registry_entry_id i = Some [] \<or> ai_last_known_entity_id i = Some []
      then Inl (ValueError ''actuator identity strings must be non-empty or null'')
      else if ai_domain i \<notin> {None, Some ACTUATOR_DOMAIN_SWITCH, Some ACTUATOR_DOMAIN_VALVE}
      then Inl (ValueError ''actuator identity domain must be switch, valve, or null'')
      else if (case ai_last_known_entity_id i of
                 None \<Rightarrow> False
               | Some e \<Rightarrow> ai_domain i = None \<or> Some (entity_domain e) \<noteq> ai_domain i)
      then Inl (ValueError ''actuator entity ID/domain mismatch'')
      else if ai_off_service i \<noteq> expected_off_service (ai_domain i)
      then Inl (ValueError ''actuator OFF service/domain mismatch'')
      else if (case ai_confirm_timeout_s i of None \<Rightarrow> False | Some t \<Rightarrow> t \<le> 0)
      then Inl (ValueError ''confirm_timeout_s must be positive or null'')
      else if ai_identity_status i \<notin> {MISSING, CONFLICT} \<and>
              (ai_last_known_entity_id i = None \<or> ai_domain i = None \<or> ai_confirm_timeout_s i = None)
      then Inl (ValueError ''resolved actuator identity requires entity/domain/timeout metadata'')
      else if ai_identity_status i = REGISTRY_CONFIRMED \<and> ai_registry_entry_id i = None
      then Inl (ValueError ''registry_confirmed identity requires registry_entry_id'')
      else if ai_identity_status i = REGISTRY_UNAVAILABLE \<and> ai_registry_entry_id i \<noteq> None
      then Inl (ValueError ''registry_unavailable identity cannot carry registry_entry_id'')
      else Inr i)"

section \<open>Applied configuration\<close>

record NormalizedZoneSettings =
  ns_name :: string
  ns_start_threshold :: rat
  ns_target_threshold :: rat
  ns_pulse_duration_s :: int
  ns_soak_duration_s :: int
  ns_max_cycles :: int
  ns_max_session_runtime_s :: int
  ns_max_daily_runtime_s :: int
  ns_min_session_interval_s :: int
  ns_sensor_max_age_s :: int
  ns_actuator_confirm_timeout_s :: int
  ns_manual_max_duration_s :: int

definition settings_from_config :: "ZoneConfig \<Rightarrow> NormalizedZoneSettings result" where
  "settings_from_config c =
     res_bind (config_validate c) (\<lambda>_.
       Inr \<lparr>ns_name = cfg_name c, ns_start_threshold = cfg_start_threshold c,
            ns_target_threshold = cfg_target_threshold c,
            ns_pulse_duration_s = cfg_pulse_duration_s c,
            ns_soak_duration_s = cfg_soak_duration_s c, ns_max_cycles = cfg_max_cycles c,
            ns_max_session_runtime_s = cfg_max_session_runtime_s c,
            ns_max_daily_runtime_s = cfg_max_daily_runtime_s c,
            ns_min_session_interval_s = cfg_min_session_interval_s c,
            ns_sensor_max_age_s = cfg_sensor_max_age_s c,
            ns_actuator_confirm_timeout_s = cfg_actuator_confirm_timeout_s c,
            ns_manual_max_duration_s = cfg_manual_max_duration_s c\<rparr>)"

definition settings_to_config :: "NormalizedZoneSettings \<Rightarrow> string \<Rightarrow> string \<Rightarrow> ZoneConfig" where
  "settings_to_config n sensor_entity_id actuator_entity_id =
     \<lparr>cfg_name = ns_name n, cfg_moisture_sensor = sensor_entity_id,
      cfg_actuator = actuator_entity_id, cfg_start_threshold = ns_start_threshold n,
      cfg_target_threshold = ns_target_threshold n,
      cfg_pulse_duration_s = ns_pulse_duration_s n, cfg_soak_duration_s = ns_soak_duration_s n,
      cfg_max_cycles = ns_max_cycles n, cfg_max_session_runtime_s = ns_max_session_runtime_s n,
      cfg_max_daily_runtime_s = ns_max_daily_runtime_s n,
      cfg_min_session_interval_s = ns_min_session_interval_s n,
      cfg_sensor_max_age_s = ns_sensor_max_age_s n,
      cfg_actuator_confirm_timeout_s = ns_actuator_confirm_timeout_s n,
      cfg_manual_max_duration_s = ns_manual_max_duration_s n\<rparr>"

definition settings_validate :: "NormalizedZoneSettings \<Rightarrow> string \<Rightarrow> string \<Rightarrow> unit result" where
  "settings_validate n sensor_entity_id actuator_entity_id =
     config_validate (settings_to_config n sensor_entity_id actuator_entity_id)"

record AppliedConfigurationShadow =
  sh_subentry_id :: string
  sh_config_fingerprint :: string
  sh_entry_snapshot_fingerprint :: string
  sh_applied_generation :: int
  sh_normalized_settings :: NormalizedZoneSettings
  sh_sensor_identity :: AppliedEntityIdentity
  sh_actuator_identity :: AppliedEntityIdentity

definition mk_shadow :: "AppliedConfigurationShadow \<Rightarrow> AppliedConfigurationShadow result" where
  "mk_shadow s =
     (if sh_subentry_id s = [] \<or> sh_config_fingerprint s = [] \<or> sh_entry_snapshot_fingerprint s = []
      then Inl (ValueError ''applied shadow identifiers/fingerprints must be non-empty'')
      else if sh_applied_generation s < 0
      then Inl (ValueError ''applied_generation must be a non-negative integer'')
      else if ae_domain (sh_sensor_identity s) \<noteq> SENSOR_DOMAIN
      then Inl (ValueError ''applied sensor identity must use sensor domain'')
      else if ae_domain (sh_actuator_identity s) \<notin> {ACTUATOR_DOMAIN_SWITCH, ACTUATOR_DOMAIN_VALVE}
      then Inl (ValueError ''applied actuator identity must use switch or valve domain'')
      else res_bind (settings_validate (sh_normalized_settings s)
             (ae_last_known_entity_id (sh_sensor_identity s))
             (ae_last_known_entity_id (sh_actuator_identity s))) (\<lambda>_. Inr s))"

record IdentityIncident =
  inc_kind :: IdentityIncidentKind
  inc_detail :: string

definition mk_incident :: "IdentityIncident \<Rightarrow> IdentityIncident result" where
  "mk_incident i =
     (if inc_detail i = [] then Inl (ValueError ''identity incident detail must be non-empty'')
      else Inr i)"

section \<open>Zone history\<close>

record PersistedSession =
  ps_owner_safety_record_id :: string
  ps_context :: SessionContext

definition mk_persisted_session :: "PersistedSession \<Rightarrow> PersistedSession result" where
  "mk_persisted_session p =
     (if ps_owner_safety_record_id p = []
      then Inl (ValueError ''owner_safety_record_id must be non-empty'') else Inr p)"

record ZoneRuntime =
  zr_enabled :: bool
  zr_state :: ControllerState
  zr_zone_fault :: "FaultCode option"
  zr_secondary_fault :: "FaultCode option"
  zr_sensor_identity :: SensorIdentity
  zr_last_session_summary :: "SessionSummary option"
  zr_session :: "PersistedSession option"

definition in_scope :: "FaultCode option \<Rightarrow> FaultCode set \<Rightarrow> bool" where
  "in_scope f S = (case f of None \<Rightarrow> True | Some c \<Rightarrow> c \<in> S)"

definition mk_zone_runtime :: "ZoneRuntime \<Rightarrow> ZoneRuntime result" where
  "mk_zone_runtime z =
     (if \<not> in_scope (zr_zone_fault z) ZONE_FAULTS
      then Inl (ValueError ''zone_fault must be sensor/configuration scoped'')
      else if \<not> in_scope (zr_secondary_fault z) ZONE_FAULTS
      then Inl (ValueError ''zone secondary_fault must be sensor/configuration scoped'')
      else if zr_zone_fault z \<noteq> None \<and> zr_zone_fault z = zr_secondary_fault z
      then Inl (ValueError ''zone primary and secondary fault must not duplicate'')
      else Inr z)"

definition validate_id_history ::
  "string \<Rightarrow> string option \<Rightarrow> string list \<Rightarrow> string \<Rightarrow> unit result" where
  "validate_id_history stable_id active_subentry_id previous_subentry_ids ctx =
     (if stable_id = [] then Inl (ValueError (ctx @ '' stable ID must be non-empty''))
      else if active_subentry_id = Some [] \<or> [] \<in> set previous_subentry_ids
      then Inl (ValueError (ctx @ '' subentry IDs must be non-empty or null''))
      else if \<not> distinct previous_subentry_ids
      then Inl (ValueError (ctx @ '' previous_subentry_ids must be unique''))
      else if (case active_subentry_id of None \<Rightarrow> False | Some a \<Rightarrow> a \<in> set previous_subentry_ids)
      then Inl (ValueError (ctx @ '' active subentry cannot also be previous''))
      else Inr ())"

record ZoneHistory =
  zh_zone_history_id :: string
  zh_active_subentry_id :: "string option"
  zh_previous_subentry_ids :: "string list"
  zh_last_session_end_utc :: "utc option"
  zh_last_auto_session_start_utc :: "utc option"
  zh_zone_runtime :: ZoneRuntime
  zh_daily :: "ZoneDailyRuntime option"

definition mk_zone_history :: "ZoneHistory \<Rightarrow> ZoneHistory result" where
  "mk_zone_history h =
     res_bind (validate_id_history (zh_zone_history_id h) (zh_active_subentry_id h)
                 (zh_previous_subentry_ids h) ''zone_history'') (\<lambda>_. Inr h)"

definition latest :: "utc option \<Rightarrow> utc option \<Rightarrow> utc option" where
  "latest left right =
     (case left of
        None \<Rightarrow> right
      | Some l \<Rightarrow> (case right of None \<Rightarrow> left | Some r \<Rightarrow> Some (max l r)))"

definition merge_zone_history_continuity :: "ZoneHistory \<Rightarrow> ZoneHistory \<Rightarrow> ZoneHistory result" where
  "merge_zone_history_continuity continuing retained =
     (if zh_zone_history_id continuing = zh_zone_history_id retained
      then (if continuing \<noteq> retained
            then Inl (ValueError ''one zone_history_id cannot have conflicting payloads'')
            else Inr continuing)
      else res_bind
        (case (zh_daily continuing, zh_daily retained) of
           (None, d) \<Rightarrow> Inr d
         | (Some c, None) \<Rightarrow> Inr (Some c)
         | (Some c, Some r) \<Rightarrow>
             if zdr_date_local c = zdr_date_local r
             then res_bind (conservative_merge_daily_runtime c r) (\<lambda>d. Inr (Some d))
             else Inr (Some (if zdr_date_local r > zdr_date_local c then r else c)))
        (\<lambda>daily. mk_zone_history
           (continuing\<lparr>zh_last_session_end_utc :=
                latest (zh_last_session_end_utc continuing) (zh_last_session_end_utc retained),
              zh_last_auto_session_start_utc :=
                latest (zh_last_auto_session_start_utc continuing)
                       (zh_last_auto_session_start_utc retained),
              zh_daily := daily\<rparr>)))"

section \<open>Safety record\<close>

record RemovedActuatorAcknowledgement =
  rak_acknowledged_at_utc :: utc
  rak_registry_entry_id :: string
  rak_last_known_entity_id :: "string option"

definition mk_removed_ack :: "RemovedActuatorAcknowledgement \<Rightarrow> RemovedActuatorAcknowledgement result" where
  "mk_removed_ack a =
     (if rak_registry_entry_id a = []
      then Inl (ValueError ''removed-actuator acknowledgement requires a registry_entry_id'')
      else Inr a)"

definition ack_covers :: "RemovedActuatorAcknowledgement \<Rightarrow> ActuatorIdentity \<Rightarrow> bool" where
  "ack_covers a identity \<longleftrightarrow>
     ai_registry_entry_id identity \<noteq> None \<and>
     ai_registry_entry_id identity = Some (rak_registry_entry_id a)"

record SafetyRecord =
  sr_safety_record_id :: string
  sr_zone_id :: string
  sr_active_subentry_id :: "string option"
  sr_previous_subentry_ids :: "string list"
  sr_safety_lineage_id :: string
  sr_zone_history_id :: string
  sr_historical_zone_history_ids :: "string list"
  sr_runtime_lifecycle :: RuntimeLifecycle
  sr_applied_config :: "AppliedConfigurationShadow option"
  sr_actuator_identity :: ActuatorIdentity
  sr_blocker_reasons :: "BlockerReason list"
  sr_possible_flow_owner :: "PossibleFlowOwner option"
  sr_identity_incident :: "IdentityIncident option"
  sr_actuator_fault :: "FaultCode option"
  sr_acknowledgement_required :: bool
  sr_removed_actuator_ack :: "RemovedActuatorAcknowledgement option"

definition record_lifecycle_check :: "SafetyRecord \<Rightarrow> SafetyRecord result" where
  "record_lifecycle_check r =
     (if sr_runtime_lifecycle r = ACTIVE then
        (case (sr_active_subentry_id r, sr_applied_config r) of
           (Some sub, Some shadow) \<Rightarrow>
             if sh_subentry_id shadow \<noteq> sub
             then Inl (ValueError ''applied shadow/current subentry mismatch'')
             else if ai_identity_status (sr_actuator_identity r) \<notin> {REGISTRY_CONFIRMED, REGISTRY_UNAVAILABLE}
             then Inl (ValueError ''ACTIVE record requires a resolved actuator identity'')
             else Inr r
         | _ \<Rightarrow> Inl (ValueError ''ACTIVE record requires current subentry and applied shadow''))
      else if sr_active_subentry_id r \<noteq> None
      then Inl (ValueError ''non-ACTIVE record cannot own a current subentry'')
      else Inr r)"

definition mk_safety_record :: "SafetyRecord \<Rightarrow> SafetyRecord result" where
  "mk_safety_record r =
     res_bind (validate_id_history (sr_safety_record_id r) (sr_active_subentry_id r)
                 (sr_previous_subentry_ids r) ''safety_record'') (\<lambda>_.
       if sr_zone_id r = [] \<or> sr_safety_lineage_id r = [] \<or> sr_zone_history_id r = []
       then Inl (ValueError ''safety record identities must be non-empty'')
       else if \<not> distinct (sr_historical_zone_history_ids r)
       then Inl (ValueError ''historical_zone_history_ids must be unique'')
       else if sr_zone_history_id r \<in> set (sr_historical_zone_history_ids r)
       then Inl (ValueError ''current zone_history_id cannot also be historical'')
       else if \<not> distinct (sr_blocker_reasons r)
       then Inl (ValueError ''blocker reasons must be unique'')
       else if \<not> in_scope (sr_actuator_fault r) ACTUATOR_FAULTS
       then Inl (ValueError ''actuator_fault must be actuator/integrity scoped'')
       else if sr_acknowledgement_required r \<and>
               (case sr_actuator_fault r of None \<Rightarrow> True | Some f \<Rightarrow> \<not> requires_user_ack f)
       then Inl (ValueError ''acknowledgement requires an acknowledgement-capable actuator fault'')
       else if sr_removed_actuator_ack r \<noteq> None \<and> sr_runtime_lifecycle r = ACTIVE
       then Inl (ValueError ''an ACTIVE record cannot carry a removed-actuator acknowledgement'')
       else record_lifecycle_check r)"

section \<open>The snapshot\<close>

record RunIds =
  run_active_run_id :: "string option"
  run_last_clean_shutdown_run_id :: "string option"

definition previous_run_was_clean :: "RunIds \<Rightarrow> bool" where
  "previous_run_was_clean r \<longleftrightarrow>
     run_active_run_id r \<noteq> None \<and> run_active_run_id r = run_last_clean_shutdown_run_id r"

record StoreData =
  st_generation_id :: string
  st_store_revision :: int
  st_run :: RunIds
  st_zone_histories :: "(string \<times> ZoneHistory) list"
  st_safety_records :: "(string \<times> SafetyRecord) list"
  st_version :: int

text \<open>A \<open>for\<close> loop whose body may raise.\<close>

fun for_all :: "('a \<Rightarrow> unit result) \<Rightarrow> 'a list \<Rightarrow> unit result" where
  "for_all f [] = Inr ()"
| "for_all f (x # xs) = res_bind (f x) (\<lambda>_. for_all f xs)"

definition somes :: "'a option list \<Rightarrow> 'a list" where
  "somes xs = map the (filter (\<lambda>x. x \<noteq> None) xs)"

definition check_record_history :: "StoreData \<Rightarrow> SafetyRecord \<Rightarrow> unit result" where
  "check_record_history data r =
     (case map_of (st_zone_histories data) (sr_zone_history_id r) of
        None \<Rightarrow> Inl (ValueError ''safety record references missing zone_history_id'')
      | Some h \<Rightarrow>
          if sr_runtime_lifecycle r = ACTIVE \<and> zh_active_subentry_id h \<noteq> sr_active_subentry_id r
          then Inl (ValueError ''ACTIVE safety/history current ownership mismatch'')
          else Inr ())"

definition check_session_owner :: "StoreData \<Rightarrow> ZoneHistory \<Rightarrow> unit result" where
  "check_session_owner data h =
     (case zr_session (zh_zone_runtime h) of
        None \<Rightarrow> Inr ()
      | Some persisted \<Rightarrow>
          (case map_of (st_safety_records data) (ps_owner_safety_record_id persisted) of
             None \<Rightarrow> Inl (ValueError ''persisted session owner_safety_record_id does not exist'')
           | Some owner \<Rightarrow>
               if sr_zone_history_id owner \<noteq> zh_zone_history_id h
               then Inl (ValueError ''persisted session owner references a different zone history'')
               else Inr ()))"

fun check_contributions ::
  "StoreData \<Rightarrow> AccountingContribution list \<Rightarrow> AccountingContribution list \<Rightarrow> unit result" where
  "check_contributions data seen [] = Inr ()"
| "check_contributions data seen (c # cs) =
     (if con_source_safety_record_id c \<notin> fst ` set (st_safety_records data)
      then Inl (ValueError ''accounting contribution source safety record does not exist'')
      else (case find (\<lambda>p. con_accounting_contribution_id p = con_accounting_contribution_id c) seen of
              Some prior \<Rightarrow>
                if prior \<noteq> c
                then Inl (ValueError ''conflicting duplicate accounting contribution ID'')
                else Inl (ValueError ''duplicate accounting contribution ID in Store'')
            | None \<Rightarrow> check_contributions data (c # seen) cs))"

definition all_contributions :: "StoreData \<Rightarrow> AccountingContribution list" where
  "all_contributions data =
     concat (map (\<lambda>(_, h). case zh_daily h of None \<Rightarrow> [] | Some d \<Rightarrow> zdr_contributions d)
                 (st_zone_histories data))"

definition validate_store_data :: "StoreData \<Rightarrow> unit result" where
  "validate_store_data data =
     (let histories = map snd (st_zone_histories data); records = map snd (st_safety_records data)
      in if st_version data \<noteq> STORE_SCHEMA_VERSION
         then Inl (ValueError ''StoreData version must be 3'')
         else if st_generation_id data = []
         then Inl (ValueError ''generation_id must be non-empty'')
         else if st_store_revision data < 1
         then Inl (ValueError ''store_revision must be a positive integer'')
         else if fst ` set (st_zone_histories data) \<noteq> zh_zone_history_id ` set histories
         then Inl (ValueError ''zone-history map keys must equal stable IDs'')
         else if fst ` set (st_safety_records data) \<noteq> sr_safety_record_id ` set records
         then Inl (ValueError ''safety-record map keys must equal stable IDs'')
         else if \<not> distinct (map sr_safety_lineage_id records)
         then Inl (ValueError ''safety_lineage_id must be globally unique'')
         else if \<not> distinct (somes (map sr_active_subentry_id records))
         then Inl (ValueError ''current subentry cannot own multiple safety records'')
         else if \<not> distinct (somes (map zh_active_subentry_id histories))
         then Inl (ValueError ''current subentry cannot own multiple zone histories'')
         else res_bind (for_all (check_record_history data) records) (\<lambda>_.
              res_bind (for_all (check_session_owner data) histories) (\<lambda>_.
              check_contributions data [] (all_contributions data))))"

definition mk_store_data :: "StoreData \<Rightarrow> StoreData result" where
  "mk_store_data data = res_bind (validate_store_data data) (\<lambda>_. Inr data)"

end
