(* ===== verification/Safety_Store.thy ===== *)
theory Safety_Store
  imports Store_Data Transition_System
begin

text \<open>
  \<open>storage.py\<close>: the entry-wide safety store.  Every operation computes a new snapshot from
  the last verified one and commits it by \<open>_save_and_verify_locked\<close>; here the first half is
  a function from the snapshot (\<open>..._plan\<close>) and the second is \<open>save_and_verify\<close>.  All
  operations hold the entry-wide lock from begin to end, so each is one step.

  Home Assistant's \<open>Store\<close> is the environment: for one write it either raises, or a fresh
  instance reads back something (\<open>store_io\<close>).  Payloads are the subject of \<open>Store_Codec\<close> and
  \<open>Store_Migration\<close>, which refine this write; here what a payload carries of a snapshot is \<open>persisted_view\<close>, the snapshot with its maps in key order and without the
  live-only session fields that \<open>session_to_dict\<close> leaves out.  Error texts carry no interpolated values.
\<close>

section \<open>The verified write\<close>

datatype read_back =
    LoadRaised
  | NoData
  | Malformed
  | Loaded StoreData

record store_io =
  io_save_raises :: bool
  io_read_back :: read_back

record SafetyStore =
  ss_generation_id :: string
  ss_data :: "StoreData option"

definition persisted_session_view :: "SessionContext \<Rightarrow> SessionContext" where
  "persisted_session_view s =
     s\<lparr>ses_sensor_fresh_until_utc := None, ses_sensor_freshness_watchdog_generation := 0,
       ses_last_recheck_value := None, ses_pending_termination_reason := None\<rparr>"

definition history_view :: "ZoneHistory \<Rightarrow> ZoneHistory" where
  "history_view h =
     h\<lparr>zh_zone_runtime := (zh_zone_runtime h)
        \<lparr>zr_session := map_option (\<lambda>p. p\<lparr>ps_context := persisted_session_view (ps_context p)\<rparr>)
                          (zr_session (zh_zone_runtime h))\<rparr>\<rparr>"

text \<open>The identifiers of histories and records are the keys of the written maps, not fields of
  the written values.\<close>

definition persisted_view :: "StoreData \<Rightarrow> StoreData" where
  "persisted_view d =
     d\<lparr>st_zone_histories :=
         sort_key fst (map (\<lambda>(k, h). (k, (history_view h)\<lparr>zh_zone_history_id := k\<rparr>)) (st_zone_histories d)),
       st_safety_records :=
         sort_key fst (map (\<lambda>(k, r). (k, r\<lparr>sr_safety_record_id := k\<rparr>)) (st_safety_records d))\<rparr>"

definition store_data :: "SafetyStore \<Rightarrow> StoreData result" where
  "store_data s =
     (case ss_data s of
        None \<Rightarrow> Inl (StoreNotLoadedError ''safety store has no verified snapshot'')
      | Some d \<Rightarrow> Inr d)"

definition save_and_verify :: "store_io \<Rightarrow> StoreData \<Rightarrow> SafetyStore \<Rightarrow> SafetyStore \<times> py_error option" where
  "save_and_verify io data s =
     (let fail = (\<lambda>msg. (s, Some (StoreWriteVerificationError msg)))
      in if io_save_raises io then fail ''safety write failed''
         else (case io_read_back io of
                 LoadRaised \<Rightarrow> fail ''read-back load failed''
               | NoData \<Rightarrow> fail ''read-back returned no data''
               | Malformed \<Rightarrow> fail ''read-back malformed''
               | Loaded loaded \<Rightarrow>
                   if st_version loaded \<noteq> STORE_SCHEMA_VERSION then fail ''read-back schema mismatch''
                   else if st_generation_id loaded \<noteq> st_generation_id data
                   then fail ''read-back generation mismatch''
                   else if st_store_revision loaded \<noteq> st_store_revision data
                   then fail ''read-back revision mismatch''
                   else if persisted_view loaded \<noteq> persisted_view data
                   then fail ''read-back payload mismatch''
                   else (s\<lparr>ss_data := Some data\<rparr>, None)))"

text \<open>One operation: the plan may raise, decide that nothing is to be written, or give the new
  snapshot.\<close>

definition transact ::
  "store_io \<Rightarrow> (StoreData \<Rightarrow> StoreData option result) \<Rightarrow> SafetyStore \<Rightarrow> SafetyStore \<times> py_error option" where
  "transact io plan s =
     (case res_bind (store_data s) plan of
        Inl e \<Rightarrow> (s, Some e)
      | Inr None \<Rightarrow> (s, None)
      | Inr (Some data) \<Rightarrow> save_and_verify io data s)"

section \<open>Run protocol\<close>

definition next_revision :: "StoreData \<Rightarrow> StoreData" where
  "next_revision d = d\<lparr>st_store_revision := st_store_revision d + 1\<rparr>"

definition commit_plan :: "StoreData \<Rightarrow> StoreData option result" where
  "commit_plan d = res_bind (mk_store_data (next_revision d)) (\<lambda>d'. Inr (Some d'))"

definition begin_new_run_plan :: "string \<Rightarrow> StoreData \<Rightarrow> StoreData option result" where
  "begin_new_run_plan new_active_run_id d =
     commit_plan (d\<lparr>st_run :=
       \<lparr>run_active_run_id = Some new_active_run_id,
        run_last_clean_shutdown_run_id = run_last_clean_shutdown_run_id (st_run d)\<rparr>\<rparr>)"

definition mark_clean_shutdown_plan :: "StoreData \<Rightarrow> StoreData option result" where
  "mark_clean_shutdown_plan d =
     commit_plan (d\<lparr>st_run :=
       \<lparr>run_active_run_id = run_active_run_id (st_run d),
        run_last_clean_shutdown_run_id = run_active_run_id (st_run d)\<rparr>\<rparr>)"

definition first_initialize_data :: "string \<Rightarrow> StoreData result" where
  "first_initialize_data generation_id =
     mk_store_data
       \<lparr>st_generation_id = generation_id, st_store_revision = 1,
        st_run = \<lparr>run_active_run_id = None, run_last_clean_shutdown_run_id = None\<rparr>,
        st_zone_histories = [], st_safety_records = [], st_version = STORE_SCHEMA_VERSION\<rparr>"

definition first_initialize :: "store_io \<Rightarrow> SafetyStore \<Rightarrow> SafetyStore \<times> py_error option" where
  "first_initialize io s =
     (case first_initialize_data (ss_generation_id s) of
        Inl e \<Rightarrow> (s, Some e)
      | Inr data \<Rightarrow> save_and_verify io data s)"

section \<open>Integrity-loss reconstruction\<close>

text \<open>\<open>uid generation_id zone_id kind\<close> stands for \<open>_integrity_id\<close>, a name-based UUID of
  the standard library; \<open>day_text\<close> is the ISO form of the detection date.\<close>

definition integrity_contribution ::
  "(string \<Rightarrow> string \<Rightarrow> string \<Rightarrow> string) \<Rightarrow> string \<Rightarrow> string \<Rightarrow> local_date \<Rightarrow> string \<Rightarrow> int \<Rightarrow>
   AccountingContribution result" where
  "integrity_contribution uid generation_id day_text detection_date_local zone_id max_daily =
     mk_contribution
       \<lparr>con_accounting_contribution_id = uid generation_id zone_id (''integrity-daily:'' @ day_text),
        con_source_safety_record_id = zone_id, con_start_utc = None, con_end_utc = None,
        con_runtime_s = of_int max_daily, con_runtime_estimated = True,
        con_local_date = Some detection_date_local\<rparr>"

definition integrity_history ::
  "(string \<Rightarrow> string \<Rightarrow> string \<Rightarrow> string) \<Rightarrow> string \<Rightarrow> string \<Rightarrow> local_date \<Rightarrow> string \<Rightarrow> int \<Rightarrow>
   ZoneHistory result" where
  "integrity_history uid generation_id day_text detection_date_local zone_id max_daily =
     res_bind (integrity_contribution uid generation_id day_text detection_date_local zone_id max_daily)
       (\<lambda>contribution.
          res_bind (mk_zone_runtime
            \<lparr>zr_enabled = True, zr_state = FAULT, zr_zone_fault = None, zr_secondary_fault = None,
             zr_sensor_identity = \<lparr>si_registry_entry_id = None, si_last_known_entity_id = None\<rparr>,
             zr_last_session_summary = None, zr_session = None\<rparr>) (\<lambda>zone_runtime.
          res_bind (mk_zone_daily
            \<lparr>zdr_date_local = detection_date_local, zdr_runtime_s = of_int max_daily,
             zdr_conservative_unattributed_runtime_s = 0, zdr_contributions = [contribution]\<rparr>) (\<lambda>daily.
          mk_zone_history
            \<lparr>zh_zone_history_id = uid generation_id zone_id ''zone-history'',
             zh_active_subentry_id = None, zh_previous_subentry_ids = [zone_id],
             zh_last_session_end_utc = None, zh_last_auto_session_start_utc = None,
             zh_zone_runtime = zone_runtime, zh_daily = Some daily\<rparr>)))"

definition integrity_record ::
  "(string \<Rightarrow> string \<Rightarrow> string \<Rightarrow> string) \<Rightarrow> string \<Rightarrow> string \<Rightarrow> SafetyRecord result" where
  "integrity_record uid generation_id zone_id =
     res_bind (mk_actuator_identity
       \<lparr>ai_registry_entry_id = None, ai_last_known_entity_id = None, ai_domain = None,
        ai_identity_status = MISSING, ai_off_service = None, ai_confirm_timeout_s = None\<rparr>)
       (\<lambda>identity.
     res_bind (mk_incident
       \<lparr>inc_kind = MIGRATION_UNRESOLVED,
        inc_detail = ''runtime Store integrity was reconstructed without durable identity''\<rparr>)
       (\<lambda>incident.
     mk_safety_record
       \<lparr>sr_safety_record_id = zone_id, sr_zone_id = zone_id, sr_active_subentry_id = None,
        sr_previous_subentry_ids = [zone_id],
        sr_safety_lineage_id = uid generation_id zone_id ''safety-lineage'',
        sr_zone_history_id = uid generation_id zone_id ''zone-history'',
        sr_historical_zone_history_ids = [], sr_runtime_lifecycle = DELETE_PENDING,
        sr_applied_config = None, sr_actuator_identity = identity,
        sr_blocker_reasons = [ACTUATOR_NOT_PROVEN_OFF], sr_possible_flow_owner = None,
        sr_identity_incident = Some incident,
        sr_actuator_fault = Some RESTORED_FROM_UNSAFE_STATE, sr_acknowledgement_required = True,
        sr_removed_actuator_ack = None\<rparr>))"

fun reconstruct_loop ::
  "(string \<Rightarrow> string \<Rightarrow> string \<Rightarrow> string) \<Rightarrow> string \<Rightarrow> string \<Rightarrow> local_date \<Rightarrow> (string \<times> int) list \<Rightarrow>
   (string \<times> ZoneHistory) list \<Rightarrow> (string \<times> SafetyRecord) list \<Rightarrow>
   ((string \<times> ZoneHistory) list \<times> (string \<times> SafetyRecord) list) result" where
  "reconstruct_loop uid g t day [] histories records = Inr (histories, records)"
| "reconstruct_loop uid g t day ((zone_id, max_daily) # budgets) histories records =
     res_bind (integrity_history uid g t day zone_id max_daily) (\<lambda>h.
     res_bind (integrity_record uid g zone_id) (\<lambda>r.
     reconstruct_loop uid g t day budgets
       (AList.update (zh_zone_history_id h) h histories) (AList.update zone_id r records)))"

definition reconstruct_data ::
  "(string \<Rightarrow> string \<Rightarrow> string \<Rightarrow> string) \<Rightarrow> string \<Rightarrow> string \<Rightarrow> local_date \<Rightarrow> (string \<times> int) list \<Rightarrow>
   StoreData result" where
  "reconstruct_data uid generation_id day_text detection_date_local zone_budgets =
     res_bind (reconstruct_loop uid generation_id day_text detection_date_local zone_budgets [] [])
       (\<lambda>(histories, records).
          mk_store_data
            \<lparr>st_generation_id = generation_id, st_store_revision = 1,
             st_run = \<lparr>run_active_run_id = None, run_last_clean_shutdown_run_id = None\<rparr>,
             st_zone_histories = histories, st_safety_records = records,
             st_version = STORE_SCHEMA_VERSION\<rparr>)"

definition reconstruct_after_integrity_loss ::
  "(string \<Rightarrow> string \<Rightarrow> string \<Rightarrow> string) \<Rightarrow> string \<Rightarrow> local_date \<Rightarrow> (string \<times> int) list \<Rightarrow>
   store_io \<Rightarrow> SafetyStore \<Rightarrow> SafetyStore \<times> py_error option" where
  "reconstruct_after_integrity_loss uid day_text detection_date_local zone_budgets io s =
     (case reconstruct_data uid (ss_generation_id s) day_text detection_date_local zone_budgets of
        Inl e \<Rightarrow> (s, Some e)
      | Inr data \<Rightarrow> save_and_verify io data s)"

section \<open>Controller state\<close>

definition partition_controller_faults ::
  "FaultCode option \<Rightarrow> FaultCode option \<Rightarrow>
   (FaultCode option \<times> FaultCode option \<times> FaultCode option) result" where
  "partition_controller_faults primary secondary =
     (let actuator_faults = filter (\<lambda>f. f \<in> ACTUATOR_FAULTS) (somes [primary, secondary]);
          zone = (\<lambda>f. case f of Some c \<Rightarrow> if c \<in> ZONE_FAULTS then f else None | None \<Rightarrow> None)
      in if length actuator_faults > 1
         then Inl (StoreWriteVerificationError
                ''controller state contains two actuator faults and cannot be represented safely'')
         else Inr (case actuator_faults of [] \<Rightarrow> None | f # _ \<Rightarrow> Some f, zone primary, zone secondary))"

definition merge_controller_daily_runtime ::
  "ZoneDailyRuntime option \<Rightarrow> DailyRuntime option \<Rightarrow> ZoneDailyRuntime option result" where
  "merge_controller_daily_runtime current replacement =
     (case replacement of
        None \<Rightarrow> Inr None
      | Some r \<Rightarrow>
          res_bind (mk_zone_daily
            (case current of
               Some c \<Rightarrow>
                 if zdr_date_local c = day_date_local r
                 then \<lparr>zdr_date_local = day_date_local r, zdr_runtime_s = day_runtime_s r,
                       zdr_conservative_unattributed_runtime_s =
                         max 0 (day_runtime_s r - known_runtime (zdr_contributions c)),
                       zdr_contributions = zdr_contributions c\<rparr>
                 else \<lparr>zdr_date_local = day_date_local r, zdr_runtime_s = day_runtime_s r,
                       zdr_conservative_unattributed_runtime_s = day_runtime_s r,
                       zdr_contributions = []\<rparr>
             | None \<Rightarrow> \<lparr>zdr_date_local = day_date_local r, zdr_runtime_s = day_runtime_s r,
                        zdr_conservative_unattributed_runtime_s = day_runtime_s r,
                        zdr_contributions = []\<rparr>))
            (\<lambda>z. Inr (Some z)))"

text \<open>The keyword arguments of \<open>async_update_controller_runtime\<close>.\<close>

record controller_write =
  cw_state :: ControllerState
  cw_enabled :: bool
  cw_active_fault :: "FaultCode option"
  cw_secondary_fault :: "FaultCode option"
  cw_last_session_end_utc :: "utc option"
  cw_last_auto_session_start_utc :: "utc option"
  cw_daily :: "DailyRuntime option"
  cw_last_session_summary :: "SessionSummary option"
  cw_session :: "SessionContext option"
  cw_possible_flow_owner :: "PossibleFlowOwner option"

definition update_history ::
  "string \<Rightarrow> controller_write \<Rightarrow> FaultCode option \<Rightarrow> FaultCode option \<Rightarrow> ZoneHistory \<Rightarrow> ZoneHistory result" where
  "update_history safety_record_id w zone_fault secondary_zone_fault h =
     res_bind (case cw_session w of
                 None \<Rightarrow> Inr None
               | Some c \<Rightarrow> res_bind (mk_persisted_session
                     \<lparr>ps_owner_safety_record_id = safety_record_id, ps_context = c\<rparr>) (\<lambda>p. Inr (Some p)))
       (\<lambda>session.
          res_bind (mk_zone_runtime
            \<lparr>zr_enabled = cw_enabled w, zr_state = cw_state w, zr_zone_fault = zone_fault,
             zr_secondary_fault = secondary_zone_fault,
             zr_sensor_identity = zr_sensor_identity (zh_zone_runtime h),
             zr_last_session_summary = cw_last_session_summary w, zr_session = session\<rparr>)
            (\<lambda>zone_runtime.
               res_bind (merge_controller_daily_runtime (zh_daily h) (cw_daily w)) (\<lambda>daily.
                 mk_zone_history
                   (h\<lparr>zh_last_session_end_utc := cw_last_session_end_utc w,
                      zh_last_auto_session_start_utc := cw_last_auto_session_start_utc w,
                      zh_zone_runtime := zone_runtime, zh_daily := daily\<rparr>))))"

definition update_controller_runtime_plan ::
  "string \<Rightarrow> string \<Rightarrow> controller_write \<Rightarrow> StoreData \<Rightarrow> StoreData option result" where
  "update_controller_runtime_plan safety_record_id zone_history_id w d =
     (case map_of (st_safety_records d) safety_record_id of
        None \<Rightarrow> Inl (StoreWriteVerificationError ''unknown canonical safety_record_id'')
      | Some record1 \<Rightarrow>
          (case map_of (st_zone_histories d) zone_history_id of
             None \<Rightarrow> Inl (StoreWriteVerificationError
                       ''controller safety-record/zone-history ownership mismatch'')
           | Some history \<Rightarrow>
               if sr_zone_history_id record1 \<noteq> zone_history_id
               then Inl (StoreWriteVerificationError
                      ''controller safety-record/zone-history ownership mismatch'')
               else res_bind (partition_controller_faults (cw_active_fault w) (cw_secondary_fault w))
                 (\<lambda>(actuator_fault, zone_fault, secondary_zone_fault).
                    res_bind (update_history safety_record_id w zone_fault secondary_zone_fault history)
                      (\<lambda>history'.
                         res_bind (mk_safety_record
                           (record1\<lparr>sr_possible_flow_owner := cw_possible_flow_owner w,
                                    sr_actuator_fault := actuator_fault,
                                    sr_acknowledgement_required :=
                                      (case actuator_fault of None \<Rightarrow> False
                                       | Some f \<Rightarrow> requires_user_ack f)\<rparr>))
                           (\<lambda>record2.
                              commit_plan (d
                                \<lparr>st_zone_histories :=
                                   AList.update zone_history_id history' (st_zone_histories d),
                                 st_safety_records :=
                                   AList.update safety_record_id record2 (st_safety_records d)\<rparr>))))))"

section \<open>Acknowledgements\<close>

definition record_session :: "StoreData \<Rightarrow> SafetyRecord \<Rightarrow> PersistedSession option result" where
  "record_session d r =
     (case map_of (st_zone_histories d) (sr_zone_history_id r) of
        None \<Rightarrow> Inl KeyError
      | Some h \<Rightarrow> Inr (zr_session (zh_zone_runtime h)))"

definition commit_record :: "StoreData \<Rightarrow> string \<Rightarrow> SafetyRecord \<Rightarrow> StoreData option result" where
  "commit_record d safety_record_id r =
     res_bind (mk_safety_record r) (\<lambda>r'.
       commit_plan (d\<lparr>st_safety_records :=
         AList.update safety_record_id r' (st_safety_records d)\<rparr>))"

definition acknowledge_actuator_fault_plan ::
  "string \<Rightarrow> string \<Rightarrow> FaultCode \<Rightarrow> StoreData \<Rightarrow> StoreData option result" where
  "acknowledge_actuator_fault_plan safety_record_id safety_lineage_id expected_fault d =
     (let fail = (\<lambda>msg. Inl (StoreWriteVerificationError msg))
      in case map_of (st_safety_records d) safety_record_id of
           None \<Rightarrow> fail ''unknown canonical safety_record_id''
         | Some r \<Rightarrow>
             if sr_safety_lineage_id r \<noteq> safety_lineage_id then fail ''safety-record lineage mismatch''
             else if sr_actuator_fault r \<noteq> Some expected_fault then fail ''safety-record fault changed''
             else if \<not> sr_acknowledgement_required r \<or> \<not> requires_user_ack expected_fault
             then fail ''fault is not user-acknowledgeable''
             else if sr_identity_incident r \<noteq> None \<or>
                     ai_identity_status (sr_actuator_identity r) \<in> {MISSING, CONFLICT}
             then fail ''actuator identity is unresolved''
             else if sr_blocker_reasons r \<noteq> [] \<or> sr_possible_flow_owner r \<noteq> None
             then fail ''physical OFF/accounting evidence is unresolved''
             else res_bind (record_session d r) (\<lambda>session.
               if session \<noteq> None then fail ''physical OFF/accounting evidence is unresolved''
               else if sr_runtime_lifecycle r \<noteq> RETIRED
               then fail ''detached acknowledgement requires a safely RETIRED record''
               else commit_record d safety_record_id
                      (r\<lparr>sr_actuator_fault := None, sr_acknowledgement_required := False\<rparr>)))"

definition acknowledge_removed_actuator_plan ::
  "string \<Rightarrow> string \<Rightarrow> string \<Rightarrow> utc \<Rightarrow> StoreData \<Rightarrow> StoreData option result" where
  "acknowledge_removed_actuator_plan safety_record_id safety_lineage_id registry_entry_id at_utc d =
     (let fail = (\<lambda>msg. Inl (StoreWriteVerificationError msg))
      in case map_of (st_safety_records d) safety_record_id of
           None \<Rightarrow> fail ''unknown canonical safety_record_id''
         | Some r \<Rightarrow>
             if sr_safety_lineage_id r \<noteq> safety_lineage_id then fail ''safety-record lineage mismatch''
             else if sr_runtime_lifecycle r = ACTIVE
             then fail ''removed-actuator acknowledgement requires a retained record''
             else if ai_identity_status (sr_actuator_identity r) \<noteq> MISSING
             then fail ''actuator identity is not absent''
             else if ai_registry_entry_id (sr_actuator_identity r) \<noteq> Some registry_entry_id
             then fail ''actuator registry identity mismatch''
             else if sr_possible_flow_owner r \<noteq> None
             then fail ''possible flow ownership is unresolved''
             else res_bind (record_session d r) (\<lambda>session.
               if session \<noteq> None then fail ''an open session still references this record''
               else if sr_actuator_fault r \<noteq> None \<or> sr_acknowledgement_required r
               then fail ''an unresolved actuator fault remains''
               else res_bind (mk_removed_ack
                      \<lparr>rak_acknowledged_at_utc = at_utc, rak_registry_entry_id = registry_entry_id,
                       rak_last_known_entity_id = ai_last_known_entity_id (sr_actuator_identity r)\<rparr>)
                      (\<lambda>ack. commit_record d safety_record_id
                               (r\<lparr>sr_removed_actuator_ack := Some ack\<rparr>))))"

section \<open>Reconciliation and blockers\<close>

definition reconcile_plan ::
  "(StoreData \<Rightarrow> ((string \<times> SafetyRecord) list \<times> (string \<times> ZoneHistory) list) result) \<Rightarrow>
   StoreData \<Rightarrow> StoreData option result" where
  "reconcile_plan mutator d =
     res_bind (mutator d) (\<lambda>(records, histories).
       commit_plan (d\<lparr>st_safety_records := records, st_zone_histories := histories\<rparr>))"

fun blocker_value :: "BlockerReason \<Rightarrow> string" where
  "blocker_value EXTERNAL_FLOW = ''external_flow''"
| "blocker_value INTEGRATION_OFF_UNCONFIRMED = ''integration_off_unconfirmed''"
| "blocker_value ACTUATOR_NOT_PROVEN_OFF = ''actuator_not_proven_off''"

text \<open>Blocker reasons are ordered by their values, as \<open>sorted(..., key=...)\<close> orders them.\<close>

instantiation BlockerReason :: linorder
begin

definition less_eq_BlockerReason :: "BlockerReason \<Rightarrow> BlockerReason \<Rightarrow> bool" where
  "less_eq_BlockerReason a b \<longleftrightarrow> blocker_value a \<le> blocker_value b"

definition less_BlockerReason :: "BlockerReason \<Rightarrow> BlockerReason \<Rightarrow> bool" where
  "less_BlockerReason a b \<longleftrightarrow> blocker_value a < blocker_value b"

instance
proof
  fix a b c :: BlockerReason
  show "a < b \<longleftrightarrow> a \<le> b \<and> \<not> b \<le> a"
    by (auto simp: less_eq_BlockerReason_def less_BlockerReason_def)
  show "a \<le> a" "a \<le> b \<or> b \<le> a" by (auto simp: less_eq_BlockerReason_def)
  show "a \<le> b \<Longrightarrow> b \<le> c \<Longrightarrow> a \<le> c" by (auto simp: less_eq_BlockerReason_def)
  show "a \<le> b \<Longrightarrow> b \<le> a \<Longrightarrow> a = b"
    by (cases a; cases b) (auto simp: less_eq_BlockerReason_def)
qed

end

definition ordered_blockers :: "BlockerReason set \<Rightarrow> BlockerReason list" where
  "ordered_blockers B = sorted_list_of_set B"

definition flow_owner_after ::
  "PossibleFlowOwner option \<Rightarrow> BlockerReason set \<Rightarrow> BlockerReason \<Rightarrow> bool \<Rightarrow> PossibleFlowOwner option" where
  "flow_owner_after current blockers reason active =
     (if active \<and> reason = EXTERNAL_FLOW then Some EXTERNAL
      else if active \<and> reason = INTEGRATION_OFF_UNCONFIRMED then Some INTEGRATION
      else if \<not> active then
        (if INTEGRATION_OFF_UNCONFIRMED \<in> blockers then Some INTEGRATION
         else if EXTERNAL_FLOW \<in> blockers then Some EXTERNAL
         else None)
      else current)"

definition set_record_blocker_plan ::
  "string \<Rightarrow> BlockerReason \<Rightarrow> bool \<Rightarrow> StoreData \<Rightarrow> StoreData option result" where
  "set_record_blocker_plan safety_record_id reason active d =
     (case map_of (st_safety_records d) safety_record_id of
        None \<Rightarrow> Inl (StoreNotLoadedError ''unknown safety_record_id'')
      | Some r \<Rightarrow>
          let blockers = (if active then insert reason (set (sr_blocker_reasons r))
                          else set (sr_blocker_reasons r) - {reason});
              ordered = ordered_blockers blockers
          in if ordered = sr_blocker_reasons r then Inr None
             else commit_record d safety_record_id
                    (r\<lparr>sr_blocker_reasons := ordered,
                       sr_possible_flow_owner :=
                         flow_owner_after (sr_possible_flow_owner r) blockers reason active\<rparr>))"

definition merge_zone_history_plan :: "string \<Rightarrow> string \<Rightarrow> StoreData \<Rightarrow> StoreData option result" where
  "merge_zone_history_plan continuing_zone_history_id retained_safety_record_id d =
     (case (map_of (st_zone_histories d) continuing_zone_history_id,
            map_of (st_safety_records d) retained_safety_record_id) of
        (None, _) \<Rightarrow> Inl (StoreNotLoadedError ''unknown zone_history_id'')
      | (_, None) \<Rightarrow> Inl (StoreNotLoadedError ''unknown safety_record_id'')
      | (Some continuing, Some r) \<Rightarrow>
          let retained_history_id = sr_zone_history_id r
          in if retained_history_id = continuing_zone_history_id then Inr None
             else (case map_of (st_zone_histories d) retained_history_id of
                     None \<Rightarrow> Inl (StoreNotLoadedError ''unknown retained zone_history_id'')
                   | Some retained \<Rightarrow>
                       if sr_runtime_lifecycle r = ACTIVE
                       then Inl (StoreWriteVerificationError
                              ''retained record must be quiesced before history handoff'')
                       else if zr_session (zh_zone_runtime retained) \<noteq> None
                       then Inl (StoreWriteVerificationError
                              ''retained operational session must be reconciled before history handoff'')
                       else if sr_safety_record_id `
                                 {x \<in> snd ` set (st_safety_records d).
                                    sr_zone_history_id x = retained_history_id}
                               \<noteq> {retained_safety_record_id}
                       then Inl (StoreWriteVerificationError
                              ''retained history must have exactly one owning safety record'')
                       else res_bind (merge_zone_history_continuity continuing retained) (\<lambda>merged.
                         res_bind (mk_safety_record
                           (r\<lparr>sr_zone_history_id := continuing_zone_history_id,
                              sr_historical_zone_history_ids :=
                                (if retained_history_id \<in> set (sr_historical_zone_history_ids r)
                                 then sr_historical_zone_history_ids r
                                 else sr_historical_zone_history_ids r @ [retained_history_id])\<rparr>))
                           (\<lambda>r'. commit_plan
                              (d\<lparr>st_safety_records :=
                                   AList.update retained_safety_record_id r' (st_safety_records d),
                                 st_zone_histories :=
                                   AList.delete retained_history_id
                                     (AList.update continuing_zone_history_id merged
                                       (st_zone_histories d))\<rparr>)))))"

definition rebase_soaking_owner_plan :: "string \<Rightarrow> string \<Rightarrow> StoreData \<Rightarrow> StoreData option result" where
  "rebase_soaking_owner_plan safety_record_id new_run_id d =
     (case map_of (st_safety_records d) safety_record_id of
        None \<Rightarrow> Inl (StoreNotLoadedError ''record has no persisted session'')
      | Some r \<Rightarrow>
          (case map_of (st_zone_histories d) (sr_zone_history_id r) of
             None \<Rightarrow> Inl KeyError
           | Some h \<Rightarrow>
               (case zr_session (zh_zone_runtime h) of
                  None \<Rightarrow> Inl (StoreNotLoadedError ''record has no persisted session'')
                | Some p \<Rightarrow>
                    res_bind (mk_session ((ps_context p)\<lparr>ses_owner_run_id := new_run_id\<rparr>)) (\<lambda>c.
                    res_bind (mk_persisted_session (p\<lparr>ps_context := c\<rparr>)) (\<lambda>p'.
                    res_bind (mk_zone_runtime ((zh_zone_runtime h)\<lparr>zr_session := Some p'\<rparr>)) (\<lambda>zr.
                    res_bind (mk_zone_history (h\<lparr>zh_zone_runtime := zr\<rparr>)) (\<lambda>h'.
                      commit_plan (d\<lparr>st_zone_histories :=
                        AList.update (zh_zone_history_id h) h' (st_zone_histories d)\<rparr>))))))))"

end
