(* ===== verification/Store_Safety.thy ===== *)
theory Store_Safety
  imports Safety_Store
begin

text \<open>
  What the safety store guarantees: exact validation, verified writes, an always valid snapshot,
  and acknowledgements and blocker writes that touch one record.
\<close>


section \<open>Sample snapshot\<close>

definition sample_actuator :: ActuatorIdentity where
  "sample_actuator =
     \<lparr>ai_registry_entry_id = None, ai_last_known_entity_id = Some ''switch.bed'',
      ai_domain = Some ''switch'', ai_identity_status = REGISTRY_UNAVAILABLE,
      ai_off_service = Some ''switch.turn_off'', ai_confirm_timeout_s = Some 30\<rparr>"

definition sample_record :: SafetyRecord where
  "sample_record =
     \<lparr>sr_safety_record_id = ''r'', sr_zone_id = ''z'', sr_active_subentry_id = None,
      sr_previous_subentry_ids = [], sr_safety_lineage_id = ''l'', sr_zone_history_id = ''h'',
      sr_historical_zone_history_ids = [], sr_runtime_lifecycle = RETIRED, sr_applied_config = None,
      sr_actuator_identity = sample_actuator, sr_blocker_reasons = [], sr_possible_flow_owner = None,
      sr_identity_incident = None, sr_actuator_fault = Some ACTUATOR_OFF_TIMEOUT,
      sr_acknowledgement_required = True, sr_removed_actuator_ack = None\<rparr>"

definition sample_history :: ZoneHistory where
  "sample_history =
     \<lparr>zh_zone_history_id = ''h'', zh_active_subentry_id = None, zh_previous_subentry_ids = [],
      zh_last_session_end_utc = None, zh_last_auto_session_start_utc = None,
      zh_zone_runtime =
        \<lparr>zr_enabled = True, zr_state = FAULT, zr_zone_fault = None, zr_secondary_fault = None,
         zr_sensor_identity = \<lparr>si_registry_entry_id = None, si_last_known_entity_id = None\<rparr>,
         zr_last_session_summary = None, zr_session = None\<rparr>,
      zh_daily = None\<rparr>"

definition sample_data :: StoreData where
  "sample_data =
     \<lparr>st_generation_id = ''g'', st_store_revision = 1,
      st_run = \<lparr>run_active_run_id = None, run_last_clean_shutdown_run_id = None\<rparr>,
      st_zone_histories = [(''h'', sample_history)], st_safety_records = [(''r'', sample_record)],
      st_version = 3\<rparr>"

definition sample_store :: SafetyStore where
  "sample_store = \<lparr>ss_generation_id = ''g'', ss_data = Some sample_data\<rparr>"

definition sample_write :: controller_write where
  "sample_write =
     \<lparr>cw_state = FAULT, cw_enabled = True, cw_active_fault = Some ACTUATOR_OFF_TIMEOUT,
      cw_secondary_fault = None, cw_last_session_end_utc = None,
      cw_last_auto_session_start_utc = None, cw_daily = None, cw_last_session_summary = None,
      cw_session = None, cw_possible_flow_owner = None\<rparr>"

lemmas sample_store_defs =
  sample_actuator_def sample_record_def sample_history_def sample_data_def sample_store_def

section \<open>Validation\<close>

lemma for_all_iff: "for_all f xs = Inr () \<longleftrightarrow> (\<forall>x \<in> set xs. f x = Inr ())"
  by (induction xs) (auto simp: res_bind_eq_Inr)

lemma check_contributions_iff:
  "check_contributions data seen cs = Inr () \<longleftrightarrow>
     (\<forall>c \<in> set cs. con_source_safety_record_id c \<in> fst ` set (st_safety_records data)) \<and>
     distinct (map con_accounting_contribution_id cs) \<and>
     con_accounting_contribution_id ` set cs \<inter> con_accounting_contribution_id ` set seen = {}"
proof (induction cs arbitrary: seen)
  case (Cons c cs)
  show ?case
  proof (cases "find (\<lambda>p. con_accounting_contribution_id p = con_accounting_contribution_id c) seen")
    case None
    then have "con_accounting_contribution_id c \<notin> con_accounting_contribution_id ` set seen"
      by (auto simp: find_None_iff)
    with None Cons show ?thesis by auto
  next
    case (Some p)
    then have "con_accounting_contribution_id c \<in> con_accounting_contribution_id ` set seen"
      by (auto simp: find_Some_iff image_iff) (metis nth_mem)
    with Some show ?thesis by auto
  qed
qed simp

text \<open>What a valid snapshot guarantees.\<close>

definition store_refs_ok :: "StoreData \<Rightarrow> bool" where
  "store_refs_ok d \<longleftrightarrow>
     (\<forall>(k, r) \<in> set (st_safety_records d). \<exists>h.
        map_of (st_zone_histories d) (sr_zone_history_id r) = Some h \<and>
        (sr_runtime_lifecycle r = ACTIVE \<longrightarrow> zh_active_subentry_id h = sr_active_subentry_id r)) \<and>
     (\<forall>(k, h) \<in> set (st_zone_histories d). \<forall>p. zr_session (zh_zone_runtime h) = Some p \<longrightarrow>
        (\<exists>r. map_of (st_safety_records d) (ps_owner_safety_record_id p) = Some r \<and>
             sr_zone_history_id r = zh_zone_history_id h)) \<and>
     distinct (map con_accounting_contribution_id (all_contributions d)) \<and>
     (\<forall>c \<in> set (all_contributions d). con_source_safety_record_id c \<in> fst ` set (st_safety_records d))"

lemma check_record_history_iff:
  "check_record_history d r = Inr () \<longleftrightarrow>
     (\<exists>h. map_of (st_zone_histories d) (sr_zone_history_id r) = Some h \<and>
        (sr_runtime_lifecycle r = ACTIVE \<longrightarrow> zh_active_subentry_id h = sr_active_subentry_id r))"
  by (auto simp: check_record_history_def split: option.splits)

lemma check_session_owner_iff:
  "check_session_owner d h = Inr () \<longleftrightarrow>
     (\<forall>p. zr_session (zh_zone_runtime h) = Some p \<longrightarrow>
        (\<exists>r. map_of (st_safety_records d) (ps_owner_safety_record_id p) = Some r \<and>
             sr_zone_history_id r = zh_zone_history_id h))"
  by (auto simp: check_session_owner_def split: option.splits)

definition store_keys_ok :: "StoreData \<Rightarrow> bool" where
  "store_keys_ok d \<longleftrightarrow>
     fst ` set (st_zone_histories d) = zh_zone_history_id ` snd ` set (st_zone_histories d) \<and>
     fst ` set (st_safety_records d) = sr_safety_record_id ` snd ` set (st_safety_records d) \<and>
     distinct (map (sr_safety_lineage_id \<circ> snd) (st_safety_records d)) \<and>
     distinct (somes (map (sr_active_subentry_id \<circ> snd) (st_safety_records d))) \<and>
     distinct (somes (map (zh_active_subentry_id \<circ> snd) (st_zone_histories d)))"

lemma validate_iff:
  "validate_store_data d = Inr () \<longleftrightarrow>
     st_version d = 3 \<and> st_generation_id d \<noteq> [] \<and> 1 \<le> st_store_revision d \<and> store_keys_ok d \<and> store_refs_ok d"
proof -
  have chk: "res_bind (for_all (check_record_history d) (map snd (st_safety_records d))) (\<lambda>_.
      res_bind (for_all (check_session_owner d) (map snd (st_zone_histories d))) (\<lambda>_.
      check_contributions d [] (all_contributions d))) = Inr () \<longleftrightarrow> store_refs_ok d"
    by (auto simp: res_bind_eq_Inr for_all_iff check_contributions_iff check_record_history_iff
        check_session_owner_iff store_refs_ok_def)
  show ?thesis
    unfolding validate_store_data_def Let_def
    using chk by (simp add: STORE_SCHEMA_VERSION_def store_keys_ok_def not_less image_image comp_def)
qed

text \<open>The validation of a snapshot accepts exactly the consistent ones: the version, generation and revision
  are proper, keys and stable identifiers agree as sets, lineages and current subentries are unique, and every reference
  between records, histories, sessions and contributions resolves.\<close>

theorem store_validation_exact:
  "validate_store_data d = Inr () \<longleftrightarrow>
     st_version d = 3 \<and> st_generation_id d \<noteq> [] \<and> 1 \<le> st_store_revision d \<and>
     fst ` set (st_zone_histories d) = zh_zone_history_id ` snd ` set (st_zone_histories d) \<and>
     fst ` set (st_safety_records d) = sr_safety_record_id ` snd ` set (st_safety_records d) \<and>
     distinct (map (sr_safety_lineage_id \<circ> snd) (st_safety_records d)) \<and>
     distinct (somes (map (sr_active_subentry_id \<circ> snd) (st_safety_records d))) \<and>
     distinct (somes (map (zh_active_subentry_id \<circ> snd) (st_zone_histories d))) \<and>
     store_refs_ok d"
  by (simp add: validate_iff store_keys_ok_def)

section \<open>Transactions\<close>

text \<open>Every plan goes through \<open>commit_plan\<close>.\<close>

definition commits :: "(StoreData \<Rightarrow> StoreData option result) \<Rightarrow> bool" where
  "commits plan \<longleftrightarrow>
     (\<forall>d d'. plan d = Inr (Some d') \<longrightarrow>
        validate_store_data d' = Inr () \<and> st_generation_id d' = st_generation_id d \<and>
        st_store_revision d' = st_store_revision d + 1)"

lemma commit_plan_Inr:
  "commit_plan d = Inr (Some d') \<longleftrightarrow> d' = next_revision d \<and> validate_store_data d' = Inr ()"
  by (auto simp: commit_plan_def mk_store_data_def res_bind_eq_Inr)

lemma commit_plan_not_None: "commit_plan d \<noteq> Inr None"
  by (cases "mk_store_data (next_revision d)") (auto simp: commit_plan_def)

lemma next_revision_sel [simp]:
  "st_generation_id (next_revision d) = st_generation_id d"
  "st_store_revision (next_revision d) = st_store_revision d + 1"
  "st_safety_records (next_revision d) = st_safety_records d"
  "st_zone_histories (next_revision d) = st_zone_histories d"
  "st_run (next_revision d) = st_run d"
  by (simp_all add: next_revision_def)

lemma mk_safety_record_id: "mk_safety_record r = Inr r' \<Longrightarrow> r' = r"
  by (auto simp: mk_safety_record_def record_lifecycle_check_def res_bind_eq_Inr
      split: if_splits option.splits)

lemma commit_record_Inr:
  "commit_record d k r = Inr (Some d') \<longleftrightarrow>
     mk_safety_record r = Inr r \<and> validate_store_data d' = Inr () \<and>
     d' = next_revision (d\<lparr>st_safety_records := AList.update k r (st_safety_records d)\<rparr>)"
  by (auto simp: commit_record_def res_bind_eq_Inr commit_plan_Inr dest: mk_safety_record_id)

lemma commits_run: "commits (begin_new_run_plan r)" "commits mark_clean_shutdown_plan"
  by (auto simp: commits_def begin_new_run_plan_def mark_clean_shutdown_plan_def commit_plan_Inr)

lemma commits_update: "commits (update_controller_runtime_plan i h w)"
  by (auto simp: commits_def update_controller_runtime_plan_def commit_plan_Inr res_bind_eq_Inr
      split: option.splits if_splits)

lemma commits_ack: "commits (acknowledge_actuator_fault_plan i l f)"
  by (auto simp: commits_def acknowledge_actuator_fault_plan_def Let_def commit_record_Inr res_bind_eq_Inr
      split: option.splits if_splits)

lemma commits_removed: "commits (acknowledge_removed_actuator_plan i l g t)"
  by (auto simp: commits_def acknowledge_removed_actuator_plan_def Let_def commit_record_Inr res_bind_eq_Inr
      split: option.splits if_splits)

lemma commits_reconcile: "commits (reconcile_plan m)"
  by (auto simp: commits_def reconcile_plan_def commit_plan_Inr res_bind_eq_Inr)

lemma commits_blocker: "commits (set_record_blocker_plan i r a)"
  by (auto simp: commits_def set_record_blocker_plan_def Let_def commit_record_Inr
      split: option.splits if_splits)

lemma commits_merge: "commits (merge_zone_history_plan c r)"
  by (auto simp: commits_def merge_zone_history_plan_def Let_def commit_plan_Inr res_bind_eq_Inr
      split: option.splits if_splits)

lemma commits_rebase: "commits (rebase_soaking_owner_plan i r)"
  by (auto simp: commits_def rebase_soaking_owner_plan_def commit_plan_Inr res_bind_eq_Inr
      split: option.splits if_splits)

lemmas commits_all = commits_run commits_update commits_ack commits_removed commits_reconcile
  commits_blocker commits_merge commits_rebase

lemma save_and_verify_cases:
  "save_and_verify io data s = (s', err) \<Longrightarrow>
   (err = None \<and> s' = s\<lparr>ss_data := Some data\<rparr> \<and> \<not> io_save_raises io \<and>
      (\<exists>loaded. io_read_back io = Loaded loaded \<and> persisted_view loaded = persisted_view data)) \<or>
   (err \<noteq> None \<and> s' = s)"
  by (auto simp: save_and_verify_def Let_def split: if_splits read_back.splits)

lemma transact_cases:
  assumes "transact io plan s = (s', err)"
  obtains (raised) "err \<noteq> None" "s' = s"
  | (unchanged) d where "err = None" "s' = s" "ss_data s = Some d" "plan d = Inr None"
  | (written) d data loaded where "err = None" "ss_data s = Some d" "plan d = Inr (Some data)"
      "s' = s\<lparr>ss_data := Some data\<rparr>" "\<not> io_save_raises io" "io_read_back io = Loaded loaded"
      "persisted_view loaded = persisted_view data"
proof (cases "ss_data s")
  case None
  with assms raised show ?thesis by (auto simp: transact_def store_data_def)
next
  case (Some d)
  show ?thesis
  proof (cases "plan d")
    case (Inl e)
    with Some assms raised show ?thesis by (auto simp: transact_def store_data_def)
  next
    case (Inr p)
    show ?thesis
    proof (cases p)
      case None
      with Inr Some assms unchanged show ?thesis by (auto simp: transact_def store_data_def)
    next
      case (Some data)
      with Inr \<open>ss_data s = Some d\<close> assms have "save_and_verify io data s = (s', err)"
        by (simp add: transact_def store_data_def)
      from save_and_verify_cases [OF this] raised written [OF _ \<open>ss_data s = Some d\<close>, of data] Some Inr
      show ?thesis by blast
    qed
  qed
qed

section \<open>Reachable stores\<close>

inductive store_step :: "SafetyStore \<Rightarrow> SafetyStore \<Rightarrow> bool" where
  initialize: "store_step s (fst (first_initialize io s))"
| reconstruct: "store_step s (fst (reconstruct_after_integrity_loss uid t day budgets io s))"
| begin_run: "store_step s (fst (transact io (begin_new_run_plan run_id) s))"
| clean: "store_step s (fst (transact io mark_clean_shutdown_plan s))"
| controller: "store_step s (fst (transact io (update_controller_runtime_plan i h w) s))"
| acknowledge: "store_step s (fst (transact io (acknowledge_actuator_fault_plan i l f) s))"
| removed: "store_step s (fst (transact io (acknowledge_removed_actuator_plan i l g t) s))"
| reconcile: "store_step s (fst (transact io (reconcile_plan mutator) s))"
| blocker: "store_step s (fst (transact io (set_record_blocker_plan i b a) s))"
| merge: "store_step s (fst (transact io (merge_zone_history_plan c i) s))"
| rebase: "store_step s (fst (transact io (rebase_soaking_owner_plan i run_id) s))"

definition store_inv :: "SafetyStore \<Rightarrow> bool" where
  "store_inv s \<longleftrightarrow>
     (\<forall>d. ss_data s = Some d \<longrightarrow>
        validate_store_data d = Inr () \<and> st_generation_id d = ss_generation_id s)"

definition store_start :: "SafetyStore \<Rightarrow> bool" where
  "store_start s \<longleftrightarrow> ss_data s = None"

lemma transact_inv:
  assumes "commits plan" and "store_inv s" shows "store_inv (fst (transact io plan s))"
proof -
  obtain s' err where t: "transact io plan s = (s', err)" by force
  from t show ?thesis
    by (cases rule: transact_cases) (use assms t in \<open>auto simp: store_inv_def commits_def\<close>)
qed

lemma initialize_inv: "store_inv s \<Longrightarrow> store_inv (fst (first_initialize io s))"
proof -
  assume inv: "store_inv s"
  show ?thesis
  proof (cases "first_initialize_data (ss_generation_id s)")
    case (Inr data)
    then have "validate_store_data data = Inr ()" "st_generation_id data = ss_generation_id s"
      by (auto simp: first_initialize_data_def mk_store_data_def res_bind_eq_Inr)
    then show ?thesis
      using inv Inr save_and_verify_cases [of io data s]
      by (cases "save_and_verify io data s") (auto simp: first_initialize_def store_inv_def)
  qed (use inv in \<open>simp add: first_initialize_def\<close>)
qed

lemma reconstruct_inv: "store_inv s \<Longrightarrow> store_inv (fst (reconstruct_after_integrity_loss uid t day budgets io s))"
proof -
  assume inv: "store_inv s"
  show ?thesis
  proof (cases "reconstruct_data uid (ss_generation_id s) t day budgets")
    case (Inr data)
    then have "validate_store_data data = Inr ()" "st_generation_id data = ss_generation_id s"
      by (auto simp: reconstruct_data_def mk_store_data_def res_bind_eq_Inr)
    then show ?thesis
      using inv Inr save_and_verify_cases [of io data s]
      by (cases "save_and_verify io data s") (auto simp: reconstruct_after_integrity_loss_def store_inv_def)
  qed (use inv in \<open>simp add: reconstruct_after_integrity_loss_def\<close>)
qed

interpretation store: inv_system store_start store_step store_inv
proof
  fix s s' :: SafetyStore
  show "store_start s \<Longrightarrow> store_inv s" by (simp add: store_start_def store_inv_def)
  assume "store_inv s" "store_step s s'"
  from this(2,1) show "store_inv s'"
    by cases (auto intro: transact_inv initialize_inv reconstruct_inv commits_all)
qed


lemma transact_verified_or_unchanged:
  assumes "commits plan" and "transact io plan s = (s', err)"
  shows "(err \<noteq> None \<longrightarrow> s' = s) \<and>
     (s' \<noteq> s \<longrightarrow> (\<exists>d d' loaded. ss_data s = Some d \<and> ss_data s' = Some d' \<and>
        st_store_revision d' = st_store_revision d + 1 \<and> validate_store_data d' = Inr () \<and>
        \<not> io_save_raises io \<and> io_read_back io = Loaded loaded \<and>
        persisted_view loaded = persisted_view d'))"
  using assms(2) by (cases rule: transact_cases) (use assms(1) in \<open>auto simp: commits_def\<close>)

text \<open>(C28) A controller write is adopted only when a fresh read of the store returned exactly what was written: on any
  exception the snapshot is unchanged, and a changed snapshot is valid, one revision later and equal to the read-back.\<close>

theorem store_write_verified_or_unchanged:
  assumes "transact io (update_controller_runtime_plan i h w) s = (s', err)"
  shows "(err \<noteq> None \<longrightarrow> s' = s) \<and>
     (s' \<noteq> s \<longrightarrow> (\<exists>d d' loaded. ss_data s = Some d \<and> ss_data s' = Some d' \<and>
        st_store_revision d' = st_store_revision d + 1 \<and> validate_store_data d' = Inr () \<and>
        \<not> io_save_raises io \<and> io_read_back io = Loaded loaded \<and>
        persisted_view loaded = persisted_view d'))"
  by (rule transact_verified_or_unchanged [OF commits_update assms])

theorem store_write_verified_or_unchanged_witness:
  "fst (transact \<lparr>io_save_raises = False, io_read_back = NoData\<rparr>
      (update_controller_runtime_plan ''r'' ''h'' sample_write) sample_store) = sample_store"
  using store_write_verified_or_unchanged
    [of "\<lparr>io_save_raises = False, io_read_back = NoData\<rparr>" "''r''" "''h''" sample_write sample_store]
  by (cases "transact \<lparr>io_save_raises = False, io_read_back = NoData\<rparr>
      (update_controller_runtime_plan ''r'' ''h'' sample_write) sample_store") auto


lemma update_lookup: "map_of (AList.update k v al) i = (if i = k then Some v else map_of al i)"
  by (simp add: update_conv)

lemma set_ordered_blockers: "finite B \<Longrightarrow> set (ordered_blockers B) = B"
  by (simp add: ordered_blockers_def)

lemma blocker_write:
  assumes "transact io (set_record_blocker_plan i reason active) s = (s', None)"
    and "ss_data s = Some d" and "map_of (st_safety_records d) i = Some r"
  shows "\<exists>d' r'. ss_data s' = Some d' \<and> map_of (st_safety_records d') i = Some r' \<and>
     set (sr_blocker_reasons r') =
       (if active then insert reason (set (sr_blocker_reasons r)) else set (sr_blocker_reasons r) - {reason}) \<and>
     (\<forall>j. j \<noteq> i \<longrightarrow> map_of (st_safety_records d') j = map_of (st_safety_records d) j) \<and>
     st_zone_histories d' = st_zone_histories d \<and>
     sr_actuator_fault r' = sr_actuator_fault r \<and> sr_runtime_lifecycle r' = sr_runtime_lifecycle r"
  using assms(1)
proof (cases rule: transact_cases)
  case (unchanged d1)
  let ?B = "if active then insert reason (set (sr_blocker_reasons r))
      else set (sr_blocker_reasons r) - {reason}"
  from unchanged assms have "ordered_blockers ?B = sr_blocker_reasons r"
    by (auto simp: set_record_blocker_plan_def Let_def commit_record_def commit_plan_not_None
       res_bind_eq_Inr split: if_splits)
  moreover have "set (ordered_blockers ?B) = ?B" by (rule set_ordered_blockers) simp
  ultimately have "set (sr_blocker_reasons r) = ?B" by simp
  with unchanged assms show ?thesis by auto
next
  case (written d1 data loaded)
  with assms(2,3) show ?thesis
    by (auto simp: set_record_blocker_plan_def Let_def commit_record_Inr update_lookup set_ordered_blockers
       split: if_splits)
qed simp


text \<open>An acknowledgement clears the fault of exactly one record, and only of a retired one with the expected
  acknowledgeable fault, no blocker, no possible flow, no identity incident and no open session.\<close>

theorem acknowledgement_requires_safe_record:
  assumes "acknowledge_actuator_fault_plan i lineage f d = Inr p"
  shows "\<exists>r d' r'. map_of (st_safety_records d) i = Some r \<and> p = Some d' \<and>
     sr_actuator_fault r = Some f \<and> f \<in> {ACTUATOR_OFF_TIMEOUT, RESTORED_FROM_UNSAFE_STATE} \<and>
     sr_runtime_lifecycle r = RETIRED \<and> sr_blocker_reasons r = [] \<and> sr_possible_flow_owner r = None \<and>
     sr_identity_incident r = None \<and> record_session d r = Inr None \<and>
     map_of (st_safety_records d') i = Some r' \<and>
     r' = r\<lparr>sr_actuator_fault := None, sr_acknowledgement_required := False\<rparr> \<and>
     (\<forall>j. j \<noteq> i \<longrightarrow> map_of (st_safety_records d') j = map_of (st_safety_records d) j)"
proof (cases p)
  case None
  with assms show ?thesis
    by (auto simp: acknowledge_actuator_fault_plan_def Let_def commit_record_def res_bind_eq_Inr
       commit_plan_not_None split: option.splits if_splits)
next
  case (Some d')
  with assms show ?thesis
    by (auto simp: acknowledge_actuator_fault_plan_def Let_def commit_record_Inr res_bind_eq_Inr update_lookup
       requires_user_ack_def split: option.splits if_splits)
qed


text \<open>Reconstruction gives every listed zone a faulted history with the day's budget used up and a
  blocked record.\<close>

definition unsafe_record :: "SafetyRecord \<Rightarrow> bool" where
  "unsafe_record r \<longleftrightarrow> sr_blocker_reasons r = [ACTUATOR_NOT_PROVEN_OFF] \<and>
     sr_actuator_fault r = Some RESTORED_FROM_UNSAFE_STATE \<and> sr_acknowledgement_required r"

definition exhausted_history :: "local_date \<Rightarrow> (string \<times> int) list \<Rightarrow> ZoneHistory \<Rightarrow> bool" where
  "exhausted_history day budgets h \<longleftrightarrow>
     zr_state (zh_zone_runtime h) = FAULT \<and> zr_session (zh_zone_runtime h) = None \<and>
     (\<exists>z m dy. (z, m) \<in> set budgets \<and> zh_daily h = Some dy \<and> zdr_date_local dy = day \<and>
        zdr_runtime_s dy = of_int m)"

lemma integrity_record_fields: "integrity_record uid g z = Inr r \<Longrightarrow> unsafe_record r"
  by (auto simp: integrity_record_def unsafe_record_def res_bind_eq_Inr dest!: mk_safety_record_id)

lemma mk_zone_daily_id: "mk_zone_daily z = Inr z' \<Longrightarrow> z' = z"
  by (auto simp: mk_zone_daily_def res_bind_eq_Inr split: if_splits)

lemma mk_ids:
  "mk_persisted_session p = Inr p' \<Longrightarrow> p' = p" "mk_zone_daily z = Inr z' \<Longrightarrow> z' = z"
  "mk_zone_runtime zr = Inr zr' \<Longrightarrow> zr' = zr" "mk_zone_history h = Inr h' \<Longrightarrow> h' = h"
  "mk_safety_record r = Inr r' \<Longrightarrow> r' = r"
  by (auto simp: mk_persisted_session_def mk_zone_daily_def mk_zone_runtime_def mk_zone_history_def mk_safety_record_def
      record_lifecycle_check_def res_bind_eq_Inr split: if_splits option.splits)

lemma integrity_history_fields:
  assumes "integrity_history uid g t day z m = Inr h" and "(z, m) \<in> set budgets"
  shows "exhausted_history day budgets h"
  using assms
  by (auto simp: integrity_history_def exhausted_history_def res_bind_eq_Inr mk_zone_history_def
      mk_zone_runtime_def dest!: mk_zone_daily_id split: if_splits)

lemma alist_update_all: "P v \<Longrightarrow> \<forall>x \<in> snd ` set al. P x \<Longrightarrow> \<forall>x \<in> snd ` set (AList.update k v al). P x"
  by (induction al) auto

lemma reconstruct_loop_unsafe:
  assumes "reconstruct_loop uid g t day budgets hs rs = Inr (hs', rs')" and "set budgets \<subseteq> set all"
    and "\<forall>r \<in> snd ` set rs. unsafe_record r" and "\<forall>h \<in> snd ` set hs. exhausted_history day all h"
  shows "(\<forall>r \<in> snd ` set rs'. unsafe_record r) \<and> (\<forall>h \<in> snd ` set hs'. exhausted_history day all h) \<and>
     fst ` set rs' = fst ` set rs \<union> fst ` set budgets"
  using assms
proof (induction budgets arbitrary: hs rs)
  case (Cons b budgets)
  obtain z m where b: "b = (z, m)" by force
  from Cons.prems(1) obtain h r where h: "integrity_history uid g t day z m = Inr h"
    and r: "integrity_record uid g z = Inr r"
    and rec: "reconstruct_loop uid g t day budgets (AList.update (zh_zone_history_id h) h hs) (AList.update z r rs) = Inr (hs', rs')"
    by (auto simp: b res_bind_eq_Inr)
  have "exhausted_history day all h" using integrity_history_fields [OF h] Cons.prems(2) b by simp
  note H = alist_update_all [of "exhausted_history day all", OF this Cons.prems(4)]
  note R = alist_update_all [of unsafe_record, OF integrity_record_fields [OF r] Cons.prems(3)]
  have keys: "fst ` set (AList.update z r rs) = insert z (fst ` set rs)" by (simp add: dom_update)
  have "set budgets \<subseteq> set all" using Cons.prems(2) by simp
  from Cons.IH [OF rec this R H] keys show ?case by (simp add: b)
qed simp

text \<open>After a loss of store integrity every listed zone has a blocked safety record with a fault that needs an
  acknowledgement, and its history is in FAULT without a session and with the budget of the detection day used up.\<close>

theorem integrity_loss_exhausts_budget:
  assumes "reconstruct_data uid g t day budgets = Inr d"
  shows "fst ` set (st_safety_records d) = fst ` set budgets \<and>
     (\<forall>r \<in> snd ` set (st_safety_records d). sr_blocker_reasons r = [ACTUATOR_NOT_PROVEN_OFF] \<and>
        sr_actuator_fault r = Some RESTORED_FROM_UNSAFE_STATE \<and> sr_acknowledgement_required r) \<and>
     (\<forall>h \<in> snd ` set (st_zone_histories d).
        zr_state (zh_zone_runtime h) = FAULT \<and> zr_session (zh_zone_runtime h) = None \<and>
        (\<exists>z m dy. (z, m) \<in> set budgets \<and> zh_daily h = Some dy \<and> zdr_date_local dy = day \<and>
           zdr_runtime_s dy = of_int m))"
proof -
  from assms obtain hs rs where l: "reconstruct_loop uid g t day budgets [] [] = Inr (hs, rs)"
    and d: "st_zone_histories d = hs" "st_safety_records d = rs"
    by (auto simp: reconstruct_data_def res_bind_eq_Inr mk_store_data_def)
  from reconstruct_loop_unsafe [OF l subset_refl] show ?thesis
    unfolding d by (simp add: unsafe_record_def exhausted_history_def)
qed

theorem acknowledgement_requires_safe_record_witness:
  "\<exists>d'. acknowledge_actuator_fault_plan ''r'' ''l'' ACTUATOR_OFF_TIMEOUT sample_data = Inr (Some d')"
proof -
  have "\<exists>p. acknowledge_actuator_fault_plan ''r'' ''l'' ACTUATOR_OFF_TIMEOUT sample_data = Inr p"
    by (simp add: acknowledge_actuator_fault_plan_def sample_store_defs requires_user_ack_def
        record_session_def commit_record_def mk_safety_record_def validate_id_history_def in_scope_def
        record_lifecycle_check_def commit_plan_def mk_store_data_def next_revision_def
        validate_store_data_def STORE_SCHEMA_VERSION_def somes_def all_contributions_def
        check_record_history_def check_session_owner_def Let_def)
  with acknowledgement_requires_safe_record [of "''r''" "''l''" ACTUATOR_OFF_TIMEOUT sample_data]
  show ?thesis by blast
qed

theorem integrity_loss_exhausts_budget_witness:
  "\<exists>d. reconstruct_data (\<lambda>g z k. z @ k) ''g'' ''day'' 5 [(''z'', 3600)] = Inr d \<and>
     fst ` set (st_safety_records d) = {''z''}"
proof -
  have "\<exists>d. reconstruct_data (\<lambda>g z k. z @ k) ''g'' ''day'' 5 [(''z'', 3600)] = Inr d"
    by (simp add: reconstruct_data_def integrity_history_def integrity_contribution_def mk_contribution_def
        mk_zone_runtime_def in_scope_def mk_zone_daily_def deduplicate_accounting_contributions_def
        known_runtime_def mk_zone_history_def validate_id_history_def integrity_record_def
        mk_actuator_identity_def expected_off_service_def mk_incident_def mk_safety_record_def
        ACTUATOR_FAULTS_def requires_user_ack_def record_lifecycle_check_def mk_store_data_def
        validate_store_data_def STORE_SCHEMA_VERSION_def somes_def all_contributions_def
        check_record_history_def check_session_owner_def Let_def)
  with integrity_loss_exhausts_budget [of "\<lambda>g z k. z @ k" "''g''" "''day''" 5 "[(''z'', 3600)]"]
  show ?thesis by auto
qed

text \<open>The map keys of a snapshot are compared with the stable identifiers as sets only: two histories stored under
  each other's key pass.\<close>

lemma swapped_keys_accepted:
  "validate_store_data (sample_data\<lparr>
     st_zone_histories := [(''h'', sample_history\<lparr>zh_zone_history_id := ''k''\<rparr>), (''k'', sample_history)],
     st_safety_records := []\<rparr>) = Inr ()"
  by (simp add: sample_store_defs validate_store_data_def STORE_SCHEMA_VERSION_def somes_def all_contributions_def
      check_session_owner_def Let_def insert_commute)

end
