(* ===== verification/Water_Resource.thy ===== *)
theory Water_Resource
  imports Slot_Safety Store_Safety
begin

text \<open>
  The slot manager and the safety store together: the persistence callback that the runtime
  (\<open>runtime.py\<close>, \<open>_persist_slot_blocker\<close>) installs in the slot manager writes the exact
  record of the blocker.  \<open>blocker_log\<close> is the interface that the slot manager relies on.
\<close>

definition persist_slot_blocker ::
  "store_io \<Rightarrow> BlockerKey \<Rightarrow> bool \<Rightarrow> SafetyStore \<Rightarrow> SafetyStore \<times> py_error option" where
  "persist_slot_blocker io key active s =
     (case ss_data s of
        None \<Rightarrow> (s, Some (StoreWriteVerificationError ''blocker has no canonical safety record''))
      | Some d \<Rightarrow>
          if fst key \<notin> fst ` set (st_safety_records d)
          then (s, Some (StoreWriteVerificationError ''blocker has no canonical safety record''))
          else transact io (set_record_blocker_plan (fst key) (snd key) active) s)"

definition durable_blockers :: "SafetyStore \<Rightarrow> BlockerKey set" where
  "durable_blockers s =
     {(i, b). \<exists>d r. ss_data s = Some d \<and> map_of (st_safety_records d) i = Some r \<and>
                    b \<in> set (sr_blocker_reasons r)}"

text \<open>The slot manager with its persistence callback: the pair of both states.\<close>

definition resource_add ::
  "(BlockerKey \<Rightarrow> bool \<Rightarrow> 's \<Rightarrow> 's \<times> py_error option) \<Rightarrow> BlockerKey \<Rightarrow> SlotManager \<times> 's \<Rightarrow>
   (SlotManager \<times> 's) \<times> py_error option" where
  "resource_add persist key c =
     (case add_blocker_begin (fst c) key of
        Inl e \<Rightarrow> (c, Some e)
      | Inr (Returned m') \<Rightarrow> ((m', snd c), None)
      | Inr (Awaiting m') \<Rightarrow>
          (case persist key True (snd c) of
             (s', Some e) \<Rightarrow> ((m', s'), Some e)
           | (s', None) \<Rightarrow> ((add_blocker_persisted m' key, s'), None)))"

definition resource_remove ::
  "(BlockerKey \<Rightarrow> bool \<Rightarrow> 's \<Rightarrow> 's \<times> py_error option) \<Rightarrow> BlockerKey \<Rightarrow> SlotManager \<times> 's \<Rightarrow>
   (SlotManager \<times> 's) \<times> py_error option" where
  "resource_remove persist key c =
     (case remove_blocker_begin (fst c) key of
        Inl e \<Rightarrow> (c, Some e)
      | Inr (Returned m') \<Rightarrow> ((m', snd c), None)
      | Inr (Awaiting m') \<Rightarrow>
          (case persist key False (snd c) of
             (s', Some e) \<Rightarrow> ((m', s'), Some e)
           | (s', None) \<Rightarrow>
               (case remove_blocker_persisted m' key of
                  Inl e \<Rightarrow> ((m', s'), Some e) | Inr m'' \<Rightarrow> ((m'', s'), None))))"

definition in_sync :: "('s \<Rightarrow> BlockerKey set) \<Rightarrow> SlotManager \<times> 's \<Rightarrow> bool" where
  "in_sync durable c \<longleftrightarrow>
     sl_persistent (fst c) \<and> durable (snd c) \<subseteq> sl_blockers (fst c) \<and>
     sl_blockers (fst c) - sl_unpersisted (fst c) \<subseteq> durable (snd c)"

locale blocker_log =
  fixes durable :: "'s \<Rightarrow> BlockerKey set"
    and persist :: "BlockerKey \<Rightarrow> bool \<Rightarrow> 's \<Rightarrow> 's \<times> py_error option"
  assumes write_ok: "persist key active s = (s', None) \<Longrightarrow>
      durable s' = (if active then insert key (durable s) else durable s - {key})"
    and write_failed: "persist key active s = (s', Some e) \<Longrightarrow> s' = s"
begin

lemma add_in_sync:
  assumes "in_sync durable c" and "resource_add persist key c = (c', err)"
  shows "in_sync durable c' \<and> (err = None \<longrightarrow> key \<in> durable (snd c'))"
  using assms
  by (auto simp: in_sync_def resource_add_def slot_simps split: if_splits option.splits prod.splits
      dest!: write_ok write_failed)

lemma try_grant_persistent [simp]: "sl_persistent (try_grant_locked m) = sl_persistent m"
  by (cases rule: try_grant_cases [of m]) auto

lemma remove_in_sync:
  assumes "in_sync durable c" and "resource_remove persist key c = (c', err)"
  shows "in_sync durable c' \<and> (err = None \<longrightarrow> key \<notin> durable (snd c'))"
  using assms
  by (auto simp: in_sync_def resource_remove_def slot_simps split: if_splits option.splits prod.splits
      dest!: write_ok write_failed)

end

interpretation blog: blocker_log durable_blockers "persist_slot_blocker io" for io
proof
  fix key active s s' e
  show "durable_blockers s' = (if active then insert key (durable_blockers s) else durable_blockers s - {key})"
    if w: "persist_slot_blocker io key active s = (s', None)"
  proof -
    obtain i b where k: "key = (i, b)" by force
    from w obtain d where d: "ss_data s = Some d" "i \<in> fst ` set (st_safety_records d)"
      and t: "transact io (set_record_blocker_plan i b active) s = (s', None)"
      by (auto simp: persist_slot_blocker_def k split: option.splits if_splits)
    from d(2) obtain r where r: "map_of (st_safety_records d) i = Some r"
      by (cases "map_of (st_safety_records d) i") (auto simp: map_of_eq_None_iff)
    obtain d' r' where d': "ss_data s' = Some d'" "map_of (st_safety_records d') i = Some r'"
      "set (sr_blocker_reasons r') = (if active then insert b (set (sr_blocker_reasons r)) else set (sr_blocker_reasons r) - {b})"
      "\<forall>j. j \<noteq> i \<longrightarrow> map_of (st_safety_records d') j = map_of (st_safety_records d) j"
      using blocker_write [OF t d(1) r] by blast
    have "(j, c) \<in> durable_blockers s' \<longleftrightarrow>
        (j, c) \<in> (if active then insert key (durable_blockers s) else durable_blockers s - {key})" for j c
      using d(1) r d' by (cases "j = i") (auto simp: durable_blockers_def k)
    then show ?thesis by auto
  qed
  show "s' = s" if "persist_slot_blocker io key active s = (s', Some e)"
    using that
    by (auto simp: persist_slot_blocker_def split: option.splits if_splits elim: transact_cases)
qed

text \<open>Live and durable blockers stay together through every addition and removal, successful or not: everything
  durable is live, and everything live is durable except the keys whose write has failed; a failed operation leaves the
  store unchanged.\<close>

theorem blockers_durable:
  assumes "in_sync durable_blockers (m, s)"
    and "resource_add (persist_slot_blocker io) key (m, s) = ((m', s'), err) \<or>
         resource_remove (persist_slot_blocker io) key (m, s) = ((m', s'), err)"
  shows "durable_blockers s' \<subseteq> sl_blockers m' \<and> sl_blockers m' - sl_unpersisted m' \<subseteq> durable_blockers s' \<and>
     (err \<noteq> None \<longrightarrow> s' = s)"
proof -
  have "in_sync durable_blockers (m', s')"
    using assms(2) blog.add_in_sync [OF assms(1), of io key] blog.remove_in_sync [OF assms(1), of io key] by blast
  moreover have "err \<noteq> None \<longrightarrow> s' = s"
    using assms(2) blog.write_failed [of io key _ s]
    by (auto simp: resource_add_def resource_remove_def slot_simps split: if_splits option.splits prod.splits)
  ultimately show ?thesis by (simp add: in_sync_def)
qed

theorem blockers_durable_witness:
  "durable_blockers (snd (fst (resource_add
      (persist_slot_blocker \<lparr>io_save_raises = True, io_read_back = NoData\<rparr>) (''r'', EXTERNAL_FLOW)
      (slot_init True, sample_store)))) = {}"
proof -
  let ?w = "persist_slot_blocker \<lparr>io_save_raises = True, io_read_back = NoData\<rparr>"
  let ?c = "resource_add ?w (''r'', EXTERNAL_FLOW) (slot_init True, sample_store)"
  have d: "durable_blockers sample_store = {}"
    by (auto simp: durable_blockers_def sample_store_defs split: if_splits)
  then have sync: "in_sync durable_blockers (slot_init True, sample_store)"
    by (simp add: in_sync_def slot_init_def)
  have err: "snd ?c \<noteq> None"
    by (auto simp: resource_add_def add_blocker_begin_def slot_init_def persist_slot_blocker_def
        transact_def store_data_def save_and_verify_def sample_store_defs Let_def
        set_record_blocker_plan_def ordered_blockers_def commit_record_def commit_plan_def
        split: option.split sum.split prod.split if_splits dest: res_bind_eq_Inr [THEN iffD1])
  obtain m' s' e where c: "?c = ((m', s'), e)" by (metis prod.collapse)
  from blockers_durable [OF sync disjI1 [OF c]] err d c show ?thesis by simp
qed

end
