(* ===== verification/Zone_Controller.thy ===== *)
theory Zone_Controller
  imports Zone_Lifecycle Water_Resource
begin

text \<open>
  \<open>zone_controller.py\<close>: the controller of one zone, which feeds normalized events to the
  pure state machine and executes its decisions against the slot manager and the safety store.

  A method that mutates the controller is a function on the state; the result of one that may
  raise is the state it leaves behind and the exception.  \<open>World\<close> is the controller with the
  two components it calls and the events it emitted.  All methods with suffix \<open>_locked\<close> run
  under the lock of the controller, so each is one step; during such a step other zones may use
  the slot manager and the store, which are therefore arguments and not part of the controller.
  Every action of a decision has its own surroundings (\<open>step_env\<close>), because a store write
  awaits; clock readings with no \<open>await\<close> between them are one instant.

  Not modelled: logging, the diagnostics buffer, the listener callbacks of entities, the wake
  event of the session task.  Of the command envelope \<open>_perform_on\<close> this theory has the guards of
  the final gate, the refusal event and the compensation; the envelope itself is in \<open>On_Authority\<close>,
  and construction and registry renames are in \<open>Controller_Identity\<close>.
\<close>

section \<open>State\<close>

datatype OnCommandOutcome = IN_FLIGHT | RETURNED | RAISED | COMMAND_CANCELLED

record FinalOnAuthorizationToken =
  ft_subentry_id :: string
  ft_safety_record_id :: string
  ft_zone_history_id :: string
  ft_session_id :: string
  ft_command_attempt_id :: string
  ft_applied_generation :: int
  ft_zone_config_fingerprint :: string
  ft_entry_snapshot_fingerprint :: string

record InFlightOnCommand =
  ifl_safety_record_id :: string
  ifl_zone_history_id :: string
  ifl_session_id :: string
  ifl_command_attempt_id :: string
  ifl_authorization :: FinalOnAuthorizationToken
  ifl_context_id :: string
  ifl_dispatched_at_utc :: utc
  ifl_outcome :: OnCommandOutcome
  ifl_completed_at_utc :: "utc option"
  ifl_observed_on_at_utc :: "utc option"

record tzinfo =
  tz_local_day :: "utc \<Rightarrow> local_date"
  tz_midnight :: "local_date \<Rightarrow> utc"

text \<open>A timer of Home Assistant is the instant it is armed for; a task is whether it is
  running; the shared OFF future is absent, pending (\<open>Some None\<close>) or resolved.\<close>

record ZoneController =
  ctl_zone_id :: string
  ctl_safety_record_id :: string
  ctl_zone_history_id :: string
  ctl_runtime_lifecycle :: RuntimeLifecycle
  ctl_applied_config :: "AppliedConfigurationShadow option"
  ctl_runtime_eligible :: bool
  ctl_config :: ZoneConfig
  ctl_run_id :: string
  ctl_tz :: tzinfo
  ctl_fingerprint :: string
  ctl_state :: ControllerState
  ctl_enabled :: bool
  ctl_session :: "SessionContext option"
  ctl_active_fault :: "FaultCode option"
  ctl_secondary_fault :: "FaultCode option"
  ctl_last_session_end :: "utc option"
  ctl_last_auto_session_start :: "utc option"
  ctl_last_summary :: "SessionSummary option"
  ctl_daily :: DailyRuntime
  ctl_observation :: MoistureObservation
  ctl_external_on :: bool
  ctl_armed_watchdog :: "WatchdogToken option"
  ctl_plausibility :: ReadingPlausibility
  ctl_session_peak :: "(string \<times> pyfloat) option"
  ctl_unresponsive_sessions :: int
  ctl_last_session_peak_rise :: "pyfloat option"
  ctl_assessment :: ActuatorAssessment
  ctl_timers :: "TimerKind \<Rightarrow> utc option"
  ctl_watchdog_handle :: "WatchdogToken option"
  ctl_session_task :: bool
  ctl_slot_task :: bool
  ctl_on_requested :: bool
  ctl_off_requested :: bool
  ctl_off_operation :: "bool option option"
  ctl_off_proven :: bool
  ctl_off_proven_at :: "utc option"
  ctl_pending_manual :: "pyfloat option"
  ctl_persist_failed :: bool
  ctl_quiescing :: bool
  ctl_detaching :: bool
  ctl_inflight_on :: "InFlightOnCommand option"
  ctl_evaluations :: nat

text \<open>The payloads given to the \<open>emit\<close> callback.\<close>

datatype Emission =
    SessionStartedEvent "(string \<times> SessionMode) option"
  | SessionFinishedEvent "CompletionReason option" SessionSummary
  | FaultSetEvent FaultCode "FaultCode option"
  | FaultClearedEvent FaultCode

record World =
  w_ctl :: ZoneController
  w_slots :: SlotManager
  w_store :: SafetyStore
  w_emitted :: "Emission list"

text \<open>What the surroundings answer to one action: the clock and the outcome of a store
  write.\<close>

record step_env =
  env_now :: utc
  env_io :: store_io

text \<open>A method mutates its object until it returns or raises.\<close>

type_synonym 's outcome = "'s \<times> py_error option"

definition and_then :: "'s outcome \<Rightarrow> ('s \<Rightarrow> 's outcome) \<Rightarrow> 's outcome" where
  "and_then r f = (case r of (s, Some e) \<Rightarrow> (s, Some e) | (s, None) \<Rightarrow> f s)"

definition lift_result :: "'s \<Rightarrow> 's result \<Rightarrow> 's outcome" where
  "lift_result s r = (case r of Inl e \<Rightarrow> (s, Some e) | Inr s' \<Rightarrow> (s', None))"

section \<open>Timers and tasks\<close>

definition cancel_timers :: "TimerKind list \<Rightarrow> ZoneController \<Rightarrow> ZoneController" where
  "cancel_timers kinds c =
     c\<lparr>ctl_timers := (\<lambda>k. if k \<in> set kinds then None else ctl_timers c k)\<rparr>"

definition cancel_watchdog :: "ZoneController \<Rightarrow> ZoneController" where
  "cancel_watchdog c = c\<lparr>ctl_watchdog_handle := None\<rparr>"

definition cancel_all_timers :: "ZoneController \<Rightarrow> ZoneController" where
  "cancel_all_timers c = cancel_watchdog (c\<lparr>ctl_timers := (\<lambda>_. None)\<rparr>)"

definition arm_timer :: "TimerKind \<Rightarrow> utc \<Rightarrow> ZoneController \<Rightarrow> ZoneController" where
  "arm_timer kind at_utc c =
     (let c1 = cancel_timers [kind] c in c1\<lparr>ctl_timers := (ctl_timers c1)(kind := Some at_utc)\<rparr>)"

definition arm_watchdog :: "WatchdogToken \<Rightarrow> ZoneController \<Rightarrow> ZoneController" where
  "arm_watchdog token c =
     (cancel_watchdog c)\<lparr>ctl_armed_watchdog := Some token, ctl_watchdog_handle := Some token\<rparr>"

fun timer_event :: "TimerKind \<Rightarrow> ControllerEvent" where
  "timer_event PULSE_END = PulseDeadlineReached"
| "timer_event MANUAL_END = ManualDeadlineReached"
| "timer_event SOAK_END = SoakDeadlineReached"
| "timer_event GRACE = GraceDeadlineReached"
| "timer_event ON_CONFIRM_TIMEOUT = OnConfirmTimeout"

definition ensure_slot_request :: "ZoneController \<Rightarrow> ZoneController" where
  "ensure_slot_request c =
     (if \<not> ctl_runtime_eligible c then c
      else if ctl_slot_task c then c
      else c\<lparr>ctl_slot_task := True\<rparr>)"

definition ensure_session_task :: "ZoneController \<Rightarrow> ZoneController" where
  "ensure_session_task c = (if ctl_session_task c then c else c\<lparr>ctl_session_task := True\<rparr>)"

section \<open>Lifecycle and command authority\<close>

definition begin_quiescing :: "ZoneController \<Rightarrow> ZoneController" where
  "begin_quiescing c =
     cancel_all_timers (c\<lparr>ctl_quiescing := True, ctl_runtime_eligible := False,
                          ctl_pending_manual := None\<rparr>)"

definition update_runtime_ownership ::
  "string \<Rightarrow> RuntimeLifecycle \<Rightarrow> AppliedConfigurationShadow option \<Rightarrow> ZoneController \<Rightarrow> ZoneController" where
  "update_runtime_ownership zone_history_id lifecycle applied_config c =
     c\<lparr>ctl_zone_history_id := zone_history_id, ctl_runtime_lifecycle := lifecycle,
       ctl_applied_config := applied_config, ctl_quiescing := (lifecycle \<noteq> ACTIVE),
       ctl_runtime_eligible := (lifecycle = ACTIVE \<and> \<not> ctl_detaching c)\<rparr>"

definition command_authorization_open :: "ZoneController \<Rightarrow> bool" where
  "command_authorization_open c \<longleftrightarrow>
     ctl_runtime_eligible c \<and> ctl_runtime_lifecycle c = ACTIVE \<and> \<not> ctl_quiescing c \<and>
     \<not> ctl_detaching c \<and> \<not> ctl_persist_failed c"

definition may_be_flowing :: "ZoneController \<Rightarrow> bool" where
  "may_be_flowing c =
     (if ctl_state c = WATERING then True
      else if ctl_external_on c \<or> act_observed_on (ctl_assessment c) then True
      else (case ctl_session c of None \<Rightarrow> False | Some s \<Rightarrow> ses_pending_termination_reason s \<noteq> None))"

definition off_operation_active :: "ZoneController \<Rightarrow> bool" where
  "off_operation_active c \<longleftrightarrow> ctl_off_operation c = Some None"

definition auto_on_guard_failures ::
  "SessionContext \<Rightarrow> rat \<Rightarrow> utc \<Rightarrow> ZoneController \<Rightarrow> string list" where
  "auto_on_guard_failures s authoritative_daily_runtime_s now c =
     (let cfg = ctl_config c
      in check (\<not> (obs_classification (ctl_observation c) \<noteq> VALID \<or>
                   \<not> is_fresh (ctl_observation c) now (cfg_sensor_max_age_s cfg) \<or>
                   (case ses_sensor_fresh_until_utc s of None \<Rightarrow> True | Some f \<Rightarrow> f \<le> now)))
           ''auto_sensor_not_fresh'' @
         check (\<not> (ses_cycle s < 1 \<or> ses_cycle s > cfg_max_cycles cfg)) ''cycle_limit'' @
         check (\<not> ses_session_runtime_s s + of_int (cfg_pulse_duration_s cfg)
                    > of_int (cfg_max_session_runtime_s cfg)) ''session_budget'' @
         check (\<not> authoritative_daily_runtime_s + of_int (cfg_pulse_duration_s cfg)
                    > of_int (cfg_max_daily_runtime_s cfg)) ''daily_budget'' @
         check (\<not> (ses_cycle s = 1 \<and> ses_session_runtime_s s = 0 \<and>
                   (case ctl_last_session_end c of
                      None \<Rightarrow> False
                    | Some e \<Rightarrow> total_seconds (now - e) < of_int (cfg_min_session_interval_s cfg))))
           ''minimum_interval'')"

definition manual_on_guard_failures ::
  "SessionContext \<Rightarrow> rat \<Rightarrow> ZoneController \<Rightarrow> string list" where
  "manual_on_guard_failures s authoritative_daily_runtime_s c =
     (let cfg = ctl_config c
      in case ses_manual_effective_duration_s s of
           None \<Rightarrow> [''manual_duration'']
         | Some effective \<Rightarrow>
             if fl_le effective (Fin 0) then [''manual_duration'']
             else if fl_less (Fin (of_int (cfg_manual_max_duration_s cfg))) effective \<or>
                     fl_less (Fin (of_int (cfg_max_session_runtime_s cfg))) effective \<or>
                     fl_less (Fin (of_int (cfg_max_daily_runtime_s cfg)))
                       (fl_add (Fin authoritative_daily_runtime_s) effective)
             then [''manual_budget''] else [])"

definition final_on_guard_failures ::
  "string \<Rightarrow> rat \<Rightarrow> bool \<Rightarrow> utc \<Rightarrow> ZoneController \<Rightarrow> string list" where
  "final_on_guard_failures session_id authoritative_daily_runtime_s pre_dispatch now c =
     check (ctl_state c = WATERING) ''state_not_watering'' @
     (case ctl_session c of
        None \<Rightarrow> [''session_mismatch'']
      | Some s \<Rightarrow>
          if ses_session_id s \<noteq> session_id then [''session_mismatch'']
          else
            check (ctl_enabled c) ''disabled'' @
            check (ses_owner_run_id s = ctl_run_id c) ''run_owner_mismatch'' @
            check (ses_config_fingerprint s = ctl_fingerprint c) ''session_config_mismatch'' @
            check (ses_pulse_intent_at_utc s \<noteq> None) ''missing_hazard_intent'' @
            check (ses_pending_termination_reason s = None) ''terminal_request_committed'' @
            check (\<not> ctl_off_requested c) ''off_requested'' @
            check (\<not> off_operation_active c) ''off_operation_active'' @
            check (\<not> (pre_dispatch \<and> ctl_inflight_on c \<noteq> None)) ''another_on_attempt_in_flight'' @
            check (case ctl_active_fault c of
                     None \<Rightarrow> True
                   | Some f \<Rightarrow> ses_mode s = MANUAL \<and> allows_manual f) ''blocking_fault'' @
            (if ses_mode s = AUTO
             then auto_on_guard_failures s authoritative_daily_runtime_s now c
             else manual_on_guard_failures s authoritative_daily_runtime_s c))"

section \<open>Accounting\<close>

definition current_daily :: "utc \<Rightarrow> ZoneController \<Rightarrow> ZoneController" where
  "current_daily now c =
     (let today = tz_local_day (ctl_tz c) now
      in if day_date_local (ctl_daily c) \<noteq> today
         then c\<lparr>ctl_daily := \<lparr>day_date_local = today, day_runtime_s = 0\<rparr>\<rparr> else c)"

definition charge_runtime :: "rat \<Rightarrow> utc \<Rightarrow> utc \<Rightarrow> ZoneController \<Rightarrow> ZoneController outcome" where
  "charge_runtime delta_s end_utc now c =
     (case timedelta_float (Fin delta_s) of
        Inl e \<Rightarrow> (c, Some e)
      | Inr d \<Rightarrow>
          let c1 = current_daily now c; current = ctl_daily c1
          in lift_result c1 (res_bind
               (current_day_charge (tz_local_day (ctl_tz c)) (tz_midnight (ctl_tz c))
                  (end_utc - d) end_utc (day_date_local current))
               (\<lambda>charge.
                  if charge > 0
                  then res_bind (mk_daily (day_date_local current) (day_runtime_s current + charge))
                         (\<lambda>daily. Inr (c1\<lparr>ctl_daily := daily\<rparr>))
                  else Inr c1)))"

fun py_max :: "pyfloat \<Rightarrow> pyfloat list \<Rightarrow> pyfloat" where
  "py_max best [] = best"
| "py_max best (x # xs) = py_max (if fl_less best x then x else best) xs"

definition track_session_response ::
  "SessionContext \<Rightarrow> SessionSummary \<Rightarrow> ZoneController \<Rightarrow> ZoneController" where
  "track_session_response closed_s summary c =
     (let tracked = ctl_session_peak c; c1 = c\<lparr>ctl_session_peak := None\<rparr>
      in if ses_mode closed_s \<noteq> AUTO then c1
         else
           (let rise =
              (case ses_moisture_at_start closed_s of
                 None \<Rightarrow> None
               | Some begun \<Rightarrow>
                   let readings =
                     (case ses_last_recheck_value closed_s of None \<Rightarrow> [] | Some v \<Rightarrow> [v]) @
                     (case tracked of
                        None \<Rightarrow> []
                      | Some (i, v) \<Rightarrow> if i = ses_session_id closed_s then [v] else [])
                   in Some (fl_add (py_max begun readings) (fl_neg begun)))
            in c1\<lparr>ctl_last_session_peak_rise := rise,
                  ctl_unresponsive_sessions :=
                    next_unresponsive_streak (ctl_unresponsive_sessions c1) summary rise\<rparr>))"

definition session_ended_at :: "SessionContext \<Rightarrow> utc \<Rightarrow> utc" where
  "session_ended_at s now = (case ses_off_confirmed_at_utc s of Some t \<Rightarrow> t | None \<Rightarrow> now)"

definition closing_summary :: "SessionContext \<Rightarrow> CompletionReason \<Rightarrow> utc \<Rightarrow> SessionSummary" where
  "closing_summary s reason now =
     \<lparr>sum_mode = ses_mode s, sum_reason = reason, sum_runtime_s = ses_session_runtime_s s,
      sum_runtime_estimated = ses_runtime_estimated s,
      sum_runtime_estimation_reason = ses_runtime_estimation_reason s,
      sum_requested_duration_s = ses_manual_requested_duration_s s,
      sum_effective_duration_s = ses_manual_effective_duration_s s,
      sum_clamp_reasons = ses_manual_clamp_reasons s, sum_cycles = ses_cycle s,
      sum_moisture_before = ses_moisture_at_start s, sum_moisture_after = ses_last_recheck_value s,
      sum_started_at_utc = ses_started_at_utc s, sum_ended_at_utc = session_ended_at s now\<rparr>"

definition finalize_summary ::
  "Decision \<Rightarrow> SessionContext \<Rightarrow> TransitionInput \<Rightarrow> ZoneController \<Rightarrow> ZoneController outcome" where
  "finalize_summary d closed_s inp c =
     (case dec_reason d of
        None \<Rightarrow> (c, Some AssertionError)
      | Some reason \<Rightarrow>
          let summary = closing_summary closed_s reason (inp_now_utc inp)
          in (track_session_response closed_s summary
                (c\<lparr>ctl_last_summary := Some summary,
                   ctl_last_session_end := Some (session_ended_at closed_s (inp_now_utc inp))\<rparr>), None))"

section \<open>Persistence\<close>

definition possible_flow_owner_for_persist ::
  "StoreData \<Rightarrow> ZoneController \<Rightarrow> PossibleFlowOwner option result" where
  "possible_flow_owner_for_persist data c =
     (case map_of (st_safety_records data) (ctl_safety_record_id c) of
        None \<Rightarrow> Inl KeyError
      | Some record1 \<Rightarrow>
          let blockers = set (sr_blocker_reasons record1)
          in Inr (if (case ctl_session c of
                        None \<Rightarrow> False
                      | Some s \<Rightarrow> ses_pulse_intent_at_utc s \<noteq> None \<and> ses_off_confirmed_at_utc s = None)
                     \<or> INTEGRATION_OFF_UNCONFIRMED \<in> blockers
                  then Some INTEGRATION
                  else if ctl_external_on c \<or> EXTERNAL_FLOW \<in> blockers then Some EXTERNAL
                  else None))"

definition controller_snapshot ::
  "ZoneController \<Rightarrow> PossibleFlowOwner option \<Rightarrow> controller_write" where
  "controller_snapshot c owner =
     \<lparr>cw_state = ctl_state c, cw_enabled = ctl_enabled c, cw_active_fault = ctl_active_fault c,
      cw_secondary_fault = ctl_secondary_fault c,
      cw_last_session_end_utc = ctl_last_session_end c,
      cw_last_auto_session_start_utc = ctl_last_auto_session_start c,
      cw_daily = Some (ctl_daily c), cw_last_session_summary = ctl_last_summary c,
      cw_session = ctl_session c, cw_possible_flow_owner = owner\<rparr>"

definition persist_locked :: "step_env \<Rightarrow> World \<Rightarrow> World outcome" where
  "persist_locked env w =
     (let c = current_daily (env_now env) (w_ctl w); w1 = w\<lparr>w_ctl := c\<rparr>
      in case res_bind (store_data (w_store w)) (\<lambda>data. possible_flow_owner_for_persist data c) of
           Inl e \<Rightarrow> (w1, Some e)
         | Inr owner \<Rightarrow>
             (case transact (env_io env)
                     (update_controller_runtime_plan (ctl_safety_record_id c) (ctl_zone_history_id c)
                        (controller_snapshot c owner)) (w_store w) of
                (store, err) \<Rightarrow> (w1\<lparr>w_store := store\<rparr>, err)))"

definition emit :: "Emission \<Rightarrow> World \<Rightarrow> World" where
  "emit e w = w\<lparr>w_emitted := w_emitted w @ [e]\<rparr>"

definition on_ctl :: "(ZoneController \<Rightarrow> ZoneController) \<Rightarrow> World \<Rightarrow> World" where
  "on_ctl f w = w\<lparr>w_ctl := f (w_ctl w)\<rparr>"

definition fail_closed :: "ZoneController \<Rightarrow> ZoneController" where
  "fail_closed c =
     c\<lparr>ctl_persist_failed := True, ctl_on_requested := False,
       ctl_session := map_option (\<lambda>s. if ses_pending_termination_reason s = None
         then s\<lparr>ses_pending_termination_reason := Some ACTUATOR_FAULT\<rparr> else s) (ctl_session c),
       ctl_active_fault := Some RESTORED_FROM_UNSAFE_STATE, ctl_state := FAULT\<rparr>"

definition handle_persist_failure_locked :: "World \<Rightarrow> World" where
  "handle_persist_failure_locked w =
     (let w1 = emit (FaultSetEvent RESTORED_FROM_UNSAFE_STATE None) (on_ctl fail_closed w)
      in if \<not> act_proven_off (ctl_assessment (w_ctl w1))
         then on_ctl (\<lambda>c. ensure_session_task (c\<lparr>ctl_off_requested := True\<rparr>)) w1
         else w1)"

section \<open>Actions\<close>

definition with_slots ::
  "(SlotManager \<times> SafetyStore) outcome \<Rightarrow> World \<Rightarrow> World outcome" where
  "with_slots r w = (case r of ((m, s), err) \<Rightarrow> (w\<lparr>w_slots := m, w_store := s\<rparr>, err))"

definition turn_on_requested :: "ZoneController \<Rightarrow> ZoneController" where
  "turn_on_requested c =
     c\<lparr>ctl_on_requested := True, ctl_off_operation := None, ctl_off_proven := False,
       ctl_off_proven_at := None\<rparr>"

fun apply_action_locked :: "step_env \<Rightarrow> Decision \<Rightarrow> Action \<Rightarrow> World \<Rightarrow> World outcome" where
  "apply_action_locked env d (PersistState _) w = persist_locked env w"
| "apply_action_locked env d TurnOn w = (on_ctl turn_on_requested w, None)"
| "apply_action_locked env d (ExecuteOff _) w = (on_ctl (\<lambda>c. c\<lparr>ctl_off_requested := True\<rparr>) w, None)"
| "apply_action_locked env d (ArmTimer kind at_utc) w = (on_ctl (arm_timer kind at_utc) w, None)"
| "apply_action_locked env d (ArmWatchdog token) w = (on_ctl (arm_watchdog token) w, None)"
| "apply_action_locked env d RequestSlot w = (on_ctl ensure_slot_request w, None)"
| "apply_action_locked env d ReleaseSlot w =
     (w\<lparr>w_slots := cancel_request (ctl_zone_id (w_ctl w))
                      (snd (slot_release (ctl_zone_id (w_ctl w)) (w_slots w)))\<rparr>, None)"
| "apply_action_locked env d RequeueSlotTail w = (w, None)"
| "apply_action_locked env d (AddBlocker reason) w =
     with_slots (resource_add (persist_slot_blocker (env_io env))
                   (ctl_safety_record_id (w_ctl w), reason) (w_slots w, w_store w)) w"
| "apply_action_locked env d (RemoveBlocker reason) w =
     with_slots (resource_remove (persist_slot_blocker (env_io env))
                   (ctl_safety_record_id (w_ctl w), reason) (w_slots w, w_store w)) w"
| "apply_action_locked env d (SetExternalOn b) w = (on_ctl (\<lambda>c. c\<lparr>ctl_external_on := b\<rparr>) w, None)"
| "apply_action_locked env d EmitSessionStarted w =
     (emit (SessionStartedEvent
        (map_option (\<lambda>s. (ses_session_id s, ses_mode s)) (ctl_session (w_ctl w)))) w, None)"
| "apply_action_locked env d EmitSessionFinished w =
     (case ctl_last_summary (w_ctl w) of
        None \<Rightarrow> (w, Some AssertionError)
      | Some summary \<Rightarrow> (emit (SessionFinishedEvent (dec_reason d) summary) w, None))"
| "apply_action_locked env d (EmitFaultSet fault replaces) w =
     (emit (FaultSetEvent fault replaces) w, None)"
| "apply_action_locked env d (EmitFaultCleared fault) w = (emit (FaultClearedEvent fault) w, None)"
| "apply_action_locked env d ScheduleEvaluation w =
     (on_ctl (\<lambda>c. c\<lparr>ctl_evaluations := ctl_evaluations c + 1\<rparr>) w, None)"

text \<open>Action number \<open>k\<close> meets the surroundings \<open>env k\<close>; the first exception ends the
  loop.\<close>

fun apply_actions ::
  "(nat \<Rightarrow> step_env) \<Rightarrow> nat \<Rightarrow> Decision \<Rightarrow> Action list \<Rightarrow> World \<Rightarrow> World outcome" where
  "apply_actions env k d [] w = (w, None)"
| "apply_actions env k d (a # as) w =
     and_then (apply_action_locked (env k) d a w) (apply_actions env (Suc k) d as)"

section \<open>Decide and apply\<close>

definition build_input ::
  "string \<Rightarrow> utc \<Rightarrow> ControllerEvent \<Rightarrow> World \<Rightarrow> TransitionInput result" where
  "build_input session_uuid now event w =
     (let c = current_daily now (w_ctl w)
      in mk_input
           \<lparr>inp_now_utc = now, inp_config = ctl_config c, inp_state = ctl_state c,
            inp_enabled = ctl_enabled c, inp_session = ctl_session c,
            inp_active_fault = ctl_active_fault c, inp_secondary_fault = ctl_secondary_fault c,
            inp_observation = ctl_observation c, inp_daily_runtime_s = day_runtime_s (ctl_daily c),
            inp_last_session_end_utc = ctl_last_session_end c, inp_actuator = ctl_assessment c,
            inp_resource =
              \<lparr>res_slot_granted = (sl_owner (w_slots w) = Some (ctl_zone_id c)),
               res_blockers_empty = blockers_empty (w_slots w)\<rparr>,
            inp_armed_watchdog = ctl_armed_watchdog c, inp_event = event,
            inp_external_on = ctl_external_on c,
            inp_new_session_identity =
              Some \<lparr>sid_session_id = session_uuid, sid_owner_run_id = ctl_run_id c,
                    sid_config_fingerprint = ctl_fingerprint c\<rparr>\<rparr>)"

text \<open>The assignments at the start of \<open>_apply_locked\<close>.\<close>

definition adopt_decision :: "Decision \<Rightarrow> TransitionInput \<Rightarrow> ZoneController \<Rightarrow> ZoneController" where
  "adopt_decision d inp c =
     c\<lparr>ctl_session :=
         (if dec_clear_session d then None
          else case dec_session d of Some s \<Rightarrow> Some s | None \<Rightarrow> ctl_session c),
       ctl_last_auto_session_start :=
         (case dec_session d of
            Some s \<Rightarrow> if inp_session inp = None \<and> ses_mode s = AUTO
                      then Some (ses_started_at_utc s) else ctl_last_auto_session_start c
          | None \<Rightarrow> ctl_last_auto_session_start c),
       ctl_state := (case dec_new_state d of Some z \<Rightarrow> z | None \<Rightarrow> ctl_state c),
       ctl_active_fault :=
         (if dec_clear_fault d then None
          else case dec_fault d of Some f \<Rightarrow> Some f | None \<Rightarrow> ctl_active_fault c),
       ctl_secondary_fault :=
         (case dec_secondary_fault d of Some f \<Rightarrow> Some f | None \<Rightarrow> ctl_secondary_fault c)\<rparr>"

definition closed_session :: "Decision \<Rightarrow> SessionContext option" where
  "closed_session d = (if dec_clear_session d then dec_final_session d else None)"

definition charge_growth ::
  "Decision \<Rightarrow> TransitionInput \<Rightarrow> utc \<Rightarrow> ZoneController \<Rightarrow> ZoneController outcome" where
  "charge_growth d inp now c =
     (let previous_runtime = (case inp_session inp of Some s \<Rightarrow> ses_session_runtime_s s | None \<Rightarrow> 0);
          grown = (case ctl_session c of Some s \<Rightarrow> Some s | None \<Rightarrow> closed_session d)
      in case grown of
           None \<Rightarrow> (c, None)
         | Some g \<Rightarrow>
             if ses_session_runtime_s g > previous_runtime
             then charge_runtime (ses_session_runtime_s g - previous_runtime)
                    (session_ended_at g (inp_now_utc inp)) now c
             else (c, None))"

definition timer_housekeeping :: "ControllerState \<Rightarrow> ZoneController \<Rightarrow> ZoneController" where
  "timer_housekeeping previous_state c =
     (let c1 = (if previous_state = WATERING \<and> ctl_state c \<noteq> WATERING
                then cancel_watchdog (cancel_timers [PULSE_END, MANUAL_END, ON_CONFIRM_TIMEOUT] c)
                else c);
          c2 = (if previous_state = SOAKING \<and> ctl_state c1 \<noteq> SOAKING
                then cancel_timers [SOAK_END, GRACE] c1 else c1)
      in case ctl_session c2 of
           None \<Rightarrow> c2
         | Some s \<Rightarrow> if ses_pulse_confirmed_at_utc s \<noteq> None
                     then cancel_timers [ON_CONFIRM_TIMEOUT] c2 else c2)"

definition note_pending_manual :: "Decision \<Rightarrow> TransitionInput \<Rightarrow> ZoneController \<Rightarrow> ZoneController" where
  "note_pending_manual d inp c =
     (case inp_event inp of
        ManualStartRequested q \<Rightarrow>
          if RequestSlot \<in> set (dec_actions d) then c\<lparr>ctl_pending_manual := Some q\<rparr> else c
      | _ \<Rightarrow> c)"

definition apply_data ::
  "Decision \<Rightarrow> TransitionInput \<Rightarrow> utc \<Rightarrow> ZoneController \<Rightarrow> ZoneController outcome" where
  "apply_data d inp now c =
     and_then (charge_growth d inp now (adopt_decision d inp c)) (\<lambda>c1.
     and_then (case closed_session d of None \<Rightarrow> (c1, None) | Some s \<Rightarrow> finalize_summary d s inp c1) (\<lambda>c2.
       (note_pending_manual d inp (timer_housekeeping (ctl_state c) c2), None)))"

definition apply_locked ::
  "(nat \<Rightarrow> step_env) \<Rightarrow> utc \<Rightarrow> Decision \<Rightarrow> TransitionInput \<Rightarrow> World \<Rightarrow> World outcome" where
  "apply_locked env now d inp w =
     (if dec_no_op d then (w, None)
      else (case apply_data d inp now (w_ctl w) of
          (c, Some e) \<Rightarrow> (w\<lparr>w_ctl := c\<rparr>, Some e)
        | (c, None) \<Rightarrow>
            (case apply_actions env 0 d (dec_actions d) (w\<lparr>w_ctl := c\<rparr>) of
               (w2, Some (StoreWriteVerificationError _)) \<Rightarrow> (handle_persist_failure_locked w2, None)
             | (w2, Some e) \<Rightarrow> (w2, Some e)
             | (w2, None) \<Rightarrow>
                 let c2 = w_ctl w2
                 in (if ctl_session c2 \<noteq> None \<or> ctl_on_requested c2 \<or> ctl_off_requested c2
                     then on_ctl ensure_session_task w2 else w2, None))))"

definition decide_and_apply ::
  "(nat \<Rightarrow> step_env) \<Rightarrow> string \<Rightarrow> utc \<Rightarrow> ControllerEvent \<Rightarrow> World \<Rightarrow> World outcome" where
  "decide_and_apply env session_uuid now event w =
     (let w1 = on_ctl (current_daily now) w
      in case build_input session_uuid now event w of
           Inl e \<Rightarrow> (w1, Some e)
         | Inr inp \<Rightarrow>
             (case decide inp of
                Inl e \<Rightarrow> (w1, Some e)
              | Inr d \<Rightarrow> apply_locked env now d inp w1))"

section \<open>Event sources\<close>

definition observe_locked :: "MoistureObservation \<Rightarrow> ZoneController \<Rightarrow> ZoneController outcome" where
  "observe_locked observation c =
     (let c1 = c\<lparr>ctl_observation := observation\<rparr>
      in case assess_reading_plausibility (ctl_plausibility c) observation of
           Inl e \<Rightarrow> (c1, Some e)
         | Inr p \<Rightarrow>
             let c2 = c1\<lparr>ctl_plausibility := p\<rparr>
             in (case ctl_session c2 of
                   None \<Rightarrow> (c2, None)
                 | Some s \<Rightarrow>
                     if ses_mode s = AUTO \<and> obs_classification observation = VALID
                     then (case obs_value observation of
                             None \<Rightarrow> (c2, Some AssertionError)
                           | Some v \<Rightarrow>
                               let peak = (case ctl_session_peak c2 of
                                             Some (i, p0) \<Rightarrow> if i = ses_session_id s then py_max p0 [v] else v
                                           | None \<Rightarrow> v)
                               in (c2\<lparr>ctl_session_peak := Some (ses_session_id s, peak)\<rparr>, None))
                     else (c2, None)))"

definition lift_ctl :: "ZoneController outcome \<Rightarrow> World \<Rightarrow> World outcome" where
  "lift_ctl r w = (case r of (c, err) \<Rightarrow> (w\<lparr>w_ctl := c\<rparr>, err))"

text \<open>\<open>_async_moisture\<close> and \<open>async_fallback_scan\<close>: both observe and then decide on the
  same report.\<close>

definition async_moisture ::
  "(nat \<Rightarrow> step_env) \<Rightarrow> string \<Rightarrow> utc \<Rightarrow> MoistureObservation \<Rightarrow> World \<Rightarrow> World outcome" where
  "async_moisture env session_uuid now observation w =
     and_then (lift_ctl (observe_locked observation (w_ctl w)) w) (\<lambda>w1.
       if ctl_runtime_eligible (w_ctl w1)
       then decide_and_apply env session_uuid now (MoistureReport observation) w1
       else (w1, None))"

definition async_evaluate :: "(nat \<Rightarrow> step_env) \<Rightarrow> string \<Rightarrow> utc \<Rightarrow> World \<Rightarrow> World outcome" where
  "async_evaluate env session_uuid now w =
     (if \<not> ctl_runtime_eligible (w_ctl w) then (w, None)
      else decide_and_apply env session_uuid now AutoEvaluate w)"

definition async_manual_start ::
  "(nat \<Rightarrow> step_env) \<Rightarrow> string \<Rightarrow> utc \<Rightarrow> pyfloat \<Rightarrow> World \<Rightarrow> World outcome" where
  "async_manual_start env session_uuid now requested_duration_s w =
     (if \<not> ctl_runtime_eligible (w_ctl w) then (w, None)
      else decide_and_apply env session_uuid now (ManualStartRequested requested_duration_s) w)"

definition async_set_enabled ::
  "(nat \<Rightarrow> step_env) \<Rightarrow> string \<Rightarrow> utc \<Rightarrow> bool \<Rightarrow> World \<Rightarrow> World outcome" where
  "async_set_enabled env session_uuid now enabled w =
     decide_and_apply env session_uuid now (if enabled then EnableRequested else DisableRequested)
       (on_ctl (\<lambda>c. c\<lparr>ctl_enabled := enabled\<rparr>) w)"

definition timer_fired ::
  "(nat \<Rightarrow> step_env) \<Rightarrow> string \<Rightarrow> utc \<Rightarrow> TimerKind \<Rightarrow> World \<Rightarrow> World outcome" where
  "timer_fired env session_uuid now kind w =
     decide_and_apply env session_uuid now (timer_event kind)
       (on_ctl (\<lambda>c. c\<lparr>ctl_timers := (ctl_timers c)(kind := None)\<rparr>) w)"

definition watchdog_timer_fired ::
  "(nat \<Rightarrow> step_env) \<Rightarrow> string \<Rightarrow> utc \<Rightarrow> WatchdogToken \<Rightarrow> World \<Rightarrow> World outcome" where
  "watchdog_timer_fired env session_uuid now token w =
     decide_and_apply env session_uuid now (WatchdogFired token)
       (on_ctl (\<lambda>c. c\<lparr>ctl_watchdog_handle := None\<rparr>) w)"

text \<open>The state-change callback runs outside the lock: it records the evidence and schedules
  the change with what it saw.\<close>

record actuator_change =
  ch_previous :: ActuatorAssessment
  ch_assessment :: ActuatorAssessment
  ch_terminal_on :: bool
  ch_observed_at :: utc

definition on_actuator_event ::
  "HaState option \<Rightarrow> string \<Rightarrow> utc \<Rightarrow> ZoneController \<Rightarrow> (ZoneController \<times> actuator_change) result" where
  "on_actuator_event new_state context_id now c =
     res_bind (assess (cfg_actuator (ctl_config c)) new_state) (\<lambda>assessment.
       let terminal_on = is_terminal_on (cfg_actuator (ctl_config c)) new_state;
           c1 = c\<lparr>ctl_assessment := assessment\<rparr>;
           c2 = (if act_proven_off assessment
                 then c1\<lparr>ctl_off_proven_at := Some now, ctl_off_proven := True\<rparr>
                 else c1\<lparr>ctl_off_proven := False\<rparr>);
           c3 = (case ctl_inflight_on c2 of
                   None \<Rightarrow> c2
                 | Some marker \<Rightarrow>
                     if terminal_on \<and> new_state \<noteq> None \<and> context_id = ifl_context_id marker
                     then c2\<lparr>ctl_inflight_on := Some (marker\<lparr>ifl_observed_on_at_utc := Some now\<rparr>)\<rparr>
                     else c2)
       in Inr (c3, \<lparr>ch_previous = ctl_assessment c, ch_assessment = assessment,
                    ch_terminal_on = terminal_on, ch_observed_at = now\<rparr>))"

definition actuator_on_event :: "actuator_change \<Rightarrow> ZoneController \<Rightarrow> ControllerEvent option" where
  "actuator_on_event ch c =
     (if ctl_inflight_on c \<noteq> None then None
      else (case ctl_session c of
              Some s \<Rightarrow>
                if ctl_state c = WATERING
                then (if ch_terminal_on ch \<and> ses_pulse_commanded_at_utc s \<noteq> None \<and>
                         ses_pulse_confirmed_at_utc s = None \<and>
                         ses_pending_termination_reason s = None \<and> \<not> off_operation_active c
                      then Some (OnConfirmed (ch_observed_at ch)) else None)
                else Some ExternalActuatorOn
            | None \<Rightarrow> Some ExternalActuatorOn))"

definition async_actuator_change ::
  "(nat \<Rightarrow> step_env) \<Rightarrow> step_env \<Rightarrow> string \<Rightarrow> utc \<Rightarrow> actuator_change \<Rightarrow> World \<Rightarrow> World outcome" where
  "async_actuator_change env remove_env session_uuid now ch w =
     (let c = w_ctl w; step = (\<lambda>event w1. decide_and_apply env session_uuid now event w1)
      in if \<not> act_available (ch_assessment ch)
         then (if ctl_state c \<in> {WATERING, SOAKING} then step ActuatorBecameUnavailable w else (w, None))
         else if act_observed_on (ch_assessment ch)
         then (case actuator_on_event ch c of None \<Rightarrow> (w, None) | Some event \<Rightarrow> step event w)
         else if act_proven_off (ch_assessment ch)
         then and_then
                (with_slots (resource_remove (persist_slot_blocker (env_io remove_env))
                   (ctl_safety_record_id c, ACTUATOR_NOT_PROVEN_OFF) (w_slots w, w_store w)) w)
                (\<lambda>w1.
                   if act_proven_off (ch_previous ch) then (w1, None)
                   else if off_operation_active c then (w1, None)
                   else if ctl_inflight_on (w_ctl w1) \<noteq> None then (w1, None)
                   else step (ExternalActuatorOff (ch_observed_at ch)) w1)
         else (w, None))"

section \<open>Adoption of the persisted state\<close>

text \<open>\<open>async_attach\<close>: \<open>assessment\<close> and \<open>observation\<close> are the live readings of the two
  adapters.\<close>

definition async_attach ::
  "ActuatorAssessment \<Rightarrow> MoistureObservation \<Rightarrow> World \<Rightarrow> World outcome" where
  "async_attach assessment observation w =
     (let c = w_ctl w; fail = (\<lambda>msg. (w, Some (StoreWriteVerificationError msg)))
      in case store_data (w_store w) of
           Inl e \<Rightarrow> (w, Some e)
         | Inr data \<Rightarrow>
             (case map_of (st_safety_records data) (ctl_safety_record_id c) of
                None \<Rightarrow> fail ''controller canonical ownership is unavailable''
              | Some r \<Rightarrow>
                  if sr_zone_history_id r \<noteq> ctl_zone_history_id c
                  then fail ''controller canonical ownership is unavailable''
                  else (case map_of (st_zone_histories data) (ctl_zone_history_id c) of
                      None \<Rightarrow> fail ''controller zone history is unavailable''
                    | Some h \<Rightarrow>
                        let rt = zh_zone_runtime h
                        in if (case zr_session rt of
                                 None \<Rightarrow> False
                               | Some p \<Rightarrow> ps_owner_safety_record_id p \<noteq> ctl_safety_record_id c)
                           then fail ''persisted session owner does not match controller''
                           else (w\<lparr>w_ctl := c
                             \<lparr>ctl_state := zr_state rt, ctl_enabled := zr_enabled rt,
                              ctl_active_fault :=
                                (case sr_actuator_fault r of Some f \<Rightarrow> Some f | None \<Rightarrow> zr_zone_fault rt),
                              ctl_secondary_fault :=
                                (if sr_actuator_fault r \<noteq> None \<and> zr_secondary_fault rt \<noteq> None
                                 then zr_secondary_fault rt
                                 else if sr_actuator_fault r \<noteq> None then zr_zone_fault rt
                                 else zr_secondary_fault rt),
                              ctl_last_session_end := zh_last_session_end_utc h,
                              ctl_last_auto_session_start := zh_last_auto_session_start_utc h,
                              ctl_last_summary := zr_last_session_summary rt,
                              ctl_daily :=
                                (case zh_daily h of
                                   Some z \<Rightarrow> \<lparr>day_date_local = zdr_date_local z,
                                             day_runtime_s = zdr_runtime_s z\<rparr>
                                 | None \<Rightarrow> ctl_daily c),
                              ctl_session := map_option ps_context (zr_session rt),
                              ctl_assessment := assessment, ctl_observation := observation\<rparr>\<rparr>, None))))"

section \<open>The slot request task\<close>

definition await_slot_begin :: "World \<Rightarrow> SlotRequest \<times> World" where
  "await_slot_begin w =
     (case slot_request (ctl_zone_id (w_ctl w)) (w_slots w) of (r, m) \<Rightarrow> (r, w\<lparr>w_slots := m\<rparr>))"

definition await_slot_cancelled :: "World \<Rightarrow> World" where
  "await_slot_cancelled w = w\<lparr>w_slots := cancel_request (ctl_zone_id (w_ctl w)) (w_slots w)\<rparr>"

definition await_slot_granted ::
  "(nat \<Rightarrow> step_env) \<Rightarrow> string \<Rightarrow> utc \<Rightarrow> World \<Rightarrow> World outcome" where
  "await_slot_granted env session_uuid now w =
     (let c = w_ctl w
      in if \<not> ctl_runtime_eligible c
         then (w\<lparr>w_slots := snd (slot_release (ctl_zone_id c) (w_slots w))\<rparr>, None)
         else decide_and_apply env session_uuid now
                (case ctl_pending_manual c of Some q \<Rightarrow> ManualStartRequested q | None \<Rightarrow> SlotGranted)
                (on_ctl (\<lambda>c. c\<lparr>ctl_pending_manual := None\<rparr>) w))"

section \<open>The shared OFF operation\<close>

definition begin_off_operation :: "ZoneController \<Rightarrow> ZoneController" where
  "begin_off_operation c =
     (case ctl_off_operation c of
        Some None \<Rightarrow> c
      | Some (Some False) \<Rightarrow> c
      | Some (Some True) \<Rightarrow>
          if act_proven_off (ctl_assessment c) then c else c\<lparr>ctl_off_operation := Some None\<rparr>
      | None \<Rightarrow> c\<lparr>ctl_off_operation := Some None\<rparr>)"

text \<open>One attempt: the live actuator state after the OFF call, what the rest of the program
  does to the controller while the proof is awaited, and the clock at the end.\<close>

record off_env =
  oe_live :: "HaState option"
  oe_meanwhile :: "ZoneController \<Rightarrow> ZoneController"
  oe_clock :: utc

definition off_evidence :: "ZoneController \<Rightarrow> bool" where
  "off_evidence c \<longleftrightarrow> ctl_off_proven c \<or> act_proven_off (ctl_assessment c)"

definition wait_off_proof :: "off_env \<Rightarrow> ZoneController \<Rightarrow> ZoneController" where
  "wait_off_proof env c = (if off_evidence c then c else oe_meanwhile env c)"

definition proof_instant :: "off_env \<Rightarrow> ZoneController \<Rightarrow> utc" where
  "proof_instant env c = (case ctl_off_proven_at c of Some t \<Rightarrow> t | None \<Rightarrow> oe_clock env)"

text \<open>The result: the controller, the instant of the proof, and the number of OFF calls.\<close>

fun off_attempts ::
  "(nat \<Rightarrow> off_env) \<Rightarrow> nat \<Rightarrow> nat \<Rightarrow> ZoneController \<Rightarrow> (ZoneController \<times> utc option \<times> nat) result" where
  "off_attempts env issued 0 c = Inr (c, None, issued)"
| "off_attempts env issued (Suc n) c =
     res_bind (assess (cfg_actuator (ctl_config c)) (oe_live (env issued))) (\<lambda>a.
       let c1 = c\<lparr>ctl_assessment := a\<rparr>
       in if act_proven_off a then Inr (c1, Some (proof_instant (env issued) c1), Suc issued)
          else (let c2 = wait_off_proof (env issued) c1
                in if off_evidence c2 then Inr (c2, Some (proof_instant (env issued) c2), Suc issued)
                   else off_attempts env (Suc issued) n c2))"

definition run_off_attempts ::
  "(nat \<Rightarrow> off_env) \<Rightarrow> ZoneController \<Rightarrow> (ZoneController \<times> utc option \<times> nat) result" where
  "run_off_attempts env c = off_attempts env 0 OFF_TOTAL_ATTEMPTS c"

definition resolve_off_operation :: "bool \<Rightarrow> ZoneController \<Rightarrow> ZoneController" where
  "resolve_off_operation confirmed c =
     (if ctl_off_operation c = Some None then c\<lparr>ctl_off_operation := Some (Some confirmed)\<rparr> else c)"

text \<open>\<open>_complete_off_operation\<close> after the attempts: the exception of a dispatch is recorded
  and the hazard is dispatched instead, whose own exception is suppressed.\<close>

definition complete_off_operation ::
  "(nat \<Rightarrow> step_env) \<Rightarrow> (nat \<Rightarrow> step_env) \<Rightarrow> string \<Rightarrow> utc \<Rightarrow> utc option \<Rightarrow> World \<Rightarrow> World outcome" where
  "complete_off_operation env retry_env session_uuid now confirmed_at w =
     (let event = (case confirmed_at of Some t \<Rightarrow> OffConfirmed t | None \<Rightarrow> OffNotConfirmed)
      in case decide_and_apply env session_uuid now event w of
           (w1, None) \<Rightarrow> (on_ctl (resolve_off_operation (confirmed_at \<noteq> None)) w1, None)
         | (w1, Some e) \<Rightarrow>
             (on_ctl (resolve_off_operation False)
                (fst (decide_and_apply retry_env session_uuid now OffNotConfirmed w1)), Some e))"

section \<open>Compensation of an ON command\<close>

definition record_possible_command_in_memory ::
  "InFlightOnCommand \<Rightarrow> ZoneController \<Rightarrow> ZoneController" where
  "record_possible_command_in_memory marker c =
     (case ctl_session c of
        None \<Rightarrow> c
      | Some s \<Rightarrow>
          if ses_session_id s \<noteq> ifl_session_id marker then c
          else if ses_pulse_commanded_at_utc s = None
          then c\<lparr>ctl_session := Some (s\<lparr>ses_pulse_commanded_at_utc := Some (ifl_dispatched_at_utc marker)\<rparr>)\<rparr>
          else c)"

definition stale_watchdog_event :: "utc \<Rightarrow> SessionContext \<Rightarrow> ZoneController \<Rightarrow> ControllerEvent option" where
  "stale_watchdog_event now s c =
     (case (ctl_armed_watchdog c, ses_sensor_fresh_until_utc s) of
        (Some token, Some fresh) \<Rightarrow> if fresh \<le> now then Some (WatchdogFired token) else None
      | _ \<Rightarrow> None)"

definition final_gate_refusal_event ::
  "bool \<Rightarrow> string list \<Rightarrow> utc \<Rightarrow> ZoneController \<Rightarrow> ControllerEvent" where
  "final_gate_refusal_event configuration_authority_valid failed_predicates now c =
     (if \<not> configuration_authority_valid then ConfigChangedPrepare
      else if ''actuator_available_and_proven_off'' \<in> set failed_predicates
      then (if \<not> act_available (ctl_assessment c) then ActuatorBecameUnavailable else OnConfirmTimeout)
      else (case ctl_session c of
              None \<Rightarrow> ConfigChangedPrepare
            | Some s \<Rightarrow>
                if ''ordinary_runtime_guards'' \<in> set failed_predicates \<and> ses_mode s = AUTO
                then (if obs_classification (ctl_observation c) \<noteq> VALID
                      then MoistureReport (ctl_observation c)
                      else (case stale_watchdog_event now s c of
                              Some e \<Rightarrow> e | None \<Rightarrow> ConfigChangedPrepare))
                else ConfigChangedPrepare))"

definition compensation_event ::
  "bool \<Rightarrow> bool \<Rightarrow> utc \<Rightarrow> SessionContext \<Rightarrow> ZoneController \<Rightarrow> ControllerEvent" where
  "compensation_event configuration_changed service_failed now s c =
     (if configuration_changed then ConfigChangedPrepare
      else if service_failed then OnConfirmTimeout
      else if ses_mode s = AUTO \<and> ctl_armed_watchdog c \<noteq> None
      then (case stale_watchdog_event now s c of
              Some e \<Rightarrow> e
            | None \<Rightarrow> if obs_classification (ctl_observation c) \<noteq> VALID
                      then MoistureReport (ctl_observation c) else OnConfirmTimeout)
      else OnConfirmTimeout)"

fun compensation_actions :: "Action list \<Rightarrow> World \<Rightarrow> World outcome" where
  "compensation_actions [] w = (w, None)"
| "compensation_actions (PersistState _ # as) w = compensation_actions as w"
| "compensation_actions (EmitFaultSet f r # as) w = compensation_actions as (emit (FaultSetEvent f r) w)"
| "compensation_actions (ExecuteOff _ # as) w = compensation_actions as w"
| "compensation_actions (a # as) w = (w, Some (RuntimeError ''unsafe compensation action''))"

definition adopt_compensation :: "Decision \<Rightarrow> ZoneController \<Rightarrow> ZoneController" where
  "adopt_compensation d c =
     (let c1 = c\<lparr>ctl_session := (case dec_session d of Some s \<Rightarrow> Some s | None \<Rightarrow> ctl_session c),
                 ctl_state := (case dec_new_state d of Some z \<Rightarrow> z | None \<Rightarrow> ctl_state c),
                 ctl_active_fault := (case dec_fault d of Some f \<Rightarrow> Some f | None \<Rightarrow> ctl_active_fault c),
                 ctl_secondary_fault :=
                   (case dec_secondary_fault d of Some f \<Rightarrow> Some f | None \<Rightarrow> ctl_secondary_fault c)\<rparr>
      in if ctl_state c = WATERING \<and> ctl_state c1 \<noteq> WATERING
         then cancel_watchdog (cancel_timers [PULSE_END, MANUAL_END, ON_CONFIRM_TIMEOUT] c1) else c1)"

definition mark_estimated :: "SessionContext \<Rightarrow> SessionContext" where
  "mark_estimated s =
     (if ses_runtime_estimated s then s
      else s\<lparr>ses_runtime_estimated := True, ses_runtime_estimation_reason := OFF_UNCONFIRMED\<rparr>)"

definition commit_on_compensation_now ::
  "bool \<Rightarrow> bool \<Rightarrow> string \<Rightarrow> utc \<Rightarrow> World \<Rightarrow> World outcome" where
  "commit_on_compensation_now configuration_changed service_failed session_uuid now w =
     (case ctl_session (w_ctl w) of
        None \<Rightarrow> (w, None)
      | Some s \<Rightarrow>
          let w1 = on_ctl (\<lambda>c. c\<lparr>ctl_session := Some (mark_estimated s)\<rparr>) w;
              event = compensation_event configuration_changed service_failed now s (w_ctl w1);
              w2 = on_ctl (current_daily now) w1
          in case res_bind (build_input session_uuid now event w1) decide of
               Inl e \<Rightarrow> (w2, Some e)
             | Inr d \<Rightarrow>
                 if dec_no_op d then (w2, None)
                 else compensation_actions (dec_actions d) (on_ctl (adopt_compensation d) w2))"

end
