(* ===== verification/Reconciliation.thy ===== *)
theory Reconciliation
  imports Zone_Controller
begin

text \<open>
  The entry-wide configuration reconciliation of \<open>reconciliation.py\<close>: the immutable snapshots with
  their fingerprints, and the coordinator that publishes the latest observed snapshot.

  Each definition of the coordinator is the code between two suspension points.  The worker task
  and the reload task are program counters of the state; the snapshot builder, the applier and the
  reload call are the environment, which answers in every possible way.  \<open>rec_step\<close> interleaves
  them with notifications, with the stop and with the steps of the slot manager.  A reload call
  that returns true has unloaded the entry, and unloading stops the coordinator
  (\<open>runtime.py\<close>, \<open>async_unload\<close>), so the step for it asks for a stopped coordinator.
  Object identity of snapshots is equality here: a snapshot carries the generation it was built
  for, and a generation is observed once.
\<close>

section \<open>Immutable snapshots\<close>

record ImmutableZoneSnapshot =
  iz_subentry_id :: string
  iz_config :: ZoneConfig
  iz_sensor_identity :: AppliedEntityIdentity
  iz_actuator_identity :: AppliedEntityIdentity
  iz_config_fingerprint :: string
  iz_current_sensor_entity_id :: "string option"
  iz_current_actuator_entity_id :: "string option"
  iz_identity_conflict_detail :: "string option"

text \<open>Python's \<open>x or y\<close> on an optional string: an empty string counts as absent.\<close>

definition or_else :: "string option \<Rightarrow> string \<Rightarrow> string" where
  "or_else x y = (case x of Some v \<Rightarrow> if v = [] then y else v | None \<Rightarrow> y)"

definition current_sensor :: "ImmutableZoneSnapshot \<Rightarrow> string" where
  "current_sensor z =
     or_else (iz_current_sensor_entity_id z) (ae_last_known_entity_id (iz_sensor_identity z))"

definition current_actuator :: "ImmutableZoneSnapshot \<Rightarrow> string" where
  "current_actuator z =
     or_else (iz_current_actuator_entity_id z) (ae_last_known_entity_id (iz_actuator_identity z))"

definition renamed :: "ImmutableZoneSnapshot \<Rightarrow> bool" where
  "renamed z \<longleftrightarrow>
     current_sensor z \<noteq> ae_last_known_entity_id (iz_sensor_identity z) \<or>
     current_actuator z \<noteq> ae_last_known_entity_id (iz_actuator_identity z)"

definition current_config :: "ImmutableZoneSnapshot \<Rightarrow> ZoneConfig" where
  "current_config z =
     (if \<not> renamed z then iz_config z
      else (iz_config z)\<lparr>cfg_moisture_sensor := current_sensor z, cfg_actuator := current_actuator z\<rparr>)"

definition applied_shadow ::
  "string \<Rightarrow> int \<Rightarrow> ImmutableZoneSnapshot \<Rightarrow> AppliedConfigurationShadow result" where
  "applied_shadow entry_snapshot_fingerprint applied_generation z =
     res_bind (settings_from_config (iz_config z)) (\<lambda>settings.
       mk_shadow
         \<lparr>sh_subentry_id = iz_subentry_id z, sh_config_fingerprint = iz_config_fingerprint z,
          sh_entry_snapshot_fingerprint = entry_snapshot_fingerprint,
          sh_applied_generation = applied_generation, sh_normalized_settings = settings,
          sh_sensor_identity = iz_sensor_identity z, sh_actuator_identity = iz_actuator_identity z\<rparr>)"

record ImmutableEntrySnapshot =
  es_observed_generation :: int
  es_entry_snapshot_fingerprint :: string
  es_zones :: "ImmutableZoneSnapshot list"

text \<open>A dictionary comprehension: the last zone with a subentry identifier wins.\<close>

definition by_subentry_id :: "ImmutableEntrySnapshot \<Rightarrow> (string \<times> ImmutableZoneSnapshot) list" where
  "by_subentry_id s = fold (\<lambda>z. AList.update (iz_subentry_id z) z) (es_zones s) []"

text \<open>What the fingerprint of a zone covers.  \<open>digest\<close> stands for SHA-256 of the canonical
  JSON text of the payload.\<close>

record FingerprintPayload =
  fp_version :: int
  fp_subentry_id :: string
  fp_ha_timezone :: string
  fp_sensor :: AppliedEntityIdentity
  fp_actuator :: AppliedEntityIdentity
  fp_settings :: NormalizedZoneSettings

definition normalized_zone_fingerprint ::
  "(FingerprintPayload \<Rightarrow> string) \<Rightarrow> string \<Rightarrow> ZoneConfig \<Rightarrow> AppliedEntityIdentity \<Rightarrow>
   AppliedEntityIdentity \<Rightarrow> string \<Rightarrow> string result" where
  "normalized_zone_fingerprint digest subentry_id config sensor_identity actuator_identity ha_timezone =
     res_bind (settings_from_config config) (\<lambda>settings.
       Inr (digest \<lparr>fp_version = 2, fp_subentry_id = subentry_id, fp_ha_timezone = ha_timezone,
                    fp_sensor = sensor_identity, fp_actuator = actuator_identity, fp_settings = settings\<rparr>))"

text \<open>\<open>digest\<close> stands for SHA-256 of the canonical JSON text of its argument.\<close>

definition immutable_entry_snapshot ::
  "((string \<times> string) list \<Rightarrow> string) \<Rightarrow> int \<Rightarrow> ImmutableZoneSnapshot list \<Rightarrow> ImmutableEntrySnapshot" where
  "immutable_entry_snapshot digest observed_generation zones =
     (let ordered = sort_key iz_subentry_id zones
      in \<lparr>es_observed_generation = observed_generation,
          es_entry_snapshot_fingerprint = digest (map (\<lambda>z. (iz_subentry_id z, iz_config_fingerprint z)) ordered),
          es_zones = ordered\<rparr>)"

definition stable_batch_requires_reload ::
  "ImmutableEntrySnapshot option \<Rightarrow> ImmutableEntrySnapshot \<Rightarrow> bool" where
  "stable_batch_requires_reload platform_snapshot target_snapshot =
     (case platform_snapshot of
        None \<Rightarrow> False
      | Some p \<Rightarrow>
          list_ex (\<lambda>(subentry_id, z).
              case map_of (by_subentry_id p) subentry_id of
                None \<Rightarrow> True
              | Some previous \<Rightarrow> iz_config_fingerprint previous \<noteq> iz_config_fingerprint z)
            (by_subentry_id target_snapshot))"

section \<open>The coordinator\<close>

text \<open>The worker is the task inside \<open>_run_latest_loop\<close>: not running, about to take the next
  target, or suspended in the applier with the target it took.  The reload task is likewise
  absent, queued for the next loop turn, created, or suspended in the reload call.\<close>

datatype worker_pc = NoWorker | LoopHead | Applying int ImmutableEntrySnapshot

datatype reload_pc = NoReload | ReloadTask int string | Reloading int string

record Coordinator =
  co_worker :: worker_pc
  co_reload_handle :: bool
  co_reload_task :: reload_pc
  co_platform_snapshot :: "ImmutableEntrySnapshot option"
  co_reload_failed_fingerprint :: "string option"
  co_publication_allowed :: bool
  co_stopping_flag :: bool
  co_observation_failed :: bool
  co_observed_generation :: int
  co_applied_generation :: int
  co_observed_snapshot :: "ImmutableEntrySnapshot option"
  co_applied_snapshot :: "ImmutableEntrySnapshot option"
  co_dirty :: bool
  co_reconciling :: bool
  co_failed :: bool
  co_superseded_count :: nat
  co_reload_pending :: bool
  co_reload_generation :: "int option"
  co_reload_snapshot_fingerprint :: "string option"
  co_reload_count :: nat

definition coordinator_init :: Coordinator where
  "coordinator_init =
     \<lparr>co_worker = NoWorker, co_reload_handle = False, co_reload_task = NoReload,
      co_platform_snapshot = None, co_reload_failed_fingerprint = None, co_publication_allowed = True,
      co_stopping_flag = False, co_observation_failed = False, co_observed_generation = 0,
      co_applied_generation = 0, co_observed_snapshot = None, co_applied_snapshot = None,
      co_dirty = False, co_reconciling = False, co_failed = False, co_superseded_count = 0,
      co_reload_pending = False, co_reload_generation = None, co_reload_snapshot_fingerprint = None,
      co_reload_count = 0\<rparr>"

text \<open>The coordinator beside the slot manager it shares with the zone controllers.\<close>

type_synonym rec_state = "Coordinator \<times> slot_sys"

definition co_stopping :: "Coordinator \<Rightarrow> bool" where
  "co_stopping c \<longleftrightarrow> co_stopping_flag c \<or> \<not> co_publication_allowed c"

definition set_barrier ::
  "bool option \<Rightarrow> bool option \<Rightarrow> bool option \<Rightarrow> Coordinator \<Rightarrow> slot_sys \<Rightarrow> rec_state" where
  "set_barrier dirty reconciling failed c x =
     (c, set_reconciliation_state dirty reconciling failed (fst x), snd x)"

text \<open>The snapshot builder is the environment: for a generation it gives a snapshot or raises
  (\<open>None\<close>).\<close>

definition observe_current :: "ImmutableEntrySnapshot option \<Rightarrow> rec_state \<Rightarrow> rec_state" where
  "observe_current built s =
     (let c = fst s; failed = (built = None)
      in set_barrier (Some True) None (Some failed)
           (c\<lparr>co_observed_generation := co_observed_generation c + 1, co_observed_snapshot := built,
              co_observation_failed := failed, co_dirty := True, co_failed := failed\<rparr>) (snd s))"

definition rec_fail :: "rec_state \<Rightarrow> rec_state" where
  "rec_fail s =
     set_barrier (Some True) (Some False) (Some True)
       ((fst s)\<lparr>co_dirty := True, co_reconciling := False, co_failed := True\<rparr>) (snd s)"

definition cancel_pending_reload :: "Coordinator \<Rightarrow> Coordinator" where
  "cancel_pending_reload c =
     (let c1 = c\<lparr>co_reload_handle := False\<rparr>
      in if co_reload_task c1 = NoReload
         then c1\<lparr>co_reload_pending := False, co_reload_generation := None,
                 co_reload_snapshot_fingerprint := None\<rparr>
         else c1)"

definition queue_reload :: "ImmutableEntrySnapshot \<Rightarrow> rec_state \<Rightarrow> rec_state" where
  "queue_reload target s =
     (let c = (fst s)\<lparr>co_reload_pending := True, co_reload_generation := Some (es_observed_generation target),
                      co_reload_snapshot_fingerprint := Some (es_entry_snapshot_fingerprint target)\<rparr>
      in set_barrier (Some True) (Some False) (Some False)
           (if \<not> co_reload_handle c \<and> co_reload_task c = NoReload then c\<lparr>co_reload_handle := True\<rparr> else c)
           (snd s))"

definition is_current :: "int \<Rightarrow> ImmutableEntrySnapshot \<Rightarrow> Coordinator \<Rightarrow> bool" where
  "is_current generation snapshot c \<longleftrightarrow>
     co_publication_allowed c \<and> \<not> co_stopping_flag c \<and> co_observed_generation c = generation \<and>
     co_observed_snapshot c = Some snapshot"

text \<open>\<open>async_reconcile\<close>: nothing to do, joined to a running worker, or it becomes the
  worker.\<close>

definition reconcile_begin :: "rec_state \<Rightarrow> rec_state" where
  "reconcile_begin s =
     (let c = fst s
      in if co_stopping_flag c then s
         else if \<not> co_dirty c \<and> co_applied_generation c = co_observed_generation c then s
         else if co_worker c \<noteq> NoWorker then s
         else (c\<lparr>co_worker := LoopHead\<rparr>, snd s))"

text \<open>One round of the loop up to the await of the applier.\<close>

definition worker_take :: "rec_state \<Rightarrow> rec_state" where
  "worker_take s =
     (let c = fst s; stop = (\<lambda>(c, m). (c\<lparr>co_worker := NoWorker\<rparr>, m))
      in if \<not> (co_publication_allowed c \<and> \<not> co_stopping_flag c) then stop s
         else (case co_observed_snapshot c of
                 None \<Rightarrow> stop (rec_fail s)
               | Some target \<Rightarrow>
                   if co_observation_failed c then stop (rec_fail s)
                   else set_barrier (Some True) (Some True) (Some False)
                          (c\<lparr>co_reconciling := True, co_failed := False,
                             co_worker := Applying (co_observed_generation c) target\<rparr>) (snd s)))"

text \<open>Publication: no suspension from here to the end.  The flag says that a reload callback
  is installed.\<close>

definition publish :: "bool \<Rightarrow> int \<Rightarrow> ImmutableEntrySnapshot \<Rightarrow> rec_state \<Rightarrow> rec_state" where
  "publish has_reload generation target s =
     (let c = fst s;
          prior_reload_failure =
            (co_reload_failed_fingerprint c = Some (es_entry_snapshot_fingerprint target));
          reload_required =
            (\<not> prior_reload_failure \<and> stable_batch_requires_reload (co_platform_snapshot c) target);
          c1 = c\<lparr>co_applied_generation := generation, co_applied_snapshot := Some target,
                 co_dirty := False, co_reconciling := False, co_failed := False,
                 co_platform_snapshot :=
                   (case co_platform_snapshot c of None \<Rightarrow> Some target | Some p \<Rightarrow> Some p),
                 co_worker := NoWorker\<rparr>
      in if prior_reload_failure then rec_fail (c1, snd s)
         else if reload_required \<and> has_reload then queue_reload target (c1, snd s)
         else set_barrier (Some False) (Some False) (Some False) (cancel_pending_reload c1) (snd s))"

text \<open>The rest of the round after the applier returned; \<open>fresh\<close> is what the builder gives
  when the mapping is read again, and \<open>again\<close> what it gives to a new observation.\<close>

definition applier_done ::
  "bool \<Rightarrow> ImmutableEntrySnapshot option \<Rightarrow> ImmutableEntrySnapshot option \<Rightarrow> int \<Rightarrow>
   ImmutableEntrySnapshot \<Rightarrow> rec_state \<Rightarrow> rec_state" where
  "applier_done has_reload fresh again generation target s =
     (let c = fst s; stop = (\<lambda>(c, m). (c\<lparr>co_worker := NoWorker\<rparr>, m));
          proceed = (\<lambda>s1.
            if \<not> is_current generation target (fst s1)
            then ((fst s1)\<lparr>co_superseded_count := co_superseded_count (fst s1) + 1,
                           co_worker := LoopHead\<rparr>, snd s1)
            else publish has_reload generation target s1)
      in if \<not> co_publication_allowed c \<or> co_stopping_flag c then stop s
         else if co_observed_generation c = generation
         then (case fresh of
                 None \<Rightarrow> stop (rec_fail s)
               | Some f \<Rightarrow>
                   if es_entry_snapshot_fingerprint f \<noteq> es_entry_snapshot_fingerprint target
                   then proceed (observe_current again s) else proceed s)
         else proceed s)"

definition applier_raised :: "rec_state \<Rightarrow> rec_state" where
  "applier_raised s = (case rec_fail s of (c, m) \<Rightarrow> (c\<lparr>co_worker := NoWorker\<rparr>, m))"

definition begin_reload_if_current :: "bool \<Rightarrow> rec_state \<Rightarrow> rec_state" where
  "begin_reload_if_current has_reload s =
     (let c = (fst s)\<lparr>co_reload_handle := False\<rparr>
      in case (co_reload_generation c, co_reload_snapshot_fingerprint c, co_applied_snapshot c) of
           (Some generation, Some fingerprint, Some current) \<Rightarrow>
             if \<not> co_reload_pending c \<or> \<not> has_reload \<or> co_stopping c \<or> co_dirty c \<or> co_reconciling c \<or>
                co_failed c \<or> co_observed_generation c \<noteq> generation \<or>
                co_applied_generation c \<noteq> generation \<or>
                es_entry_snapshot_fingerprint current \<noteq> fingerprint
             then (c, snd s)
             else (c\<lparr>co_reload_task := ReloadTask generation fingerprint\<rparr>, snd s)
         | _ \<Rightarrow> (c, snd s))"

text \<open>\<open>_async_apply_reload\<close> up to the await of the reload call.\<close>

definition reload_call :: "int \<Rightarrow> string \<Rightarrow> rec_state \<Rightarrow> rec_state" where
  "reload_call generation fingerprint s =
     (let c = fst s
      in if co_stopping c \<or> \<not> co_reload_pending c \<or> co_reload_generation c \<noteq> Some generation \<or>
            co_reload_snapshot_fingerprint c \<noteq> Some fingerprint \<or>
            co_observed_generation c \<noteq> generation \<or> co_applied_generation c \<noteq> generation
         then (c\<lparr>co_reload_task := NoReload\<rparr>, snd s)
         else (c\<lparr>co_reload_task := Reloading generation fingerprint\<rparr>, snd s))"

definition reload_succeeded :: "rec_state \<Rightarrow> rec_state" where
  "reload_succeeded s =
     (let c = (fst s)\<lparr>co_reload_count := co_reload_count (fst s) + 1, co_reload_pending := False,
                      co_reload_generation := None, co_reload_snapshot_fingerprint := None,
                      co_platform_snapshot := co_applied_snapshot (fst s), co_reload_task := NoReload\<rparr>
      in if \<not> co_stopping c then set_barrier (Some False) (Some False) (Some False) c (snd s)
         else (c, snd s))"

definition reload_raised :: "string \<Rightarrow> rec_state \<Rightarrow> rec_state" where
  "reload_raised fingerprint s =
     (let c = (fst s)\<lparr>co_reload_task := NoReload\<rparr>
      in if \<not> co_stopping c \<and> co_reload_snapshot_fingerprint c = Some fingerprint
         then rec_fail (c\<lparr>co_reload_failed_fingerprint := Some fingerprint, co_reload_pending := False\<rparr>, snd s)
         else (c, snd s))"

definition reload_cancelled :: "string \<Rightarrow> rec_state \<Rightarrow> rec_state" where
  "reload_cancelled fingerprint s =
     (let c = (fst s)\<lparr>co_reload_task := NoReload\<rparr>
      in if \<not> co_stopping c
         then rec_fail (c\<lparr>co_reload_failed_fingerprint := Some fingerprint, co_reload_pending := False\<rparr>, snd s)
         else (c, snd s))"

definition close_publication_now :: "rec_state \<Rightarrow> rec_state" where
  "close_publication_now s =
     (case set_barrier (Some True) (Some False) None
             ((fst s)\<lparr>co_publication_allowed := False, co_stopping_flag := True, co_dirty := True\<rparr>) (snd s)
      of (c, m) \<Rightarrow> (cancel_pending_reload c, m))"

section \<open>Interleaved execution\<close>

inductive rec_step :: "bool \<Rightarrow> rec_state \<Rightarrow> rec_state \<Rightarrow> bool" for has_reload :: bool where
  notify: "(\<And>t. built = Some t \<Longrightarrow> es_observed_generation t = co_observed_generation (fst s) + 1) \<Longrightarrow>
    rec_step has_reload s (observe_current built s)"
| reconcile: "rec_step has_reload s (reconcile_begin s)"
| take: "co_worker (fst s) = LoopHead \<Longrightarrow> rec_step has_reload s (worker_take s)"
| applied: "co_worker (fst s) = Applying g t \<Longrightarrow>
    (\<And>u. again = Some u \<Longrightarrow> es_observed_generation u = co_observed_generation (fst s) + 1) \<Longrightarrow>
    rec_step has_reload s (applier_done has_reload fresh again g t s)"
| apply_failed: "co_worker (fst s) = Applying g t \<Longrightarrow> rec_step has_reload s (applier_raised s)"
| reload_begin: "co_reload_handle (fst s) \<Longrightarrow> rec_step has_reload s (begin_reload_if_current has_reload s)"
| reload_start: "co_reload_task (fst s) = ReloadTask g f \<Longrightarrow> rec_step has_reload s (reload_call g f s)"
| reload_ok: "co_reload_task (fst s) = Reloading g f \<Longrightarrow> co_stopping (fst s) \<Longrightarrow>
    rec_step has_reload s (reload_succeeded s)"
| reload_failed: "co_reload_task (fst s) = Reloading g f \<Longrightarrow> rec_step has_reload s (reload_raised f s)"
| reload_cancel: "co_reload_task (fst s) = Reloading g f \<Longrightarrow>
    rec_step has_reload s (reload_cancelled f s)"
| stop: "rec_step has_reload s (close_publication_now s)"
| slots: "slot_step (snd s) x \<Longrightarrow> sl_reconciliation (fst x) = sl_reconciliation (fst (snd s)) \<Longrightarrow>
    rec_step has_reload s (fst s, x)"

end
