(* ===== verification/On_Authority.thy ===== *)
theory On_Authority
  imports Reconciliation
begin

text \<open>
  The last gate before water flows: \<open>authorize_on\<close> and its rechecks (\<open>runtime.py\<close>) and the
  command envelope \<open>_perform_on\<close> of the controller (\<open>zone_controller.py\<close>), which calls the ON
  service between them.

  The envelope is cut at its suspension points.  Everything from the gate to the service call is
  one definition, because no suspension is permitted there; after each \<open>await\<close> the definition
  takes a \<open>resume_env\<close>, which says what the rest of the program did meanwhile and how the entry
  runtime looks then.  The snapshot builder reads the entity registry and is a field of the runtime.
\<close>

section \<open>Bindings and results\<close>

text \<open>A controller object is known by its reference; the binding and the maps of the runtime hold
  references.\<close>

record RuntimeControllerBinding =
  bd_subentry_id :: string
  bd_safety_record_id :: string
  bd_zone_history_id :: string
  bd_lifecycle :: RuntimeLifecycle
  bd_applied_shadow :: AppliedConfigurationShadow
  bd_controller :: nat
  bd_quiescing :: bool

record FinalOnAuthorizationResult =
  fr_token :: "FinalOnAuthorizationToken option"
  fr_failed_predicates :: "string list"
  fr_configuration_authority_valid :: bool
  fr_requires_quiescing :: bool

definition authorized :: "FinalOnAuthorizationResult \<Rightarrow> bool" where
  "authorized r \<longleftrightarrow> fr_token r \<noteq> None \<and> fr_failed_predicates r = []"

text \<open>The fields of the entry runtime that the gate reads beside the store and the slot manager;
  \<open>en_build\<close> is the snapshot builder, which reads the registries of Home Assistant and may
  raise (\<open>None\<close>).\<close>

record EntryRuntime =
  en_coordinator :: Coordinator
  en_bindings :: "(string \<times> RuntimeControllerBinding) list"
  en_controllers :: "(string \<times> nat) list"
  en_subentries :: "string list"
  en_process_stopping :: bool
  en_on_authorizations :: "(string \<times> FinalOnAuthorizationToken) list"
  en_local_tz :: tzinfo
  en_build :: "int \<Rightarrow> ImmutableEntrySnapshot option"

section \<open>Presentation authority\<close>

definition canonical_zone_authority ::
  "ZoneController \<Rightarrow> SafetyStore \<Rightarrow> (SafetyRecord \<times> ZoneHistory) option" where
  "canonical_zone_authority c store =
     (case ss_data store of
        None \<Rightarrow> None
      | Some data \<Rightarrow>
          (case (map_of (st_safety_records data) (ctl_safety_record_id c),
                 map_of (st_zone_histories data) (ctl_zone_history_id c)) of
             (Some record, Some history) \<Rightarrow>
               if sr_zone_history_id record \<noteq> zh_zone_history_id history then None
               else Some (record, history)
           | _ \<Rightarrow> None))"

definition current_local_day_runtime_s :: "tzinfo \<Rightarrow> utc \<Rightarrow> ZoneHistory option \<Rightarrow> rat" where
  "current_local_day_runtime_s tz now history =
     (case history of
        None \<Rightarrow> 0
      | Some h \<Rightarrow>
          (case zh_daily h of
             None \<Rightarrow> 0
           | Some z \<Rightarrow> if zdr_date_local z \<noteq> tz_local_day tz now then 0 else zdr_runtime_s z))"

definition action_refusal_key :: "nat \<Rightarrow> EntryRuntime \<Rightarrow> World \<Rightarrow> string option" where
  "action_refusal_key ref en w =
     (let c = w_ctl w; co = en_coordinator en
      in case (canonical_zone_authority c (w_store w), map_of (en_bindings en) (ctl_zone_id c)) of
           (Some (record, history), Some binding) \<Rightarrow>
             if bd_controller binding \<noteq> ref then Some ''zone_not_ready''
             else if ctl_zone_id c \<notin> set (en_subentries en) \<or> sr_runtime_lifecycle record \<noteq> ACTIVE \<or>
                     sr_active_subentry_id record \<noteq> Some (ctl_zone_id c) \<or>
                     zh_active_subentry_id history \<noteq> Some (ctl_zone_id c) \<or>
                     bd_lifecycle binding \<noteq> ACTIVE \<or> bd_quiescing binding \<or>
                     ctl_runtime_lifecycle c \<noteq> ACTIVE \<or> \<not> ctl_runtime_eligible c
             then Some ''zone_not_active''
             else if co_failed co \<or> bar_failed (sl_reconciliation (w_slots w))
             then Some ''reconciliation_failed''
             else if en_process_stopping en \<or> co_stopping co \<or> co_dirty co \<or> co_reconciling co \<or>
                     co_reload_pending co \<or> co_observed_generation co \<noteq> co_applied_generation co \<or>
                     \<not> admission_open (w_slots w)
             then Some ''reconciliation_busy''
             else None
         | _ \<Rightarrow> Some ''zone_not_ready'')"

definition entity_runtime_active :: "nat \<Rightarrow> EntryRuntime \<Rightarrow> World \<Rightarrow> bool" where
  "entity_runtime_active ref en w =
     (let c = w_ctl w
      in case canonical_zone_authority c (w_store w) of
           None \<Rightarrow> False
         | Some (record, history) \<Rightarrow>
             sr_runtime_lifecycle record = ACTIVE \<and> sr_active_subentry_id record = Some (ctl_zone_id c) \<and>
             zh_active_subentry_id history = Some (ctl_zone_id c) \<and>
             map_of (en_controllers en) (ctl_zone_id c) = Some ref \<and>
             ctl_zone_id c \<in> set (en_subentries en))"

definition control_entity_available :: "nat \<Rightarrow> EntryRuntime \<Rightarrow> World \<Rightarrow> bool" where
  "control_entity_available ref en w \<longleftrightarrow> action_refusal_key ref en w = None"

definition water_resource_blocked :: "SlotManager \<Rightarrow> bool" where
  "water_resource_blocked m \<longleftrightarrow> \<not> blockers_empty m"

section \<open>The final gate\<close>

text \<open>A failed predicate: its name, whether it concerns the configuration authority and whether
  the controller has to be quiesced.\<close>

type_synonym gate_failure = "string \<times> bool \<times> bool"

definition gate :: "bool \<Rightarrow> string \<Rightarrow> bool \<Rightarrow> bool \<Rightarrow> gate_failure list" where
  "gate ok p authority requires_quiescing = (if ok then [] else [(p, authority, requires_quiescing)])"

definition snapshot_gates :: "ImmutableEntrySnapshot option \<Rightarrow> EntryRuntime \<Rightarrow> ZoneController \<Rightarrow> gate_failure list" where
  "snapshot_gates fresh en c =
     (let co = en_coordinator en; applied = ctl_applied_config c;
          fresh_zone = (case fresh of None \<Rightarrow> None | Some f \<Rightarrow> map_of (by_subentry_id f) (ctl_zone_id c))
      in gate (fresh \<noteq> None) ''current_entry_snapshot_matches'' True False @
         gate (fresh_zone \<noteq> None) ''current_subentry_exists'' True True @
         gate (case (fresh_zone, applied) of
                 (Some z, Some a) \<Rightarrow> iz_config_fingerprint z = sh_config_fingerprint a
               | _ \<Rightarrow> False) ''current_zone_fingerprint_matches'' True True @
         gate (case (fresh, co_applied_snapshot co, co_observed_snapshot co, applied) of
                 (Some f, Some p, Some q, Some a) \<Rightarrow>
                   es_entry_snapshot_fingerprint f = es_entry_snapshot_fingerprint p \<and>
                   es_entry_snapshot_fingerprint f = es_entry_snapshot_fingerprint q \<and>
                   es_entry_snapshot_fingerprint f = sh_entry_snapshot_fingerprint a
               | _ \<Rightarrow> False) ''current_entry_snapshot_matches'' True False @
         gate (case applied of
                 None \<Rightarrow> False
               | Some a \<Rightarrow>
                   co_observed_generation co = co_applied_generation co \<and>
                   sh_applied_generation a = co_applied_generation co \<and>
                   (case fresh of
                      None \<Rightarrow> True | Some f \<Rightarrow> es_observed_generation f = co_applied_generation co))
           ''applied_generation_current'' True False)"

definition admission_clear :: "EntryRuntime \<Rightarrow> SlotManager \<Rightarrow> bool" where
  "admission_clear en m =
     (let co = en_coordinator en
      in \<not> (en_process_stopping en \<or> co_stopping co \<or> co_dirty co \<or> co_reconciling co \<or> co_failed co \<or>
            co_reload_pending co \<or> \<not> admission_open m))"

definition canonical_ok ::
  "RuntimeControllerBinding option \<Rightarrow> SafetyRecord option \<Rightarrow> ZoneHistory option \<Rightarrow> ZoneController \<Rightarrow> bool" where
  "canonical_ok binding record history c =
     (case (binding, record, history) of
        (Some b, Some r, Some h) \<Rightarrow>
          bd_safety_record_id b = ctl_safety_record_id c \<and> bd_zone_history_id b = ctl_zone_history_id c \<and>
          sr_safety_record_id r = ctl_safety_record_id c \<and> sr_zone_history_id r = ctl_zone_history_id c \<and>
          sr_active_subentry_id r = Some (ctl_zone_id c) \<and> sr_runtime_lifecycle r = ACTIVE \<and>
          zh_zone_history_id h = ctl_zone_history_id c \<and> zh_active_subentry_id h = Some (ctl_zone_id c) \<and>
          sr_applied_config r \<noteq> None \<and> sr_applied_config r = ctl_applied_config c \<and>
          Some (bd_applied_shadow b) = ctl_applied_config c \<and>
          ai_last_known_entity_id (sr_actuator_identity r) = Some (cfg_actuator (ctl_config c))
      | _ \<Rightarrow> False)"

definition intent_matches :: "string \<Rightarrow> ZoneHistory option \<Rightarrow> ZoneController \<Rightarrow> bool" where
  "intent_matches session_id history c =
     (case history of
        None \<Rightarrow> False
      | Some h \<Rightarrow>
          (case zr_session (zh_zone_runtime h) of
             None \<Rightarrow> False
           | Some p \<Rightarrow>
               ps_owner_safety_record_id p = ctl_safety_record_id c \<and>
               ses_session_id (ps_context p) = session_id \<and>
               ses_pulse_intent_at_utc (ps_context p) \<noteq> None))"

definition token_matches ::
  "FinalOnAuthorizationToken option \<Rightarrow> string \<Rightarrow> string \<Rightarrow> EntryRuntime \<Rightarrow> ZoneController \<Rightarrow> bool" where
  "token_matches token session_id command_attempt_id en c =
     (case token of
        None \<Rightarrow> True
      | Some t \<Rightarrow>
          map_of (en_on_authorizations en) (ft_command_attempt_id t) = Some t \<and>
          ft_subentry_id t = ctl_zone_id c \<and> ft_safety_record_id t = ctl_safety_record_id c \<and>
          ft_zone_history_id t = ctl_zone_history_id c \<and> ft_session_id t = session_id \<and>
          ft_command_attempt_id t = command_attempt_id \<and>
          (case ctl_applied_config c of
             None \<Rightarrow> False
           | Some a \<Rightarrow>
               ft_applied_generation t = sh_applied_generation a \<and>
               ft_zone_config_fingerprint t = sh_config_fingerprint a \<and>
               ft_entry_snapshot_fingerprint t = sh_entry_snapshot_fingerprint a))"

text \<open>The names of the failed predicates, each once, in the order of the first failure.\<close>

definition predicate_names :: "gate_failure list \<Rightarrow> string list" where
  "predicate_names fs = rev (remdups (rev (map fst fs)))"

definition gate_result ::
  "FinalOnAuthorizationToken option \<Rightarrow> string \<Rightarrow> string \<Rightarrow> ZoneController \<Rightarrow> gate_failure list \<Rightarrow>
   FinalOnAuthorizationResult result" where
  "gate_result token session_id command_attempt_id c fs =
     (if fs \<noteq> []
      then Inr \<lparr>fr_token = None, fr_failed_predicates = predicate_names fs,
                fr_configuration_authority_valid = \<not> list_ex (\<lambda>(_, a, _). a) fs,
                fr_requires_quiescing = list_ex (\<lambda>(_, _, q). q) fs\<rparr>
      else (case ctl_applied_config c of
              None \<Rightarrow> Inl AssertionError
            | Some a \<Rightarrow>
                Inr \<lparr>fr_token = Some (case token of
                        Some t \<Rightarrow> t
                      | None \<Rightarrow>
                          \<lparr>ft_subentry_id = ctl_zone_id c, ft_safety_record_id = ctl_safety_record_id c,
                           ft_zone_history_id = ctl_zone_history_id c, ft_session_id = session_id,
                           ft_command_attempt_id = command_attempt_id,
                           ft_applied_generation = sh_applied_generation a,
                           ft_zone_config_fingerprint = sh_config_fingerprint a,
                           ft_entry_snapshot_fingerprint = sh_entry_snapshot_fingerprint a\<rparr>),
                     fr_failed_predicates = [], fr_configuration_authority_valid = True,
                     fr_requires_quiescing = False\<rparr>))"

text \<open>The controller is part of the result because the gate refreshes its actuator assessment
  before a dispatch; \<open>live\<close> is the state of the actuator entity at that moment.\<close>

definition evaluate_on_authority ::
  "HaState option \<Rightarrow> utc \<Rightarrow> nat \<Rightarrow> string \<Rightarrow> string \<Rightarrow> FinalOnAuthorizationToken option \<Rightarrow> bool \<Rightarrow>
   EntryRuntime \<Rightarrow> World \<Rightarrow> (FinalOnAuthorizationResult \<times> ZoneController) result" where
  "evaluate_on_authority live now ref session_id command_attempt_id token pre_dispatch en w =
     (let c = w_ctl w; m = w_slots w; fresh = en_build en (co_observed_generation (en_coordinator en));
          binding = map_of (en_bindings en) (ctl_zone_id c)
      in res_bind (store_data (w_store w)) (\<lambda>data.
         let record = map_of (st_safety_records data) (ctl_safety_record_id c);
             history = map_of (st_zone_histories data) (ctl_zone_history_id c);
             before =
               snapshot_gates fresh en c @
               gate (admission_clear en m) ''reconciliation_admission_clear'' True False @
               gate (case binding of
                       None \<Rightarrow> False
                     | Some b \<Rightarrow>
                         bd_controller b = ref \<and> bd_lifecycle b = ACTIVE \<and> \<not> bd_quiescing b \<and>
                         ctl_runtime_lifecycle c = ACTIVE) ''runtime_lifecycle_active'' True True @
               gate (command_authorization_open c) ''controller_commandable'' True True @
               gate (canonical_ok binding record history c) ''canonical_ownership_matches'' True True @
               gate (intent_matches session_id history c) ''verified_hazard_intent_matches'' True False @
               gate (sl_owner m = Some (ctl_zone_id c)) ''slot_owned_by_session'' False False @
               gate (sl_blockers m = {}) ''keyed_blockers_clear'' False False @
               gate (final_on_guard_failures session_id
                       (current_local_day_runtime_s (en_local_tz en) now history) pre_dispatch now c = [])
                 ''ordinary_runtime_guards'' False False
         in res_bind (if pre_dispatch
                      then res_bind (assess (cfg_actuator (ctl_config c)) live)
                             (\<lambda>a. Inr (c\<lparr>ctl_assessment := a\<rparr>,
                                  gate (act_available a \<and> act_proven_off a \<and> \<not> act_observed_on a)
                                    ''actuator_available_and_proven_off'' False False))
                      else Inr (c, [])) (\<lambda>(c1, actuator).
              res_bind (gate_result token session_id command_attempt_id c1
                 (before @ actuator @
                  gate (token_matches token session_id command_attempt_id en c1)
                    ''authorization_token_matches'' True False)) (\<lambda>r.
              Inr (r, c1)))))"

definition authorize_on ::
  "HaState option \<Rightarrow> utc \<Rightarrow> nat \<Rightarrow> string \<Rightarrow> string \<Rightarrow> EntryRuntime \<Rightarrow> World \<Rightarrow>
   (FinalOnAuthorizationResult \<times> EntryRuntime \<times> World) result" where
  "authorize_on live now ref session_id command_attempt_id en w =
     res_bind (evaluate_on_authority live now ref session_id command_attempt_id None True en w) (\<lambda>(r, c).
       let w1 = w\<lparr>w_ctl := c\<rparr>
       in if \<not> authorized r then Inr (r, en, w1)
          else (case fr_token r of
                  None \<Rightarrow> Inl AssertionError
                | Some token \<Rightarrow>
                    if command_attempt_id \<in> fst ` set (en_on_authorizations en)
                    then Inr (\<lparr>fr_token = None, fr_failed_predicates = [''authorization_token_single_use''],
                               fr_configuration_authority_valid = fr_configuration_authority_valid r,
                               fr_requires_quiescing = False\<rparr>, en, w1)
                    else Inr (r, en\<lparr>en_on_authorizations :=
                                   AList.update command_attempt_id token (en_on_authorizations en)\<rparr>, w1)))"

definition recheck_on_authorization ::
  "utc \<Rightarrow> nat \<Rightarrow> FinalOnAuthorizationToken \<Rightarrow> EntryRuntime \<Rightarrow> World \<Rightarrow> FinalOnAuthorizationResult result" where
  "recheck_on_authorization now ref token en w =
     res_bind (evaluate_on_authority None now ref (ft_session_id token) (ft_command_attempt_id token)
       (Some token) False en w) (\<lambda>(r, _). Inr r)"

definition finish_on_authorization :: "FinalOnAuthorizationToken \<Rightarrow> EntryRuntime \<Rightarrow> EntryRuntime" where
  "finish_on_authorization token en =
     (if map_of (en_on_authorizations en) (ft_command_attempt_id token) = Some token
      then en\<lparr>en_on_authorizations := AList.delete (ft_command_attempt_id token) (en_on_authorizations en)\<rparr>
      else en)"

section \<open>The command envelope\<close>

text \<open>\<open>_perform_on\<close> up to the service call, under the lock of the controller and with no
  suspension between the gate and the call: it has ended, or the command is dispatched.\<close>

datatype on_begin =
    OnFinished EntryRuntime "World outcome"
  | OnDispatched FinalOnAuthorizationToken InFlightOnCommand EntryRuntime World

definition quiesce_if :: "FinalOnAuthorizationResult \<Rightarrow> World \<Rightarrow> World" where
  "quiesce_if r w = (if fr_requires_quiescing r then on_ctl begin_quiescing w else w)"

definition perform_on_begin ::
  "(nat \<Rightarrow> step_env) \<Rightarrow> string \<Rightarrow> HaState option \<Rightarrow> utc \<Rightarrow> nat \<Rightarrow> string \<Rightarrow> string \<Rightarrow> EntryRuntime \<Rightarrow> World \<Rightarrow>
   on_begin" where
  "perform_on_begin env session_uuid live now ref attempt_id context_id en w =
     (let c = w_ctl w
      in case ctl_session c of
           None \<Rightarrow> OnFinished en (w, None)
         | Some s \<Rightarrow>
             if ctl_state c \<noteq> WATERING \<or> ses_pending_termination_reason s \<noteq> None then OnFinished en (w, None)
             else (case (if ses_mode s = AUTO then stale_watchdog_event now s c else None) of
                     Some event \<Rightarrow> OnFinished en (decide_and_apply env session_uuid now event w)
                   | None \<Rightarrow>
                       (case authorize_on live now ref (ses_session_id s) attempt_id en w of
                          Inl e \<Rightarrow> OnFinished en (w, Some e)
                        | Inr (r, en1, w1) \<Rightarrow>
                            (case (authorized r, fr_token r) of
                               (True, Some token) \<Rightarrow>
                                 let marker =
                                   \<lparr>ifl_safety_record_id = ctl_safety_record_id c,
                                    ifl_zone_history_id = ctl_zone_history_id c,
                                    ifl_session_id = ses_session_id s, ifl_command_attempt_id = attempt_id,
                                    ifl_authorization = token, ifl_context_id = context_id,
                                    ifl_dispatched_at_utc = now, ifl_outcome = IN_FLIGHT,
                                    ifl_completed_at_utc = None, ifl_observed_on_at_utc = None\<rparr>
                                 in OnDispatched token marker en1
                                      (on_ctl (\<lambda>c. c\<lparr>ctl_inflight_on := Some marker\<rparr>) w1)
                             | _ \<Rightarrow>
                                 let w2 = quiesce_if r w1
                                 in OnFinished en1 (decide_and_apply env session_uuid now
                                      (final_gate_refusal_event (fr_configuration_authority_valid r)
                                         (fr_failed_predicates r) now (w_ctl w2)) w2)))))"

text \<open>How far the rest of the envelope came: it goes on, it has begun the OFF operation and awaits
  it, or it raised.\<close>

datatype on_progress = OnContinue World | OnOff World | OnRaised py_error World

definition continue_with :: "on_progress \<Rightarrow> (World \<Rightarrow> on_progress) \<Rightarrow> on_progress" where
  "continue_with p f = (case p of OnContinue w \<Rightarrow> f w | OnOff w \<Rightarrow> OnOff w | OnRaised e w \<Rightarrow> OnRaised e w)"

definition compensate :: "bool \<Rightarrow> bool \<Rightarrow> string \<Rightarrow> utc \<Rightarrow> World \<Rightarrow> on_progress" where
  "compensate configuration_changed service_failed session_uuid now w =
     (case commit_on_compensation_now configuration_changed service_failed session_uuid now w of
        (w1, Some e) \<Rightarrow> OnRaised e w1
      | (w1, None) \<Rightarrow> OnOff (on_ctl (\<lambda>c. begin_off_operation (c\<lparr>ctl_off_requested := False\<rparr>)) w1))"

text \<open>What the rest of the program did during an \<open>await\<close>: the runtime and the world
  as they are when the envelope resumes, and the clock.\<close>

record resume_env =
  rs_now :: utc
  rs_entry :: EntryRuntime
  rs_meanwhile :: "World \<Rightarrow> World"

definition recheck_or_compensate ::
  "bool \<Rightarrow> string \<Rightarrow> nat \<Rightarrow> FinalOnAuthorizationToken \<Rightarrow> resume_env \<Rightarrow> World \<Rightarrow> on_progress" where
  "recheck_or_compensate call_failed session_uuid ref token rs w =
     (case recheck_on_authorization (rs_now rs) ref token (rs_entry rs) w of
        Inl e \<Rightarrow> OnRaised e w
      | Inr r \<Rightarrow>
          if call_failed \<or> \<not> authorized r
          then compensate (\<not> fr_configuration_authority_valid r) call_failed session_uuid (rs_now rs)
                 (quiesce_if r w)
          else OnContinue (quiesce_if r w))"

text \<open>The synchronous part right after the service call, which returned or raised.\<close>

definition completed_marker :: "OnCommandOutcome \<Rightarrow> utc \<Rightarrow> InFlightOnCommand \<Rightarrow> InFlightOnCommand" where
  "completed_marker outcome now marker =
     marker\<lparr>ifl_outcome := outcome, ifl_completed_at_utc := Some now\<rparr>"

definition perform_on_returned ::
  "OnCommandOutcome \<Rightarrow> string \<Rightarrow> nat \<Rightarrow> FinalOnAuthorizationToken \<Rightarrow> InFlightOnCommand \<Rightarrow> resume_env \<Rightarrow> World \<Rightarrow>
   on_progress" where
  "perform_on_returned outcome session_uuid ref token marker rs w =
     (let w1 = on_ctl (\<lambda>c. record_possible_command_in_memory marker
                 (c\<lparr>ctl_inflight_on := map_option (completed_marker outcome (rs_now rs)) (ctl_inflight_on c)\<rparr>))
               (rs_meanwhile rs w)
      in recheck_or_compensate (outcome \<noteq> RETURNED) session_uuid ref token rs w1)"

text \<open>The commanded anchor is persisted; a write that cannot be verified fails closed and is
  compensated.\<close>

definition persist_or_compensate ::
  "string \<Rightarrow> step_env \<Rightarrow> resume_env \<Rightarrow> World \<Rightarrow> (World \<Rightarrow> on_progress) \<Rightarrow> on_progress" where
  "persist_or_compensate session_uuid persist_env rs w k =
     (case persist_locked persist_env w of
        (w2, Some (StoreWriteVerificationError _)) \<Rightarrow>
          compensate False True session_uuid (rs_now rs) (handle_persist_failure_locked (rs_meanwhile rs w2))
      | (w2, Some e) \<Rightarrow> OnRaised e w2
      | (w2, None) \<Rightarrow> k (rs_meanwhile rs w2))"

text \<open>The rest under the lock: the commanded anchor is persisted and a confirmation that came
  meanwhile is processed, with the authority read again after every suspension.\<close>

definition perform_on_locked ::
  "string \<Rightarrow> nat \<Rightarrow> FinalOnAuthorizationToken \<Rightarrow> InFlightOnCommand \<Rightarrow> resume_env \<Rightarrow> step_env \<Rightarrow> resume_env \<Rightarrow>
   (nat \<Rightarrow> step_env) \<Rightarrow> resume_env \<Rightarrow> World \<Rightarrow> on_progress" where
  "perform_on_locked session_uuid ref token marker rs1 persist_env rs2 env rs3 w =
     continue_with (recheck_or_compensate False session_uuid ref token rs1 (rs_meanwhile rs1 w)) (\<lambda>w1.
     persist_or_compensate session_uuid persist_env rs2 w1 (\<lambda>w2.
     continue_with (recheck_or_compensate False session_uuid ref token rs2 w2) (\<lambda>w3.
       case ifl_observed_on_at_utc
              (case ctl_inflight_on (w_ctl w3) of Some m \<Rightarrow> m | None \<Rightarrow> marker) of
         None \<Rightarrow> OnContinue w3
       | Some confirmed_at \<Rightarrow>
           (case decide_and_apply env session_uuid (rs_now rs2) (OnConfirmed confirmed_at) w3 of
              (w4, Some e) \<Rightarrow> OnRaised e w4
            | (w4, None) \<Rightarrow> recheck_or_compensate False session_uuid ref token rs3 (rs_meanwhile rs3 w4)))))"

text \<open>The whole rest of the envelope after the service call.\<close>

definition perform_on_rest ::
  "OnCommandOutcome \<Rightarrow> string \<Rightarrow> nat \<Rightarrow> FinalOnAuthorizationToken \<Rightarrow> InFlightOnCommand \<Rightarrow> resume_env \<Rightarrow> resume_env \<Rightarrow>
   step_env \<Rightarrow> resume_env \<Rightarrow> (nat \<Rightarrow> step_env) \<Rightarrow> resume_env \<Rightarrow> World \<Rightarrow> on_progress" where
  "perform_on_rest outcome uuid ref token marker rs0 rs1 penv rs2 env rs3 w =
     continue_with (perform_on_returned outcome uuid ref token marker rs0 w)
       (perform_on_locked uuid ref token marker rs1 penv rs2 env rs3)"

text \<open>Cancellation after the dispatch.\<close>

definition perform_on_cancelled ::
  "string \<Rightarrow> nat \<Rightarrow> FinalOnAuthorizationToken \<Rightarrow> InFlightOnCommand \<Rightarrow> resume_env \<Rightarrow> World \<Rightarrow> on_progress" where
  "perform_on_cancelled session_uuid ref token marker rs w =
     (let w1 = on_ctl (\<lambda>c. record_possible_command_in_memory marker
                 (c\<lparr>ctl_inflight_on := map_option (\<lambda>m. m\<lparr>ifl_outcome := COMMAND_CANCELLED,
                      ifl_completed_at_utc := (case ifl_completed_at_utc m of
                                                 Some t \<Rightarrow> Some t | None \<Rightarrow> Some (rs_now rs))\<rparr>)
                    (ctl_inflight_on c)\<rparr>)) (rs_meanwhile rs w)
      in recheck_or_compensate True session_uuid ref token rs w1)"

text \<open>The \<open>finally\<close> clause: the token is retired and the marker removed.\<close>

definition perform_on_finally ::
  "FinalOnAuthorizationToken \<Rightarrow> InFlightOnCommand \<Rightarrow> EntryRuntime \<times> World \<Rightarrow> EntryRuntime \<times> World" where
  "perform_on_finally token marker s =
     (finish_on_authorization token (fst s),
      on_ctl (\<lambda>c. c\<lparr>ctl_inflight_on :=
        (case ctl_inflight_on c of
           Some m \<Rightarrow> if ifl_command_attempt_id m = ifl_command_attempt_id marker then None else Some m
         | None \<Rightarrow> None)\<rparr>) (snd s))"

end
