(* ===== verification/Controller_Safety.thy ===== *)
theory Controller_Safety
  imports Zone_Controller
begin

text \<open>
  What one step of a zone controller does to the store and to the command requests: an ON
  request needs a durable intent, and a failed write closes the zone.  The first section
  collects what the parts of \<open>_apply_locked\<close> leave alone; the last one is a concrete zone
  with its store, on which the witnesses run.
\<close>

section \<open>Frames\<close>

text \<open>The part of the controller that a watering decision publishes.\<close>

type_synonym ctl_core =
  "SessionContext option \<times> ControllerState \<times> string \<times> string \<times> ActuatorAssessment \<times> bool"

definition core :: "ZoneController \<Rightarrow> ctl_core" where
  "core c = (ctl_session c, ctl_state c, ctl_safety_record_id c, ctl_zone_history_id c,
     ctl_assessment c, ctl_on_requested c)"

lemma core_current_daily [ctrl_simps]: "core (current_daily now c) = core c"
  by (simp add: current_daily_def core_def Let_def)

lemma core_timers [ctrl_simps]:
  "core (cancel_timers ks c) = core c" "core (cancel_watchdog c) = core c"
  "core (arm_timer k t c) = core c" "core (arm_watchdog tok c) = core c"
  "core (ensure_session_task c) = core c" "core (ensure_slot_request c) = core c"
  by (simp_all add: core_def cancel_timers_def cancel_watchdog_def arm_timer_def arm_watchdog_def
      ensure_session_task_def ensure_slot_request_def Let_def)

lemma core_charge_runtime: "charge_runtime x e now c = (c', err) \<Longrightarrow> core c' = core c"
  using core_current_daily [of now c]
  by (auto simp: charge_runtime_def lift_result_def core_def Let_def mk_daily_def
      split: sum.splits if_splits dest!: res_bind_eq_Inr [THEN iffD1])

lemma core_charge_growth: "charge_growth d inp now c = (c', err) \<Longrightarrow> core c' = core c"
  by (auto simp: charge_growth_def Let_def split: option.splits if_splits dest: core_charge_runtime)

lemma core_track: "core (track_session_response s summary c) = core c"
  by (simp add: track_session_response_def core_def Let_def)

lemma core_summary: "core (c\<lparr>ctl_last_summary := x, ctl_last_session_end := y\<rparr>) = core c"
  by (simp add: core_def)

lemma core_finalize_summary: "finalize_summary d s inp c = (c', err) \<Longrightarrow> core c' = core c"
  by (auto simp: finalize_summary_def core_track core_summary Let_def split: option.splits)

lemma core_housekeeping: "core (timer_housekeeping z c) = core c"
  by (simp add: timer_housekeeping_def core_timers Let_def split: option.split)

lemma core_note_pending: "core (note_pending_manual d inp c) = core c"
  by (simp add: note_pending_manual_def core_def split: ControllerEvent.split)

lemma core_apply_data:
  assumes "apply_data d inp now c = (c', err)"
  shows "core c' = core (adopt_decision d inp c)"
  using assms
  by (auto simp: apply_data_def and_then_def core_note_pending core_housekeeping
      split: prod.splits option.splits dest!: core_charge_growth core_finalize_summary)

section \<open>The verified write\<close>

text \<open>What a successful write has made durable of the controller.\<close>

definition durable_state :: "World \<Rightarrow> PossibleFlowOwner option \<Rightarrow> bool" where
  "durable_state w owner \<longleftrightarrow>
     (\<exists>data h r. ss_data (w_store w) = Some data \<and>
        map_of (st_zone_histories data) (ctl_zone_history_id (w_ctl w)) = Some h \<and>
        map_of (st_safety_records data) (ctl_safety_record_id (w_ctl w)) = Some r \<and>
        zr_state (zh_zone_runtime h) = ctl_state (w_ctl w) \<and>
        zr_session (zh_zone_runtime h) =
          map_option (PersistedSession.make (ctl_safety_record_id (w_ctl w))) (ctl_session (w_ctl w)) \<and>
        sr_possible_flow_owner r = owner)"

lemma update_plan_effect:
  assumes "update_controller_runtime_plan rid hid w d = Inr (Some d')"
  shows "\<exists>h r. map_of (st_zone_histories d') hid = Some h \<and> map_of (st_safety_records d') rid = Some r \<and>
     zr_state (zh_zone_runtime h) = cw_state w \<and> zr_enabled (zh_zone_runtime h) = cw_enabled w \<and>
     zr_session (zh_zone_runtime h) = map_option (PersistedSession.make rid) (cw_session w) \<and>
     sr_possible_flow_owner r = cw_possible_flow_owner w"
  using assms
  by (auto simp: update_controller_runtime_plan_def update_history_def mk_zone_history_def mk_zone_runtime_def
      commit_plan_Inr update_lookup mk_persisted_session_def PersistedSession.make_def
      split: option.splits if_splits prod.splits dest!: res_bind_eq_Inr [THEN iffD1] mk_safety_record_id)

lemma update_plan_not_None: "update_controller_runtime_plan rid hid w d \<noteq> Inr None"
  by (auto simp: update_controller_runtime_plan_def commit_plan_not_None res_bind_eq_Inr
      split: option.splits if_splits prod.splits)

lemma current_daily_sel [simp]:
  "ctl_session (current_daily now c) = ctl_session c" "ctl_state (current_daily now c) = ctl_state c"
  "ctl_safety_record_id (current_daily now c) = ctl_safety_record_id c"
  "ctl_zone_history_id (current_daily now c) = ctl_zone_history_id c"
  "ctl_on_requested (current_daily now c) = ctl_on_requested c"
  "ctl_persist_failed (current_daily now c) = ctl_persist_failed c"
  "ctl_assessment (current_daily now c) = ctl_assessment c"
  "ctl_armed_watchdog (current_daily now c) = ctl_armed_watchdog c"
  "ctl_active_fault (current_daily now c) = ctl_active_fault c"
  "ctl_secondary_fault (current_daily now c) = ctl_secondary_fault c"
  "ctl_observation (current_daily now c) = ctl_observation c"
  "ctl_enabled (current_daily now c) = ctl_enabled c"
  "ctl_off_requested (current_daily now c) = ctl_off_requested c"
  by (simp_all add: current_daily_def Let_def)

lemma build_input_ok:
  "0 \<le> day_runtime_s (ctl_daily (w_ctl w)) \<Longrightarrow> \<exists>inp. build_input uuid now event w = Inr inp"
  by (simp add: build_input_def mk_input_def Let_def) (simp add: current_daily_def Let_def)

lemma build_input_fields:
  assumes "build_input uuid now event w = Inr inp"
  shows "inp_state inp = ctl_state (w_ctl w)" "inp_session inp = ctl_session (w_ctl w)"
    "inp_event inp = event" "inp_now_utc inp = now" "inp_armed_watchdog inp = ctl_armed_watchdog (w_ctl w)"
    "inp_active_fault inp = ctl_active_fault (w_ctl w)" "inp_enabled inp = ctl_enabled (w_ctl w)"
    "inp_observation inp = ctl_observation (w_ctl w)"
    "inp_daily_runtime_s inp = day_runtime_s (ctl_daily (current_daily now (w_ctl w)))"
  using assms by (auto simp: build_input_def mk_input_def Let_def split: if_splits)

lemma persist_frame:
  assumes "persist_locked env w = (w', err)"
  shows "w_ctl w' = current_daily (env_now env) (w_ctl w) \<and> w_slots w' = w_slots w \<and> (err \<noteq> None \<longrightarrow> w_store w' = w_store w)"
  using assms
  by (auto simp: persist_locked_def Let_def split: sum.splits prod.splits elim!: transact_cases)

lemma persist_ok:
  assumes "persist_locked env w = (w', None)"
  shows "\<exists>data owner. store_data (w_store w) = Inr data \<and>
     possible_flow_owner_for_persist data (w_ctl w') = Inr owner \<and> durable_state w' owner"
proof -
  let ?c = "current_daily (env_now env) (w_ctl w)"
  from assms obtain data owner store where
    o: "store_data (w_store w) = Inr data" "possible_flow_owner_for_persist data ?c = Inr owner" and
    t: "transact (env_io env) (update_controller_runtime_plan (ctl_safety_record_id ?c) (ctl_zone_history_id ?c)
       (controller_snapshot ?c owner)) (w_store w) = (store, None)" and
    w': "w' = w\<lparr>w_ctl := ?c, w_store := store\<rparr>"
    by (auto simp: persist_locked_def Let_def res_bind_eq_Inr split: sum.splits prod.splits)
  from t have "durable_state w' owner"
  proof (cases rule: transact_cases)
    case (written d d' loaded)
    from update_plan_effect [OF written(3)] written(4) show ?thesis
      by (auto simp: durable_state_def w' controller_snapshot_def)
  qed (auto simp: update_plan_not_None)
  with o w' show ?thesis by auto
qed

section \<open>Actions that only prepare a pulse\<close>

fun quiet :: "Action \<Rightarrow> bool" where
  "quiet (ArmTimer _ _) = True"
| "quiet (ArmWatchdog _) = True"
| "quiet TurnOn = True"
| "quiet EmitSessionStarted = True"
| "quiet _ = False"

lemma quiet_action:
  assumes "quiet a" and "apply_action_locked env d a w = (w', err)"
  shows "err = None \<and> w_store w' = w_store w \<and>
    (\<exists>b. core (w_ctl w') = (ctl_session (w_ctl w), ctl_state (w_ctl w), ctl_safety_record_id (w_ctl w),
       ctl_zone_history_id (w_ctl w), ctl_assessment (w_ctl w), b))"
  using assms core_timers
  by (cases a) (auto simp: on_ctl_def emit_def turn_on_requested_def core_def arm_timer_def arm_watchdog_def
      cancel_timers_def cancel_watchdog_def Let_def)

lemma quiet_actions:
  assumes "\<forall>a \<in> set as. quiet a" and "apply_actions env k d as w = (w', err)"
  shows "err = None \<and> w_store w' = w_store w \<and> fst (core (w_ctl w')) = ctl_session (w_ctl w) \<and>
      ctl_state (w_ctl w') = ctl_state (w_ctl w) \<and>
      ctl_safety_record_id (w_ctl w') = ctl_safety_record_id (w_ctl w) \<and>
      ctl_zone_history_id (w_ctl w') = ctl_zone_history_id (w_ctl w)"
  using assms
proof (induction as arbitrary: k w)
  case (Cons a as)
  obtain w1 e where a: "apply_action_locked (env k) d a w = (w1, e)" by (cases "apply_action_locked (env k) d a w")
  with quiet_action [OF _ a] Cons.prems Cons.IH [of "Suc k" w1] show ?case
    by (auto simp: and_then_def core_def)
qed (simp add: core_def)

lemma no_on_action:
  assumes "a \<noteq> TurnOn" and "apply_action_locked env d a w = (w', err)"
  shows "ctl_on_requested (w_ctl w') = ctl_on_requested (w_ctl w)"
  using assms
  by (cases a) (auto simp: on_ctl_def emit_def with_slots_def arm_timer_def arm_watchdog_def ensure_slot_request_def
      cancel_timers_def cancel_watchdog_def Let_def split: option.splits prod.splits if_splits dest: persist_frame)

lemma no_on_actions:
  assumes "TurnOn \<notin> set as" and "apply_actions env k d as w = (w', err)"
  shows "ctl_on_requested (w_ctl w') = ctl_on_requested (w_ctl w)"
  using assms
proof (induction as arbitrary: k w)
  case (Cons a as)
  obtain w1 e where a: "apply_action_locked (env k) d a w = (w1, e)" by (cases "apply_action_locked (env k) d a w")
  with no_on_action [OF _ a] Cons.prems Cons.IH [of "Suc k" w1] show ?case
    by (auto simp: and_then_def split: option.splits)
qed simp

lemma auto_pulse_clean:
  assumes "start_auto_pulse inp so = Inr d"
  shows "\<not> dec_clear_session d \<and> (\<forall>s. dec_session d = Some s \<longrightarrow> ses_off_confirmed_at_utc s = None)"
  using assms
  by (cases so) (auto simp: start_auto_pulse_def construct_defs mk_session_def session_defaults_def Let_def
      res_bind_eq_Inr split: option.splits if_splits)

lemma manual_pulse_clean:
  assumes "manual_start inp q row = Inr d"
  shows "\<not> dec_clear_session d \<and> (\<forall>s. dec_session d = Some s \<longrightarrow> ses_off_confirmed_at_utc s = None)"
  using assms
  by (auto simp: manual_start_def construct_defs mk_session_def session_defaults_def Let_def
      res_bind_eq_Inr split: option.splits if_splits prod.splits)

lemma on_decision_shape:
  assumes "decide inp = Inr d" and "TurnOn \<in> set (dec_actions d)"
  obtains s t rest where "dec_session d = Some s" "dec_new_state d = Some WATERING"
    "\<not> dec_clear_session d" "ses_pulse_intent_at_utc s = Some (inp_now_utc inp)" "ses_off_confirmed_at_utc s = None"
    "dec_actions d = PersistState t # rest" "\<forall>a \<in> set rest. quiet a"
  using assms
proof (cases rule: on_cases)
  case auto_start
  show ?thesis using auto_pulse_clean [OF auto_start(5)]
    by (rule_tac auto_pulse_shape [OF auto_start(5)]) (auto intro!: that)
next
  case (manual q row)
  show ?thesis using manual_pulse_clean [OF manual(5)]
    by (rule_tac manual_pulse_shape [OF manual(5,3,4)]) (auto intro!: that)
next
  case (next_cycle s v)
  show ?thesis using auto_pulse_clean [OF next_cycle(7)]
    by (rule_tac auto_pulse_shape [OF next_cycle(7)]) (auto intro!: that)
qed

lemma flow_owner_of_open_pulse:
  assumes "possible_flow_owner_for_persist data c = Inr owner" and "ctl_session c = Some s"
    and "ses_pulse_intent_at_utc s \<noteq> None" and "ses_off_confirmed_at_utc s = None"
  shows "owner = Some INTEGRATION"
  using assms by (auto simp: possible_flow_owner_for_persist_def Let_def split: option.splits)

section \<open>No ON request without a durable intent\<close>

lemma apply_locked_cases:
  assumes "apply_locked env now d inp w = (w', err)"
  obtains (no_op) "dec_no_op d" "w' = w" "err = None"
  | (data_raised) c where "\<not> dec_no_op d" "apply_data d inp now (w_ctl w) = (c, err)" "err \<noteq> None" "w' = w\<lparr>w_ctl := c\<rparr>"
  | (failed) c w2 m where "\<not> dec_no_op d" "apply_data d inp now (w_ctl w) = (c, None)"
      "apply_actions env 0 d (dec_actions d) (w\<lparr>w_ctl := c\<rparr>) = (w2, Some (StoreWriteVerificationError m))"
      "w' = handle_persist_failure_locked w2" "err = None"
  | (raised) c where "\<not> dec_no_op d" "apply_data d inp now (w_ctl w) = (c, None)"
      "apply_actions env 0 d (dec_actions d) (w\<lparr>w_ctl := c\<rparr>) = (w', err)" "err \<noteq> None"
      "\<forall>m. err \<noteq> Some (StoreWriteVerificationError m)"
  | (finished) c w2 where "\<not> dec_no_op d" "apply_data d inp now (w_ctl w) = (c, None)"
      "apply_actions env 0 d (dec_actions d) (w\<lparr>w_ctl := c\<rparr>) = (w2, None)" "err = None"
      "w' = w2 \<or> w' = on_ctl ensure_session_task w2"
  using assms
  by (auto simp: apply_locked_def Let_def split: if_splits prod.splits option.splits py_error.splits)

lemma fail_closed_sel:
  "ctl_persist_failed (w_ctl (handle_persist_failure_locked w))"
  "\<not> ctl_on_requested (w_ctl (handle_persist_failure_locked w))"
  "ctl_state (w_ctl (handle_persist_failure_locked w)) = FAULT"
  "ctl_active_fault (w_ctl (handle_persist_failure_locked w)) = Some RESTORED_FROM_UNSAFE_STATE"
  by (simp_all add: handle_persist_failure_locked_def on_ctl_def emit_def fail_closed_def
      ensure_session_task_def Let_def)

lemma adopt_on_requested: "ctl_on_requested (adopt_decision d inp c) = ctl_on_requested c"
  by (simp add: adopt_decision_def)

lemma core_eqD: "core c = core c' \<Longrightarrow> ctl_session c = ctl_session c' \<and> ctl_state c = ctl_state c' \<and>
   ctl_safety_record_id c = ctl_safety_record_id c' \<and> ctl_zone_history_id c = ctl_zone_history_id c' \<and>
   ctl_assessment c = ctl_assessment c' \<and> ctl_on_requested c = ctl_on_requested c'"
  by (simp add: core_def)

text \<open>An ON request appears only by the \<open>TurnOn\<close> action of a decision whose actions all ran.\<close>

lemma on_request_from_actions:
  assumes "apply_locked env now d inp w = (w', err)" and "\<not> ctl_on_requested (w_ctl w)"
    and "ctl_on_requested (w_ctl w')"
  obtains c w2 e where "apply_data d inp now (w_ctl w) = (c, None)" "TurnOn \<in> set (dec_actions d)"
    "apply_actions env 0 d (dec_actions d) (w\<lparr>w_ctl := c\<rparr>) = (w2, e)" "w_store w' = w_store w2"
    "core (w_ctl w') = core (w_ctl w2)"
proof -
  have data: "\<not> ctl_on_requested c" if "apply_data d inp now (w_ctl w) = (c, e)" for c e
    using core_apply_data [OF that] assms(2) by (simp add: core_def adopt_on_requested)
  from assms(1) show ?thesis
  proof (cases rule: apply_locked_cases)
    case (raised c)
    with data [OF raised(2)] assms(3) no_on_actions [of "dec_actions d" env 0 d "w\<lparr>w_ctl := c\<rparr>" w' err]
    have "TurnOn \<in> set (dec_actions d)" by auto
    with raised that show ?thesis by blast
  next
    case (finished c w2)
    then have w: "w_store w' = w_store w2" "core (w_ctl w') = core (w_ctl w2)"
      by (auto simp: on_ctl_def core_timers)
    with finished data [OF finished(2)] assms(3) no_on_actions [of "dec_actions d" env 0 d "w\<lparr>w_ctl := c\<rparr>" w2 None]
    have "TurnOn \<in> set (dec_actions d)" by (auto dest: core_eqD)
    with finished w that show ?thesis by blast
  qed (use assms data fail_closed_sel in auto)
qed

text \<open>The actions of a watering decision: the write comes first, and everything after it leaves the store and the
  published state alone.\<close>

lemma hazard_actions:
  assumes "apply_actions env k d (PersistState t # rest) w = (w', e)" and "\<forall>a \<in> set rest. quiet a"
    and "ctl_session (w_ctl w) = Some s" and "ses_pulse_intent_at_utc s \<noteq> None" and "ses_off_confirmed_at_utc s = None"
    and "\<not> ctl_on_requested (w_ctl w)" and "ctl_on_requested (w_ctl w')"
  shows "durable_state w' (Some INTEGRATION) \<and> ctl_session (w_ctl w') = Some s \<and>
     ctl_state (w_ctl w') = ctl_state (w_ctl w)"
proof -
  obtain w1 e1 where p: "persist_locked (env k) w = (w1, e1)" by (cases "persist_locked (env k) w")
  note frame = persist_frame [OF p]
  show ?thesis
  proof (cases e1)
    case (Some x)
    with assms(1) p have "w' = w1" by (simp add: and_then_def)
    with frame assms(6,7) show ?thesis by simp
  next
    case None
    with p have p: "persist_locked (env k) w = (w1, None)" by simp
    obtain data owner where o: "possible_flow_owner_for_persist data (w_ctl w1) = Inr owner" "durable_state w1 owner"
      using persist_ok [OF p] by blast
    have "owner = Some INTEGRATION"
      by (rule flow_owner_of_open_pulse [OF o(1)]) (use assms frame in auto)
    moreover have "apply_actions env (Suc k) d rest w1 = (w', e)"
      using assms(1) p by (simp add: and_then_def)
    note q = quiet_actions [OF assms(2) this]
    ultimately show ?thesis using o(2) assms(3) frame q by (auto simp: durable_state_def core_def)
  qed
qed

text \<open>(C3) Write-ahead of the hazard, end to end: whenever processing an event leaves a request to turn the actuator
  ON, the last verified snapshot of the store already holds the zone in WATERING with exactly the session of the
  controller, owned by its safety record, with the pulse intent of this instant, and names the integration as the
  possible owner of flow.  A write that fails, or reads back anything else, therefore never leads to an ON request.\<close>

theorem on_request_is_durable:
  assumes "decide_and_apply env uuid now event w = (w', err)"
    and "\<not> ctl_on_requested (w_ctl w)" and "ctl_on_requested (w_ctl w')"
  shows "\<exists>s data h r. ctl_state (w_ctl w') = WATERING \<and> ctl_session (w_ctl w') = Some s \<and>
     ses_pulse_intent_at_utc s = Some now \<and> ss_data (w_store w') = Some data \<and>
     map_of (st_zone_histories data) (ctl_zone_history_id (w_ctl w')) = Some h \<and>
     map_of (st_safety_records data) (ctl_safety_record_id (w_ctl w')) = Some r \<and>
     zr_state (zh_zone_runtime h) = WATERING \<and>
     zr_session (zh_zone_runtime h) =
       Some \<lparr>ps_owner_safety_record_id = ctl_safety_record_id (w_ctl w'), ps_context = s\<rparr> \<and>
     sr_possible_flow_owner r = Some INTEGRATION"
proof -
  let ?w1 = "on_ctl (current_daily now) w"
  from assms obtain inp d where d: "build_input uuid now event w = Inr inp" "decide inp = Inr d"
      "apply_locked env now d inp ?w1 = (w', err)"
    by (auto simp: decide_and_apply_def Let_def on_ctl_def split: sum.splits)
  have now: "inp_now_utc inp = now"
    using d(1) by (auto simp: build_input_def mk_input_def Let_def split: if_splits)
  obtain c w2 e where c: "apply_data d inp now (w_ctl ?w1) = (c, None)" "TurnOn \<in> set (dec_actions d)"
    and acts: "apply_actions env 0 d (dec_actions d) (?w1\<lparr>w_ctl := c\<rparr>) = (w2, e)"
    and w': "w_store w' = w_store w2" "core (w_ctl w') = core (w_ctl w2)"
    by (rule on_request_from_actions [OF d(3)]) (use assms in \<open>auto simp: on_ctl_def\<close>)
  obtain s t rest where s: "dec_session d = Some s" "dec_new_state d = Some WATERING" "\<not> dec_clear_session d"
    "ses_pulse_intent_at_utc s = Some (inp_now_utc inp)" "ses_off_confirmed_at_utc s = None"
    "dec_actions d = PersistState t # rest" "\<forall>a \<in> set rest. quiet a"
    using on_decision_shape [OF d(2) c(2)] by blast
  have ctl: "ctl_session c = Some s" "ctl_state c = WATERING" "\<not> ctl_on_requested c"
    using core_apply_data [OF c(1)] s assms(2) by (auto simp: core_def adopt_decision_def on_ctl_def)
  have "durable_state w2 (Some INTEGRATION) \<and> ctl_session (w_ctl w2) = Some s \<and> ctl_state (w_ctl w2) = WATERING"
    using hazard_actions [OF acts [unfolded s(6)] s(7)] ctl s(4,5) w'(2) assms(3) by (auto dest: core_eqD)
  with w' s(4) now show ?thesis
    by (auto simp: durable_state_def PersistedSession.make_def dest!: core_eqD)
qed

section \<open>A failed write\<close>

lemma transact_failing:
  assumes "transact io plan s = (s', err)" and "io_save_raises io"
  shows "s' = s \<and> (err = None \<longrightarrow> (\<exists>d. plan d = Inr None))"
  using assms
  by (auto simp: transact_def save_and_verify_def Let_def res_bind_eq_Inr split: sum.splits option.splits)

lemma persist_failing:
  assumes "persist_locked env w = (w', err)" and "io_save_raises (env_io env)"
  shows "err \<noteq> None \<and> w_store w' = w_store w"
  using assms
  by (auto simp: persist_locked_def Let_def update_plan_not_None split: sum.splits prod.splits dest!: transact_failing)

lemma blocker_failing:
  assumes "persist_slot_blocker io key b s = (s', err)" and "io_save_raises io"
  shows "s' = s"
  using assms
  by (auto simp: persist_slot_blocker_def split: option.splits if_splits dest: transact_failing)

definition silent_no_op :: "Decision \<Rightarrow> bool" where
  "silent_no_op d \<longleftrightarrow> (dec_no_op d \<longrightarrow> dec_actions d = [])"

lemma silent_mk_decision: "holds (mk_decision x) silent_no_op"
  by (simp add: mk_decision_def silent_no_op_def)

lemma silent_start_auto: "holds (start_auto_pulse inp so) silent_no_op"
  by (cases so) (auto simp: start_auto_pulse_def silent_mk_decision Let_def
        simp del: holds_mk_decision split: option.split)

lemma silent_evaluate: "holds (evaluate_auto_start inp) silent_no_op"
  unfolding evaluate_auto_start_def
  by (auto simp: silent_start_auto silent_mk_decision simp del: holds_mk_decision)

lemma silent_manual: "holds (manual_start inp q row) silent_no_op"
  by (auto simp: manual_start_def silent_mk_decision Let_def simp del: holds_mk_decision split: option.split prod.split)

lemma silent_recheck: "holds (soaking_recheck inp s) silent_no_op"
  unfolding soaking_recheck_def
  by (auto simp: finalize_soaking_completion_def finalize_soaking_fault_def silent_start_auto silent_mk_decision Let_def
        simp del: holds_mk_decision split: option.split)

lemma silent_finalize: "holds (finalize_watering inp s x t as) silent_no_op"
  by (auto simp: finalize_watering_def finalize_manual_complete_def silent_mk_decision Let_def
        simp del: holds_mk_decision split: option.split prod.split)

lemmas silent_rows = silent_start_auto silent_evaluate silent_manual silent_recheck silent_finalize silent_mk_decision

lemmas silent_defs = integrity_lost_def configuration_invalid_def no_op_def on_confirmed_def
  commit_termination_def commit_if_first_def watering_moisture_def watchdog_fired_def pulse_off_to_soaking_def
  off_not_confirmed_def startup_persisted_watering_def refuse_active_session_def close_open_accounting_def
  finalize_soaking_fault_def finalize_soaking_cancel_def finalize_soaking_external_def soaking_off_not_confirmed_def
  soaking_moisture_def soaking_deadline_or_evaluate_def soaking_grace_def startup_persisted_soaking_def
  external_interference_def fault_auto_clear_check_def refuse_clear_def clear_fault_request_def

lemma decide_silent: "holds (decide inp) silent_no_op"
proof (cases "inp_state inp")
  case WATERING
  then show ?thesis
    by (cases "inp_event inp")
      (simp_all add: decide_state_defs silent_defs silent_rows Let_def 
        del: holds_mk_decision split: option.split prod.split MoistureClassification.split)
next
  case SOAKING
  then show ?thesis
    by (cases "inp_event inp")
      (simp_all add: decide_state_defs silent_defs silent_rows Let_def 
        del: holds_mk_decision split: option.split prod.split)
qed (cases "inp_event inp", simp_all add: decide_state_defs silent_defs silent_rows Let_def 
        del: holds_mk_decision split: option.split)+

lemma action_failing:
  assumes "apply_action_locked env d a w = (w', err)" and "io_save_raises (env_io env)"
  shows "w_store w' = w_store w \<and> ctl_assessment (w_ctl w') = ctl_assessment (w_ctl w) \<and>
    (\<forall>t. a = PersistState t \<longrightarrow> err \<noteq> None)"
  using assms
  by (cases a)
   (auto simp: on_ctl_def emit_def with_slots_def turn_on_requested_def arm_timer_def arm_watchdog_def ensure_slot_request_def
      cancel_timers_def cancel_watchdog_def Let_def resource_add_def resource_remove_def
      split: option.splits prod.splits if_splits sum.splits suspension.splits
     dest: persist_failing persist_frame blocker_failing)

lemma actions_failing:
  assumes "apply_actions env k d as w = (w', err)" and "\<forall>k. io_save_raises (env_io (env k))"
  shows "w_store w' = w_store w \<and> ctl_assessment (w_ctl w') = ctl_assessment (w_ctl w) \<and>
    (err = None \<longrightarrow> (\<forall>t. PersistState t \<notin> set as))"
  using assms(1)
proof (induction as arbitrary: k w)
  case (Cons a as)
  obtain w1 e where a: "apply_action_locked (env k) d a w = (w1, e)" by (cases "apply_action_locked (env k) d a w")
  with action_failing [OF a] assms(2) Cons.prems Cons.IH [of "Suc k" w1] show ?case
    by (auto simp: and_then_def split: option.splits)
qed simp

definition failed_closed :: "ZoneController \<Rightarrow> bool" where
  "failed_closed c \<longleftrightarrow>
     ctl_persist_failed c \<and> ctl_state c = FAULT \<and> ctl_active_fault c = Some RESTORED_FROM_UNSAFE_STATE \<and>
     \<not> ctl_on_requested c \<and> \<not> command_authorization_open c \<and>
     (\<forall>s. ctl_session c = Some s \<longrightarrow> ses_pending_termination_reason s \<noteq> None) \<and>
     (\<not> act_proven_off (ctl_assessment c) \<longrightarrow> ctl_off_requested c \<and> ctl_session_task c)"

lemma handle_persist_failure_closes: "failed_closed (w_ctl (handle_persist_failure_locked w))"
  by (cases "ctl_session (w_ctl w)"; cases "act_proven_off (ctl_assessment (w_ctl w))")
    (simp_all add: failed_closed_def handle_persist_failure_locked_def on_ctl_def emit_def fail_closed_def
      ensure_session_task_def command_authorization_open_def Let_def)

lemma handle_persist_failure_frame:
  "w_store (handle_persist_failure_locked w) = w_store w"
  "ctl_assessment (w_ctl (handle_persist_failure_locked w)) = ctl_assessment (w_ctl w)"
  by (simp_all add: handle_persist_failure_locked_def on_ctl_def emit_def fail_closed_def ensure_session_task_def Let_def)


section \<open>Decisions that neither close nor grow a session\<close>

lemma housekeeping_sel:
  "ctl_active_fault (timer_housekeeping z c) = ctl_active_fault c"
  "ctl_secondary_fault (timer_housekeeping z c) = ctl_secondary_fault c"
  "ctl_off_requested (timer_housekeeping z c) = ctl_off_requested c"
  "ctl_daily (timer_housekeeping z c) = ctl_daily c"
  by (simp_all add: timer_housekeeping_def cancel_timers_def cancel_watchdog_def Let_def split: option.split)

lemma note_pending_manual_other:
  "\<forall>q. inp_event inp \<noteq> ManualStartRequested q \<Longrightarrow> note_pending_manual d inp c = c"
  by (cases "inp_event inp") (simp_all add: note_pending_manual_def)

lemma apply_data_plain:
  assumes "dec_session d = Some s" "\<not> dec_clear_session d"
    "ses_session_runtime_s s \<le> (case inp_session inp of Some s0 \<Rightarrow> ses_session_runtime_s s0 | None \<Rightarrow> 0)"
    "\<forall>q. inp_event inp \<noteq> ManualStartRequested q"
  shows "apply_data d inp now c = (timer_housekeeping (ctl_state c) (adopt_decision d inp c), None)"
  using assms
  by (simp add: apply_data_def charge_growth_def closed_session_def and_then_def note_pending_manual_other
      adopt_decision_def Let_def)

section \<open>A concrete zone\<close>

definition sample_tz :: tzinfo where
  "sample_tz = \<lparr>tz_local_day = (\<lambda>t. t div 86400000000), tz_midnight = (\<lambda>d. d * 86400000000)\<rparr>"

definition sample_shadow :: AppliedConfigurationShadow where
  "sample_shadow =
     \<lparr>sh_subentry_id = ''z'', sh_config_fingerprint = ''fp1'', sh_entry_snapshot_fingerprint = ''e'',
      sh_applied_generation = 0,
      sh_normalized_settings =
        \<lparr>ns_name = ''Bed'', ns_start_threshold = 30, ns_target_threshold = 45, ns_pulse_duration_s = 300,
         ns_soak_duration_s = 1200, ns_max_cycles = 4, ns_max_session_runtime_s = 1800,
         ns_max_daily_runtime_s = 3600, ns_min_session_interval_s = 21600, ns_sensor_max_age_s = 3600,
         ns_actuator_confirm_timeout_s = 30, ns_manual_max_duration_s = 1800\<rparr>,
      sh_sensor_identity =
        \<lparr>ae_registry_entry_id = None, ae_last_known_entity_id = ''sensor.bed'', ae_domain = ''sensor''\<rparr>,
      sh_actuator_identity =
        \<lparr>ae_registry_entry_id = None, ae_last_known_entity_id = ''switch.bed'', ae_domain = ''switch''\<rparr>\<rparr>"

definition active_record :: SafetyRecord where
  "active_record = sample_record
     \<lparr>sr_active_subentry_id := Some ''z'', sr_runtime_lifecycle := ACTIVE, sr_applied_config := Some sample_shadow,
      sr_actuator_identity :=
        \<lparr>ai_registry_entry_id = Some ''u'', ai_last_known_entity_id = Some ''switch.bed'', ai_domain = Some ''switch'',
         ai_identity_status = REGISTRY_CONFIRMED, ai_off_service = Some ''switch.turn_off'',
         ai_confirm_timeout_s = Some 30\<rparr>,
      sr_actuator_fault := None, sr_acknowledgement_required := False\<rparr>"

definition active_data :: StoreData where
  "active_data = sample_data
     \<lparr>st_zone_histories := [(''h'', sample_history\<lparr>zh_active_subentry_id := Some ''z''\<rparr>)],
      st_safety_records := [(''r'', active_record)]\<rparr>"

definition sample_controller :: "ControllerState \<Rightarrow> SessionContext option \<Rightarrow> ZoneController" where
  "sample_controller z s =
     \<lparr>ctl_zone_id = ''z'', ctl_safety_record_id = ''r'', ctl_zone_history_id = ''h'',
      ctl_runtime_lifecycle = ACTIVE, ctl_applied_config = Some sample_shadow, ctl_runtime_eligible = True,
      ctl_config = sample_config, ctl_run_id = ''run1'', ctl_tz = sample_tz, ctl_fingerprint = ''fp1'',
      ctl_state = z, ctl_enabled = True, ctl_session = s, ctl_active_fault = None,
      ctl_secondary_fault = None, ctl_last_session_end = None, ctl_last_auto_session_start = None,
      ctl_last_summary = None, ctl_daily = \<lparr>day_date_local = 0, day_runtime_s = 0\<rparr>,
      ctl_observation = sample_obs 20 0, ctl_external_on = False, ctl_armed_watchdog = None,
      ctl_plausibility = mk_plausibility None None None, ctl_session_peak = None,
      ctl_unresponsive_sessions = 0, ctl_last_session_peak_rise = None,
      ctl_assessment = \<lparr>act_available = True, act_proven_off = True, act_observed_on = False\<rparr>,
      ctl_timers = (\<lambda>_. None), ctl_watchdog_handle = None, ctl_session_task = False, ctl_slot_task = False,
      ctl_on_requested = False, ctl_off_requested = False, ctl_off_operation = None, ctl_off_proven = False,
      ctl_off_proven_at = None, ctl_pending_manual = None, ctl_persist_failed = False, ctl_quiescing = False,
      ctl_detaching = False, ctl_inflight_on = None, ctl_evaluations = 0\<rparr>"

definition sample_world :: "ZoneController \<Rightarrow> World" where
  "sample_world c =
     \<lparr>w_ctl = c, w_slots = (slot_init True)\<lparr>sl_owner := Some ''z'', sl_grants_enabled := True\<rparr>,
      w_store = \<lparr>ss_generation_id = ''g'', ss_data = Some active_data\<rparr>, w_emitted = []\<rparr>"

lemmas sample_world_defs = sample_world_def sample_controller_def slot_init_def blockers_empty_def

lemma sample_current_daily: "current_daily 0 (sample_controller z s) = sample_controller z s"
  by (simp add: current_daily_def sample_controller_def sample_tz_def)

lemma sample_build_input:
  "build_input ''s2'' 0 AutoEvaluate (sample_world (sample_controller IDLE None)) =
     Inr (sample_input IDLE None 0 AutoEvaluate)"
  by (simp add: build_input_def current_daily_def mk_input_def sample_world_defs sample_tz_def sample_input_def Let_def)

text \<open>A write whose snapshot is read back as planned succeeds.\<close>

definition honest_io :: "StoreData \<Rightarrow> store_io" where
  "honest_io data = \<lparr>io_save_raises = False, io_read_back = Loaded data\<rparr>"

lemma sample_plan:
  "\<exists>data. update_controller_runtime_plan ''r'' ''h'' w active_data = Inr (Some data) \<and> st_version data = 3"
  if "cw_active_fault w = None" "cw_secondary_fault w = None" "cw_daily w = Some \<lparr>day_date_local = 0, day_runtime_s = 0\<rparr>"
  using that
  by (cases "cw_session w")
   (simp_all add: update_controller_runtime_plan_def active_data_def active_record_def sample_store_defs partition_controller_faults_def
     somes_def update_history_def mk_persisted_session_def mk_zone_runtime_def in_scope_def mk_zone_history_def
     validate_id_history_def merge_controller_daily_runtime_def mk_zone_daily_def deduplicate_accounting_contributions_def
     known_runtime_def mk_safety_record_def record_lifecycle_check_def sample_shadow_def commit_plan_def mk_store_data_def
     validate_store_data_def next_revision_def STORE_SCHEMA_VERSION_def check_record_history_def check_session_owner_def
     all_contributions_def Let_def)

lemma sample_persist:
  assumes "ctl_active_fault c = None" "ctl_secondary_fault c = None" "ctl_daily c = \<lparr>day_date_local = 0, day_runtime_s = 0\<rparr>"
    "ctl_safety_record_id c = ''r''" "ctl_zone_history_id c = ''h''" "ctl_tz c = sample_tz"
  shows "\<exists>data w'. persist_locked \<lparr>env_now = 0, env_io = honest_io data\<rparr> (sample_world c) = (w', None)"
proof -
  have c: "current_daily 0 c = c" using assms by (simp add: current_daily_def sample_tz_def)
  obtain owner where o: "possible_flow_owner_for_persist active_data c = Inr owner"
    using assms by (simp add: possible_flow_owner_for_persist_def active_data_def Let_def)
  obtain data where "update_controller_runtime_plan ''r'' ''h'' (controller_snapshot c owner) active_data = Inr (Some data)"
    "st_version data = 3"
    using sample_plan [of "controller_snapshot c owner"] assms by (auto simp: controller_snapshot_def)
  then show ?thesis using assms c o
    by (auto simp: persist_locked_def sample_world_def store_data_def transact_def save_and_verify_def honest_io_def
        STORE_SCHEMA_VERSION_def Let_def intro!: exI [of _ data])
qed

lemma quiet_on:
  assumes "\<forall>a \<in> set as. quiet a" and "TurnOn \<in> set as \<or> ctl_on_requested (w_ctl w)"
  shows "ctl_on_requested (w_ctl (fst (apply_actions env k d as w)))"
  using assms
proof (induction as arbitrary: k w)
  case (Cons a as)
  obtain w1 where a: "apply_action_locked (env k) d a w = (w1, None)"
    using quiet_action [of a "env k" d w] Cons.prems(1) by (cases "apply_action_locked (env k) d a w") auto
  have "TurnOn \<in> set as \<or> ctl_on_requested (w_ctl w1)"
    using Cons.prems a no_on_action [OF _ a] by (cases "a = TurnOn") (auto simp: on_ctl_def turn_on_requested_def)
  with Cons a show ?case by (simp add: and_then_def)
qed simp

lemma sample_on_world:
  "\<exists>env w'. decide_and_apply env ''s2'' 0 AutoEvaluate (sample_world (sample_controller IDLE None)) = (w', None) \<and>
     ctl_on_requested (w_ctl w')"
proof -
  let ?inp = "sample_input IDLE None 0 AutoEvaluate" and ?w = "sample_world (sample_controller IDLE None)"
  obtain d s where d: "decide ?inp = Inr d" "TurnOn \<in> set (dec_actions d)" "dec_session d = Some s" "\<not> dec_clear_session d"
    "ses_session_runtime_s s = 0" "dec_fault d = None" "dec_secondary_fault d = None" "\<not> dec_no_op d"
    by (simp add: sample_run)
  obtain t rest where r: "dec_actions d = PersistState t # rest" "\<forall>a \<in> set rest. quiet a"
    using on_decision_shape [OF d(1,2)] by metis
  define c where "c = timer_housekeeping IDLE (adopt_decision d ?inp (sample_controller IDLE None))"
  have data: "apply_data d ?inp 0 (sample_controller IDLE None) = (c, None)"
    using apply_data_plain [OF d(3,4)] d(5) by (simp add: c_def sample_input_def sample_controller_def)
  have core: "core c = core (adopt_decision d ?inp (sample_controller IDLE None))" by (simp add: c_def core_housekeeping)
  have tz: "ctl_tz (timer_housekeeping z x) = ctl_tz x" for z x
    by (simp add: timer_housekeeping_def cancel_timers_def cancel_watchdog_def Let_def split: option.split)
  have cf: "ctl_active_fault c = None" "ctl_secondary_fault c = None"
    "ctl_daily c = \<lparr>day_date_local = 0, day_runtime_s = 0\<rparr>"
    "ctl_safety_record_id c = ''r''" "ctl_zone_history_id c = ''h''" "ctl_tz c = sample_tz"
    using core_eqD [OF core] d(6,7)
    by (simp_all add: c_def housekeeping_sel tz adopt_decision_def sample_controller_def)
  obtain io w1 where p: "persist_locked \<lparr>env_now = 0, env_io = honest_io io\<rparr> (sample_world c) = (w1, None)"
    using sample_persist [OF cf] by blast
  let ?env = "\<lambda>_. \<lparr>env_now = 0, env_io = honest_io io\<rparr>"
  obtain w2 e2 where q: "apply_actions ?env 1 d rest w1 = (w2, e2)" by fastforce
  have on: "e2 = None" "ctl_on_requested (w_ctl w2)"
    using quiet_actions [OF r(2) q] quiet_on [OF r(2), of w1 ?env 1 d] d(2) r(1) q by auto
  have w: "on_ctl (current_daily 0) ?w = ?w" "?w\<lparr>w_ctl := c\<rparr> = sample_world c" "w_ctl ?w = sample_controller IDLE None"
    by (simp_all add: on_ctl_def sample_current_daily sample_world_def)
  have "decide_and_apply ?env ''s2'' 0 AutoEvaluate ?w = (on_ctl ensure_session_task w2, None)"
    using d(1,8) data p q on r(1)
    by (simp add: decide_and_apply_def sample_build_input apply_locked_def and_then_def w Let_def)
  moreover have "ctl_on_requested (w_ctl (on_ctl ensure_session_task w2))"
    using on(2) by (simp add: on_ctl_def ensure_session_task_def)
  ultimately show ?thesis by blast
qed

definition broken_env :: "nat \<Rightarrow> step_env" where
  "broken_env k = \<lparr>env_now = 0, env_io = \<lparr>io_save_raises = True, io_read_back = NoData\<rparr>\<rparr>"

lemma sample_disable:
  "build_input ''s2'' 0 DisableRequested (sample_world (sample_controller IDLE None)) =
     Inr (sample_input IDLE None 0 DisableRequested)"
  by (simp add: build_input_def current_daily_def mk_input_def sample_world_defs sample_tz_def sample_input_def Let_def)

lemma sample_write_failed:
  assumes "ctl_active_fault c = None" "ctl_secondary_fault c = None" "ctl_daily c = \<lparr>day_date_local = 0, day_runtime_s = 0\<rparr>"
    "ctl_safety_record_id c = ''r''" "ctl_zone_history_id c = ''h''" "ctl_tz c = sample_tz"
  shows "persist_locked (broken_env k) (sample_world c) =
     (sample_world c, Some (StoreWriteVerificationError ''safety write failed''))"
proof -
  have c: "current_daily 0 c = c" using assms by (simp add: current_daily_def sample_tz_def)
  obtain owner where o: "possible_flow_owner_for_persist active_data c = Inr owner"
    using assms by (simp add: possible_flow_owner_for_persist_def active_data_def Let_def)
  obtain data where "update_controller_runtime_plan ''r'' ''h'' (controller_snapshot c owner) active_data = Inr (Some data)"
    using sample_plan [of "controller_snapshot c owner"] assms by (auto simp: controller_snapshot_def)
  then show ?thesis using assms c o
    by (simp add: persist_locked_def sample_world_def store_data_def transact_def save_and_verify_def broken_env_def Let_def)
qed

theorem on_request_is_durable_witness:
  "\<exists>env w' s. decide_and_apply env ''s2'' 0 AutoEvaluate (sample_world (sample_controller IDLE None)) = (w', None) \<and>
     ctl_session (w_ctl w') = Some s \<and> ses_pulse_intent_at_utc s = Some 0"
proof -
  obtain env w' where "decide_and_apply env ''s2'' 0 AutoEvaluate (sample_world (sample_controller IDLE None)) = (w', None)"
    "ctl_on_requested (w_ctl w')" using sample_on_world by blast
  moreover have "\<not> ctl_on_requested (w_ctl (sample_world (sample_controller IDLE None)))" by (simp add: sample_world_defs)
  ultimately show ?thesis using on_request_is_durable [of env "''s2''" 0 AutoEvaluate] by blast
qed


end
