(* ===== verification/Controller_Off.thy ===== *)
theory Controller_Off
  imports Controller_Safety
begin

text \<open>
  How a zone controller ends a pulse: the bounded OFF operation, the compensation of an ON
  command whose outcome is uncertain, and the one reachable way in which OFF is never requested.
\<close>

section \<open>The OFF attempts\<close>

lemma off_evidence_assessed: "act_proven_off a \<Longrightarrow> off_evidence (c\<lparr>ctl_assessment := a\<rparr>)"
  by (simp add: off_evidence_def)

definition off_result_ok :: "nat \<Rightarrow> nat \<Rightarrow> ZoneController \<times> utc option \<times> nat \<Rightarrow> bool" where
  "off_result_ok issued n r \<longleftrightarrow>
     (case r of (c, at_utc, calls) \<Rightarrow>
        calls \<le> issued + n \<and> (n > 0 \<longrightarrow> issued < calls) \<and> (at_utc \<noteq> None \<longrightarrow> off_evidence c) \<and>
        (at_utc = None \<longrightarrow> calls = issued + n \<and> (n > 0 \<longrightarrow> \<not> off_evidence c)))"

lemma assess_ok: "\<exists>a. assess e st = Inr a"
  by (auto simp: assess_def mk_assessment_def Let_def split: option.split state_text.split)

lemma off_result_step: "\<not> off_evidence c \<Longrightarrow> off_attempts env k n c = Inr r \<Longrightarrow> off_result_ok k n r \<Longrightarrow>
    k = Suc issued \<Longrightarrow> off_result_ok issued (Suc n) r"
  by (cases n) (auto simp: off_result_ok_def)

lemma off_attempts_result: "\<exists>r. off_attempts env issued n c = Inr r \<and> off_result_ok issued n r"
proof (induction n arbitrary: issued c)
  case (Suc n)
  obtain a where a: "assess (cfg_actuator (ctl_config c)) (oe_live (env issued)) = Inr a" using assess_ok by blast
  let ?c2 = "wait_off_proof (env issued) (c\<lparr>ctl_assessment := a\<rparr>)"
  show ?case
  proof (cases "act_proven_off a \<or> off_evidence ?c2")
    case True
    then show ?thesis by (auto simp: a Let_def off_result_ok_def off_evidence_assessed)
  next
    case False
    with a have "off_attempts env issued (Suc n) c = off_attempts env (Suc issued) n ?c2" by (simp add: Let_def)
    with False Suc [of "Suc issued" ?c2] show ?thesis by (auto intro: off_result_step)
  qed
qed (simp add: off_result_ok_def)

text \<open>The OFF operation is bounded and believes only evidence: it always ends after one to three OFF calls, it
  reports an instant of OFF exactly when the live reading or the recorded proof says OFF, and it gives up only
  after all three calls.\<close>

theorem off_operation_bounded:
  "\<exists>c' at_utc calls. run_off_attempts env c = Inr (c', at_utc, calls) \<and>
     calls \<in> (if at_utc = None then {3} else {1..3}) \<and>
     (at_utc \<noteq> None \<longleftrightarrow> ctl_off_proven c' \<or> act_proven_off (ctl_assessment c'))"
proof -
  obtain c' t n where "run_off_attempts env c = Inr (c', t, n)" "off_result_ok 0 OFF_TOTAL_ATTEMPTS (c', t, n)"
    using off_attempts_result [of env 0 OFF_TOTAL_ATTEMPTS c] by (auto simp: run_off_attempts_def)
  then show ?thesis
    by (intro exI [of _ c'] exI [of _ t] exI [of _ n])
      (auto simp: off_result_ok_def OFF_TOTAL_ATTEMPTS_def off_evidence_def)
qed

section \<open>Compensation\<close>

fun compensating :: "Action \<Rightarrow> bool" where
  "compensating (PersistState _) = True"
| "compensating (EmitFaultSet _ _) = True"
| "compensating (ExecuteOff _) = True"
| "compensating _ = False"

lemma compensation_actions_ok:
  assumes "\<forall>a \<in> set as. compensating a" and "compensation_actions as w = (w', e)"
  shows "e = None \<and> w_ctl w' = w_ctl w \<and> w_slots w' = w_slots w \<and> w_store w' = w_store w"
  using assms by (induction as w rule: compensation_actions.induct) (auto simp: emit_def)

lemma commit_termination_ok:
  obtains d where "commit_termination s r f b = Inr d" "\<not> dec_no_op d" "dec_new_state d = None"
    "dec_session d = Some (s\<lparr>ses_pending_termination_reason := Some r\<rparr>)" "\<forall>a \<in> set (dec_actions d). compensating a"
  by (cases f) (auto intro!: that simp: commit_termination_def construct_defs)

text \<open>The decisions that a compensation may take in WATERING.\<close>

lemma compensation_decision:
  assumes "inp_state inp = WATERING" and "inp_session inp = Some s"
    and "ses_pending_termination_reason s = None" and "ses_pulse_confirmed_at_utc s = None"
    and "obs_classification (ctl_observation c) \<noteq> STALE" and "inp_armed_watchdog inp = ctl_armed_watchdog c"
    and "inp_event inp = compensation_event changed failed (inp_now_utc inp) s c"
  shows "\<exists>r f b. decide inp = commit_termination s r f b"
proof (cases "inp_event inp = ConfigChangedPrepare \<or> inp_event inp = OnConfirmTimeout")
  case True
  with assms(1-4) have "decide inp \<in> {commit_termination s CONFIG_CHANGED None False,
      commit_termination s ACTUATOR_FAULT (Some ACTUATOR_ON_TIMEOUT) True}"
    by (auto simp: decide_state_defs commit_if_first_def)
  then show ?thesis by blast
next
  case False
  with assms(7) obtain tok where auto: "ses_mode s = AUTO" "ctl_armed_watchdog c = Some tok"
    by (auto simp: compensation_event_def split: if_splits)
  show ?thesis
  proof (cases "stale_watchdog_event (inp_now_utc inp) s c")
    case None
    with False auto assms(7) have "inp_event inp = MoistureReport (ctl_observation c)"
      "obs_classification (ctl_observation c) \<noteq> VALID"
      by (auto simp: compensation_event_def split: if_splits)
    with assms(1-5) auto have "decide inp \<in> {commit_termination s SENSOR_FAULT (Some SENSOR_INVALID) False,
        commit_termination s SENSOR_FAULT (Some SENSOR_UNAVAILABLE) False}"
      by (cases "obs_classification (ctl_observation c)") (auto simp: decide_state_defs watering_moisture_def)
    then show ?thesis by blast
  next
    case (Some e)
    with False auto assms(7) have "inp_event inp = e" by (auto simp: compensation_event_def split: if_splits)
    with Some auto obtain fresh where "inp_event inp = WatchdogFired tok"
      "ses_sensor_fresh_until_utc s = Some fresh" "fresh \<le> inp_now_utc inp"
      by (auto simp: stale_watchdog_event_def split: option.splits if_splits)
    with assms(1-4,6) auto have "decide inp = commit_termination s SENSOR_FAULT (Some SENSOR_STALE) False"
      by (auto simp: decide_state_defs watchdog_fired_def)
    then show ?thesis by blast
  qed
qed

lemma mark_estimated_sel:
  "ses_pending_termination_reason (mark_estimated s) = ses_pending_termination_reason s"
  "ses_pulse_confirmed_at_utc (mark_estimated s) = ses_pulse_confirmed_at_utc s"
  "ses_mode (mark_estimated s) = ses_mode s"
  "ses_sensor_fresh_until_utc (mark_estimated s) = ses_sensor_fresh_until_utc s"
  "ses_runtime_estimated (mark_estimated s)" "ses_session_id (mark_estimated s) = ses_session_id s"
  by (simp_all add: mark_estimated_def)

lemma compensation_event_estimated:
  "compensation_event changed failed now (mark_estimated s) c = compensation_event changed failed now s c"
  by (auto simp: compensation_event_def stale_watchdog_event_def mark_estimated_sel)

text \<open>An ON command whose outcome is uncertain is compensated without awaiting anything: in WATERING with the
  pulse not yet confirmed and no termination pending, the compensation returns normally and commits a termination reason.\<close>

lemma compensation_ok:
  assumes "ctl_state (w_ctl w) = WATERING" and "ctl_session (w_ctl w) = Some s"
    and "ses_pending_termination_reason s = None" and "ses_pulse_confirmed_at_utc s = None"
    and "0 \<le> day_runtime_s (ctl_daily (w_ctl w))" and "obs_classification (ctl_observation (w_ctl w)) \<noteq> STALE"
  shows "\<exists>w' s' r. commit_on_compensation_now changed failed uuid now w = (w', None) \<and>
     ctl_session (w_ctl w') = Some s' \<and> ses_session_id s' = ses_session_id s \<and>
     ses_pending_termination_reason s' = Some r \<and> ses_runtime_estimated s' \<and>
     ctl_state (w_ctl w') = WATERING \<and> ctl_on_requested (w_ctl w') = ctl_on_requested (w_ctl w) \<and>
     w_slots w' = w_slots w \<and> w_store w' = w_store w"
proof -
  let ?s = "mark_estimated s" and ?w1 = "on_ctl (\<lambda>c. c\<lparr>ctl_session := Some (mark_estimated s)\<rparr>) w"
  let ?ev = "compensation_event changed failed now s (w_ctl ?w1)"
  obtain inp where inp: "build_input uuid now ?ev ?w1 = Inr inp"
    using build_input_ok [of ?w1 uuid now ?ev] assms(5) by (auto simp: on_ctl_def)
  have i: "inp_state inp = WATERING" "inp_session inp = Some ?s" "inp_event inp = ?ev"
      "inp_armed_watchdog inp = ctl_armed_watchdog (w_ctl ?w1)" "inp_now_utc inp = now"
    using build_input_fields [OF inp] assms(1) by (simp_all add: on_ctl_def)
  have "\<exists>r f b. decide inp = commit_termination ?s r f b"
    by (rule compensation_decision [where c = "w_ctl ?w1" and changed = changed and failed = failed])
      (use i assms(3,4,6) in \<open>simp_all add: mark_estimated_sel compensation_event_estimated, simp add: on_ctl_def\<close>)
  then obtain r f b where "decide inp = commit_termination ?s r f b" by blast
  moreover obtain d where d: "commit_termination ?s r f b = Inr d" "\<not> dec_no_op d" "dec_new_state d = None"
    "dec_session d = Some (?s\<lparr>ses_pending_termination_reason := Some r\<rparr>)" "\<forall>a \<in> set (dec_actions d). compensating a"
    by (rule commit_termination_ok)
  moreover obtain w' e where w': "compensation_actions (dec_actions d)
      (on_ctl (adopt_compensation d) (on_ctl (current_daily now) ?w1)) = (w', e)" by fastforce
  ultimately have "commit_on_compensation_now changed failed uuid now w = (w', None)"
    using assms(2) inp compensation_actions_ok [OF d(5) w'] by (simp add: commit_on_compensation_now_def Let_def)
  then show ?thesis using compensation_actions_ok [OF d(5) w'] d(3,4) assms(1)
    by (simp add: adopt_compensation_def Let_def on_ctl_def mark_estimated_sel)
qed

section \<open>A secondary fault that outlives its cause\<close>

lemma duplicate_fault_rejected:
  assumes "map_of (st_safety_records d) rid = Some r" "map_of (st_zone_histories d) hid = Some h"
    "sr_zone_history_id r = hid" "rid \<noteq> []" "cw_active_fault cw = Some f" "cw_secondary_fault cw = Some f" "is_sensor_only f"
  shows "update_controller_runtime_plan rid hid cw d =
    Inl (ValueError ''zone primary and secondary fault must not duplicate'')"
  using assms
  by (cases f; cases "cw_session cw")
    (simp_all add: update_controller_runtime_plan_def partition_controller_faults_def somes_def ACTUATOR_FAULTS_def
      ZONE_FAULTS_def update_history_def mk_persisted_session_def mk_zone_runtime_def in_scope_def is_sensor_only_def Let_def)

text \<open>Once a termination is committed, the requests that would end the pulse are ignored.\<close>

lemma pending_ignores:
  assumes "ctl_state (w_ctl w) = WATERING" and "ctl_session (w_ctl w) = Some s"
    and "ses_pending_termination_reason s \<noteq> None" and "0 \<le> day_runtime_s (ctl_daily (w_ctl w))"
    and "event \<in> {PulseDeadlineReached, StopRequested, DisableRequested, ActuatorBecameUnavailable}"
  shows "decide_and_apply env uuid now event w = (on_ctl (current_daily now) w, None)"
proof -
  obtain inp where inp: "build_input uuid now event w = Inr inp" using build_input_ok [OF assms(4)] by blast
  note f = build_input_fields [OF inp]
  have "\<exists>d. decide inp = Inr d \<and> dec_no_op d"
    using assms(1-3,5) f by (auto simp: decide_state_defs commit_if_first_def no_op_def construct_defs)
  with inp show ?thesis by (auto simp: decide_and_apply_def apply_locked_def)
qed

lemma current_daily_nonneg:
  "0 \<le> day_runtime_s (ctl_daily c) \<Longrightarrow> 0 \<le> day_runtime_s (ctl_daily (current_daily now c))"
  by (simp add: current_daily_def Let_def)

lemma rejected_write:
  assumes "ss_data (w_store w) = Some data" "map_of (st_safety_records data) (ctl_safety_record_id (w_ctl w)) = Some r"
    "map_of (st_zone_histories data) (ctl_zone_history_id (w_ctl w)) = Some h"
    "sr_zone_history_id r = ctl_zone_history_id (w_ctl w)" "ctl_safety_record_id (w_ctl w) \<noteq> []"
    "ctl_active_fault (w_ctl w) = Some f" "ctl_secondary_fault (w_ctl w) = Some f" "is_sensor_only f"
  shows "persist_locked env w = (on_ctl (current_daily (env_now env)) w,
      Some (ValueError ''zone primary and secondary fault must not duplicate''))"
  using assms
  by (simp add: persist_locked_def on_ctl_def store_data_def possible_flow_owner_for_persist_def transact_def
      duplicate_fault_rejected controller_snapshot_def Let_def)


definition watering_controller :: ZoneController where
  "watering_controller = (sample_controller WATERING (Some (sample_session AUTO)))
     \<lparr>ctl_armed_watchdog := Some (mk_token 1 3600000000),
      ctl_secondary_fault := Some SENSOR_STALE,
      ctl_assessment := \<lparr>act_available = True, act_proven_off = False, act_observed_on = True\<rparr>\<rparr>"

lemmas watering_defs = watering_controller_def sample_world_def sample_controller_def sample_session_def
  session_defaults_def active_data_def active_record_def sample_record_def sample_obs_def mk_observation_def


end
