(* ===== verification/Reconciliation_Safety.thy ===== *)
theory Reconciliation_Safety
  imports Reconciliation Slot_Safety Controller_Safety
begin

text \<open>
  The coordinator together with the slot manager is a guarded system: it hands out the water slot
  only while the latest observed configuration is the applied one.  Closing publication is final,
  and a worker that is left alone publishes the latest snapshot.
\<close>

section \<open>The barrier\<close>

lemma try_grant_reconciliation [simp]:
  "sl_reconciliation (try_grant_locked m) = sl_reconciliation m"
  by (cases rule: try_grant_cases [of m]) auto

lemma set_state_reconciliation [simp]:
  "sl_reconciliation (set_reconciliation_state d r f m) =
     \<lparr>bar_dirty = (case d of None \<Rightarrow> bar_dirty (sl_reconciliation m) | Some b \<Rightarrow> b),
      bar_reconciling = (case r of None \<Rightarrow> bar_reconciling (sl_reconciliation m) | Some b \<Rightarrow> b),
      bar_failed = (case f of None \<Rightarrow> bar_failed (sl_reconciliation m) | Some b \<Rightarrow> b)\<rparr>"
  by (simp add: set_reconciliation_state_def Let_def)

definition rec_open :: "rec_state \<Rightarrow> bool" where
  "rec_open s \<longleftrightarrow> barrier_clear (sl_reconciliation (fst (snd s)))"

text \<open>What an open barrier promises.\<close>

definition published :: "Coordinator \<Rightarrow> bool" where
  "published c \<longleftrightarrow>
     \<not> co_dirty c \<and> \<not> co_reconciling c \<and> \<not> co_failed c \<and> \<not> co_stopping c \<and>
     co_applied_generation c = co_observed_generation c \<and> co_applied_snapshot c = co_observed_snapshot c"

text \<open>Every snapshot carries the generation it was taken for; the worker's target is the latest
  one or an older one.\<close>

fun worker_ok :: "worker_pc \<Rightarrow> int \<Rightarrow> ImmutableEntrySnapshot option \<Rightarrow> bool" where
  "worker_ok (Applying g t) n obs =
     (es_observed_generation t = g \<and> (g < n \<or> g = n \<and> obs = Some t))"
| "worker_ok _ _ _ = True"

lemma worker_ok_idle: "(\<And>g t. w \<noteq> Applying g t) \<Longrightarrow> worker_ok w n obs"
  by (cases w) auto

lemma worker_ok_later: "worker_ok w n obs \<Longrightarrow> worker_ok w (n + 1) obs'"
  by (cases w) auto

definition generations_ok :: "Coordinator \<Rightarrow> bool" where
  "generations_ok c \<longleftrightarrow>
     (\<forall>t. co_observed_snapshot c = Some t \<longrightarrow> es_observed_generation t = co_observed_generation c) \<and>
     (\<forall>t. co_applied_snapshot c = Some t \<longrightarrow> es_observed_generation t = co_applied_generation c) \<and>
     co_applied_generation c \<le> co_observed_generation c \<and>
     worker_ok (co_worker c) (co_observed_generation c) (co_observed_snapshot c)"

definition rec_inv :: "rec_state \<Rightarrow> bool" where
  "rec_inv s \<longleftrightarrow> (rec_open s \<longrightarrow> published (fst s)) \<and> generations_ok (fst s)"

lemmas rec_inv_defs = rec_inv_def rec_open_def published_def generations_ok_def barrier_clear_def co_stopping_def

lemma fail_closes: "\<not> rec_open (rec_fail s)" "generations_ok (fst (rec_fail s)) = generations_ok (fst s)"
  by (simp_all add: rec_fail_def set_barrier_def rec_open_def barrier_clear_def generations_ok_def)

lemma observe_inv:
  assumes "rec_inv s" and "\<And>t. built = Some t \<Longrightarrow> es_observed_generation t = co_observed_generation (fst s) + 1"
  shows "rec_inv (observe_current built s)" "\<not> rec_open (observe_current built s)"
  using assms by (auto simp: rec_inv_defs observe_current_def set_barrier_def Let_def intro: worker_ok_later)

lemma queue_reload_inv:
  "\<not> rec_open (queue_reload t s)" "generations_ok (fst (queue_reload t s)) = generations_ok (fst s)"
  by (simp_all add: queue_reload_def set_barrier_def rec_open_def barrier_clear_def generations_ok_def Let_def)

lemma cancel_pending_sel:
  "published (cancel_pending_reload c) = published c" "generations_ok (cancel_pending_reload c) = generations_ok c"
  by (simp_all add: cancel_pending_reload_def published_def generations_ok_def co_stopping_def Let_def)

lemma publish_inv:
  assumes "generations_ok (fst s)" and "is_current g t (fst s)" 
  shows "rec_inv (publish has_reload g t s)"
proof -
  let ?c1 = "(fst s)\<lparr>co_applied_generation := g, co_applied_snapshot := Some t,
                 co_dirty := False, co_reconciling := False, co_failed := False,
                 co_platform_snapshot :=
                   (case co_platform_snapshot (fst s) of None \<Rightarrow> Some t | Some p \<Rightarrow> Some p),
                 co_worker := NoWorker\<rparr>"
  from assms have c: "published ?c1" "generations_ok ?c1"
    by (auto simp: is_current_def published_def generations_ok_def co_stopping_def)
  then show ?thesis
    by (auto simp: publish_def Let_def rec_inv_def fail_closes queue_reload_inv cancel_pending_sel set_barrier_def)
qed


text \<open>What a change of the bookkeeping fields alone preserves.\<close>

lemma inv_frame:
  assumes "rec_inv s" and "sl_reconciliation (fst (snd s')) = sl_reconciliation (fst (snd s))"
    and "co_dirty (fst s') = co_dirty (fst s)" "co_reconciling (fst s') = co_reconciling (fst s)"
    "co_failed (fst s') = co_failed (fst s)" "co_stopping (fst s') = co_stopping (fst s)"
    "co_applied_generation (fst s') = co_applied_generation (fst s)"
    "co_observed_generation (fst s') = co_observed_generation (fst s)"
    "co_applied_snapshot (fst s') = co_applied_snapshot (fst s)"
    "co_observed_snapshot (fst s') = co_observed_snapshot (fst s)"
    and "co_worker (fst s') = co_worker (fst s) \<or> (\<forall>g t. co_worker (fst s') \<noteq> Applying g t)"
  shows "rec_inv s'"
  using assms by (auto simp: rec_inv_def rec_open_def published_def generations_ok_def intro: worker_ok_idle)

lemma stop_worker_inv: "rec_inv (c, m) \<Longrightarrow> rec_inv (c\<lparr>co_worker := NoWorker\<rparr>, m)"
  by (erule inv_frame) (simp_all add: co_stopping_def)

lemma fail_inv: "rec_inv s \<Longrightarrow> rec_inv (rec_fail s)"
  by (simp add: rec_inv_def fail_closes)

lemma take_inv:
  assumes "rec_inv s"
  shows "rec_inv (worker_take s)"
proof -
  obtain c m where s: "s = (c, m)" by (cases s)
  have f: "rec_inv (case rec_fail s of (c, m) \<Rightarrow> (c\<lparr>co_worker := NoWorker\<rparr>, m))"
    using fail_inv [OF assms] stop_worker_inv by (auto split: prod.split)
  from assms have "rec_inv (set_barrier (Some True) (Some True) (Some False)
      (c\<lparr>co_reconciling := True, co_failed := False, co_worker := Applying (co_observed_generation c) t\<rparr>) m)"
    if "co_observed_snapshot c = Some t" for t
    using that by (auto simp: s set_barrier_def rec_inv_defs)
  with f stop_worker_inv assms show ?thesis
    by (auto simp: worker_take_def s Let_def split: option.split)
qed

lemma applier_done_inv:
  assumes "rec_inv s" and "co_worker (fst s) = Applying g t"
    and "\<And>u. again = Some u \<Longrightarrow> es_observed_generation u = co_observed_generation (fst s) + 1"
  shows "rec_inv (applier_done has_reload fresh again g t s)"
proof -
  let ?p = "\<lambda>s1. if \<not> is_current g t (fst s1)
            then ((fst s1)\<lparr>co_superseded_count := co_superseded_count (fst s1) + 1,
                           co_worker := LoopHead\<rparr>, snd s1)
            else publish has_reload g t s1"
  have p: "rec_inv (?p s1)" if "rec_inv s1" for s1
  proof (cases "is_current g t (fst s1)")
    case True
    with that publish_inv [OF _ True] show ?thesis by (simp add: rec_inv_def)
  next
    case False
    have "rec_inv ((fst s1)\<lparr>co_superseded_count := co_superseded_count (fst s1) + 1, co_worker := LoopHead\<rparr>, snd s1)"
      by (rule inv_frame [OF that]) (simp_all add: co_stopping_def)
    with False show ?thesis by simp
  qed
  have f: "rec_inv (case rec_fail s of (c, m) \<Rightarrow> (c\<lparr>co_worker := NoWorker\<rparr>, m))"
    using fail_inv [OF assms(1)] stop_worker_inv by (auto split: prod.split)
  have k: "rec_inv (case s of (c, m) \<Rightarrow> (c\<lparr>co_worker := NoWorker\<rparr>, m))"
    using assms(1) stop_worker_inv by (auto split: prod.split)
  have o: "rec_inv (?p (observe_current again s))"
    by (rule p, rule observe_inv(1) [OF assms(1)]) (rule assms(3))
  from p [OF assms(1)] o f k show ?thesis
    by (auto simp: applier_done_def Let_def split: option.split)
qed

lemma reload_inv:
  assumes "rec_inv s"
  shows "rec_inv (begin_reload_if_current b s)" "rec_inv (reload_call g f s)" "rec_inv (reload_raised f s)"
    "rec_inv (reload_cancelled f s)" "co_stopping (fst s) \<Longrightarrow> rec_inv (reload_succeeded s)"
proof -
  have fr: "rec_inv ((fst s)\<lparr>co_reload_task := NoReload\<rparr>, snd s)"
    by (rule inv_frame [OF assms]) (simp_all add: co_stopping_def)
  have ff: "rec_inv ((fst s)\<lparr>co_reload_task := NoReload, co_reload_failed_fingerprint := x, co_reload_pending := False\<rparr>, snd s)" for x
    by (rule inv_frame [OF assms]) (simp_all add: co_stopping_def)
  show "rec_inv (begin_reload_if_current b s)"
    by (rule inv_frame [OF assms])
      (simp_all add: begin_reload_if_current_def co_stopping_def Let_def split: option.split)
  show "rec_inv (reload_call g f s)"
    by (rule inv_frame [OF assms]) (simp_all add: reload_call_def co_stopping_def Let_def)
  show "rec_inv (reload_raised f s)" "rec_inv (reload_cancelled f s)"
    using fr fail_inv [OF ff] by (auto simp: reload_raised_def reload_cancelled_def Let_def)
  show "rec_inv (reload_succeeded s)" if "co_stopping (fst s)"
    by (rule inv_frame [OF assms]) (use that in \<open>auto simp: reload_succeeded_def co_stopping_def Let_def\<close>)
qed

lemma close_publication_closes:
  "\<not> rec_open (close_publication_now s)" "co_stopping (fst (close_publication_now s))"
  "generations_ok (fst (close_publication_now s)) = generations_ok (fst s)"
  by (simp_all add: close_publication_now_def set_barrier_def rec_open_def barrier_clear_def
      cancel_pending_sel cancel_pending_reload_def co_stopping_def generations_ok_def Let_def)

lemma close_inv: "rec_inv s \<Longrightarrow> rec_inv (close_publication_now s)"
  by (simp add: rec_inv_def close_publication_closes)

lemma raised_inv: "rec_inv s \<Longrightarrow> rec_inv (applier_raised s)"
  using fail_inv [of s] stop_worker_inv by (auto simp: applier_raised_def split: prod.split)

lemma rec_step_inv: "rec_step has_reload s s' \<Longrightarrow> rec_inv s \<Longrightarrow> rec_inv s'"
proof (induction rule: rec_step.induct)
  case (reconcile s)
  have "rec_inv ((fst s)\<lparr>co_worker := LoopHead\<rparr>, snd s)"
    by (rule inv_frame [OF reconcile]) (simp_all add: co_stopping_def)
  with reconcile show ?case by (auto simp: reconcile_begin_def Let_def)
next
  case (slots s x)
  show ?case by (rule inv_frame [OF slots(3)]) (use slots in auto)
qed (auto intro: observe_inv take_inv applier_done_inv reload_inv close_inv raised_inv)


section \<open>The coordinator drives the slot manager\<close>

text \<open>What a step does to the slot manager is at most one of the manager's own steps.\<close>

definition one_slot_step :: "slot_sys \<Rightarrow> slot_sys \<Rightarrow> bool" where
  "one_slot_step x y \<longleftrightarrow> y = x \<or> slot_step x y"

lemma one_slot_refl [simp]: "one_slot_step x x"
  by (simp add: one_slot_step_def)

lemma one_slot_barrier [simp]: "one_slot_step x (snd (set_barrier d r f c x))"
  unfolding one_slot_step_def set_barrier_def by (cases x) (auto intro: slot_step.barrier_now)

lemma fail_slot [simp]: "one_slot_step (snd s) (snd (rec_fail s))"
  by (simp add: rec_fail_def)

lemma stop_slot [simp]: "snd (case s of (c, m) \<Rightarrow> (c\<lparr>co_worker := NoWorker\<rparr>, m)) = snd s"
  by (cases s) simp

lemma publish_slot: "one_slot_step (snd s) (snd (publish has_reload g t s))"
  using fail_slot [of "(_, snd s)"]
  by (auto simp: publish_def queue_reload_def Let_def)

lemma observed_not_current:
  "co_observed_generation (fst s) = g \<Longrightarrow> \<not> is_current g t (fst (observe_current b s))"
  by (simp add: is_current_def observe_current_def set_barrier_def Let_def)

lemma applier_done_slot: "one_slot_step (snd s) (snd (applier_done has_reload fresh again g t s))"
  using publish_slot [of s] observed_not_current [of s g t again]
  by (auto simp: applier_done_def Let_def observe_current_def split: option.split)

lemma rec_step_slot: "rec_step has_reload s s' \<Longrightarrow> one_slot_step (snd s) (snd s')"
proof (induction rule: rec_step.induct)
  case (stop s)
  have "snd (close_publication_now s) =
    snd (set_barrier (Some True) (Some False) None (fst s) (snd s))"
    by (simp add: close_publication_now_def set_barrier_def)
  then show ?case by simp
next
  case (slots s x)
  then show ?case by (simp add: one_slot_step_def)
next
  case (reload_failed s g f)
  then show ?case using fail_slot [of "(_, snd s)"] by (auto simp: reload_raised_def Let_def)
next
  case (reload_cancel s g f)
  then show ?case using fail_slot [of "(_, snd s)"] by (auto simp: reload_cancelled_def Let_def)
next
  case (reload_begin s)
  then show ?case by (auto simp: begin_reload_if_current_def Let_def split: option.split)
qed (auto simp: applier_done_slot observe_current_def reconcile_begin_def worker_take_def Let_def
    applier_raised_def reload_call_def reload_succeeded_def split: option.split)

definition rec_start :: "rec_state \<Rightarrow> bool" where
  "rec_start s \<longleftrightarrow> fst s = coordinator_init \<and> slot_start (snd s)"

definition rec_sys_inv :: "rec_state \<Rightarrow> bool" where
  "rec_sys_inv s \<longleftrightarrow> rec_inv s \<and> slot_inv (snd s)"

definition rec_owner :: "rec_state \<Rightarrow> string option" where
  "rec_owner s = slot_owner (snd s)"

definition rec_permits :: "rec_state \<Rightarrow> bool" where
  "rec_permits s \<longleftrightarrow> slot_free (snd s) \<and> published (fst s)"

interpretation rec: guarded_system rec_start "rec_step has_reload" rec_sys_inv rec_owner rec_permits
proof
  fix s s' :: rec_state and z :: string
  show "rec_start s \<Longrightarrow> rec_sys_inv s"
    using slot.inv_init [of "snd s"]
    by (auto simp: rec_start_def rec_sys_inv_def rec_inv_def published_def generations_ok_def
        coordinator_init_def co_stopping_def)
  show inv: "rec_sys_inv s'" if "rec_sys_inv s" "rec_step has_reload s s'"
    using that rec_step_inv [OF that(2)] rec_step_slot [OF that(2)] slot.inv_step [of "snd s" "snd s'"]
    by (auto simp: rec_sys_inv_def one_slot_step_def)
  show "rec_permits s'"
    if a: "rec_sys_inv s" "rec_step has_reload s s'" "rec_owner s' = Some z" "rec_owner s \<noteq> Some z"
  proof -
    from a rec_step_slot [OF a(2)] have "slot_step (snd s) (snd s')"
      by (auto simp: one_slot_step_def rec_owner_def)
    with a have "slot_free (snd s')"
      using slot.acquire_permitted [of "snd s" "snd s'" z] by (simp add: rec_sys_inv_def rec_owner_def)
    with inv [OF a(1,2)] show ?thesis
      by (simp add: rec_permits_def rec_sys_inv_def rec_inv_def rec_open_def slot_free_def admission_open_def)
  qed
qed

text \<open>Once publication is closed the coordinator stays halted.\<close>

definition rec_halted :: "rec_state \<Rightarrow> bool" where
  "rec_halted s \<longleftrightarrow> co_stopping_flag (fst s) \<and> \<not> co_publication_allowed (fst s) \<and> \<not> rec_open s"

lemma close_halts: "rec_halted (close_publication_now s)"
  using close_publication_closes(1) [of s]
  by (simp add: rec_halted_def close_publication_now_def set_barrier_def cancel_pending_reload_def Let_def)

lemma halted_step: "rec_step has_reload s s' \<Longrightarrow> rec_halted s \<Longrightarrow> rec_halted s'"
proof (induction rule: rec_step.induct)
  case (notify built s)
  then show ?case
    by (simp add: rec_halted_def observe_current_def set_barrier_def rec_open_def barrier_clear_def Let_def)
next
  case (apply_failed s g t)
  then show ?case
    by (simp add: rec_halted_def applier_raised_def rec_fail_def set_barrier_def rec_open_def barrier_clear_def)
next
  case (stop s)
  show ?case by (rule close_halts)
qed (auto simp: rec_halted_def rec_open_def reconcile_begin_def worker_take_def applier_done_def
    begin_reload_if_current_def reload_call_def reload_succeeded_def reload_raised_def reload_cancelled_def
    co_stopping_def Let_def split: prod.split option.split)

interpretation halted: inv_system rec_halted "rec_step has_reload" rec_halted
  by standard (auto intro: halted_step)


section \<open>A quiet environment\<close>

text \<open>The worker's next step when nothing else runs and every reading of the mapping gives
  \<open>f\<close>.\<close>

definition quiet_step :: "bool \<Rightarrow> ImmutableEntrySnapshot \<Rightarrow> rec_state \<Rightarrow> rec_state" where
  "quiet_step has_reload f s =
     (case co_worker (fst s) of
        NoWorker \<Rightarrow> reconcile_begin s
      | LoopHead \<Rightarrow> worker_take s
      | Applying g t \<Rightarrow> applier_done has_reload (Some f) (Some f) g t s)"

text \<open>The latest snapshot is \<open>t\<close>, it can be read and its reload has not failed before.\<close>

definition awaits :: "ImmutableEntrySnapshot \<Rightarrow> rec_state \<Rightarrow> bool" where
  "awaits t s \<longleftrightarrow>
     co_dirty (fst s) \<and> \<not> co_stopping (fst s) \<and> co_observed_snapshot (fst s) = Some t \<and>
     \<not> co_observation_failed (fst s) \<and>
     co_reload_failed_fingerprint (fst s) \<noteq> Some (es_entry_snapshot_fingerprint t)"

definition settled :: "ImmutableEntrySnapshot \<Rightarrow> rec_state \<Rightarrow> bool" where
  "settled t s \<longleftrightarrow>
     published (fst s) \<and> co_applied_snapshot (fst s) = Some t \<and> co_worker (fst s) = NoWorker \<and>
     (rec_open s \<or> co_reload_pending (fst s))"

lemma publish_settles:
  assumes "awaits t s" and "is_current g t (fst s)"
  shows "settled t (publish has_reload g t s)"
  using assms
  by (auto simp: settled_def awaits_def publish_def Let_def queue_reload_def set_barrier_def published_def
      is_current_def co_stopping_def cancel_pending_reload_def rec_open_def barrier_clear_def)

lemma take_awaits:
  assumes "awaits t s" and "co_worker (fst s) = LoopHead"
  shows "awaits t (worker_take s)" "is_current (co_observed_generation (fst s)) t (fst (worker_take s))"
    "co_worker (fst (worker_take s)) = Applying (co_observed_generation (fst s)) t"
  using assms by (auto simp: awaits_def worker_take_def Let_def set_barrier_def is_current_def co_stopping_def)

lemma quiet_publish:
  assumes "awaits t s" and "co_worker (fst s) = Applying g t" and "is_current g t (fst s)"
    and "es_entry_snapshot_fingerprint f = es_entry_snapshot_fingerprint t"
  shows "settled t (quiet_step has_reload f s)"
  using assms publish_settles [OF assms(1,3)]
  by (auto simp: quiet_step_def applier_done_def Let_def awaits_def co_stopping_def is_current_def)

lemma quiet_loop_head:
  assumes "awaits t s" and "co_worker (fst s) = LoopHead"
    and "es_entry_snapshot_fingerprint f = es_entry_snapshot_fingerprint t"
  shows "settled t (quiet_step has_reload f (quiet_step has_reload f s))"
  using quiet_publish [OF take_awaits(1,3,2) [OF assms(1,2)] assms(3)] assms(2)
  by (simp add: quiet_step_def)


lemma quiet_superseded:
  assumes "awaits t s" and "co_worker (fst s) = Applying g u" and "g \<noteq> co_observed_generation (fst s)"
  shows "awaits t (quiet_step has_reload f s)" "co_worker (fst (quiet_step has_reload f s)) = LoopHead"
  using assms
  by (auto simp: quiet_step_def applier_done_def Let_def awaits_def co_stopping_def is_current_def)

lemma quiet_begin:
  assumes "awaits t s" and "co_worker (fst s) = NoWorker"
  shows "awaits t (quiet_step has_reload f s)" "co_worker (fst (quiet_step has_reload f s)) = LoopHead"
  using assms by (auto simp: quiet_step_def reconcile_begin_def Let_def awaits_def co_stopping_def)

lemma quiet_settled: "settled t s \<Longrightarrow> quiet_step has_reload f s = s"
  by (simp add: quiet_step_def settled_def published_def reconcile_begin_def Let_def)

lemma quiet_settles:
  assumes "generations_ok (fst s)" and "awaits t s"
    and "es_entry_snapshot_fingerprint f = es_entry_snapshot_fingerprint t"
  shows "settled t ((quiet_step has_reload f ^^ 3) s)"
proof (cases "co_worker (fst s)")
  case NoWorker
  then show ?thesis
    using quiet_loop_head [OF quiet_begin [OF assms(2)] assms(3)] by (simp add: eval_nat_numeral)
next
  case LoopHead
  then show ?thesis
    using quiet_loop_head [OF assms(2) LoopHead assms(3), of has_reload]
    by (simp add: eval_nat_numeral quiet_settled)
next
  case (Applying g u)
  show ?thesis
  proof (cases "g = co_observed_generation (fst s)")
    case True
    with Applying assms have u: "u = t" "is_current g t (fst s)"
      by (auto simp: generations_ok_def awaits_def is_current_def co_stopping_def)
    with quiet_publish [OF assms(2) _ _ assms(3), of g has_reload] Applying show ?thesis
      by (simp add: eval_nat_numeral quiet_settled)
  next
    case False
    with Applying show ?thesis
      using quiet_loop_head [OF quiet_superseded [OF assms(2)] assms(3)] by (simp add: eval_nat_numeral)
  qed
qed

section \<open>Snapshots\<close>

lemma by_subentry_id_lookup:
  assumes "distinct (map iz_subentry_id (es_zones s))"
  shows "map_of (by_subentry_id s) k = Some z \<longleftrightarrow> z \<in> set (es_zones s) \<and> iz_subentry_id z = k"
    and "distinct (map fst (by_subentry_id s))"
proof -
  have gen: "map_of (fold (\<lambda>z. AList.update (iz_subentry_id z) z) zs al) k = Some z \<longleftrightarrow>
      (z \<in> set zs \<and> iz_subentry_id z = k) \<or> (k \<notin> iz_subentry_id ` set zs \<and> map_of al k = Some z)"
    if "distinct (map iz_subentry_id zs)" for zs al k and z :: ImmutableZoneSnapshot
    using that
    by (induction zs arbitrary: al) (auto simp: AList.update_conv')
  show "map_of (by_subentry_id s) k = Some z \<longleftrightarrow> z \<in> set (es_zones s) \<and> iz_subentry_id z = k"
    using gen [OF assms] by (auto simp: by_subentry_id_def)
  have "distinct (map fst (fold (\<lambda>z. AList.update (iz_subentry_id z) z) zs al))"
    if "distinct (map fst al)" for zs and al :: "(string \<times> ImmutableZoneSnapshot) list"
    using that by (induction zs arbitrary: al) (auto simp: distinct_update)
  then show "distinct (map fst (by_subentry_id s))" by (simp add: by_subentry_id_def)
qed

text \<open>What the digest of an entry covers.\<close>

definition zone_keys :: "ImmutableEntrySnapshot \<Rightarrow> (string \<times> string) set" where
  "zone_keys s = (\<lambda>z. (iz_subentry_id z, iz_config_fingerprint z)) ` set (es_zones s)"

lemma reload_iff_new_key:
  assumes "distinct (map iz_subentry_id (es_zones p))" and "distinct (map iz_subentry_id (es_zones t))"
  shows "stable_batch_requires_reload (Some p) t \<longleftrightarrow> \<not> zone_keys t \<subseteq> zone_keys p"
proof -
  note look = by_subentry_id_lookup [OF assms(1)] by_subentry_id_lookup [OF assms(2)]
  have mem: "(k, z) \<in> set (by_subentry_id t) \<longleftrightarrow> z \<in> set (es_zones t) \<and> iz_subentry_id z = k" for k z
    using look(3) [of k z] look(4) by simp
  have none: "map_of (by_subentry_id p) k = None \<longleftrightarrow> (\<forall>z\<in>set (es_zones p). iz_subentry_id z \<noteq> k)" for k
    using look(1) [of k] by (metis not_None_eq)
  have ex: "list_ex f (by_subentry_id t) \<longleftrightarrow> (\<exists>z\<in>set (es_zones t). f (iz_subentry_id z, z))" for f
    using mem by (auto simp: list_ex_iff)
  have old: "(case map_of (by_subentry_id p) k of None \<Rightarrow> True
      | Some previous \<Rightarrow> iz_config_fingerprint previous \<noteq> w) \<longleftrightarrow>
      (\<forall>y\<in>set (es_zones p). iz_subentry_id y = k \<longrightarrow> iz_config_fingerprint y \<noteq> w)" for k w
  proof (cases "map_of (by_subentry_id p) k")
    case (Some a)
    have "y = a" if "y \<in> set (es_zones p)" "iz_subentry_id y = k" for y
      using look(1) [of k y] that Some by simp
    moreover have "a \<in> set (es_zones p)" "iz_subentry_id a = k" using look(1) [of k a] Some by simp_all
    ultimately have "(\<forall>y\<in>set (es_zones p). iz_subentry_id y = k \<longrightarrow> iz_config_fingerprint y \<noteq> w) \<longleftrightarrow>
        iz_config_fingerprint a \<noteq> w"
      by blast
    with Some show ?thesis by simp
  next
    case None
    with none [of k] show ?thesis by auto
  qed
  have "stable_batch_requires_reload (Some p) t \<longleftrightarrow>
     (\<exists>z\<in>set (es_zones t). \<forall>y\<in>set (es_zones p). iz_subentry_id y = iz_subentry_id z \<longrightarrow>
        iz_config_fingerprint y \<noteq> iz_config_fingerprint z)"
    by (simp add: stable_batch_requires_reload_def ex old)
  then show ?thesis
    unfolding zone_keys_def image_subset_iff image_iff prod.inject by metis
qed


section \<open>Properties\<close>

text \<open>(C6) A zone becomes the owner of the water slot only in a state in which the configuration is
  published: over every interleaving of notifications, worker rounds, reloads, stops and slot operations from the start, at
  the step that makes it the owner the latest observed snapshot is the applied one, the coordinator is neither dirty, nor
  reconciling, nor failed, nor stopping, grants are enabled and no blocker is present.\<close>

theorem grant_needs_published_configuration:
  assumes "reach rec_start (rec_step has_reload) s" and "rec_step has_reload s s'"
    and "sl_owner (fst (snd s')) = Some z" and "sl_owner (fst (snd s)) \<noteq> Some z"
  shows "published (fst s') \<and> admission_open (fst (snd s')) \<and> sl_blockers (fst (snd s')) = {}"
  using rec.acquire_permitted [OF rec.reach_inv [OF assms(1)] assms(2), of z] assms(3,4)
  by (simp add: rec_owner_def rec_permits_def slot_owner_def slot_free_def)

text \<open>Closing publication is final: after the synchronous close of publication, in whatever state it ran and
  whichever worker, reload or notification is still in flight, the reconciliation barrier stays closed in every later state
  of every run.\<close>

theorem closed_publication_stays_closed:
  assumes "run (rec_step has_reload) (close_publication_now s) ts" and "t \<in> set ts"
  shows "\<not> admission_open (fst (snd t)) \<and> co_stopping (fst t)"
  using halted.run_inv [OF close_halts assms]
  by (simp add: rec_halted_def rec_open_def admission_open_def co_stopping_def)

text \<open>(C31) Latest snapshot wins, and it does win: from every reachable state of a coordinator that is dirty,
  not stopping, whose latest observed snapshot could be read and whose reload has not failed for that snapshot, three
  steps of the worker with no new notification publish that very snapshot and end the worker, wherever the worker was;
  the barrier is then open or a reload is pending.\<close>

theorem quiet_worker_publishes_latest:
  assumes "reach rec_start (rec_step has_reload) s" and "co_dirty (fst s)" and "\<not> co_stopping (fst s)"
    and "co_observed_snapshot (fst s) = Some t" and "\<not> co_observation_failed (fst s)"
    and "co_reload_failed_fingerprint (fst s) \<noteq> Some (es_entry_snapshot_fingerprint t)"
    and "es_entry_snapshot_fingerprint f = es_entry_snapshot_fingerprint t"
  shows "settled t ((quiet_step has_reload f ^^ 3) s)"
  using rec.reach_inv [OF assms(1)] assms(2-7)
  by (intro quiet_settles) (auto simp: rec_sys_inv_def rec_inv_def awaits_def)

text \<open>The reload decision is exactly "the target has a zone with a fingerprint the loaded platforms do not
  have": for snapshots without repeated subentries, the nested lookup of the code equals set inclusion of the pairs of
  subentry and fingerprint; in particular a pure deletion needs no reload.\<close>

theorem reload_decision_is_inclusion:
  assumes "distinct (map iz_subentry_id (es_zones p))" and "distinct (map iz_subentry_id (es_zones t))"
  shows "stable_batch_requires_reload (Some p) t \<longleftrightarrow> \<not> zone_keys t \<subseteq> zone_keys p"
  using assms by (rule reload_iff_new_key)


section \<open>Witnesses\<close>

definition sample_snapshot :: "int \<Rightarrow> ImmutableEntrySnapshot" where
  "sample_snapshot g = \<lparr>es_observed_generation = g, es_entry_snapshot_fingerprint = ''f'', es_zones = []\<rparr>"

definition sample_rec :: rec_state where
  "sample_rec = (coordinator_init, slot_init True, None)"

definition sample_dirty :: rec_state where
  "sample_dirty = observe_current (Some (sample_snapshot 1)) sample_rec"

definition sample_published :: rec_state where
  "sample_published =
     applier_done False (Some (sample_snapshot 1)) None 1 (sample_snapshot 1)
       (worker_take (reconcile_begin sample_dirty))"

definition sample_enabled :: rec_state where
  "sample_enabled = (fst sample_published, enable_grants (fst (snd sample_published)), None)"

lemmas sample_rec_defs = sample_enabled_def sample_published_def sample_dirty_def sample_rec_def sample_snapshot_def
  coordinator_init_def slot_init_def observe_current_def set_barrier_def set_reconciliation_state_def try_grant_locked_def
  barrier_clear_def reconcile_begin_def worker_take_def applier_done_def is_current_def publish_def
  stable_batch_requires_reload_def cancel_pending_reload_def enable_grants_def

lemma sample_dirty_reach: "reach rec_start (rec_step False) sample_dirty"
  unfolding sample_dirty_def
proof (rule reach.more [of rec_start "rec_step False" sample_rec])
  show "reach rec_start (rec_step False) sample_rec"
    by (rule reach.start) (auto simp: rec_start_def slot_start_def sample_rec_def)
  show "rec_step False sample_rec (observe_current (Some (sample_snapshot 1)) sample_rec)"
    by (rule rec_step.notify) (simp add: sample_rec_def sample_snapshot_def coordinator_init_def)
qed

lemma sample_published_reach: "reach rec_start (rec_step False) sample_published"
proof -
  have a: "reach rec_start (rec_step False) (reconcile_begin sample_dirty)"
    by (rule reach.more [OF sample_dirty_reach rec_step.reconcile])
  have b: "reach rec_start (rec_step False) (worker_take (reconcile_begin sample_dirty))"
    by (rule reach.more [OF a rec_step.take]) (simp add: sample_rec_defs Let_def)
  show ?thesis
    unfolding sample_published_def
    by (rule reach.more [OF b rec_step.applied]) (simp_all add: sample_rec_defs Let_def)
qed

lemma sample_enabled_reach: "reach rec_start (rec_step False) sample_enabled"
  unfolding sample_enabled_def
proof (rule reach.more [OF sample_published_reach rec_step.slots])
  have "snd sample_published = (fst (snd sample_published), None)" by (simp add: sample_rec_defs Let_def)
  then show "slot_step (snd sample_published) (enable_grants (fst (snd sample_published)), None)"
    using slot_step.enable [of "fst (snd sample_published)"] by metis
qed (simp add: enable_grants_def)

theorem grant_needs_published_configuration_witness:
  "\<exists>s'. rec_step False sample_enabled s' \<and> sl_owner (fst (snd s')) = Some ''z'' \<and> published (fst s')"
proof -
  let ?s = "(fst sample_enabled, snd (slot_request ''z'' (fst (snd sample_enabled))), None)"
  have "slot_step (snd sample_enabled) (snd ?s)"
    using slot_step.request [of "fst (snd sample_enabled)" "''z''"]
    by (simp add: sample_enabled_def)
  then have step: "rec_step False sample_enabled ?s"
    using rec_step.slots [of sample_enabled "snd ?s"]
    by (simp add: sample_rec_defs Let_def slot_request_def new_request_def)
  have own: "sl_owner (fst (snd ?s)) = Some ''z''" "sl_owner (fst (snd sample_enabled)) \<noteq> Some ''z''"
    by (simp_all add: sample_rec_defs Let_def slot_request_def new_request_def)
  show ?thesis
    using grant_needs_published_configuration [OF sample_enabled_reach step own] step own(1) by blast
qed

theorem closed_publication_stays_closed_witness:
  "\<not> admission_open (fst (snd (reconcile_begin (close_publication_now sample_enabled))))"
  using closed_publication_stays_closed [of False sample_enabled
      "[reconcile_begin (close_publication_now sample_enabled)]"
      "reconcile_begin (close_publication_now sample_enabled)"] rec_step.reconcile
  by auto

theorem quiet_worker_publishes_latest_witness:
  "settled (sample_snapshot 1) ((quiet_step False (sample_snapshot 1) ^^ 3) sample_dirty)"
  by (rule quiet_worker_publishes_latest [OF sample_dirty_reach]) (simp_all add: sample_rec_defs Let_def co_stopping_def)

definition sample_zone :: "string \<Rightarrow> string \<Rightarrow> ImmutableZoneSnapshot" where
  "sample_zone i f =
     \<lparr>iz_subentry_id = i, iz_config = sample_config, iz_sensor_identity = sh_sensor_identity sample_shadow,
      iz_actuator_identity = sh_actuator_identity sample_shadow, iz_config_fingerprint = f,
      iz_current_sensor_entity_id = None, iz_current_actuator_entity_id = None,
      iz_identity_conflict_detail = None\<rparr>"

theorem reload_decision_is_inclusion_witness:
  "stable_batch_requires_reload (Some ((sample_snapshot 1)\<lparr>es_zones := [sample_zone ''a'' ''f1'']\<rparr>))
       ((sample_snapshot 2)\<lparr>es_zones := [sample_zone ''a'' ''f1'', sample_zone ''b'' ''f2'']\<rparr>) \<and>
   \<not> stable_batch_requires_reload
       (Some ((sample_snapshot 2)\<lparr>es_zones := [sample_zone ''a'' ''f1'', sample_zone ''b'' ''f2'']\<rparr>))
       ((sample_snapshot 3)\<lparr>es_zones := [sample_zone ''a'' ''f1'']\<rparr>)"
  by (subst (1 2) reload_decision_is_inclusion) (simp_all add: sample_snapshot_def sample_zone_def zone_keys_def)

end
