(* ===== verification/On_Authority_Safety.thy ===== *)
theory On_Authority_Safety
  imports On_Authority Controller_Off Reconciliation_Safety
begin

text \<open>
  What the gate establishes, and that the command envelope calls the ON service under full
  authority only, lets a pulse go on under full authority only, and answers every uncertain
  outcome with the shared OFF operation.
\<close>

section \<open>What the gate establishes\<close>

lemma gate_Nil [simp]: "gate ok p a q = [] \<longleftrightarrow> ok"
  by (simp add: gate_def)

lemma gate_result_authorized:
  assumes "gate_result token sid aid c fs = Inr r"
  shows "authorized r \<longleftrightarrow> fs = []" and "authorized r \<Longrightarrow> \<not> fr_requires_quiescing r"
    and "authorized r \<Longrightarrow> \<exists>a t. ctl_applied_config c = Some a \<and> fr_token r = Some t \<and>
      (token = None \<longrightarrow> ft_subentry_id t = ctl_zone_id c \<and> ft_safety_record_id t = ctl_safety_record_id c \<and>
         ft_zone_history_id t = ctl_zone_history_id c \<and> ft_session_id t = sid \<and> ft_command_attempt_id t = aid \<and>
         ft_applied_generation t = sh_applied_generation a \<and>
         ft_zone_config_fingerprint t = sh_config_fingerprint a \<and>
         ft_entry_snapshot_fingerprint t = sh_entry_snapshot_fingerprint a)"
  using assms by (auto simp: gate_result_def authorized_def split: if_splits option.splits)

lemma evaluate_result:
  "evaluate_on_authority live now ref sid aid token pre en w = Inr (r, c1) \<Longrightarrow> \<exists>fs. gate_result token sid aid c1 fs = Inr r"
  unfolding evaluate_on_authority_def Let_def by (fastforce simp: res_bind_eq_Inr)

text \<open>The predicates of the gate, in words of the state.\<close>

definition configuration_current :: "EntryRuntime \<Rightarrow> ZoneController \<Rightarrow> bool" where
  "configuration_current en c \<longleftrightarrow>
     (\<exists>f z p q a. en_build en (co_observed_generation (en_coordinator en)) = Some f \<and>
        map_of (by_subentry_id f) (ctl_zone_id c) = Some z \<and>
        co_applied_snapshot (en_coordinator en) = Some p \<and> co_observed_snapshot (en_coordinator en) = Some q \<and>
        ctl_applied_config c = Some a \<and> iz_config_fingerprint z = sh_config_fingerprint a \<and>
        es_entry_snapshot_fingerprint f = es_entry_snapshot_fingerprint p \<and>
        es_entry_snapshot_fingerprint q = es_entry_snapshot_fingerprint p \<and>
        sh_entry_snapshot_fingerprint a = es_entry_snapshot_fingerprint p \<and>
        sh_applied_generation a = co_applied_generation (en_coordinator en) \<and>
        co_observed_generation (en_coordinator en) = co_applied_generation (en_coordinator en))"

definition durable_intent :: "string \<Rightarrow> World \<Rightarrow> bool" where
  "durable_intent session_id w \<longleftrightarrow>
     (\<exists>data r h p. ss_data (w_store w) = Some data \<and>
        map_of (st_safety_records data) (ctl_safety_record_id (w_ctl w)) = Some r \<and>
        map_of (st_zone_histories data) (ctl_zone_history_id (w_ctl w)) = Some h \<and>
        sr_zone_history_id r = zh_zone_history_id h \<and> sr_runtime_lifecycle r = ACTIVE \<and>
        sr_active_subentry_id r = Some (ctl_zone_id (w_ctl w)) \<and>
        zh_active_subentry_id h = Some (ctl_zone_id (w_ctl w)) \<and>
        sr_applied_config r = ctl_applied_config (w_ctl w) \<and>
        ai_last_known_entity_id (sr_actuator_identity r) = Some (cfg_actuator (ctl_config (w_ctl w))) \<and>
        zr_session (zh_zone_runtime h) = Some p \<and> ps_owner_safety_record_id p = ctl_safety_record_id (w_ctl w) \<and>
        ses_session_id (ps_context p) = session_id \<and> ses_pulse_intent_at_utc (ps_context p) \<noteq> None)"

lemma snapshot_gates_current:
  "snapshot_gates (en_build en (co_observed_generation (en_coordinator en))) en c = [] \<Longrightarrow>
   configuration_current en c"
  by (auto simp: snapshot_gates_def configuration_current_def Let_def split: option.splits)

lemma canonical_intent:
  assumes "store_data (w_store w) = Inr data"
    and "canonical_ok binding (map_of (st_safety_records data) (ctl_safety_record_id (w_ctl w)))
       (map_of (st_zone_histories data) (ctl_zone_history_id (w_ctl w))) (w_ctl w)"
    and "intent_matches sid (map_of (st_zone_histories data) (ctl_zone_history_id (w_ctl w))) (w_ctl w)"
  shows "durable_intent sid w"
  using assms
  by (auto simp: durable_intent_def canonical_ok_def intent_matches_def store_data_def split: option.splits)

text \<open>Everything an authorized evaluation has checked of the live state.\<close>

definition on_authority :: "nat \<Rightarrow> string \<Rightarrow> EntryRuntime \<Rightarrow> World \<Rightarrow> bool" where
  "on_authority ref session_id en w \<longleftrightarrow>
     configuration_current en (w_ctl w) \<and> admission_clear en (w_slots w) \<and>
     command_authorization_open (w_ctl w) \<and> durable_intent session_id w \<and>
     sl_owner (w_slots w) = Some (ctl_zone_id (w_ctl w)) \<and> sl_blockers (w_slots w) = {} \<and>
     (\<exists>b. map_of (en_bindings en) (ctl_zone_id (w_ctl w)) = Some b \<and> bd_controller b = ref \<and>
        bd_lifecycle b = ACTIVE \<and> \<not> bd_quiescing b)"

definition guards_pass :: "string \<Rightarrow> bool \<Rightarrow> utc \<Rightarrow> EntryRuntime \<Rightarrow> World \<Rightarrow> bool" where
  "guards_pass session_id pre_dispatch now en w \<longleftrightarrow>
     (\<exists>data. ss_data (w_store w) = Some data \<and>
        final_on_guard_failures session_id
          (current_local_day_runtime_s (en_local_tz en) now
             (map_of (st_zone_histories data) (ctl_zone_history_id (w_ctl w)))) pre_dispatch now (w_ctl w) = [])"

lemma evaluate_authorized:
  assumes "evaluate_on_authority live now ref sid aid token pre en w = Inr (r, c1)" and "authorized r"
  shows "on_authority ref sid en w" and "guards_pass sid pre now en w"
    and "token_matches token sid aid en c1"
    and "if pre then \<exists>a. assess (cfg_actuator (ctl_config (w_ctl w))) live = Inr a \<and> act_available a \<and> act_proven_off a \<and>
           \<not> act_observed_on a \<and> c1 = (w_ctl w)\<lparr>ctl_assessment := a\<rparr> else c1 = w_ctl w"
proof -
  from assms obtain data act where d: "store_data (w_store w) = Inr data"
    and act: "(if pre then res_bind (assess (cfg_actuator (ctl_config (w_ctl w))) live)
               (\<lambda>a. Inr ((w_ctl w)\<lparr>ctl_assessment := a\<rparr>,
                      gate (act_available a \<and> act_proven_off a \<and> \<not> act_observed_on a)
                        ''actuator_available_and_proven_off'' False False))
             else Inr (w_ctl w, [])) = Inr (c1, act)" "act = []"
    and gs: "snapshot_gates (en_build en (co_observed_generation (en_coordinator en))) en (w_ctl w) = []"
      "admission_clear en (w_slots w)" "command_authorization_open (w_ctl w)"
      "canonical_ok (map_of (en_bindings en) (ctl_zone_id (w_ctl w)))
         (map_of (st_safety_records data) (ctl_safety_record_id (w_ctl w)))
         (map_of (st_zone_histories data) (ctl_zone_history_id (w_ctl w))) (w_ctl w)"
      "intent_matches sid (map_of (st_zone_histories data) (ctl_zone_history_id (w_ctl w))) (w_ctl w)"
      "sl_owner (w_slots w) = Some (ctl_zone_id (w_ctl w))" "sl_blockers (w_slots w) = {}"
      "final_on_guard_failures sid
          (current_local_day_runtime_s (en_local_tz en) now
             (map_of (st_zone_histories data) (ctl_zone_history_id (w_ctl w)))) pre now (w_ctl w) = []"
      "token_matches token sid aid en c1"
    and b: "case map_of (en_bindings en) (ctl_zone_id (w_ctl w)) of None \<Rightarrow> False
      | Some b \<Rightarrow> bd_controller b = ref \<and> bd_lifecycle b = ACTIVE \<and> \<not> bd_quiescing b \<and>
                  ctl_runtime_lifecycle (w_ctl w) = ACTIVE"
    by (auto simp: evaluate_on_authority_def Let_def res_bind_eq_Inr gate_result_authorized(1))
  from b have b': "\<exists>b. map_of (en_bindings en) (ctl_zone_id (w_ctl w)) = Some b \<and> bd_controller b = ref \<and>
      bd_lifecycle b = ACTIVE \<and> \<not> bd_quiescing b"
    by (auto split: option.splits)
  show "on_authority ref sid en w"
    using b' gs snapshot_gates_current [OF gs(1)] canonical_intent [OF d gs(4,5)]
    by (simp add: on_authority_def)
  show "guards_pass sid pre now en w"
    using d gs(8) by (auto simp: guards_pass_def store_data_def split: option.splits)
  show "token_matches token sid aid en c1" by (rule gs(9))
  show "if pre then \<exists>a. assess (cfg_actuator (ctl_config (w_ctl w))) live = Inr a \<and> act_available a \<and> act_proven_off a \<and>
           \<not> act_observed_on a \<and> c1 = (w_ctl w)\<lparr>ctl_assessment := a\<rparr> else c1 = w_ctl w"
    using act by (auto simp: res_bind_eq_Inr split: if_splits)
qed


text \<open>What the guards of the controller say when they all pass.\<close>

lemma guards_pass_session:
  assumes "guards_pass sid pre now en w"
  obtains s where "ctl_session (w_ctl w) = Some s" and "ses_session_id s = sid" and "ctl_state (w_ctl w) = WATERING"
    and "ses_pending_termination_reason s = None" and "\<not> ctl_off_requested (w_ctl w)"
    and "\<not> off_operation_active (w_ctl w)" and "pre \<Longrightarrow> ctl_inflight_on (w_ctl w) = None"
    and "ses_mode s = AUTO \<Longrightarrow> obs_classification (ctl_observation (w_ctl w)) = VALID \<and>
       is_fresh (ctl_observation (w_ctl w)) now (cfg_sensor_max_age_s (ctl_config (w_ctl w)))"
proof -
  from assms obtain data d where g: "ss_data (w_store w) = Some data"
    "final_on_guard_failures sid d pre now (w_ctl w) = []" by (auto simp: guards_pass_def)
  then obtain s where s: "ctl_session (w_ctl w) = Some s" "ses_session_id s = sid"
    by (auto simp: final_on_guard_failures_def split: option.splits if_splits)
  show thesis
    by (rule that [OF s]) (use g(2) s in \<open>auto simp: final_on_guard_failures_def auto_on_guard_failures_def Let_def\<close>)
qed

text \<open>A successful gate is never refused to the user either.\<close>

lemma authority_not_refused:
  assumes "on_authority ref sid en w" and "ctl_zone_id (w_ctl w) \<in> set (en_subentries en)"
  shows "control_entity_available ref en w"
proof -
  from assms obtain data r h b where d: "ss_data (w_store w) = Some data"
    "map_of (st_safety_records data) (ctl_safety_record_id (w_ctl w)) = Some r"
    "map_of (st_zone_histories data) (ctl_zone_history_id (w_ctl w)) = Some h"
    "sr_zone_history_id r = zh_zone_history_id h" "sr_runtime_lifecycle r = ACTIVE"
    "sr_active_subentry_id r = Some (ctl_zone_id (w_ctl w))" "zh_active_subentry_id h = Some (ctl_zone_id (w_ctl w))"
    "map_of (en_bindings en) (ctl_zone_id (w_ctl w)) = Some b" "bd_controller b = ref"
    "bd_lifecycle b = ACTIVE" "\<not> bd_quiescing b"
    by (auto simp: on_authority_def durable_intent_def)
  then show ?thesis
    using assms
    by (auto simp: control_entity_available_def action_refusal_key_def canonical_zone_authority_def Let_def on_authority_def
        admission_clear_def command_authorization_open_def configuration_current_def admission_open_def barrier_clear_def)
qed

section \<open>Dispatch\<close>

lemma no_token_not_authorized [simp]: "fr_token r = None \<Longrightarrow> \<not> authorized r"
  by (simp add: authorized_def)

lemma result_token:
  "\<lparr>fr_token = t, fr_failed_predicates = ps, fr_configuration_authority_valid = v, fr_requires_quiescing = q\<rparr> = r \<Longrightarrow>
   fr_token r = t"
  by auto

lemma authorize_on_authorized:
  assumes "authorize_on live now ref sid aid en w = Inr (r, en1, w1)" and "authorized r"
  shows "evaluate_on_authority live now ref sid aid None True en w = Inr (r, w_ctl w1)"
    and "w1 = w\<lparr>w_ctl := w_ctl w1\<rparr>" and "aid \<notin> fst ` set (en_on_authorizations en)"
    and "\<exists>t. fr_token r = Some t \<and> en1 = en\<lparr>en_on_authorizations := AList.update aid t (en_on_authorizations en)\<rparr>"
  using assms
  by (auto simp: authorize_on_def res_bind_eq_Inr Let_def dest: result_token split: if_splits option.splits)

text \<open>A dispatched command went through the gate of a fresh attempt.\<close>

lemma dispatched_authorized:
  assumes "perform_on_begin env uuid live now ref aid ctx en w = OnDispatched token marker en' w'"
  obtains s r w1 where "ctl_session (w_ctl w) = Some s"
    and "authorize_on live now ref (ses_session_id s) aid en w = Inr (r, en', w1)" and "authorized r"
    and "fr_token r = Some token" and "w' = on_ctl (\<lambda>c. c\<lparr>ctl_inflight_on := Some marker\<rparr>) w1"
    and "ifl_authorization marker = token" and "ifl_command_attempt_id marker = aid"
  using assms
  by (auto simp: perform_on_begin_def Let_def split: option.splits if_splits sum.splits prod.splits bool.splits)

section \<open>After the dispatch\<close>

definition off_covered :: "ZoneController \<Rightarrow> bool" where
  "off_covered c \<longleftrightarrow>
     off_operation_active c \<or> ctl_off_operation c = Some (Some False) \<or>
     ctl_off_operation c = Some (Some True) \<and> act_proven_off (ctl_assessment c)"

definition off_begun :: "World \<Rightarrow> bool" where
  "off_begun w \<longleftrightarrow> off_covered (w_ctl w) \<and> \<not> ctl_off_requested (w_ctl w)"

lemma begin_off_covered: "off_covered (begin_off_operation c)"
  by (auto simp: off_covered_def begin_off_operation_def off_operation_active_def split: option.splits bool.splits)

lemma begin_off_sel [simp]:
  "ctl_off_requested (begin_off_operation c) = ctl_off_requested c"
  "ctl_session (begin_off_operation c) = ctl_session c"
  by (simp_all add: begin_off_operation_def split: option.splits bool.splits)

lemma compensate_off: "compensate a b uuid now w = OnOff w' \<Longrightarrow> off_begun w'"
  by (auto simp: compensate_def off_begun_def on_ctl_def begin_off_covered split: prod.splits option.splits)

lemma compensate_not_continue [simp]: "compensate a b uuid now w \<noteq> OnContinue w'"
  by (simp add: compensate_def split: prod.splits option.splits)

lemma recheck_off:
  "recheck_or_compensate failed uuid ref token rs w = OnOff w' \<Longrightarrow> off_begun w'"
  using compensate_off by (auto simp: recheck_or_compensate_def split: sum.splits if_splits)

lemma recheck_continue:
  assumes "recheck_or_compensate failed uuid ref token rs w = OnContinue w'"
  shows "\<not> failed" and "w' = w" and "on_authority ref (ft_session_id token) (rs_entry rs) w"
    and "guards_pass (ft_session_id token) False (rs_now rs) (rs_entry rs) w"
proof -
  from assms obtain r where r: "recheck_on_authorization (rs_now rs) ref token (rs_entry rs) w = Inr r" "authorized r"
      "\<not> failed" "w' = quiesce_if r w"
    by (auto simp: recheck_or_compensate_def split: sum.splits if_splits)
  then obtain c1 where e: "evaluate_on_authority None (rs_now rs) ref (ft_session_id token) (ft_command_attempt_id token)
      (Some token) False (rs_entry rs) w = Inr (r, c1)"
    by (auto simp: recheck_on_authorization_def res_bind_eq_Inr)
  then have "\<not> fr_requires_quiescing r" using evaluate_result gate_result_authorized(2) r(2) by blast
  with r show "\<not> failed" "w' = w" by (simp_all add: quiesce_if_def)
  show "on_authority ref (ft_session_id token) (rs_entry rs) w"
    "guards_pass (ft_session_id token) False (rs_now rs) (rs_entry rs) w"
    by (rule evaluate_authorized [OF e r(2)])+
qed


text \<open>The authority of a token's session at the moment of a resumption.\<close>

definition authority_held :: "nat \<Rightarrow> FinalOnAuthorizationToken \<Rightarrow> resume_env \<Rightarrow> World \<Rightarrow> bool" where
  "authority_held ref token rs w \<longleftrightarrow>
     on_authority ref (ft_session_id token) (rs_entry rs) w \<and>
     guards_pass (ft_session_id token) False (rs_now rs) (rs_entry rs) w"

lemma recheck_held:
  "recheck_or_compensate failed uuid ref token rs w = OnContinue w' \<Longrightarrow> authority_held ref token rs w'"
  using recheck_continue [of failed uuid ref token rs w w'] by (simp add: authority_held_def)

lemma quiesce_if_frame [simp]:
  "ctl_session (w_ctl (quiesce_if r w)) = ctl_session (w_ctl w)" "ctl_state (w_ctl (quiesce_if r w)) = ctl_state (w_ctl w)"
  "ctl_daily (w_ctl (quiesce_if r w)) = ctl_daily (w_ctl w)" "w_store (quiesce_if r w) = w_store w"
  "ctl_observation (w_ctl (quiesce_if r w)) = ctl_observation (w_ctl w)"
  by (simp_all add: quiesce_if_def on_ctl_def begin_quiescing_def cancel_all_timers_def cancel_watchdog_def)

lemma record_possible_frame [simp]:
  "ctl_state (record_possible_command_in_memory m c) = ctl_state c"
  "ctl_daily (record_possible_command_in_memory m c) = ctl_daily c"
  "ctl_observation (record_possible_command_in_memory m c) = ctl_observation c"
  by (simp_all add: record_possible_command_in_memory_def split: option.split)

lemma record_possible_session:
  assumes "ctl_session c = Some s"
  obtains s1 where "ctl_session (record_possible_command_in_memory m c) = Some s1" and "ses_session_id s1 = ses_session_id s"
    and "ses_pending_termination_reason s1 = ses_pending_termination_reason s"
    and "ses_pulse_confirmed_at_utc s1 = ses_pulse_confirmed_at_utc s"
proof (cases "ses_session_id s = ifl_session_id m \<and> ses_pulse_commanded_at_utc s = None")
  case True
  with assms show ?thesis
    by (intro that [of "s\<lparr>ses_pulse_commanded_at_utc := Some (ifl_dispatched_at_utc m)\<rparr>"])
      (simp_all add: record_possible_command_in_memory_def)
next
  case False
  with assms show ?thesis by (intro that [of s]) (auto simp: record_possible_command_in_memory_def)
qed

lemma continue_with_cases:
  assumes "continue_with p f = q"
  obtains (go) w where "p = OnContinue w" and "f w = q"
    | (off) w where "p = OnOff w" and "q = OnOff w"
    | (raise) e w where "p = OnRaised e w" and "q = OnRaised e w"
  using assms by (cases p) (auto simp: continue_with_def)

lemma persist_or_compensate_cases:
  assumes "persist_or_compensate uuid penv rs w k = q"
  obtains (go) w2 where "k w2 = q"
    | (compensated) w2 where "compensate False True uuid (rs_now rs) w2 = q"
    | (raise) e w2 where "q = OnRaised e w2"
proof -
  obtain w2 err where p: "persist_locked penv w = (w2, err)" by fastforce
  show thesis
  proof (cases err)
    case None
    with p assms go show thesis by (simp add: persist_or_compensate_def)
  next
    case (Some e)
    with p assms compensated raise show thesis by (cases e) (auto simp: persist_or_compensate_def)
  qed
qed

lemma locked_off:
  assumes "perform_on_locked uuid ref token marker rs1 penv rs2 env rs3 w = OnOff w'"
  shows "off_begun w'"
  using assms
  by (auto simp: perform_on_locked_def elim!: continue_with_cases persist_or_compensate_cases
      dest!: recheck_off compensate_off split: prod.splits option.splits)

lemma locked_continue:
  assumes "perform_on_locked uuid ref token marker rs1 penv rs2 env rs3 w = OnContinue w'"
  shows "authority_held ref token rs2 w' \<or> authority_held ref token rs3 w'"
  using assms
  by (auto simp: perform_on_locked_def elim!: continue_with_cases persist_or_compensate_cases
      dest!: recheck_held split: prod.splits option.splits)

lemma returned_continue:
  "perform_on_returned outcome uuid ref token marker rs w = OnContinue w' \<Longrightarrow> outcome = RETURNED"
  by (auto simp: perform_on_returned_def Let_def dest!: recheck_continue(1))

text \<open>Reading the authority again raises only without a loaded store.\<close>

lemma recheck_total:
  assumes "ss_data (w_store w) = Some data"
  shows "\<exists>r. recheck_on_authorization now ref token en w = Inr r"
proof -
  have "\<exists>r. gate_result t sid aid c (snapshot_gates f en c @ fs) = Inr r" for t sid aid c f fs
    by (cases "ctl_applied_config c")
      (auto simp: gate_result_def snapshot_gates_def Let_def gate_def)
  then have "\<exists>r. res_bind (res_bind (gate_result t sid aid c (snapshot_gates f en c @ fs)) (\<lambda>r. Inr (r, c)))
      (\<lambda>(r, _). Inr r) = Inr r" for t sid aid c f fs
    by (metis (no_types, lifting) case_prod_conv res_bind.simps(2))
  then show ?thesis
    using assms
    by (auto simp: recheck_on_authorization_def evaluate_on_authority_def store_data_def Let_def)
qed

section \<open>Properties\<close>

text \<open>(C1) The ON service is called only with full authority.  Whenever the command envelope reaches the call, at that
  very instant: the configuration built afresh is the one observed, published and applied to this controller; admission is
  open and the coordinator is quiet; the zone owns the slot and there is no blocker; the controller is open for commands and
  bound to this zone; the store holds this session with its pulse intent; the actuator was read available and OFF; the
  session has no termination reason, no OFF is requested or running and no other ON is in flight, and an automatic pulse has
  a fresh valid reading.  The attempt is registered under a token that did not exist before.\<close>

theorem dispatch_needs_full_authority:
  assumes "perform_on_begin env uuid live now ref aid ctx en w = OnDispatched token marker en' w'"
  shows "\<exists>s a. ctl_session (w_ctl w) = Some s \<and> ctl_state (w_ctl w) = WATERING \<and>
     ses_pending_termination_reason s = None \<and> \<not> ctl_off_requested (w_ctl w) \<and> \<not> off_operation_active (w_ctl w) \<and>
     ctl_inflight_on (w_ctl w) = None \<and>
     (if ses_mode s = AUTO then obs_classification (ctl_observation (w_ctl w)) = VALID \<and>
        is_fresh (ctl_observation (w_ctl w)) now (cfg_sensor_max_age_s (ctl_config (w_ctl w))) else True) \<and>
     on_authority ref (ses_session_id s) en w \<and>
     assess (cfg_actuator (ctl_config (w_ctl w))) live = Inr a \<and> act_available a \<and> act_proven_off a \<and>
     w_store w' = w_store w \<and> aid \<notin> fst ` set (en_on_authorizations en) \<and>
     map_of (en_on_authorizations en') aid = Some token \<and> ctl_inflight_on (w_ctl w') = Some marker \<and>
     ifl_authorization marker = token"
proof -
  obtain s r w1 where d: "ctl_session (w_ctl w) = Some s"
    "authorize_on live now ref (ses_session_id s) aid en w = Inr (r, en', w1)" "authorized r" "fr_token r = Some token"
    "w' = on_ctl (\<lambda>c. c\<lparr>ctl_inflight_on := Some marker\<rparr>) w1" "ifl_authorization marker = token"
    using dispatched_authorized [OF assms] by metis
  note a = authorize_on_authorized [OF d(2,3)]
  note e = evaluate_authorized [OF a(1) d(3)]
  obtain act where act: "assess (cfg_actuator (ctl_config (w_ctl w))) live = Inr act" "act_available act" "act_proven_off act"
    using e(4) by auto
  have en': "map_of (en_on_authorizations en') aid = Some token"
    using a(4) d(4) by (auto simp: update_conv')
  have w': "w_store w' = w_store w" "ctl_inflight_on (w_ctl w') = Some marker"
    by (subst d(5), subst a(2), simp add: on_ctl_def) (simp add: d(5) on_ctl_def)
  from e(2) show ?thesis
    by (rule guards_pass_session) (use d act a(3) e(1) en' w' in auto)
qed



text \<open>(C7) An ON call that raised or was cancelled is always answered by OFF: in WATERING with the pulse not yet
  confirmed and no termination pending, the code after the call does not raise, commits a termination reason to the same
  session with an estimated runtime, and begins the shared OFF operation before it awaits anything else.\<close>

theorem failed_on_call_begins_off:
  assumes "outcome \<noteq> RETURNED" and "rs_meanwhile rs w = w1" and "ss_data (w_store w1) = Some data"
    and "ctl_state (w_ctl w1) = WATERING" and "ctl_session (w_ctl w1) = Some s"
    and "ses_pending_termination_reason s = None" and "ses_pulse_confirmed_at_utc s = None"
    and "0 \<le> day_runtime_s (ctl_daily (w_ctl w1))" and "obs_classification (ctl_observation (w_ctl w1)) \<noteq> STALE"
  shows "\<exists>w' s' r. perform_on_returned outcome uuid ref token marker rs w = OnOff w' \<and> off_begun w' \<and>
     ctl_session (w_ctl w') = Some s' \<and> ses_session_id s' = ses_session_id s \<and>
     ses_pending_termination_reason s' = Some r \<and> ses_runtime_estimated s' \<and> w_store w' = w_store w1"
proof -
  let ?w = "on_ctl (\<lambda>c. record_possible_command_in_memory marker
                 (c\<lparr>ctl_inflight_on := map_option (completed_marker outcome (rs_now rs)) (ctl_inflight_on c)\<rparr>)) w1"
  have "ss_data (w_store ?w) = Some data" using assms(3) by (simp add: on_ctl_def)
  from recheck_total [OF this, of "rs_now rs" ref token "rs_entry rs"]
  obtain r where r: "recheck_on_authorization (rs_now rs) ref token (rs_entry rs) ?w = Inr r" by blast
  let ?v = "quiesce_if r ?w"
  obtain s1 where s1: "ctl_session (w_ctl ?v) = Some s1" "ses_session_id s1 = ses_session_id s"
    "ses_pending_termination_reason s1 = None" "ses_pulse_confirmed_at_utc s1 = None"
    using record_possible_session [of "(w_ctl w1)\<lparr>ctl_inflight_on :=
        map_option (completed_marker outcome (rs_now rs)) (ctl_inflight_on (w_ctl w1))\<rparr>" s marker] assms(5-7)
    by (auto simp: on_ctl_def)
  have v: "ctl_state (w_ctl ?v) = WATERING" "0 \<le> day_runtime_s (ctl_daily (w_ctl ?v))"
    "obs_classification (ctl_observation (w_ctl ?v)) \<noteq> STALE" "w_store ?v = w_store w1"
    using assms(4,8,9) by (simp_all add: on_ctl_def)
  have "perform_on_returned outcome uuid ref token marker rs w =
      compensate (\<not> fr_configuration_authority_valid r) True uuid (rs_now rs) ?v"
    using assms(1,2) r by (simp add: perform_on_returned_def recheck_or_compensate_def Let_def)
  with compensation_ok [OF v(1) s1(1,3,4) v(2,3), of "\<not> fr_configuration_authority_valid r" True uuid "rs_now rs"]
  show ?thesis
    using s1(2) v(4)
    by (auto simp: compensate_def off_begun_def on_ctl_def begin_off_covered)
qed


section \<open>Witnesses\<close>

definition command_snapshot :: ImmutableEntrySnapshot where
  "command_snapshot =
     \<lparr>es_observed_generation = 0, es_entry_snapshot_fingerprint = ''e'', es_zones = [sample_zone ''z'' ''fp1'']\<rparr>"

definition command_entry :: EntryRuntime where
  "command_entry =
     \<lparr>en_coordinator = coordinator_init\<lparr>co_observed_snapshot := Some command_snapshot,
                                         co_applied_snapshot := Some command_snapshot\<rparr>,
      en_bindings = [(''z'', \<lparr>bd_subentry_id = ''z'', bd_safety_record_id = ''r'', bd_zone_history_id = ''h'',
        bd_lifecycle = ACTIVE, bd_applied_shadow = sample_shadow, bd_controller = 0, bd_quiescing = False\<rparr>)],
      en_controllers = [(''z'', 0)], en_subentries = [''z''], en_process_stopping = False,
      en_on_authorizations = [], en_local_tz = sample_tz, en_build = (\<lambda>_. Some command_snapshot)\<rparr>"

definition command_session :: SessionContext where
  "command_session = (sample_session AUTO)\<lparr>ses_pulse_commanded_at_utc := None\<rparr>"

definition command_world :: World where
  "command_world =
     (sample_world (sample_controller WATERING (Some command_session)))
       \<lparr>w_store := \<lparr>ss_generation_id = ''g'', ss_data = Some (active_data
          \<lparr>st_zone_histories := [(''h'', sample_history\<lparr>zh_active_subentry_id := Some ''z'',
             zh_zone_runtime := (zh_zone_runtime sample_history)\<lparr>zr_state := WATERING,
               zr_session := Some \<lparr>ps_owner_safety_record_id = ''r'', ps_context = command_session\<rparr>\<rparr>\<rparr>)]\<rparr>)\<rparr>\<rparr>"

definition off_state :: "HaState option" where
  "off_state = Some \<lparr>st_state = StateText ''off'', st_current_position = None\<rparr>"

lemmas command_defs = command_world_def command_session_def command_entry_def command_snapshot_def off_state_def
  sample_world_def sample_controller_def sample_session_def sample_obs_def mk_observation_def sample_config_def
  sample_shadow_def sample_zone_def sample_tz_def active_data_def active_record_def sample_store_defs slot_init_def coordinator_init_def
  session_defaults_def

lemmas gate_defs = snapshot_gates_def admission_clear_def canonical_ok_def intent_matches_def token_matches_def
  gate_result_def gate_def by_subentry_id_def co_stopping_def admission_open_def barrier_clear_def
  command_authorization_open_def final_on_guard_failures_def auto_on_guard_failures_def current_local_day_runtime_s_def
  off_operation_active_def check_def is_fresh_def stale_watchdog_event_def

lemma command_gates:
  "snapshot_gates (en_build command_entry (co_observed_generation (en_coordinator command_entry))) command_entry
     (w_ctl command_world) = []"
  "admission_clear command_entry (w_slots command_world)"
  "map_of (en_bindings command_entry) (ctl_zone_id (w_ctl command_world)) =
     Some \<lparr>bd_subentry_id = ''z'', bd_safety_record_id = ''r'', bd_zone_history_id = ''h'',
        bd_lifecycle = ACTIVE, bd_applied_shadow = sample_shadow, bd_controller = 0, bd_quiescing = False\<rparr>"
  "ctl_runtime_lifecycle (w_ctl command_world) = ACTIVE"
  "command_authorization_open (w_ctl command_world)"
  "sl_owner (w_slots command_world) = Some (ctl_zone_id (w_ctl command_world))" "sl_blockers (w_slots command_world) = {}"
  "ctl_applied_config (w_ctl command_world) = Some sample_shadow"
  "ctl_session (w_ctl command_world) = Some command_session" "ctl_state (w_ctl command_world) = WATERING"
  "ses_pending_termination_reason command_session = None" "stale_watchdog_event 0 command_session (w_ctl command_world) = None"
  "en_on_authorizations command_entry = []"
  by (simp_all add: command_defs gate_defs)

lemma command_store:
  obtains data where "store_data (w_store command_world) = Inr data"
    and "canonical_ok (Some \<lparr>bd_subentry_id = ''z'', bd_safety_record_id = ''r'', bd_zone_history_id = ''h'',
        bd_lifecycle = ACTIVE, bd_applied_shadow = sample_shadow, bd_controller = 0, bd_quiescing = False\<rparr>)
       (map_of (st_safety_records data) (ctl_safety_record_id (w_ctl command_world)))
       (map_of (st_zone_histories data) (ctl_zone_history_id (w_ctl command_world))) (w_ctl command_world)"
    and "intent_matches (ses_session_id command_session)
       (map_of (st_zone_histories data) (ctl_zone_history_id (w_ctl command_world))) (w_ctl command_world)"
    and "final_on_guard_failures (ses_session_id command_session)
       (current_local_day_runtime_s (en_local_tz command_entry) 0
          (map_of (st_zone_histories data) (ctl_zone_history_id (w_ctl command_world)))) True 0 (w_ctl command_world) = []"
  by (rule that [of "the (ss_data (w_store command_world))"])
    (simp_all add: command_defs gate_defs store_data_def timedelta_s_def)

lemma command_dispatched:
  "\<exists>token marker en' w'. perform_on_begin env ''s2'' off_state 0 0 ''a1'' ''c1'' command_entry command_world =
     OnDispatched token marker en' w'"
proof -
  obtain data where d: "store_data (w_store command_world) = Inr data"
    and c: "canonical_ok (Some \<lparr>bd_subentry_id = ''z'', bd_safety_record_id = ''r'', bd_zone_history_id = ''h'',
        bd_lifecycle = ACTIVE, bd_applied_shadow = sample_shadow, bd_controller = 0, bd_quiescing = False\<rparr>)
       (map_of (st_safety_records data) (ctl_safety_record_id (w_ctl command_world)))
       (map_of (st_zone_histories data) (ctl_zone_history_id (w_ctl command_world))) (w_ctl command_world)"
      "intent_matches (ses_session_id command_session)
       (map_of (st_zone_histories data) (ctl_zone_history_id (w_ctl command_world))) (w_ctl command_world)"
      "final_on_guard_failures (ses_session_id command_session)
       (current_local_day_runtime_s (en_local_tz command_entry) 0
          (map_of (st_zone_histories data) (ctl_zone_history_id (w_ctl command_world)))) True 0 (w_ctl command_world) = []"
    by (rule command_store)
  have a: "assess (cfg_actuator (ctl_config (w_ctl command_world))) off_state =
      Inr \<lparr>act_available = True, act_proven_off = True, act_observed_on = False\<rparr>"
    by (simp add: command_defs assess_def adapter_domain_def entity_domain_def mk_assessment_def)
  show ?thesis
    by (simp add: perform_on_begin_def authorize_on_def evaluate_on_authority_def d a c command_gates Let_def
        authorized_def gate_def gate_result_def token_matches_def)
qed

theorem dispatch_needs_full_authority_witness:
  "\<exists>token marker en' w'. perform_on_begin broken_env ''s2'' off_state 0 0 ''a1'' ''c1'' command_entry command_world =
     OnDispatched token marker en' w' \<and> on_authority 0 (ses_session_id command_session) command_entry command_world \<and>
     map_of (en_on_authorizations en') ''a1'' = Some token"
proof -
  obtain token marker en' w' where
    d: "perform_on_begin broken_env ''s2'' off_state 0 0 ''a1'' ''c1'' command_entry command_world = OnDispatched token marker en' w'"
    using command_dispatched by blast
  from dispatch_needs_full_authority [OF d] d command_gates(9) show ?thesis by auto
qed

definition sample_token :: FinalOnAuthorizationToken where
  "sample_token =
     \<lparr>ft_subentry_id = ''z'', ft_safety_record_id = ''r'', ft_zone_history_id = ''h'', ft_session_id = ''s1'',
      ft_command_attempt_id = ''a1'', ft_applied_generation = 0, ft_zone_config_fingerprint = ''fp1'',
      ft_entry_snapshot_fingerprint = ''e''\<rparr>"

definition sample_marker :: InFlightOnCommand where
  "sample_marker =
     \<lparr>ifl_safety_record_id = ''r'', ifl_zone_history_id = ''h'', ifl_session_id = ''s1'', ifl_command_attempt_id = ''a1'',
      ifl_authorization = sample_token, ifl_context_id = ''c1'', ifl_dispatched_at_utc = 0, ifl_outcome = IN_FLIGHT,
      ifl_completed_at_utc = None, ifl_observed_on_at_utc = None\<rparr>"

theorem failed_on_call_begins_off_witness:
  "\<exists>w'. perform_on_returned RAISED ''s2'' 0 sample_token sample_marker
     \<lparr>rs_now = 0, rs_entry = command_entry, rs_meanwhile = (\<lambda>w. w)\<rparr> command_world = OnOff w' \<and> off_begun w'"
proof -
  let ?rs = "\<lparr>rs_now = 0, rs_entry = command_entry, rs_meanwhile = (\<lambda>w. w)\<rparr>"
  have "\<exists>data. ss_data (w_store command_world) = Some data" "ses_pulse_confirmed_at_utc command_session = None"
    "0 \<le> day_runtime_s (ctl_daily (w_ctl command_world))"
    "obs_classification (ctl_observation (w_ctl command_world)) \<noteq> STALE"
    by (simp_all add: command_defs)
  then show ?thesis
    using failed_on_call_begins_off [of RAISED ?rs command_world command_world _ command_session "''s2''" 0 sample_token
        sample_marker] command_gates(9-11) by auto
qed

end
