(* ===== verification/Iso_Time.thy ===== *)
theory Iso_Time
  imports Observation
begin

text \<open>
  Instants and dates as ISO 8601 text, as \<open>models.py\<close> stores them: Python's \<open>isoformat\<close> and
  \<open>fromisoformat\<close> over the proleptic Gregorian calendar, and their round trips.  The reader knows
  the extended format with a full date, seconds and an offset in hours and minutes; the other
  spellings of the standard (basic format, week dates, reduced precision) count as invalid text.
\<close>

section \<open>Decimal fields\<close>

text \<open>A number in \<open>k\<close> decimal digits.\<close>

fun pad :: "nat \<Rightarrow> nat \<Rightarrow> string" where
  "pad 0 n = []"
| "pad (Suc k) n = pad k (n div 10) @ [char_of (48 + n mod 10)]"

definition read_digits :: "string \<Rightarrow> int option" where
  "read_digits s = (if s \<noteq> [] \<and> list_all is_digit s then Some (int (digits_value s 0)) else None)"

lemma length_pad [simp]: "length (pad k n) = k"
  by (induction k arbitrary: n) auto

lemma digit_code: "n < 10 \<Longrightarrow> char_code (char_of (48 + n)) = 48 + n"
  by (simp add: char_code_def)

lemma pad_digits: "list_all is_digit (pad k n)"
proof (induction k arbitrary: n)
  case (Suc k)
  then show ?case using digit_code [of "n mod 10"] by (simp add: is_digit_def)
qed simp

lemma digits_value_append: "digits_value (s @ t) n = digits_value t (digits_value s n)"
  by (induction s arbitrary: n) auto

lemma digits_value_pad: "n < 10 ^ k \<Longrightarrow> digits_value (pad k n) m = m * 10 ^ k + n"
proof (induction k arbitrary: n)
  case (Suc k)
  then have "n div 10 < 10 ^ k" by auto
  with Suc.IH show ?case
    using digit_code [of "n mod 10"] by (simp add: digits_value_append)
qed simp

lemma read_pad: "n < 10 ^ k \<Longrightarrow> 0 < k \<Longrightarrow> read_digits (pad k n) = Some (int n)"
  using digits_value_pad [of n k 0] pad_digits [of k n]
  by (cases k) (simp_all add: read_digits_def)

section \<open>The proleptic Gregorian calendar\<close>

text \<open>CPython's \<open>_ymd2ord\<close> and \<open>_ord2ymd\<close>; a date is its number of days since 1970-01-01,
  whose ordinal is 719163.\<close>

definition is_leap :: "int \<Rightarrow> bool" where
  "is_leap y \<longleftrightarrow> y mod 4 = 0 \<and> (y mod 100 \<noteq> 0 \<or> y mod 400 = 0)"

definition days_before_year :: "int \<Rightarrow> int" where
  "days_before_year y = (let p = y - 1 in p * 365 + p div 4 - p div 100 + p div 400)"

text \<open>Days before each month of a leap year or another year, month 13 being the end.\<close>

definition days_before_month :: "bool \<Rightarrow> int \<Rightarrow> int" where
  "days_before_month leap m =
     ([0, 0, 31, 59, 90, 120, 151, 181, 212, 243, 273, 304, 334, 365] ! nat m) +
     (if leap \<and> m > 2 then 1 else 0)"

definition month_of :: "bool \<Rightarrow> int \<Rightarrow> int" where
  "month_of leap r =
     (if days_before_month leap 12 \<le> r then 12 else if days_before_month leap 11 \<le> r then 11
      else if days_before_month leap 10 \<le> r then 10 else if days_before_month leap 9 \<le> r then 9
      else if days_before_month leap 8 \<le> r then 8 else if days_before_month leap 7 \<le> r then 7
      else if days_before_month leap 6 \<le> r then 6 else if days_before_month leap 5 \<le> r then 5
      else if days_before_month leap 4 \<le> r then 4 else if days_before_month leap 3 \<le> r then 3
      else if days_before_month leap 2 \<le> r then 2 else 1)"

definition EPOCH_ORDINAL :: int where "EPOCH_ORDINAL = 719163"

definition days_of_civil :: "int \<Rightarrow> int \<Rightarrow> int \<Rightarrow> int" where
  "days_of_civil y m d = days_before_year y + days_before_month (is_leap y) m + d - EPOCH_ORDINAL"

definition civil_of_days :: "int \<Rightarrow> int \<times> int \<times> int" where
  "civil_of_days day =
     (let n = day + EPOCH_ORDINAL - 1;
          n400 = n div 146097; r400 = n mod 146097;
          n100 = r400 div 36524; r100 = r400 mod 36524;
          n4 = r100 div 1461; r4 = r100 mod 1461;
          n1 = r4 div 365; r = r4 mod 365;
          year = n400 * 400 + 1 + n100 * 100 + n4 * 4 + n1
      in if n1 = 4 \<or> n100 = 4 then (year - 1, 12, 31)
         else (let m = month_of (is_leap year) r
               in (year, m, r - days_before_month (is_leap year) m + 1)))"

definition valid_civil :: "int \<Rightarrow> int \<Rightarrow> int \<Rightarrow> bool" where
  "valid_civil y m d \<longleftrightarrow>
     1 \<le> y \<and> y \<le> 9999 \<and> 1 \<le> m \<and> m \<le> 12 \<and> 1 \<le> d \<and>
     d \<le> days_before_month (is_leap y) (m + 1) - days_before_month (is_leap y) m"

text \<open>The dates of Python are those from year 1 to year 9999.\<close>

definition date_ok :: "local_date \<Rightarrow> bool" where
  "date_ok day \<longleftrightarrow> 1 \<le> day + EPOCH_ORDINAL \<and> day + EPOCH_ORDINAL \<le> 3652059"

lemma month_of_range:
  assumes "0 \<le> r" and "r < days_before_month leap 13"
  shows "1 \<le> month_of leap r \<and> month_of leap r \<le> 12 \<and> days_before_month leap (month_of leap r) \<le> r \<and>
     r < days_before_month leap (month_of leap r + 1)"
  using assms by (cases leap) (auto simp: month_of_def days_before_month_def)

text \<open>A day number in the mixed radix of the calendar: quadricentury, century, four years,
  year and day.\<close>

lemma year_digits:
  fixes a b c e :: int
  assumes "0 \<le> b" "b \<le> 3" "0 \<le> c" "c \<le> 24" "0 \<le> e" "e \<le> 3"
  shows "days_before_year (a * 400 + 1 + b * 100 + c * 4 + e) = a * 146097 + b * 36524 + c * 1461 + e * 365"
proof -
  define p where "p = a * 400 + b * 100 + c * 4 + e"
  have "p div 4 = a * 100 + b * 25 + c" by (rule int_div_pos_eq [where r = e]) (use assms in \<open>auto simp: p_def\<close>)
  moreover have "p div 100 = a * 4 + b"
    by (rule int_div_pos_eq [where r = "c * 4 + e"]) (use assms in \<open>auto simp: p_def\<close>)
  moreover have "p div 400 = a"
    by (rule int_div_pos_eq [where r = "b * 100 + c * 4 + e"]) (use assms in \<open>auto simp: p_def\<close>)
  ultimately have "days_before_year (p + 1) = p * 365 + (a * 100 + b * 25 + c) - (a * 4 + b) + a"
    by (simp add: days_before_year_def)
  moreover have "a * 400 + 1 + b * 100 + c * 4 + e = p + 1" by (simp add: p_def)
  moreover have "p * 365 + (a * 100 + b * 25 + c) - (a * 4 + b) + a = a * 146097 + b * 36524 + c * 1461 + e * 365"
    by (simp add: p_def algebra_simps)
  ultimately show ?thesis by metis
qed

lemma leap_years:
  fixes a b c :: int
  shows "0 \<le> c \<Longrightarrow> c < 24 \<Longrightarrow> is_leap (a * 400 + b * 100 + (c + 1) * 4)" and "is_leap (a * 400)"
proof -
  show "is_leap (a * 400)"
    by (simp add: is_leap_def)
  assume c: "0 \<le> c" "c < 24"
  let ?y = "a * 400 + b * 100 + (c + 1) * 4"
  have "?y mod 4 = 0" by (rule int_mod_pos_eq [where q = "a * 100 + b * 25 + (c + 1)"]) auto
  moreover have "?y mod 100 = (c + 1) * 4" by (rule int_mod_pos_eq [where q = "a * 4 + b"]) (use c in auto)
  ultimately show "is_leap ?y" using c by (simp add: is_leap_def)
qed

lemma radix:
  fixes x k :: int
  assumes "0 < k" and "0 \<le> x" and "x < k * m"
  shows "x = (x div k) * k + x mod k" "0 \<le> x mod k" "x mod k < k" "0 \<le> x div k" "x div k < m"
proof -
  show "x = (x div k) * k + x mod k" "0 \<le> x mod k" "x mod k < k" "0 \<le> x div k"
    using assms by (simp_all add: pos_imp_zdiv_nonneg_iff)
  show "x div k < m"
  proof (rule ccontr)
    assume "\<not> x div k < m"
    then have "k * m \<le> k * (x div k)" using assms(1) by simp
    moreover have "k * (x div k) \<le> x" using assms(1) by (metis minus_mod_eq_mult_div pos_mod_sign diff_ge_0_iff_ge add.commute
        le_add_same_cancel2 mult_div_mod_eq)
    ultimately show False using assms(3) by simp
  qed
qed

lemma civil_roundtrip:
  assumes "civil_of_days day = (y, m, d)" and "date_ok day"
  shows "days_of_civil y m d = day \<and> valid_civil y m d"
proof -
  define n where "n = day + EPOCH_ORDINAL - 1"
  define a where "a = n div 146097"
  define r400 where "r400 = n mod 146097"
  define b where "b = r400 div 36524"
  define r100 where "r100 = r400 mod 36524"
  define c where "c = r100 div 1461"
  define r4 where "r4 = r100 mod 1461"
  define e where "e = r4 div 365"
  define r where "r = r4 mod 365"
  note defs = a_def r400_def b_def r100_def c_def r4_def e_def r_def
  have n: "0 \<le> n" "n < 3652059" using assms(2) by (auto simp: n_def date_ok_def)
  have ra: "n = a * 146097 + r400" "0 \<le> r400" "r400 < 146097" "0 \<le> a" "a < 25"
    using radix [of 146097 n 25] n unfolding a_def r400_def by simp_all
  have rb: "r400 = b * 36524 + r100" "0 \<le> r100" "r100 < 36524" "0 \<le> b" "b < 5"
    using radix [of 36524 r400 5] ra(2,3) unfolding b_def r100_def by simp_all
  have rc: "r100 = c * 1461 + r4" "0 \<le> r4" "r4 < 1461" "0 \<le> c" "c < 25"
    using radix [of 1461 r100 25] rb(2,3) unfolding c_def r4_def by simp_all
  have re: "r4 = e * 365 + r" "0 \<le> r" "r < 365" "0 \<le> e" "e < 5"
    using radix [of 365 r4 5] rc(2,3) unfolding e_def r_def by simp_all
  have dig: "n = a * 146097 + b * 36524 + c * 1461 + e * 365 + r"
    using ra rb rc re by simp
  have top: "e = 4 \<longrightarrow> r = 0 \<and> c < 24" "b = 4 \<longrightarrow> c = 0 \<and> e = 0 \<and> r = 0"
    using ra rb rc re by auto
  have civ: "civil_of_days day =
     (let year = a * 400 + 1 + b * 100 + c * 4 + e
      in if e = 4 \<or> b = 4 then (year - 1, 12, 31)
         else (year, month_of (is_leap year) r,
               r - days_before_month (is_leap year) (month_of (is_leap year) r) + 1))"
    unfolding civil_of_days_def Let_def n_def [symmetric] defs [symmetric] by simp
  have last: "days_of_civil y' 12 31 = day \<and> valid_civil y' 12 31"
    if "is_leap y'" "days_before_year y' + 366 = n + 1" "1 \<le> y'" "y' \<le> 9999" for y'
    using that by (simp add: days_of_civil_def days_before_month_def valid_civil_def n_def)
  consider "b = 4" | "b < 4" "e = 4" | "b < 4" "e < 4" using rb(5) re(5) by linarith
  then show ?thesis
  proof cases
    case 1
    with civ assms(1) top have ymd: "y = (a + 1) * 400" "m = 12" "d = 31" by (auto simp: Let_def)
    have "days_before_year y + 366 = n + 1"
      using 1 top dig year_digits [of 3 24 3 a] by (simp add: ymd algebra_simps)
    moreover have "y \<le> 9999" using ymd ra dig n 1 top by simp
    ultimately show ?thesis using last [of y] leap_years(2) [of "a + 1"] ra ymd by simp
  next
    case 2
    with civ assms(1) have ymd: "y = a * 400 + b * 100 + (c + 1) * 4" "m = 12" "d = 31" by (auto simp: Let_def)
    have "days_before_year y + 366 = n + 1"
      using 2 top dig rb rc year_digits [of b c 3 a] by (simp add: ymd algebra_simps)
    moreover have "c < 24" using 2 top by simp
    moreover from this have "1 \<le> y" "y \<le> 9999" using 2(1) ymd(1) ra(4,5) rb(4) rc(4) by simp_all
    ultimately show ?thesis using last [of y] leap_years(1) [of c a b] 2 top rc ymd by simp
  next
    case 3
    then have y: "y = a * 400 + 1 + b * 100 + c * 4 + e" "m = month_of (is_leap y) r"
      "d = r - days_before_month (is_leap y) m + 1"
      using civ assms(1) by (auto simp: Let_def)
    have "days_before_year y + r = n"
      using 3 dig rb rc re year_digits [of b c e a] by (simp add: y(1))
    moreover have "r < days_before_month (is_leap y) 13" using re by (auto simp: days_before_month_def)
    moreover have "y \<le> 9999"
    proof (rule ccontr)
      assume "\<not> y \<le> 9999"
      then have "a = 24" "b = 3" "c = 24" "e = 3" using y(1) ra(5) rc(5) 3 by linarith+
      with dig n(2) re(2) show False by simp
    qed
    moreover have "1 \<le> y" using y(1) ra(4) rb(4) rc(4) re(4) by simp
    ultimately show ?thesis
      using month_of_range [of r "is_leap y"] y(2,3) re(2)
      by (simp add: days_of_civil_def valid_civil_def n_def)
  qed
qed


section \<open>ISO 8601 text\<close>

definition date_isoformat :: "local_date \<Rightarrow> string" where
  "date_isoformat day =
     (case civil_of_days day of
        (y, m, d) \<Rightarrow> pad 4 (nat y) @ ''-'' @ pad 2 (nat m) @ ''-'' @ pad 2 (nat d))"

text \<open>\<open>isoformat\<close> of an aware UTC datetime; zero microseconds are left out.\<close>

definition isoformat :: "utc \<Rightarrow> string" where
  "isoformat t =
     (let r = nat (t mod 86400000000); us = r mod 1000000; s = r div 1000000
      in date_isoformat (t div 86400000000) @ ''T'' @ pad 2 (s div 3600) @ '':'' @ pad 2 (s div 60 mod 60) @ '':'' @
         pad 2 (s mod 60) @ (if us = 0 then [] else ''.'' @ pad 6 us) @ ''+00:00'')"

text \<open>\<open>date.fromisoformat\<close> of a calendar date with hyphens; \<open>None\<close> is the \<open>ValueError\<close>.\<close>

definition date_fromisoformat :: "string \<Rightarrow> local_date option" where
  "date_fromisoformat s =
     (if length s = 10 \<and> s ! 4 = CHR ''-'' \<and> s ! 7 = CHR ''-''
      then (case (read_digits (take 4 s), read_digits (take 2 (drop 5 s)), read_digits (drop 8 s)) of
              (Some y, Some m, Some d) \<Rightarrow> if valid_civil y m d then Some (days_of_civil y m d) else None
            | _ \<Rightarrow> None)
      else None)"

text \<open>The offset of a time, in seconds.\<close>

definition read_offset :: "string \<Rightarrow> int option option" where
  "read_offset s =
     (if s = [] then Some None
      else if s = ''Z'' then Some (Some 0)
      else if length s = 6 \<and> s ! 3 = CHR '':'' \<and> (hd s = CHR ''+'' \<or> hd s = CHR ''-'')
      then (case (read_digits (take 2 (tl s)), read_digits (drop 4 s)) of
              (Some h, Some m) \<Rightarrow>
                if h < 24 \<and> m < 60
                then Some (Some ((if hd s = CHR ''-'' then -1 else 1) * (h * 3600 + m * 60))) else None
            | _ \<Rightarrow> None)
      else None)"

text \<open>A fraction of a second in microseconds, digits after the sixth being cut off, and what
  follows it.\<close>

definition read_fraction :: "string \<Rightarrow> (int \<times> string) option" where
  "read_fraction s =
     (case s of
        [] \<Rightarrow> Some (0, [])
      | c # cs \<Rightarrow>
          if c = CHR ''.'' \<or> c = CHR '',''
          then map_option (\<lambda>us. (us, dropWhile is_digit cs))
                 (if takeWhile is_digit cs = [] then None
                  else read_digits (take 6 (takeWhile is_digit cs @ ''000000'')))
          else Some (0, s))"

text \<open>\<open>datetime.fromisoformat\<close> of a calendar date and a time with seconds: the instant and the
  offset, \<open>None\<close> when there is none (a naive datetime is read as if in UTC).\<close>

definition datetime_fromisoformat :: "string \<Rightarrow> (utc \<times> int option) option" where
  "datetime_fromisoformat s =
     (if length s < 19 \<or> s ! 13 \<noteq> CHR '':'' \<or> s ! 16 \<noteq> CHR '':'' then None
      else (case (date_fromisoformat (take 10 s), read_digits (take 2 (drop 11 s)), read_digits (take 2 (drop 14 s)),
                  read_digits (take 2 (drop 17 s)), read_fraction (drop 19 s)) of
              (Some day, Some h, Some m, Some sec, Some (us, rest)) \<Rightarrow>
                if h < 24 \<and> m < 60 \<and> sec < 60
                then map_option (\<lambda>offset.
                       (day * 86400000000 + timedelta_s (h * 3600 + m * 60 + sec) + us -
                          timedelta_s (case offset of None \<Rightarrow> 0 | Some k \<Rightarrow> k), offset))
                       (read_offset rest)
                else None
            | _ \<Rightarrow> None))"

text \<open>The instants Python can represent.\<close>

definition utc_ok :: "utc \<Rightarrow> bool" where
  "utc_ok t \<longleftrightarrow> date_ok (t div 86400000000)"

lemma date_text_length: "length (date_isoformat day) = 10"
  by (simp add: date_isoformat_def split: prod.split)

lemma date_text_roundtrip:
  assumes "date_ok day"
  shows "date_fromisoformat (date_isoformat day) = Some day"
proof -
  obtain y m d where c: "civil_of_days day = (y, m, d)" by (cases "civil_of_days day") auto
  note r = civil_roundtrip [OF c assms]
  then have b: "1 \<le> y" "y \<le> 9999" "1 \<le> m" "m \<le> 12" "1 \<le> d" "d \<le> 31"
    by (auto simp: valid_civil_def days_before_month_def nth_Cons' split: if_splits)
  have dig: "read_digits (pad 4 (nat y)) = Some y" "read_digits (pad 2 (nat m)) = Some m" "read_digits (pad 2 (nat d)) = Some d"
    using b read_pad [of "nat y" 4] read_pad [of "nat m" 2] read_pad [of "nat d" 2] by simp_all
  show ?thesis
    using r dig by (simp add: date_fromisoformat_def date_isoformat_def c nth_append del: pad.simps)
qed


lemma no_offset_digit: "is_digit (CHR ''+'') = False"
  by (simp add: is_digit_def char_code_def)

lemma takeWhile_pad: "takeWhile is_digit (pad k n @ CHR ''+'' # r) = pad k n" "dropWhile is_digit (pad k n @ CHR ''+'' # r) = CHR ''+'' # r"
  using pad_digits [of k n] by (simp_all add: list_all_iff no_offset_digit)

lemma fraction_roundtrip:
  assumes "us < 1000000"
  shows "read_fraction ((if us = 0 then [] else ''.'' @ pad 6 us) @ ''+00:00'') = Some (int us, ''+00:00'')"
proof (cases "us = 0")
  case True
  then show ?thesis by (simp add: read_fraction_def)
next
  case False
  have "pad 6 us \<noteq> []" using length_pad [of 6 us] by fastforce
  moreover have "read_digits (pad 6 us) = Some (int us)" using assms read_pad [of us 6] by simp
  ultimately show ?thesis using False by (simp add: read_fraction_def takeWhile_pad del: pad.simps)
qed

lemma isoformat_roundtrip:
  assumes "utc_ok t"
  shows "datetime_fromisoformat (isoformat t) = Some (t, Some 0)"
proof -
  define day where "day = t div 86400000000"
  define r where "r = nat (t mod 86400000000)"
  define us where "us = r mod 1000000"
  define s where "s = r div 1000000"
  define frac where "frac = (if us = 0 then [] else ''.'' @ pad 6 us) @ ''+00:00''"
  have t: "t = day * 86400000000 + int r" "r < 86400000000" "r = s * 1000000 + us" "us < 1000000" "s < 86400"
    by (auto simp: day_def r_def us_def s_def nat_less_iff)
  define h where "h = s div 3600"
  define m where "m = s div 60 mod 60"
  define sec where "sec = s mod 60"
  have "h = s div 60 div 60" by (simp add: h_def flip: div_mult2_eq)
  then have "h * 60 + m = s div 60" by (simp add: m_def)
  then have "s = (h * 60 + m) * 60 + sec" by (simp add: sec_def)
  then have hms: "h < 24" "m < 60" "sec < 60" "s = h * 3600 + m * 60 + sec"
    using t(5) by (auto simp: h_def m_def sec_def)
  have txt_eq: "isoformat t = date_isoformat day @ CHR ''T'' # pad 2 h @ CHR '':'' # pad 2 m @ CHR '':'' # pad 2 sec @ frac"
    by (simp add: isoformat_def Let_def day_def r_def us_def s_def h_def m_def sec_def frac_def del: pad.simps)
  have parts: "take 10 (isoformat t) = date_isoformat day" "take 2 (drop 11 (isoformat t)) = pad 2 h"
    "take 2 (drop 14 (isoformat t)) = pad 2 m" "take 2 (drop 17 (isoformat t)) = pad 2 sec" "drop 19 (isoformat t) = frac"
    "isoformat t ! 13 = CHR '':''" "isoformat t ! 16 = CHR '':''" "19 \<le> length (isoformat t)"
    by (simp_all add: txt_eq date_text_length nth_append del: pad.simps)
  have dig: "read_digits (pad 2 h) = Some (int h)" "read_digits (pad 2 m) = Some (int m)"
    "read_digits (pad 2 sec) = Some (int sec)"
    using hms read_pad [of _ 2] by simp_all
  have fr: "read_fraction frac = Some (int us, ''+00:00'')"
    using fraction_roundtrip [OF t(4)] by (simp add: frac_def)
  have day: "date_fromisoformat (date_isoformat day) = Some day"
    using date_text_roundtrip assms by (simp add: utc_ok_def day_def)
  have off: "read_offset ''+00:00'' = Some (Some 0)"
    by (simp add: read_offset_def read_digits_def is_digit_def char_code_def)
  show ?thesis
    using parts dig fr day off hms t
    by (simp add: datetime_fromisoformat_def timedelta_s_def del: pad.simps)
qed

end
