(* ===== verification/Json_Codec.thy ===== *)
theory Json_Codec
  imports Iso_Time Store_Data
begin

text \<open>
  JSON values and the strict readers of \<open>models.py\<close>.  A JSON object is an association list
  with distinct keys; \<open>JInt\<close> and \<open>JFloat\<close> keep the two number types of Python apart, because
  the readers do.  A reader is a function from a JSON value to a result.  The writer and the
  reader of one type form a \<open>codec\<close>: the locale states the two laws of such a pair, reading
  back what was written and accepting only well-formed values, and derives them for optional
  values and lists.  An enumeration is given by its table of member values; that the value
  determines the member is the locale \<open>enumeration\<close>.
\<close>

section \<open>Values\<close>

datatype json =
    JNull
  | JBool bool
  | JInt int
  | JFloat pyfloat
  | JStr string
  | JList "json list"
  | JObj "(string \<times> json) list"

type_synonym json_obj = "(string \<times> json) list"

definition opt_json :: "('a \<Rightarrow> json) \<Rightarrow> 'a option \<Rightarrow> json" where
  "opt_json enc v = (case v of None \<Rightarrow> JNull | Some x \<Rightarrow> enc x)"

abbreviation malformed :: "string \<Rightarrow> 'a result" where
  "malformed msg \<equiv> Inl (MalformedStoreData msg)"

definition dict_get :: "json_obj \<Rightarrow> string \<Rightarrow> json" where
  "dict_get d k = (case map_of d k of None \<Rightarrow> JNull | Some v \<Rightarrow> v)"

definition dict_at :: "json_obj \<Rightarrow> string \<Rightarrow> json result" where
  "dict_at d k = (case map_of d k of None \<Rightarrow> Inl KeyError | Some v \<Rightarrow> Inr v)"

section \<open>Exceptions caught\<close>

text \<open>\<open>except (TypeError, ValueError)\<close> that lets the store errors pass, and the plain
  \<open>except ValueError\<close>, which the store errors are instances of.\<close>

fun catch_plain :: "string \<Rightarrow> 'a result \<Rightarrow> 'a result" where
  "catch_plain msg (Inl (ValueError _)) = malformed msg"
| "catch_plain msg r = r"

fun catch_value_error :: "string \<Rightarrow> 'a result \<Rightarrow> 'a result" where
  "catch_value_error msg (Inl (ValueError _)) = malformed msg"
| "catch_value_error msg (Inl (MalformedStoreData _)) = malformed msg"
| "catch_value_error msg (Inl FutureStoreVersion) = malformed msg"
| "catch_value_error msg r = r"

section \<open>Strict readers\<close>

definition json_require :: "json \<Rightarrow> string \<Rightarrow> string \<Rightarrow> json result" where
  "json_require mapping key ctx =
     (case mapping of
        JObj d \<Rightarrow> (case map_of d key of None \<Rightarrow> malformed (ctx @ '' is missing '' @ key) | Some v \<Rightarrow> Inr v)
      | _ \<Rightarrow> malformed (ctx @ '' must be an object''))"

definition require_at :: "json_obj \<Rightarrow> string \<Rightarrow> string \<Rightarrow> (json \<Rightarrow> 'a result) \<Rightarrow> 'a result" where
  "require_at d key ctx f = res_bind (json_require (JObj d) key ctx) f"

definition read_at :: "json_obj \<Rightarrow> string \<Rightarrow> (json \<Rightarrow> 'a result) \<Rightarrow> 'a result" where
  "read_at d key f = res_bind (dict_at d key) f"

definition require_exact_keys :: "json \<Rightarrow> string list \<Rightarrow> string \<Rightarrow> json_obj result" where
  "require_exact_keys mapping expected ctx =
     (case mapping of
        JObj d \<Rightarrow> if fst ` set d \<noteq> set expected then malformed (ctx @ '' keys invalid'') else Inr d
      | _ \<Rightarrow> malformed (ctx @ '' must be an object''))"

definition strict_string :: "string \<Rightarrow> json \<Rightarrow> string result" where
  "strict_string name v =
     (case v of
        JStr s \<Rightarrow> if s = [] then malformed (name @ '' must be a non-empty string'') else Inr s
      | _ \<Rightarrow> malformed (name @ '' must be a non-empty string''))"

definition strict_string_nullable :: "string \<Rightarrow> json \<Rightarrow> string option result" where
  "strict_string_nullable name v =
     (if v = JNull then Inr None else res_bind (strict_string name v) (\<lambda>s. Inr (Some s)))"

definition strict_bool :: "string \<Rightarrow> json \<Rightarrow> bool result" where
  "strict_bool name v = (case v of JBool b \<Rightarrow> Inr b | _ \<Rightarrow> malformed (name @ '' must be a boolean''))"

definition strict_int :: "string \<Rightarrow> int \<Rightarrow> json \<Rightarrow> int result" where
  "strict_int name minimum v =
     (case v of
        JInt i \<Rightarrow> if i < minimum then malformed (name @ '' must be an integer in range'') else Inr i
      | _ \<Rightarrow> malformed (name @ '' must be an integer in range''))"

text \<open>\<open>float\<close> of an integer overflows from \<open>2 ^ 1024 - 2 ^ 970\<close> on, where rounding would
  reach \<open>2 ^ 1024\<close>.\<close>

definition float_of_int :: "int \<Rightarrow> pyfloat result" where
  "float_of_int i = (if \<bar>i\<bar> < 2 ^ 1024 - 2 ^ 970 then Inr (Fin (of_int i)) else Inl OverflowError)"

definition json_float :: "string \<Rightarrow> json \<Rightarrow> pyfloat result" where
  "json_float msg v =
     (case v of JInt i \<Rightarrow> float_of_int i | JFloat x \<Rightarrow> Inr x | _ \<Rightarrow> malformed msg)"

definition strict_float :: "string \<Rightarrow> json \<Rightarrow> rat result" where
  "strict_float name v =
     res_bind (json_float (name @ '' must be a finite number'') v) (\<lambda>x.
       case x of
         Fin r \<Rightarrow> if r < 0 then malformed (name @ '' must be a finite number'') else Inr r
       | _ \<Rightarrow> malformed (name @ '' must be a finite number''))"

definition float_or_none :: "json \<Rightarrow> pyfloat option result" where
  "float_or_none v =
     (if v = JNull then Inr None
      else res_bind (json_float ''expected number'' v) (\<lambda>x.
        if fl_isfinite x then Inr (Some x) else malformed ''expected finite number''))"

definition dt_to_iso :: "utc option \<Rightarrow> json" where
  "dt_to_iso v = opt_json (\<lambda>t. JStr (isoformat t)) v"

definition iso_to_dt :: "string \<Rightarrow> json \<Rightarrow> utc option result" where
  "iso_to_dt name v =
     (case v of
        JNull \<Rightarrow> Inr None
      | JStr s \<Rightarrow>
          (case datetime_fromisoformat s of
             None \<Rightarrow> malformed (name @ '' is not a valid ISO datetime'')
           | Some (t, offset) \<Rightarrow>
               if offset \<noteq> Some 0 then malformed (name @ '' must be timezone-aware UTC'') else Inr (Some t))
      | _ \<Rightarrow> malformed (name @ '' must be an ISO string or null''))"

definition require_dt :: "string \<Rightarrow> utc option \<Rightarrow> utc result" where
  "require_dt name v =
     (case v of None \<Rightarrow> malformed (name @ '' must be an ISO datetime'') | Some t \<Rightarrow> Inr t)"

definition date_of_text :: "string \<Rightarrow> local_date result" where
  "date_of_text s =
     (case date_fromisoformat s of
        None \<Rightarrow> Inl (ValueError ''Invalid isoformat string'') | Some d \<Rightarrow> Inr d)"

definition map_id :: "string \<Rightarrow> string \<Rightarrow> string result" where
  "map_id ctx key = (if key = [] then malformed (ctx @ '' map key must be a non-empty string'') else Inr key)"

section \<open>Enumerations\<close>

text \<open>The members of a \<open>StrEnum\<close> with their values.  Calling the class with a value looks it
  up; only a string equals a member.\<close>

type_synonym 'e enum_table = "(string \<times> 'e) list"

definition enum_value :: "'e enum_table \<Rightarrow> 'e \<Rightarrow> json" where
  "enum_value table x = JStr (fst (hd (filter (\<lambda>p. snd p = x) table)))"

definition enum_call :: "'e enum_table \<Rightarrow> json \<Rightarrow> 'e result" where
  "enum_call table v =
     (case v of
        JStr s \<Rightarrow> (case map_of table s of None \<Rightarrow> Inl (ValueError ''not a member value'') | Some x \<Rightarrow> Inr x)
      | _ \<Rightarrow> Inl (ValueError ''not a member value''))"

definition enum_or_none :: "'e enum_table \<Rightarrow> string \<Rightarrow> json \<Rightarrow> 'e option result" where
  "enum_or_none table name v =
     (if v = JNull then Inr None
      else catch_plain (name @ '' has unknown value'') (res_bind (enum_call table v) (\<lambda>x. Inr (Some x))))"

definition controller_states :: "ControllerState enum_table" where
  "controller_states =
     [(''disabled'', DISABLED), (''idle'', IDLE), (''watering'', WATERING), (''soaking'', SOAKING), (''fault'', FAULT)]"

definition session_modes :: "SessionMode enum_table" where
  "session_modes = [(''auto'', AUTO), (''manual'', MANUAL)]"

definition fault_codes :: "FaultCode enum_table" where
  "fault_codes =
     [(''sensor_unavailable'', SENSOR_UNAVAILABLE), (''sensor_stale'', SENSOR_STALE), (''sensor_invalid'', SENSOR_INVALID),
      (''actuator_unavailable'', ACTUATOR_UNAVAILABLE), (''actuator_on_timeout'', ACTUATOR_ON_TIMEOUT),
      (''actuator_off_timeout'', ACTUATOR_OFF_TIMEOUT), (''configuration_invalid'', CONFIGURATION_INVALID),
      (''restored_from_unsafe_state'', RESTORED_FROM_UNSAFE_STATE)]"

definition completion_reasons :: "CompletionReason enum_table" where
  "completion_reasons =
     [(''target_reached'', TARGET_REACHED), (''manual_complete'', MANUAL_COMPLETE), (''max_cycles'', MAX_CYCLES),
      (''max_session_runtime'', MAX_SESSION_RUNTIME), (''daily_runtime_limit'', DAILY_RUNTIME_LIMIT),
      (''user_stop'', USER_STOP), (''zone_disabled'', ZONE_DISABLED),
      (''external_actuator_state_change'', EXTERNAL_ACTUATOR_STATE_CHANGE), (''config_reload'', CONFIG_RELOAD),
      (''config_changed'', CONFIG_CHANGED), (''home_assistant_shutdown'', HOME_ASSISTANT_SHUTDOWN),
      (''restart_recovery'', RESTART_RECOVERY), (''sensor_fault'', SENSOR_FAULT), (''actuator_fault'', ACTUATOR_FAULT)]"

definition estimation_reasons :: "RuntimeEstimationReason enum_table" where
  "estimation_reasons =
     [(''none'', EST_NONE), (''restart_found_on'', RESTART_FOUND_ON),
      (''restart_found_off_unknown_stop'', RESTART_FOUND_OFF_UNKNOWN_STOP), (''off_unconfirmed'', OFF_UNCONFIRMED)]"

definition blocker_values :: "BlockerReason enum_table" where
  "blocker_values =
     [(''external_flow'', EXTERNAL_FLOW), (''integration_off_unconfirmed'', INTEGRATION_OFF_UNCONFIRMED),
      (''actuator_not_proven_off'', ACTUATOR_NOT_PROVEN_OFF)]"

definition lifecycles :: "RuntimeLifecycle enum_table" where
  "lifecycles = [(''active'', ACTIVE), (''delete_pending'', DELETE_PENDING), (''retired'', RETIRED)]"

definition identity_statuses :: "IdentityStatus enum_table" where
  "identity_statuses =
     [(''registry_confirmed'', REGISTRY_CONFIRMED), (''registry_unavailable'', REGISTRY_UNAVAILABLE),
      (''missing'', MISSING), (''conflict'', CONFLICT)]"

definition flow_owners :: "PossibleFlowOwner enum_table" where
  "flow_owners = [(''integration'', INTEGRATION), (''external'', EXTERNAL)]"

definition incident_kinds :: "IdentityIncidentKind enum_table" where
  "incident_kinds =
     [(''migration_unresolved'', MIGRATION_UNRESOLVED), (''identity_missing'', IDENTITY_MISSING),
      (''identity_conflict'', IDENTITY_CONFLICT)]"

definition clamp_reasons :: "ManualClampReason enum_table" where
  "clamp_reasons =
     [(''manual_max_duration'', CLAMP_MANUAL_MAX_DURATION), (''max_session_runtime'', CLAMP_MAX_SESSION_RUNTIME),
      (''remaining_daily_budget'', CLAMP_REMAINING_DAILY_BUDGET)]"

text \<open>\<open>_string_tuple\<close>, for plain strings and for the members of an enumeration.\<close>

definition tuple_of :: "(json \<Rightarrow> 'a result) \<Rightarrow> string \<Rightarrow> json \<Rightarrow> 'a list result" where
  "tuple_of item name v =
     (case v of
        JList xs \<Rightarrow>
          res_bind (catch_value_error (name @ '' contains an unknown value'') (res_map item xs)) (\<lambda>result.
            if distinct result then Inr result else malformed (name @ '' must not contain duplicates''))
      | _ \<Rightarrow> malformed (name @ '' must be a list''))"

definition string_tuple :: "string \<Rightarrow> json \<Rightarrow> string list result" where
  "string_tuple name v = tuple_of (strict_string name) name v"

definition enum_tuple :: "'e enum_table \<Rightarrow> string \<Rightarrow> json \<Rightarrow> 'e list result" where
  "enum_tuple table name v = tuple_of (enum_call table) name v"

end
