(* ===== verification/Store_Codec.thy ===== *)
theory Store_Codec
  imports Json_Codec Safety_Store
begin

text \<open>
  The serialization of the safety store (\<open>models.py\<close>): for each dataclass the dictionary it is
  written as and the strict reader of that dictionary, down to the complete schema-3 payload.
  A writer is named \<open>..._to_dict\<close> and a reader \<open>..._from_dict\<close> as in the code; the argument
  expressions of a constructor call are evaluated in the order in which the code writes them.
  The live-only fields of a session are not written and come back as their defaults.
\<close>

section \<open>Sessions\<close>

definition session_to_dict :: "SessionContext \<Rightarrow> json" where
  "session_to_dict s =
     JObj [
       (''session_id'', JStr (ses_session_id s)),
       (''owner_run_id'', JStr (ses_owner_run_id s)),
       (''config_fingerprint'', JStr (ses_config_fingerprint s)),
       (''mode'', enum_value session_modes (ses_mode s)),
       (''started_at_utc'', dt_to_iso (Some (ses_started_at_utc s))),
       (''cycle'', JInt (ses_cycle s)),
       (''session_runtime_s'', JFloat (Fin (ses_session_runtime_s s))),
       (''runtime_estimated'', JBool (ses_runtime_estimated s)),
       (''runtime_estimation_reason'', enum_value estimation_reasons (ses_runtime_estimation_reason s)),
       (''pulse_intent_at_utc'', dt_to_iso (ses_pulse_intent_at_utc s)),
       (''pulse_commanded_at_utc'', dt_to_iso (ses_pulse_commanded_at_utc s)),
       (''pulse_confirmed_at_utc'', dt_to_iso (ses_pulse_confirmed_at_utc s)),
       (''pulse_ends_at_utc'', dt_to_iso (ses_pulse_ends_at_utc s)),
       (''off_confirmed_at_utc'', dt_to_iso (ses_off_confirmed_at_utc s)),
       (''soak_ends_at_utc'', dt_to_iso (ses_soak_ends_at_utc s)),
       (''recheck_not_before_utc'', dt_to_iso (ses_recheck_not_before_utc s)),
       (''recheck_grace_deadline_at_utc'', dt_to_iso (ses_recheck_grace_deadline_at_utc s)),
       (''manual_requested_duration_s'', opt_json JFloat (ses_manual_requested_duration_s s)),
       (''manual_effective_duration_s'', opt_json JFloat (ses_manual_effective_duration_s s)),
       (''manual_clamp_reasons'', JList (map (enum_value clamp_reasons) (ses_manual_clamp_reasons s))),
       (''retained_sensor_fault'', opt_json (enum_value fault_codes) (ses_retained_sensor_fault s)),
       (''moisture_at_start'', opt_json JFloat (ses_moisture_at_start s))]"

definition SESSION_KEYS :: "string list" where
  "SESSION_KEYS =
     [''session_id'', ''owner_run_id'', ''config_fingerprint'', ''mode'', ''started_at_utc'', ''cycle'',
      ''session_runtime_s'', ''runtime_estimated'', ''runtime_estimation_reason'', ''pulse_intent_at_utc'',
      ''pulse_commanded_at_utc'', ''pulse_confirmed_at_utc'', ''pulse_ends_at_utc'',
      ''off_confirmed_at_utc'', ''soak_ends_at_utc'', ''recheck_not_before_utc'',
      ''recheck_grace_deadline_at_utc'', ''manual_requested_duration_s'', ''manual_effective_duration_s'',
      ''manual_clamp_reasons'', ''retained_sensor_fault'', ''moisture_at_start'']"

definition session_from_dict :: "json \<Rightarrow> SessionContext result" where
  "session_from_dict data =
     res_bind (require_exact_keys data SESSION_KEYS ''session'') (\<lambda>d.
     res_bind (require_at d ''started_at_utc'' ''session'' (iso_to_dt ''started_at_utc'')) (\<lambda>started_opt.
     case started_opt of
       None \<Rightarrow> malformed ''session.started_at_utc must not be null''
     | Some started \<Rightarrow>
     res_bind (json_require (JObj d) ''manual_clamp_reasons'' ''session'') (\<lambda>clamp_json.
     case clamp_json of
       JList clamp_raw \<Rightarrow>
         catch_plain ''session payload invalid'' (
         res_bind (require_at d ''session_id'' ''session'' (strict_string ''session_id'')) (\<lambda>session_id.
         res_bind (require_at d ''owner_run_id'' ''session'' (strict_string ''owner_run_id'')) (\<lambda>owner_run_id.
         res_bind (require_at d ''config_fingerprint'' ''session'' (strict_string ''config_fingerprint'')) (\<lambda>config_fingerprint.
         res_bind (require_at d ''mode'' ''session'' (enum_call session_modes)) (\<lambda>mode.
         res_bind (require_at d ''cycle'' ''session'' (strict_int ''session.cycle'' 0)) (\<lambda>cycle.
         res_bind (require_at d ''session_runtime_s'' ''session'' (strict_float ''session.session_runtime_s'')) (\<lambda>session_runtime_s.
         res_bind (require_at d ''runtime_estimated'' ''session'' (strict_bool ''session.runtime_estimated'')) (\<lambda>runtime_estimated.
         res_bind (require_at d ''runtime_estimation_reason'' ''session'' (enum_call estimation_reasons)) (\<lambda>runtime_estimation_reason.
         res_bind (iso_to_dt ''pulse_intent_at_utc'' (dict_get d ''pulse_intent_at_utc'')) (\<lambda>pulse_intent_at_utc.
         res_bind (iso_to_dt ''pulse_commanded_at_utc'' (dict_get d ''pulse_commanded_at_utc'')) (\<lambda>pulse_commanded_at_utc.
         res_bind (iso_to_dt ''pulse_confirmed_at_utc'' (dict_get d ''pulse_confirmed_at_utc'')) (\<lambda>pulse_confirmed_at_utc.
         res_bind (iso_to_dt ''pulse_ends_at_utc'' (dict_get d ''pulse_ends_at_utc'')) (\<lambda>pulse_ends_at_utc.
         res_bind (iso_to_dt ''off_confirmed_at_utc'' (dict_get d ''off_confirmed_at_utc'')) (\<lambda>off_confirmed_at_utc.
         res_bind (iso_to_dt ''soak_ends_at_utc'' (dict_get d ''soak_ends_at_utc'')) (\<lambda>soak_ends_at_utc.
         res_bind (iso_to_dt ''recheck_not_before_utc'' (dict_get d ''recheck_not_before_utc'')) (\<lambda>recheck_not_before_utc.
         res_bind (iso_to_dt ''recheck_grace_deadline_at_utc'' (dict_get d ''recheck_grace_deadline_at_utc'')) (\<lambda>recheck_grace_deadline_at_utc.
         res_bind (float_or_none (dict_get d ''manual_requested_duration_s'')) (\<lambda>manual_requested_duration_s.
         res_bind (float_or_none (dict_get d ''manual_effective_duration_s'')) (\<lambda>manual_effective_duration_s.
         res_bind (res_map (enum_call clamp_reasons) clamp_raw) (\<lambda>manual_clamp_reasons.
         res_bind (enum_or_none fault_codes ''retained_sensor_fault'' (dict_get d ''retained_sensor_fault'')) (\<lambda>retained_sensor_fault.
         res_bind (float_or_none (dict_get d ''moisture_at_start'')) (\<lambda>moisture_at_start.
         mk_session
           \<lparr>ses_session_id = session_id, ses_owner_run_id = owner_run_id,
            ses_config_fingerprint = config_fingerprint, ses_mode = mode,
            ses_started_at_utc = started, ses_cycle = cycle,
            ses_session_runtime_s = session_runtime_s, ses_runtime_estimated = runtime_estimated,
            ses_runtime_estimation_reason = runtime_estimation_reason,
            ses_pulse_intent_at_utc = pulse_intent_at_utc,
            ses_pulse_commanded_at_utc = pulse_commanded_at_utc,
            ses_pulse_confirmed_at_utc = pulse_confirmed_at_utc,
            ses_pulse_ends_at_utc = pulse_ends_at_utc, ses_sensor_fresh_until_utc = None,
            ses_sensor_freshness_watchdog_generation = 0,
            ses_off_confirmed_at_utc = off_confirmed_at_utc,
            ses_soak_ends_at_utc = soak_ends_at_utc,
            ses_recheck_not_before_utc = recheck_not_before_utc,
            ses_recheck_grace_deadline_at_utc = recheck_grace_deadline_at_utc,
            ses_manual_requested_duration_s = manual_requested_duration_s,
            ses_manual_effective_duration_s = manual_effective_duration_s,
            ses_manual_clamp_reasons = manual_clamp_reasons,
            ses_moisture_at_start = moisture_at_start, ses_last_recheck_value = None,
            ses_retained_sensor_fault = retained_sensor_fault, ses_pending_termination_reason = None\<rparr>))))))))))))))))))))))
     | _ \<Rightarrow> malformed ''session.manual_clamp_reasons must be a list'')))"

definition summary_to_dict :: "SessionSummary \<Rightarrow> json" where
  "summary_to_dict s =
     JObj [
       (''mode'', enum_value session_modes (sum_mode s)),
       (''reason'', enum_value completion_reasons (sum_reason s)),
       (''runtime_s'', JFloat (Fin (sum_runtime_s s))),
       (''runtime_estimated'', JBool (sum_runtime_estimated s)),
       (''runtime_estimation_reason'', enum_value estimation_reasons (sum_runtime_estimation_reason s)),
       (''requested_duration_s'', opt_json JFloat (sum_requested_duration_s s)),
       (''effective_duration_s'', opt_json JFloat (sum_effective_duration_s s)),
       (''clamp_reasons'', JList (map (enum_value clamp_reasons) (sum_clamp_reasons s))),
       (''cycles'', JInt (sum_cycles s)),
       (''moisture_before'', opt_json JFloat (sum_moisture_before s)),
       (''moisture_after'', opt_json JFloat (sum_moisture_after s)),
       (''started_at_utc'', dt_to_iso (Some (sum_started_at_utc s))),
       (''ended_at_utc'', dt_to_iso (Some (sum_ended_at_utc s)))]"

definition SUMMARY_KEYS :: "string list" where
  "SUMMARY_KEYS =
     [''mode'', ''reason'', ''runtime_s'', ''runtime_estimated'', ''runtime_estimation_reason'',
      ''requested_duration_s'', ''effective_duration_s'', ''clamp_reasons'', ''cycles'',
      ''moisture_before'', ''moisture_after'', ''started_at_utc'', ''ended_at_utc'']"

definition summary_from_dict :: "json \<Rightarrow> SessionSummary result" where
  "summary_from_dict data =
     res_bind (require_exact_keys data SUMMARY_KEYS ''summary'') (\<lambda>d.
     res_bind (require_at d ''started_at_utc'' ''summary'' (iso_to_dt ''started_at_utc'')) (\<lambda>started_opt.
     res_bind (require_at d ''ended_at_utc'' ''summary'' (iso_to_dt ''ended_at_utc'')) (\<lambda>ended_opt.
     case (started_opt, ended_opt) of
       (Some started, Some ended) \<Rightarrow>
     res_bind (json_require (JObj d) ''clamp_reasons'' ''summary'') (\<lambda>clamp_json.
     case clamp_json of
       JList clamp_raw \<Rightarrow>
         catch_plain ''summary payload invalid'' (
         res_bind (require_at d ''mode'' ''summary'' (enum_call session_modes)) (\<lambda>mode.
         res_bind (require_at d ''reason'' ''summary'' (enum_call completion_reasons)) (\<lambda>reason.
         res_bind (require_at d ''runtime_s'' ''summary'' (strict_float ''summary.runtime_s'')) (\<lambda>runtime_s.
         res_bind (require_at d ''runtime_estimated'' ''summary'' (strict_bool ''summary.runtime_estimated'')) (\<lambda>runtime_estimated.
         res_bind (require_at d ''runtime_estimation_reason'' ''summary'' (enum_call estimation_reasons)) (\<lambda>runtime_estimation_reason.
         res_bind (float_or_none (dict_get d ''requested_duration_s'')) (\<lambda>requested_duration_s.
         res_bind (float_or_none (dict_get d ''effective_duration_s'')) (\<lambda>effective_duration_s.
         res_bind (res_map (enum_call clamp_reasons) clamp_raw) (\<lambda>clamp_list.
         res_bind (require_at d ''cycles'' ''summary'' (strict_int ''summary.cycles'' 0)) (\<lambda>cycles.
         res_bind (float_or_none (dict_get d ''moisture_before'')) (\<lambda>moisture_before.
         res_bind (float_or_none (dict_get d ''moisture_after'')) (\<lambda>moisture_after.
         Inr
           \<lparr>sum_mode = mode, sum_reason = reason, sum_runtime_s = runtime_s,
            sum_runtime_estimated = runtime_estimated,
            sum_runtime_estimation_reason = runtime_estimation_reason,
            sum_requested_duration_s = requested_duration_s,
            sum_effective_duration_s = effective_duration_s, sum_clamp_reasons = clamp_list,
            sum_cycles = cycles, sum_moisture_before = moisture_before,
            sum_moisture_after = moisture_after, sum_started_at_utc = started,
            sum_ended_at_utc = ended\<rparr>))))))))))))
     | _ \<Rightarrow> malformed ''summary.clamp_reasons must be a list'')
     | _ \<Rightarrow> malformed ''summary timestamps must not be null'')))"

definition persisted_session_to_dict :: "PersistedSession \<Rightarrow> json" where
  "persisted_session_to_dict p =
     (case session_to_dict (ps_context p) of
        JObj payload \<Rightarrow>
          JObj (AList.update ''owner_safety_record_id'' (JStr (ps_owner_safety_record_id p)) payload)
      | j \<Rightarrow> j)"

definition persisted_session_from_dict :: "json \<Rightarrow> PersistedSession result" where
  "persisted_session_from_dict raw =
     (case raw of
        JObj d \<Rightarrow>
          res_bind (strict_string ''owner_safety_record_id'' (dict_get d ''owner_safety_record_id'')) (\<lambda>owner.
          res_bind (session_from_dict (JObj (AList.delete ''owner_safety_record_id'' d))) (\<lambda>context.
          mk_persisted_session \<lparr>ps_owner_safety_record_id = owner, ps_context = context\<rparr>))
      | _ \<Rightarrow> malformed ''persisted session must be an object'')"

section \<open>Identities and applied configuration\<close>

definition sensor_identity_to_dict :: "SensorIdentity \<Rightarrow> json" where
  "sensor_identity_to_dict i =
     JObj [
       (''registry_entry_id'', opt_json JStr (si_registry_entry_id i)),
       (''last_known_entity_id'', opt_json JStr (si_last_known_entity_id i))]"

definition sensor_identity_from_dict :: "json \<Rightarrow> SensorIdentity result" where
  "sensor_identity_from_dict raw =
     res_bind (require_exact_keys raw [''registry_entry_id'', ''last_known_entity_id''] ''sensor_identity'') (\<lambda>d.
     res_bind (read_at d ''registry_entry_id'' (strict_string_nullable ''registry_entry_id'')) (\<lambda>registry.
     res_bind (read_at d ''last_known_entity_id'' (strict_string_nullable ''last_known_entity_id'')) (\<lambda>entity.
     mk_sensor_identity \<lparr>si_registry_entry_id = registry, si_last_known_entity_id = entity\<rparr>)))"

definition applied_identity_to_dict :: "AppliedEntityIdentity \<Rightarrow> json" where
  "applied_identity_to_dict i =
     JObj [
       (''registry_entry_id'', opt_json JStr (ae_registry_entry_id i)),
       (''last_known_entity_id'', JStr (ae_last_known_entity_id i)),
       (''domain'', JStr (ae_domain i))]"

definition applied_identity_from_dict :: "string \<Rightarrow> json \<Rightarrow> AppliedEntityIdentity result" where
  "applied_identity_from_dict ctx raw =
     res_bind (require_exact_keys raw [''registry_entry_id'', ''last_known_entity_id'', ''domain''] ctx) (\<lambda>d.
     res_bind (read_at d ''registry_entry_id'' (strict_string_nullable (ctx @ ''.registry_entry_id''))) (\<lambda>registry.
     res_bind (read_at d ''last_known_entity_id'' (strict_string (ctx @ ''.last_known_entity_id''))) (\<lambda>entity.
     res_bind (read_at d ''domain'' (strict_string (ctx @ ''.domain''))) (\<lambda>domain.
     mk_applied_identity
       \<lparr>ae_registry_entry_id = registry, ae_last_known_entity_id = entity, ae_domain = domain\<rparr>))))"

definition actuator_identity_to_dict :: "ActuatorIdentity \<Rightarrow> json" where
  "actuator_identity_to_dict i =
     JObj [
       (''registry_entry_id'', opt_json JStr (ai_registry_entry_id i)),
       (''last_known_entity_id'', opt_json JStr (ai_last_known_entity_id i)),
       (''domain'', opt_json JStr (ai_domain i)),
       (''identity_status'', enum_value identity_statuses (ai_identity_status i)),
       (''off_service'', opt_json JStr (ai_off_service i)),
       (''confirm_timeout_s'', opt_json JInt (ai_confirm_timeout_s i))]"

definition ACTUATOR_IDENTITY_KEYS :: "string list" where
  "ACTUATOR_IDENTITY_KEYS =
     [''registry_entry_id'', ''last_known_entity_id'', ''domain'', ''identity_status'', ''off_service'',
      ''confirm_timeout_s'']"

definition actuator_identity_from_dict :: "json \<Rightarrow> ActuatorIdentity result" where
  "actuator_identity_from_dict raw =
     res_bind (require_exact_keys raw ACTUATOR_IDENTITY_KEYS ''actuator_identity'') (\<lambda>d.
     res_bind (dict_at d ''confirm_timeout_s'') (\<lambda>timeout.
     res_bind (read_at d ''registry_entry_id'' (strict_string_nullable ''registry_entry_id'')) (\<lambda>registry.
     res_bind (read_at d ''last_known_entity_id'' (strict_string_nullable ''last_known_entity_id'')) (\<lambda>entity.
     res_bind (read_at d ''domain'' (strict_string_nullable ''domain'')) (\<lambda>domain.
     res_bind (read_at d ''identity_status'' (enum_call identity_statuses)) (\<lambda>status.
     res_bind (read_at d ''off_service'' (strict_string_nullable ''off_service'')) (\<lambda>off_service.
     res_bind (if timeout = JNull then Inr None else res_bind (strict_int ''confirm_timeout_s'' 1 timeout) (\<lambda>t. Inr (Some t))) (\<lambda>confirm.
     mk_actuator_identity
       \<lparr>ai_registry_entry_id = registry, ai_last_known_entity_id = entity,
        ai_domain = domain, ai_identity_status = status, ai_off_service = off_service,
        ai_confirm_timeout_s = confirm\<rparr>))))))))"

definition settings_to_dict :: "NormalizedZoneSettings \<Rightarrow> json" where
  "settings_to_dict n =
     JObj [
       (''name'', JStr (ns_name n)),
       (''start_threshold'', JFloat (Fin (ns_start_threshold n))),
       (''target_threshold'', JFloat (Fin (ns_target_threshold n))),
       (''pulse_duration_s'', JInt (ns_pulse_duration_s n)),
       (''soak_duration_s'', JInt (ns_soak_duration_s n)),
       (''max_cycles'', JInt (ns_max_cycles n)),
       (''max_session_runtime_s'', JInt (ns_max_session_runtime_s n)),
       (''max_daily_runtime_s'', JInt (ns_max_daily_runtime_s n)),
       (''min_session_interval_s'', JInt (ns_min_session_interval_s n)),
       (''sensor_max_age_s'', JInt (ns_sensor_max_age_s n)),
       (''actuator_confirm_timeout_s'', JInt (ns_actuator_confirm_timeout_s n)),
       (''manual_max_duration_s'', JInt (ns_manual_max_duration_s n))]"

definition SETTING_FIELDS :: "string list" where
  "SETTING_FIELDS =
     [''name'', ''start_threshold'', ''target_threshold'', ''pulse_duration_s'', ''soak_duration_s'',
      ''max_cycles'', ''max_session_runtime_s'', ''max_daily_runtime_s'', ''min_session_interval_s'',
      ''sensor_max_age_s'', ''actuator_confirm_timeout_s'', ''manual_max_duration_s'']"

definition settings_from_dict :: "json \<Rightarrow> NormalizedZoneSettings result" where
  "settings_from_dict raw =
     res_bind (require_exact_keys raw SETTING_FIELDS ''normalized_settings'') (\<lambda>d.
     res_bind (read_at d ''name'' (strict_string ''settings.name'')) (\<lambda>name.
     res_bind (read_at d ''start_threshold'' (strict_float ''settings.start_threshold'')) (\<lambda>start_threshold.
     res_bind (read_at d ''target_threshold'' (strict_float ''settings.target_threshold'')) (\<lambda>target_threshold.
     res_bind (read_at d ''pulse_duration_s'' (strict_int ''settings.pulse_duration_s'' 0)) (\<lambda>pulse_duration_s.
     res_bind (read_at d ''soak_duration_s'' (strict_int ''settings.soak_duration_s'' 0)) (\<lambda>soak_duration_s.
     res_bind (read_at d ''max_cycles'' (strict_int ''settings.max_cycles'' 0)) (\<lambda>max_cycles.
     res_bind (read_at d ''max_session_runtime_s'' (strict_int ''settings.max_session_runtime_s'' 0)) (\<lambda>max_session_runtime_s.
     res_bind (read_at d ''max_daily_runtime_s'' (strict_int ''settings.max_daily_runtime_s'' 0)) (\<lambda>max_daily_runtime_s.
     res_bind (read_at d ''min_session_interval_s'' (strict_int ''settings.min_session_interval_s'' 0)) (\<lambda>min_session_interval_s.
     res_bind (read_at d ''sensor_max_age_s'' (strict_int ''settings.sensor_max_age_s'' 0)) (\<lambda>sensor_max_age_s.
     res_bind (read_at d ''actuator_confirm_timeout_s'' (strict_int ''settings.actuator_confirm_timeout_s'' 0)) (\<lambda>actuator_confirm_timeout_s.
     res_bind (read_at d ''manual_max_duration_s'' (strict_int ''settings.manual_max_duration_s'' 0)) (\<lambda>manual_max_duration_s.
     Inr
       \<lparr>ns_name = name, ns_start_threshold = start_threshold,
        ns_target_threshold = target_threshold, ns_pulse_duration_s = pulse_duration_s,
        ns_soak_duration_s = soak_duration_s, ns_max_cycles = max_cycles,
        ns_max_session_runtime_s = max_session_runtime_s,
        ns_max_daily_runtime_s = max_daily_runtime_s,
        ns_min_session_interval_s = min_session_interval_s, ns_sensor_max_age_s = sensor_max_age_s,
        ns_actuator_confirm_timeout_s = actuator_confirm_timeout_s,
        ns_manual_max_duration_s = manual_max_duration_s\<rparr>)))))))))))))"

definition shadow_to_dict :: "AppliedConfigurationShadow \<Rightarrow> json" where
  "shadow_to_dict s =
     JObj [
       (''subentry_id'', JStr (sh_subentry_id s)),
       (''config_fingerprint'', JStr (sh_config_fingerprint s)),
       (''entry_snapshot_fingerprint'', JStr (sh_entry_snapshot_fingerprint s)),
       (''applied_generation'', JInt (sh_applied_generation s)),
       (''normalized_settings'', settings_to_dict (sh_normalized_settings s)),
       (''sensor_identity'', applied_identity_to_dict (sh_sensor_identity s)),
       (''actuator_identity'', applied_identity_to_dict (sh_actuator_identity s))]"

definition SHADOW_KEYS :: "string list" where
  "SHADOW_KEYS =
     [''subentry_id'', ''config_fingerprint'', ''entry_snapshot_fingerprint'', ''applied_generation'',
      ''normalized_settings'', ''sensor_identity'', ''actuator_identity'']"

definition shadow_from_dict :: "json \<Rightarrow> AppliedConfigurationShadow result" where
  "shadow_from_dict raw =
     res_bind (require_exact_keys raw SHADOW_KEYS ''applied_config'') (\<lambda>d.
     res_bind (read_at d ''subentry_id'' (strict_string ''applied_config.subentry_id'')) (\<lambda>subentry_id.
     res_bind (read_at d ''config_fingerprint'' (strict_string ''applied_config.config_fingerprint'')) (\<lambda>config_fingerprint.
     res_bind (read_at d ''entry_snapshot_fingerprint'' (strict_string ''applied_config.entry_snapshot_fingerprint'')) (\<lambda>entry_snapshot_fingerprint.
     res_bind (read_at d ''applied_generation'' (strict_int ''applied_config.applied_generation'' 0)) (\<lambda>applied_generation.
     res_bind (read_at d ''normalized_settings'' (settings_from_dict)) (\<lambda>normalized_settings.
     res_bind (read_at d ''sensor_identity'' (applied_identity_from_dict ''applied sensor'')) (\<lambda>sensor_identity.
     res_bind (read_at d ''actuator_identity'' (applied_identity_from_dict ''applied actuator'')) (\<lambda>actuator_identity.
     mk_shadow
       \<lparr>sh_subentry_id = subentry_id, sh_config_fingerprint = config_fingerprint,
        sh_entry_snapshot_fingerprint = entry_snapshot_fingerprint,
        sh_applied_generation = applied_generation, sh_normalized_settings = normalized_settings,
        sh_sensor_identity = sensor_identity, sh_actuator_identity = actuator_identity\<rparr>))))))))"

section \<open>Zone histories\<close>

definition contribution_to_dict :: "AccountingContribution \<Rightarrow> json" where
  "contribution_to_dict c =
     JObj [
       (''accounting_contribution_id'', JStr (con_accounting_contribution_id c)),
       (''source_safety_record_id'', JStr (con_source_safety_record_id c)),
       (''start_utc'', dt_to_iso (con_start_utc c)),
       (''end_utc'', dt_to_iso (con_end_utc c)),
       (''runtime_s'', JFloat (Fin (con_runtime_s c))),
       (''runtime_estimated'', JBool (con_runtime_estimated c)),
       (''local_date'', opt_json (\<lambda>d. JStr (date_isoformat d)) (con_local_date c))]"

definition CONTRIBUTION_KEYS :: "string list" where
  "CONTRIBUTION_KEYS =
     [''accounting_contribution_id'', ''source_safety_record_id'', ''start_utc'', ''end_utc'',
      ''runtime_s'', ''runtime_estimated'', ''local_date'']"

definition contribution_from_dict :: "json \<Rightarrow> AccountingContribution result" where
  "contribution_from_dict raw =
     res_bind (require_exact_keys raw CONTRIBUTION_KEYS ''accounting contribution'') (\<lambda>d.
     res_bind (dict_at d ''local_date'') (\<lambda>date_json.
     if (case date_json of JNull \<Rightarrow> False | JStr _ \<Rightarrow> False | _ \<Rightarrow> True)
     then malformed ''contribution.local_date must be an ISO date or null''
     else
     res_bind (read_at d ''accounting_contribution_id'' (strict_string ''accounting_contribution_id'')) (\<lambda>accounting_contribution_id.
     res_bind (read_at d ''source_safety_record_id'' (strict_string ''source_safety_record_id'')) (\<lambda>source_safety_record_id.
     res_bind (read_at d ''start_utc'' (iso_to_dt ''contribution.start_utc'')) (\<lambda>start_utc.
     res_bind (read_at d ''end_utc'' (iso_to_dt ''contribution.end_utc'')) (\<lambda>end_utc.
     res_bind (read_at d ''runtime_s'' (strict_float ''contribution.runtime_s'')) (\<lambda>runtime_s.
     res_bind (read_at d ''runtime_estimated'' (strict_bool ''contribution.runtime_estimated'')) (\<lambda>runtime_estimated.
     res_bind (case date_json of JStr s \<Rightarrow> res_bind (date_of_text s) (\<lambda>day. Inr (Some day)) | _ \<Rightarrow> Inr None) (\<lambda>local_date.
     mk_contribution
       \<lparr>con_accounting_contribution_id = accounting_contribution_id,
        con_source_safety_record_id = source_safety_record_id, con_start_utc = start_utc,
        con_end_utc = end_utc, con_runtime_s = runtime_s, con_runtime_estimated = runtime_estimated,
        con_local_date = local_date\<rparr>)))))))))"

definition daily_to_dict :: "ZoneDailyRuntime \<Rightarrow> json" where
  "daily_to_dict z =
     JObj [
       (''date_local'', JStr (date_isoformat (zdr_date_local z))),
       (''runtime_s'', JFloat (Fin (zdr_runtime_s z))),
       (''conservative_unattributed_runtime_s'', JFloat (Fin (zdr_conservative_unattributed_runtime_s z))),
       (''contributions'', JList (map contribution_to_dict (zdr_contributions z)))]"

definition DAILY_KEYS :: "string list" where
  "DAILY_KEYS =
     [''date_local'', ''runtime_s'', ''conservative_unattributed_runtime_s'', ''contributions'']"

definition daily_from_dict :: "json \<Rightarrow> ZoneDailyRuntime result" where
  "daily_from_dict raw =
     res_bind (require_exact_keys raw DAILY_KEYS ''zone_history.daily'') (\<lambda>d.
     res_bind (dict_at d ''date_local'') (\<lambda>date_json.
     case date_json of
       JStr date_raw \<Rightarrow>
     res_bind (dict_at d ''contributions'') (\<lambda>contributions_json.
     case contributions_json of
       JList contributions_raw \<Rightarrow>
         res_bind (date_of_text date_raw) (\<lambda>date_local.
         res_bind (read_at d ''runtime_s'' (strict_float ''daily.runtime_s'')) (\<lambda>runtime_s.
         res_bind (read_at d ''conservative_unattributed_runtime_s'' (strict_float ''daily.conservative_unattributed_runtime_s'')) (\<lambda>unattributed.
         res_bind (res_map contribution_from_dict contributions_raw) (\<lambda>contributions.
         mk_zone_daily
           \<lparr>zdr_date_local = date_local, zdr_runtime_s = runtime_s,
            zdr_conservative_unattributed_runtime_s = unattributed,
            zdr_contributions = contributions\<rparr>))))
     | _ \<Rightarrow> malformed ''daily.contributions must be a list'')
     | _ \<Rightarrow> malformed ''daily.date_local must be an ISO date string''))"

text \<open>A reader of a field that may be null.\<close>

definition opt_read :: "(json \<Rightarrow> 'a result) \<Rightarrow> json \<Rightarrow> 'a option result" where
  "opt_read f v = (if v = JNull then Inr None else res_bind (f v) (\<lambda>x. Inr (Some x)))"

definition zone_runtime_to_dict :: "ZoneRuntime \<Rightarrow> json" where
  "zone_runtime_to_dict z =
     JObj [
       (''enabled'', JBool (zr_enabled z)),
       (''state'', enum_value controller_states (zr_state z)),
       (''zone_fault'', opt_json (enum_value fault_codes) (zr_zone_fault z)),
       (''secondary_fault'', opt_json (enum_value fault_codes) (zr_secondary_fault z)),
       (''sensor_identity'', sensor_identity_to_dict (zr_sensor_identity z)),
       (''last_session_summary'', opt_json summary_to_dict (zr_last_session_summary z)),
       (''session'', opt_json persisted_session_to_dict (zr_session z))]"

definition ZONE_RUNTIME_KEYS :: "string list" where
  "ZONE_RUNTIME_KEYS =
     [''enabled'', ''state'', ''zone_fault'', ''secondary_fault'', ''sensor_identity'',
      ''last_session_summary'', ''session'']"

definition zone_runtime_from_dict :: "json_obj \<Rightarrow> ZoneRuntime result" where
  "zone_runtime_from_dict d =
     res_bind (read_at d ''enabled'' (strict_bool ''zone_runtime.enabled'')) (\<lambda>enabled.
     res_bind (read_at d ''state'' (enum_call controller_states)) (\<lambda>state.
     res_bind (read_at d ''zone_fault'' (enum_or_none fault_codes ''zone_fault'')) (\<lambda>zone_fault.
     res_bind (read_at d ''secondary_fault'' (enum_or_none fault_codes ''secondary_fault'')) (\<lambda>secondary_fault.
     res_bind (read_at d ''sensor_identity'' (sensor_identity_from_dict)) (\<lambda>sensor_identity.
     res_bind (read_at d ''last_session_summary'' (opt_read summary_from_dict)) (\<lambda>last_session_summary.
     res_bind (read_at d ''session'' (opt_read persisted_session_from_dict)) (\<lambda>session.
     mk_zone_runtime
       \<lparr>zr_enabled = enabled, zr_state = state, zr_zone_fault = zone_fault,
        zr_secondary_fault = secondary_fault, zr_sensor_identity = sensor_identity,
        zr_last_session_summary = last_session_summary, zr_session = session\<rparr>)))))))"

definition zone_history_to_dict :: "ZoneHistory \<Rightarrow> json" where
  "zone_history_to_dict h =
     JObj [
       (''active_subentry_id'', opt_json JStr (zh_active_subentry_id h)),
       (''previous_subentry_ids'', JList (map JStr (zh_previous_subentry_ids h))),
       (''last_session_end_utc'', dt_to_iso (zh_last_session_end_utc h)),
       (''last_auto_session_start_utc'', dt_to_iso (zh_last_auto_session_start_utc h)),
       (''zone_runtime'', zone_runtime_to_dict (zh_zone_runtime h)),
       (''daily'', opt_json daily_to_dict (zh_daily h))]"

definition ZONE_HISTORY_KEYS :: "string list" where
  "ZONE_HISTORY_KEYS =
     [''active_subentry_id'', ''previous_subentry_ids'', ''last_session_end_utc'',
      ''last_auto_session_start_utc'', ''zone_runtime'', ''daily'']"

definition zone_history_from_dict :: "string \<Rightarrow> json \<Rightarrow> ZoneHistory result" where
  "zone_history_from_dict key raw =
     res_bind (map_id ''zone_history'' key) (\<lambda>history_id.
     res_bind (require_exact_keys raw ZONE_HISTORY_KEYS ''zone_history'') (\<lambda>d.
     res_bind (read_at d ''zone_runtime'' (\<lambda>v. require_exact_keys v ZONE_RUNTIME_KEYS ''zone_runtime'')) (\<lambda>runtime_raw.
     res_bind (read_at d ''daily'' (opt_read daily_from_dict)) (\<lambda>daily.
     res_bind (read_at d ''active_subentry_id'' (strict_string_nullable ''zone_history.active_subentry_id'')) (\<lambda>active_subentry_id.
     res_bind (read_at d ''previous_subentry_ids'' (string_tuple ''zone_history.previous_subentry_ids'')) (\<lambda>previous_subentry_ids.
     res_bind (read_at d ''last_session_end_utc'' (iso_to_dt ''zone_history.last_session_end_utc'')) (\<lambda>last_session_end_utc.
     res_bind (read_at d ''last_auto_session_start_utc'' (iso_to_dt ''zone_history.last_auto_session_start_utc'')) (\<lambda>last_auto_session_start_utc.
     res_bind (zone_runtime_from_dict runtime_raw) (\<lambda>zone_runtime.
     mk_zone_history
       \<lparr>zh_zone_history_id = history_id, zh_active_subentry_id = active_subentry_id,
        zh_previous_subentry_ids = previous_subentry_ids,
        zh_last_session_end_utc = last_session_end_utc,
        zh_last_auto_session_start_utc = last_auto_session_start_utc,
        zh_zone_runtime = zone_runtime, zh_daily = daily\<rparr>)))))))))"

section \<open>Safety records\<close>

definition removed_ack_to_dict :: "RemovedActuatorAcknowledgement \<Rightarrow> json" where
  "removed_ack_to_dict a =
     JObj [
       (''acknowledged_at_utc'', JStr (isoformat (rak_acknowledged_at_utc a))),
       (''registry_entry_id'', JStr (rak_registry_entry_id a)),
       (''last_known_entity_id'', opt_json JStr (rak_last_known_entity_id a))]"

definition ACK_KEYS :: "string list" where
  "ACK_KEYS =
     [''acknowledged_at_utc'', ''registry_entry_id'', ''last_known_entity_id'']"

definition removed_ack_from_dict :: "json \<Rightarrow> RemovedActuatorAcknowledgement result" where
  "removed_ack_from_dict raw =
     res_bind (require_exact_keys raw ACK_KEYS ''removed_actuator_ack'') (\<lambda>d.
     res_bind (read_at d ''acknowledged_at_utc'' (iso_to_dt ''removed_actuator_ack.acknowledged_at_utc'')) (\<lambda>at_opt.
     res_bind (require_dt ''removed_actuator_ack.acknowledged_at_utc'' at_opt) (\<lambda>acknowledged.
     res_bind (read_at d ''registry_entry_id'' (strict_string ''removed_actuator_ack.registry_entry_id'')) (\<lambda>registry.
     res_bind (read_at d ''last_known_entity_id'' (strict_string_nullable ''removed_actuator_ack.last_known_entity_id'')) (\<lambda>entity.
     mk_removed_ack
       \<lparr>rak_acknowledged_at_utc = acknowledged, rak_registry_entry_id = registry,
        rak_last_known_entity_id = entity\<rparr>)))))"

definition incident_to_dict :: "IdentityIncident \<Rightarrow> json" where
  "incident_to_dict i =
     JObj [
       (''kind'', enum_value incident_kinds (inc_kind i)),
       (''detail'', JStr (inc_detail i))]"

definition incident_from_dict :: "json \<Rightarrow> IdentityIncident result" where
  "incident_from_dict raw =
     res_bind (require_exact_keys raw [''kind'', ''detail''] ''identity_incident'') (\<lambda>d.
     res_bind (read_at d ''kind'' (enum_call incident_kinds)) (\<lambda>kind.
     res_bind (read_at d ''detail'' (strict_string ''identity_incident.detail'')) (\<lambda>detail.
     mk_incident \<lparr>inc_kind = kind, inc_detail = detail\<rparr>)))"

definition safety_record_to_dict :: "SafetyRecord \<Rightarrow> json" where
  "safety_record_to_dict r =
     JObj [
       (''zone_id'', JStr (sr_zone_id r)),
       (''active_subentry_id'', opt_json JStr (sr_active_subentry_id r)),
       (''previous_subentry_ids'', JList (map JStr (sr_previous_subentry_ids r))),
       (''safety_lineage_id'', JStr (sr_safety_lineage_id r)),
       (''zone_history_id'', JStr (sr_zone_history_id r)),
       (''historical_zone_history_ids'', JList (map JStr (sr_historical_zone_history_ids r))),
       (''runtime_lifecycle'', enum_value lifecycles (sr_runtime_lifecycle r)),
       (''applied_config'', opt_json shadow_to_dict (sr_applied_config r)),
       (''actuator_identity'', actuator_identity_to_dict (sr_actuator_identity r)),
       (''blocker_reasons'', JList (map (enum_value blocker_values) (sr_blocker_reasons r))),
       (''possible_flow_owner'', opt_json (enum_value flow_owners) (sr_possible_flow_owner r)),
       (''identity_incident'', opt_json incident_to_dict (sr_identity_incident r)),
       (''actuator_fault'', opt_json (enum_value fault_codes) (sr_actuator_fault r)),
       (''acknowledgement_required'', JBool (sr_acknowledgement_required r)),
       (''removed_actuator_ack'', opt_json removed_ack_to_dict (sr_removed_actuator_ack r))]"

definition SAFETY_RECORD_KEYS :: "string list" where
  "SAFETY_RECORD_KEYS =
     [''zone_id'', ''active_subentry_id'', ''previous_subentry_ids'', ''safety_lineage_id'',
      ''zone_history_id'', ''historical_zone_history_ids'', ''runtime_lifecycle'', ''applied_config'',
      ''actuator_identity'', ''blocker_reasons'', ''possible_flow_owner'', ''identity_incident'',
      ''actuator_fault'', ''acknowledgement_required'', ''removed_actuator_ack'']"

definition safety_record_from_dict :: "string \<Rightarrow> json \<Rightarrow> SafetyRecord result" where
  "safety_record_from_dict key raw =
     res_bind (map_id ''safety_record'' key) (\<lambda>record_id.
     res_bind (require_exact_keys raw SAFETY_RECORD_KEYS ''safety_record'') (\<lambda>d.
     res_bind (read_at d ''removed_actuator_ack'' (opt_read removed_ack_from_dict)) (\<lambda>removed_actuator_ack.
     res_bind (read_at d ''identity_incident'' (opt_read incident_from_dict)) (\<lambda>identity_incident.
     res_bind (read_at d ''zone_id'' (strict_string ''safety_record.zone_id'')) (\<lambda>zone_id.
     res_bind (read_at d ''active_subentry_id'' (strict_string_nullable ''safety_record.active_subentry_id'')) (\<lambda>active_subentry_id.
     res_bind (read_at d ''previous_subentry_ids'' (string_tuple ''safety_record.previous_subentry_ids'')) (\<lambda>previous_subentry_ids.
     res_bind (read_at d ''safety_lineage_id'' (strict_string ''safety_record.safety_lineage_id'')) (\<lambda>safety_lineage_id.
     res_bind (read_at d ''zone_history_id'' (strict_string ''safety_record.zone_history_id'')) (\<lambda>zone_history_id.
     res_bind (read_at d ''historical_zone_history_ids'' (string_tuple ''safety_record.historical_zone_history_ids'')) (\<lambda>historical_zone_history_ids.
     res_bind (read_at d ''runtime_lifecycle'' (enum_call lifecycles)) (\<lambda>runtime_lifecycle.
     res_bind (read_at d ''applied_config'' (opt_read shadow_from_dict)) (\<lambda>applied_config.
     res_bind (read_at d ''actuator_identity'' (actuator_identity_from_dict)) (\<lambda>actuator_identity.
     res_bind (read_at d ''blocker_reasons'' (enum_tuple blocker_values ''safety_record.blocker_reasons'')) (\<lambda>blocker_reasons.
     res_bind (read_at d ''possible_flow_owner'' (enum_or_none flow_owners ''possible_flow_owner'')) (\<lambda>possible_flow_owner.
     res_bind (read_at d ''actuator_fault'' (enum_or_none fault_codes ''actuator_fault'')) (\<lambda>actuator_fault.
     res_bind (read_at d ''acknowledgement_required'' (strict_bool ''acknowledgement_required'')) (\<lambda>acknowledgement_required.
     mk_safety_record
       \<lparr>sr_safety_record_id = record_id, sr_zone_id = zone_id,
        sr_active_subentry_id = active_subentry_id,
        sr_previous_subentry_ids = previous_subentry_ids, sr_safety_lineage_id = safety_lineage_id,
        sr_zone_history_id = zone_history_id,
        sr_historical_zone_history_ids = historical_zone_history_ids,
        sr_runtime_lifecycle = runtime_lifecycle, sr_applied_config = applied_config,
        sr_actuator_identity = actuator_identity, sr_blocker_reasons = blocker_reasons,
        sr_possible_flow_owner = possible_flow_owner, sr_identity_incident = identity_incident,
        sr_actuator_fault = actuator_fault, sr_acknowledgement_required = acknowledgement_required,
        sr_removed_actuator_ack = removed_actuator_ack\<rparr>)))))))))))))))))"

section \<open>The payload\<close>

definition run_to_dict :: "RunIds \<Rightarrow> json" where
  "run_to_dict r =
     JObj [
       (''active_run_id'', opt_json JStr (run_active_run_id r)),
       (''last_clean_shutdown_run_id'', opt_json JStr (run_last_clean_shutdown_run_id r))]"

definition store_payload :: "StoreData \<Rightarrow> json" where
  "store_payload data =
     JObj [
       (''version'', JInt STORE_SCHEMA_VERSION),
       (''generation_id'', JStr (st_generation_id data)),
       (''store_revision'', JInt (st_store_revision data)),
       (''run'', run_to_dict (st_run data)),
       (''zone_histories'',
          JObj (map (\<lambda>(k, h). (k, zone_history_to_dict h)) (sort_key fst (st_zone_histories data)))),
       (''safety_records'',
          JObj (map (\<lambda>(k, r). (k, safety_record_to_dict r)) (sort_key fst (st_safety_records data))))]"

definition store_data_to_dict :: "StoreData \<Rightarrow> json result" where
  "store_data_to_dict data = res_bind (validate_store_data data) (\<lambda>_. Inr (store_payload data))"

definition STORE_KEYS :: "string list" where
  "STORE_KEYS =
     [''version'', ''generation_id'', ''store_revision'', ''run'', ''zone_histories'', ''safety_records'']"

definition run_from_dict :: "json \<Rightarrow> RunIds result" where
  "run_from_dict raw =
     res_bind (require_exact_keys raw [''active_run_id'', ''last_clean_shutdown_run_id''] ''store.run'') (\<lambda>d.
     res_bind (read_at d ''active_run_id'' (strict_string_nullable ''store.run.active_run_id'')) (\<lambda>active.
     res_bind (read_at d ''last_clean_shutdown_run_id''
         (strict_string_nullable ''store.run.last_clean_shutdown_run_id'')) (\<lambda>clean.
     Inr \<lparr>run_active_run_id = active, run_last_clean_shutdown_run_id = clean\<rparr>)))"

text \<open>A dictionary comprehension: keys are checked before values.\<close>

definition read_items :: "string \<Rightarrow> (string \<Rightarrow> json \<Rightarrow> 'a result) \<Rightarrow> json_obj \<Rightarrow> (string \<times> 'a) list result" where
  "read_items ctx f items =
     res_map (\<lambda>(key, v). res_bind (map_id ctx key) (\<lambda>k. res_bind (f key v) (\<lambda>x. Inr (k, x)))) items"

definition store_data_from_dict :: "json \<Rightarrow> StoreData result" where
  "store_data_from_dict raw =
     (case raw of
        JObj d0 \<Rightarrow>
          (case dict_get d0 ''version'' of
             JInt version \<Rightarrow>
               if version > STORE_SCHEMA_VERSION then Inl FutureStoreVersion
               else if version \<noteq> STORE_SCHEMA_VERSION then malformed ''store schema is not the current one''
               else
               res_bind (require_exact_keys raw STORE_KEYS ''store'') (\<lambda>d.
               res_bind (read_at d ''generation_id'' (strict_string ''store.generation_id'')) (\<lambda>generation.
               res_bind (read_at d ''store_revision'' (strict_int ''store.store_revision'' 1)) (\<lambda>revision.
               res_bind (read_at d ''run'' run_from_dict) (\<lambda>run.
               res_bind (dict_at d ''zone_histories'') (\<lambda>histories_json.
               res_bind (dict_at d ''safety_records'') (\<lambda>records_json.
               case (histories_json, records_json) of
                 (JObj histories_raw, JObj records_raw) \<Rightarrow>
                   catch_plain ''store payload invalid'' (
                   res_bind (read_items ''zone_history'' zone_history_from_dict histories_raw) (\<lambda>histories.
                   res_bind (read_items ''safety_record'' safety_record_from_dict records_raw) (\<lambda>records.
                   mk_store_data
                     \<lparr>st_generation_id = generation, st_store_revision = revision, st_run = run,
                      st_zone_histories = histories, st_safety_records = records,
                      st_version = STORE_SCHEMA_VERSION\<rparr>)))
               | _ \<Rightarrow> malformed ''store zone_histories/safety_records must be objects''))))))
           | _ \<Rightarrow> malformed ''store.version must be an integer'')
      | _ \<Rightarrow> malformed ''store must be an object'')"

section \<open>Schema 2\<close>

text \<open>Python's \<open>==\<close> of a JSON value with an integer: an equal float is equal too, and a boolean
  is the integer 0 or 1.\<close>

definition json_equals_int :: "json \<Rightarrow> int \<Rightarrow> bool" where
  "json_equals_int v n =
     (case v of
        JInt i \<Rightarrow> i = n
      | JFloat (Fin r) \<Rightarrow> r = of_int n
      | JBool b \<Rightarrow> (if b then 1 else 0) = n
      | _ \<Rightarrow> False)"

definition upgrade_record :: "json \<Rightarrow> json result" where
  "upgrade_record record =
     (case record of
        JObj d \<Rightarrow>
          if ''removed_actuator_ack'' \<in> fst ` set d
          then malformed ''schema-2 record cannot declare removed_actuator_ack''
          else Inr (JObj (AList.update ''removed_actuator_ack'' JNull d))
      | _ \<Rightarrow> malformed ''safety_record must be an object'')"

definition migrate_schema2_to_schema3 :: "json \<Rightarrow> StoreData result" where
  "migrate_schema2_to_schema3 raw =
     (case raw of
        JObj d \<Rightarrow>
          if \<not> json_equals_int (dict_get d ''version'') PRIOR_STORE_SCHEMA_VERSION
          then malformed ''schema-2 upgrade requires a schema-2 payload''
          else (case dict_get d ''safety_records'' of
                  JObj records_raw \<Rightarrow>
                    res_bind (res_map (\<lambda>(k, record). res_bind (upgrade_record record) (\<lambda>r. Inr (k, r))) records_raw)
                      (\<lambda>upgraded_records.
                    store_data_from_dict (JObj
                      (AList.update ''safety_records'' (JObj upgraded_records)
                        (AList.update ''version'' (JInt STORE_SCHEMA_VERSION) d))))
                | _ \<Rightarrow> malformed ''store.safety_records must be an object'')
      | _ \<Rightarrow> malformed ''store must be an object'')"

end
