(* ===== verification/Store_Migration.thy ===== *)
theory Store_Migration
  imports Store_Codec
begin

text \<open>
  The store on the level of its payloads (\<open>storage.py\<close>, \<open>models.py\<close>): the strict reader and
  writer of schema 1, its migration, the verified write with the JSON values that go to and come
  back from Home Assistant's \<open>Store\<close>, and the classification of what is found at startup.
  The name-based UUID is the parameter \<open>uid\<close>, a function of generation, record and kind.
\<close>

section \<open>Schema 1\<close>

record ZoneRecord =
  z1_state :: ControllerState
  z1_enabled :: bool
  z1_active_fault :: "FaultCode option"
  z1_secondary_fault :: "FaultCode option"
  z1_last_session_end_utc :: "utc option"
  z1_last_auto_session_start_utc :: "utc option"
  z1_daily :: "DailyRuntime option"
  z1_last_session_summary :: "SessionSummary option"
  z1_session :: "SessionContext option"

record Schema1StoreData =
  s1_generation_id :: string
  s1_store_revision :: int
  s1_run :: RunIds
  s1_zones :: "(string \<times> ZoneRecord) list"
  s1_version :: int

definition daily1_to_dict :: "DailyRuntime \<Rightarrow> json" where
  "daily1_to_dict d =
     JObj [
       (''date_local'', JStr (date_isoformat (day_date_local d))),
       (''runtime_s'', JFloat (Fin (day_runtime_s d)))]"

definition zone_record_to_dict :: "ZoneRecord \<Rightarrow> json" where
  "zone_record_to_dict z =
     JObj [
       (''state'', enum_value controller_states (z1_state z)),
       (''enabled'', JBool (z1_enabled z)),
       (''active_fault'', opt_json (enum_value fault_codes) (z1_active_fault z)),
       (''secondary_fault'', opt_json (enum_value fault_codes) (z1_secondary_fault z)),
       (''last_session_end_utc'', dt_to_iso (z1_last_session_end_utc z)),
       (''last_auto_session_start_utc'', dt_to_iso (z1_last_auto_session_start_utc z)),
       (''daily'', opt_json daily1_to_dict (z1_daily z)),
       (''last_session_summary'', opt_json summary_to_dict (z1_last_session_summary z)),
       (''session'', opt_json session_to_dict (z1_session z))]"

definition ZONE_RECORD_KEYS :: "string list" where
  "ZONE_RECORD_KEYS =
     [''state'', ''enabled'', ''active_fault'', ''secondary_fault'', ''last_session_end_utc'',
      ''last_auto_session_start_utc'', ''daily'', ''last_session_summary'', ''session'']"

definition daily1_from_dict :: "json \<Rightarrow> DailyRuntime result" where
  "daily1_from_dict daily_raw =
     res_bind (json_require daily_raw ''date_local'' ''zone.daily'') (\<lambda>date_raw.
     res_bind (json_require daily_raw ''runtime_s'' ''zone.daily'') (\<lambda>runtime_raw.
     catch_value_error ''zone.daily invalid'' (
       res_bind (require_exact_keys daily_raw [''date_local'', ''runtime_s''] ''zone.daily'') (\<lambda>_.
       case date_raw of
         JStr text \<Rightarrow>
           res_bind (date_of_text text) (\<lambda>day.
           res_bind (strict_float ''zone.daily.runtime_s'' runtime_raw) (\<lambda>runtime.
           mk_daily day runtime))
       | _ \<Rightarrow> Inl (ValueError ''date_local must be a string'')))))"

definition zone_record_from_dict :: "json \<Rightarrow> ZoneRecord result" where
  "zone_record_from_dict data =
     res_bind (require_exact_keys data ZONE_RECORD_KEYS ''zone'') (\<lambda>d.
     res_bind (catch_plain ''zone.state has unknown value'' (require_at d ''state'' ''zone'' (enum_call controller_states)))
       (\<lambda>state.
     res_bind (require_at d ''enabled'' ''zone'' (strict_bool ''zone.enabled'')) (\<lambda>enabled.
     res_bind (opt_read daily1_from_dict (dict_get d ''daily'')) (\<lambda>daily.
     res_bind (enum_or_none fault_codes ''zone.active_fault'' (dict_get d ''active_fault'')) (\<lambda>active_fault.
     res_bind (enum_or_none fault_codes ''zone.secondary_fault'' (dict_get d ''secondary_fault'')) (\<lambda>secondary_fault.
     res_bind (iso_to_dt ''zone.last_session_end_utc'' (dict_get d ''last_session_end_utc'')) (\<lambda>last_end.
     res_bind (iso_to_dt ''zone.last_auto_session_start_utc'' (dict_get d ''last_auto_session_start_utc'')) (\<lambda>last_start.
     res_bind (opt_read summary_from_dict (dict_get d ''last_session_summary'')) (\<lambda>summary.
     res_bind (opt_read session_from_dict (dict_get d ''session'')) (\<lambda>session.
     Inr
       \<lparr>z1_state = state, z1_enabled = enabled, z1_active_fault = active_fault, z1_secondary_fault = secondary_fault,
        z1_last_session_end_utc = last_end, z1_last_auto_session_start_utc = last_start, z1_daily = daily,
        z1_last_session_summary = summary, z1_session = session\<rparr>))))))))))"

definition schema1_store_data_to_dict :: "Schema1StoreData \<Rightarrow> json" where
  "schema1_store_data_to_dict data =
     JObj [
       (''version'', JInt (s1_version data)),
       (''generation_id'', JStr (s1_generation_id data)),
       (''store_revision'', JInt (s1_store_revision data)),
       (''run'', run_to_dict (s1_run data)),
       (''zones'', JObj (map (\<lambda>(k, z). (k, zone_record_to_dict z)) (s1_zones data)))]"

definition SCHEMA1_KEYS :: "string list" where
  "SCHEMA1_KEYS = [''version'', ''generation_id'', ''store_revision'', ''run'', ''zones'']"

definition schema1_run_from_dict :: "json \<Rightarrow> RunIds result" where
  "schema1_run_from_dict raw =
     res_bind (require_exact_keys raw [''active_run_id'', ''last_clean_shutdown_run_id''] ''store.run'') (\<lambda>d.
     res_bind (json_require (JObj d) ''active_run_id'' ''store.run'') (\<lambda>active.
     res_bind (json_require (JObj d) ''last_clean_shutdown_run_id'' ''store.run'') (\<lambda>last_clean.
     res_bind (strict_string_nullable ''store.run.active_run_id'' active) (\<lambda>a.
     res_bind (strict_string_nullable ''store.run.last_clean_shutdown_run_id'' last_clean) (\<lambda>c.
     Inr \<lparr>run_active_run_id = a, run_last_clean_shutdown_run_id = c\<rparr>)))))"

definition schema1_store_data_from_dict :: "json \<Rightarrow> Schema1StoreData result" where
  "schema1_store_data_from_dict raw =
     res_bind (require_exact_keys raw SCHEMA1_KEYS ''store'') (\<lambda>d.
     res_bind (json_require (JObj d) ''version'' ''store'') (\<lambda>version_raw.
     case version_raw of
       JInt version \<Rightarrow>
         if version > LEGACY_STORE_SCHEMA_VERSION then Inl FutureStoreVersion
         else if version < LEGACY_STORE_SCHEMA_VERSION then malformed ''store schema is invalid''
         else
         res_bind (require_at d ''generation_id'' ''store'' (strict_string ''store.generation_id'')) (\<lambda>generation.
         res_bind (require_at d ''store_revision'' ''store'' (strict_int ''store.store_revision'' 1)) (\<lambda>revision.
         res_bind (require_at d ''run'' ''store'' schema1_run_from_dict) (\<lambda>run.
         res_bind (json_require (JObj d) ''zones'' ''store'') (\<lambda>zones_json.
         case zones_json of
           JObj zones_raw \<Rightarrow>
             res_bind (read_items ''store.zones'' (\<lambda>_. zone_record_from_dict) zones_raw) (\<lambda>zones.
             Inr
               \<lparr>s1_generation_id = generation, s1_store_revision = revision, s1_run = run, s1_zones = zones,
                s1_version = version\<rparr>)
         | _ \<Rightarrow> malformed ''store.zones must be an object''))))
     | _ \<Rightarrow> malformed ''store.version must be an integer''))"

section \<open>Migration of schema 1\<close>

record MigrationRecordContext =
  mc_active_subentry_id :: string
  mc_applied_config :: AppliedConfigurationShadow
  mc_actuator_identity :: ActuatorIdentity
  mc_sensor_identity :: SensorIdentity

definition mk_migration_context :: "MigrationRecordContext \<Rightarrow> MigrationRecordContext result" where
  "mk_migration_context c =
     (if mc_active_subentry_id c = [] \<or> sh_subentry_id (mc_applied_config c) \<noteq> mc_active_subentry_id c
      then Inl (ValueError ''migration context subentry/shadow mismatch'')
      else if si_last_known_entity_id (mc_sensor_identity c) \<noteq>
              Some (ae_last_known_entity_id (sh_sensor_identity (mc_applied_config c)))
      then Inl (ValueError ''migration context sensor identity/shadow mismatch'')
      else if ai_last_known_entity_id (mc_actuator_identity c) \<noteq>
              Some (ae_last_known_entity_id (sh_actuator_identity (mc_applied_config c)))
      then Inl (ValueError ''migration context actuator identity/shadow mismatch'')
      else Inr c)"

definition legacy_has_possible_integration_flow :: "ZoneRecord \<Rightarrow> bool" where
  "legacy_has_possible_integration_flow z =
     (case z1_session z of
        None \<Rightarrow> False
      | Some s \<Rightarrow> ses_pulse_intent_at_utc s \<noteq> None \<and> ses_off_confirmed_at_utc s = None)"

definition split_schema1_faults ::
  "FaultCode option \<Rightarrow> FaultCode option \<Rightarrow> (FaultCode option \<times> FaultCode option \<times> FaultCode option) result" where
  "split_schema1_faults primary secondary =
     (let actuator_faults = filter (\<lambda>f. f \<in> ACTUATOR_FAULTS) (somes [primary, secondary]);
          zone = (\<lambda>f. case f of Some c \<Rightarrow> if c \<in> ZONE_FAULTS then f else None | None \<Rightarrow> None)
      in if length actuator_faults > 1
         then malformed ''schema-1 primary/secondary actuator faults cannot be represented unambiguously''
         else Inr (case actuator_faults of [] \<Rightarrow> None | f # _ \<Rightarrow> Some f, zone primary, zone secondary))"

definition migrate_daily ::
  "(string \<Rightarrow> string \<Rightarrow> string \<Rightarrow> string) \<Rightarrow> string \<Rightarrow> string \<Rightarrow> DailyRuntime \<Rightarrow> ZoneDailyRuntime result" where
  "migrate_daily uid generation_id safety_record_id d =
     res_bind (mk_contribution
       \<lparr>con_accounting_contribution_id =
          uid generation_id safety_record_id (''schema1-daily:'' @ date_isoformat (day_date_local d)),
        con_source_safety_record_id = safety_record_id, con_start_utc = None, con_end_utc = None,
        con_runtime_s = day_runtime_s d, con_runtime_estimated = True, con_local_date = Some (day_date_local d)\<rparr>)
     (\<lambda>contribution.
       mk_zone_daily
         \<lparr>zdr_date_local = day_date_local d, zdr_runtime_s = day_runtime_s d,
          zdr_conservative_unattributed_runtime_s = 0, zdr_contributions = [contribution]\<rparr>)"

text \<open>What depends on whether the zone is in the current configuration: subentry, previous
  subentries, lifecycle, applied configuration, identities, blockers and incident.\<close>

record MigrationTarget =
  mt_active_subentry_id :: "string option"
  mt_previous_subentry_ids :: "string list"
  mt_lifecycle :: RuntimeLifecycle
  mt_applied_config :: "AppliedConfigurationShadow option"
  mt_actuator_identity :: ActuatorIdentity
  mt_sensor_identity :: SensorIdentity
  mt_blockers :: "BlockerReason set"
  mt_incident :: "IdentityIncident option"

definition migration_target ::
  "MigrationRecordContext option \<Rightarrow> string \<Rightarrow> ZoneRecord \<Rightarrow> MigrationTarget result" where
  "migration_target context safety_record_id old =
     (let flow = (if legacy_has_possible_integration_flow old then {INTEGRATION_OFF_UNCONFIRMED} else {})
      in case context of
           None \<Rightarrow>
             res_bind (mk_actuator_identity
               \<lparr>ai_registry_entry_id = None, ai_last_known_entity_id = None, ai_domain = None,
                ai_identity_status = MISSING, ai_off_service = None, ai_confirm_timeout_s = None\<rparr>) (\<lambda>actuator.
             res_bind (mk_sensor_identity \<lparr>si_registry_entry_id = None, si_last_known_entity_id = None\<rparr>) (\<lambda>sensor.
             res_bind (mk_incident
               \<lparr>inc_kind = MIGRATION_UNRESOLVED,
                inc_detail = ''schema-1 record absent from supplied current configuration; durable actuator identity unavailable''\<rparr>)
               (\<lambda>incident.
             Inr \<lparr>mt_active_subentry_id = None, mt_previous_subentry_ids = [safety_record_id],
                  mt_lifecycle = DELETE_PENDING, mt_applied_config = None, mt_actuator_identity = actuator,
                  mt_sensor_identity = sensor, mt_blockers = insert ACTUATOR_NOT_PROVEN_OFF flow,
                  mt_incident = Some incident\<rparr>)))
         | Some c \<Rightarrow>
             Inr \<lparr>mt_active_subentry_id = Some (mc_active_subentry_id c),
                  mt_previous_subentry_ids =
                    (if mc_active_subentry_id c \<noteq> safety_record_id then [safety_record_id] else []),
                  mt_lifecycle = ACTIVE, mt_applied_config = Some (mc_applied_config c),
                  mt_actuator_identity = mc_actuator_identity c, mt_sensor_identity = mc_sensor_identity c,
                  mt_blockers = flow, mt_incident = None\<rparr>)"

definition migrate_record ::
  "(string \<Rightarrow> string \<Rightarrow> string \<Rightarrow> string) \<Rightarrow> string \<Rightarrow> MigrationRecordContext option \<Rightarrow> string \<Rightarrow> ZoneRecord \<Rightarrow>
   (ZoneHistory \<times> SafetyRecord) result" where
  "migrate_record uid generation_id context safety_record_id old =
     res_bind (split_schema1_faults (z1_active_fault old) (z1_secondary_fault old))
       (\<lambda>(actuator_fault, zone_fault, secondary_zone_fault).
     res_bind (case z1_session old of
                 None \<Rightarrow> Inr None
               | Some s \<Rightarrow>
                   res_bind (mk_persisted_session \<lparr>ps_owner_safety_record_id = safety_record_id, ps_context = s\<rparr>)
                     (\<lambda>p. Inr (Some p))) (\<lambda>persisted_session.
     res_bind (case z1_daily old of
                 None \<Rightarrow> Inr None
               | Some d \<Rightarrow> res_bind (migrate_daily uid generation_id safety_record_id d) (\<lambda>z. Inr (Some z))) (\<lambda>daily.
     res_bind (migration_target context safety_record_id old) (\<lambda>target.
     res_bind (mk_zone_runtime
       \<lparr>zr_enabled = z1_enabled old, zr_state = z1_state old, zr_zone_fault = zone_fault,
        zr_secondary_fault = secondary_zone_fault, zr_sensor_identity = mt_sensor_identity target,
        zr_last_session_summary = z1_last_session_summary old, zr_session = persisted_session\<rparr>) (\<lambda>zone_runtime.
     res_bind (mk_zone_history
       \<lparr>zh_zone_history_id = uid generation_id safety_record_id ''zone-history'',
        zh_active_subentry_id = mt_active_subentry_id target,
        zh_previous_subentry_ids = mt_previous_subentry_ids target,
        zh_last_session_end_utc = z1_last_session_end_utc old,
        zh_last_auto_session_start_utc = z1_last_auto_session_start_utc old,
        zh_zone_runtime = zone_runtime, zh_daily = daily\<rparr>) (\<lambda>history.
     res_bind (mk_safety_record
       \<lparr>sr_safety_record_id = safety_record_id, sr_zone_id = safety_record_id,
        sr_active_subentry_id = mt_active_subentry_id target,
        sr_previous_subentry_ids = mt_previous_subentry_ids target,
        sr_safety_lineage_id = uid generation_id safety_record_id ''safety-lineage'',
        sr_zone_history_id = uid generation_id safety_record_id ''zone-history'',
        sr_historical_zone_history_ids = [], sr_runtime_lifecycle = mt_lifecycle target,
        sr_applied_config = mt_applied_config target, sr_actuator_identity = mt_actuator_identity target,
        sr_blocker_reasons = ordered_blockers (mt_blockers target),
        sr_possible_flow_owner =
          (if legacy_has_possible_integration_flow old then Some INTEGRATION else None),
        sr_identity_incident = mt_incident target, sr_actuator_fault = actuator_fault,
        sr_acknowledgement_required = (case actuator_fault of None \<Rightarrow> False | Some f \<Rightarrow> requires_user_ack f),
        sr_removed_actuator_ack = None\<rparr>) (\<lambda>record.
     Inr (history, record))))))))"

fun migrate_loop ::
  "(string \<Rightarrow> string \<Rightarrow> string \<Rightarrow> string) \<Rightarrow> string \<Rightarrow> (string \<times> MigrationRecordContext) list \<Rightarrow> (string \<times> ZoneRecord) list \<Rightarrow>
   (string \<times> ZoneHistory) list \<Rightarrow> (string \<times> SafetyRecord) list \<Rightarrow>
   ((string \<times> ZoneHistory) list \<times> (string \<times> SafetyRecord) list) result" where
  "migrate_loop uid generation_id contexts [] histories records = Inr (histories, records)"
| "migrate_loop uid generation_id contexts ((k, old) # zones) histories records =
     res_bind (migrate_record uid generation_id (map_of contexts k) k old) (\<lambda>(history, record).
       migrate_loop uid generation_id contexts zones
         (AList.update (uid generation_id k ''zone-history'') history histories) (AList.update k record records))"

definition migrate_schema1_to_schema2 ::
  "(string \<Rightarrow> string \<Rightarrow> string \<Rightarrow> string) \<Rightarrow> Schema1StoreData \<Rightarrow> (string \<times> MigrationRecordContext) list \<Rightarrow> StoreData result" where
  "migrate_schema1_to_schema2 uid legacy contexts =
     (if \<not> fst ` set contexts \<subseteq> fst ` set (s1_zones legacy)
      then malformed ''migration context has unknown schema-1 records''
      else res_bind (migrate_loop uid (s1_generation_id legacy) contexts (sort_key fst (s1_zones legacy)) [] [])
        (\<lambda>(histories, records).
        catch_value_error ''migrated schema-2 payload invalid'' (mk_store_data
          \<lparr>st_generation_id = s1_generation_id legacy, st_store_revision = s1_store_revision legacy + 1,
           st_run = s1_run legacy, st_zone_histories = histories, st_safety_records = records,
           st_version = STORE_SCHEMA_VERSION\<rparr>)))"

section \<open>The verified write on payloads\<close>

datatype load_result = LoadFails | LoadEmpty | LoadValue json

record json_io =
  ji_save_raises :: bool
  ji_load :: load_result

fun is_store_data_error :: "py_error \<Rightarrow> bool" where
  "is_store_data_error (MalformedStoreData _) = True"
| "is_store_data_error FutureStoreVersion = True"
| "is_store_data_error _ = False"

fun is_value_error :: "py_error \<Rightarrow> bool" where
  "is_value_error (ValueError _) = True"
| "is_value_error _ = False"

definition save_and_verify_payload :: "json_io \<Rightarrow> StoreData \<Rightarrow> SafetyStore \<Rightarrow> SafetyStore \<times> py_error option" where
  "save_and_verify_payload io data s =
     (let fail = (\<lambda>msg. (s, Some (StoreWriteVerificationError msg)))
      in case store_data_to_dict data of
           Inl e \<Rightarrow> (s, Some e)
         | Inr payload \<Rightarrow>
             if ji_save_raises io then fail ''safety write failed''
             else (case ji_load io of
                     LoadFails \<Rightarrow> fail ''read-back load failed''
                   | LoadEmpty \<Rightarrow> fail ''read-back returned no data''
                   | LoadValue raw \<Rightarrow>
                       (case store_data_from_dict raw of
                          Inl e \<Rightarrow> if is_store_data_error e then fail ''read-back malformed'' else (s, Some e)
                        | Inr loaded \<Rightarrow>
                            if st_version loaded \<noteq> STORE_SCHEMA_VERSION then fail ''read-back schema mismatch''
                            else if st_generation_id loaded \<noteq> st_generation_id data
                            then fail ''read-back generation mismatch''
                            else if st_store_revision loaded \<noteq> st_store_revision data
                            then fail ''read-back revision mismatch''
                            else (case store_data_to_dict loaded of
                                    Inl e \<Rightarrow> (s, Some e)
                                  | Inr payload' \<Rightarrow>
                                      if payload' \<noteq> payload then fail ''read-back payload mismatch''
                                      else (s\<lparr>ss_data := Some data\<rparr>, None)))))"

section \<open>Classification at startup\<close>

datatype SetupClassification = FIRST_INSTALL | INTERRUPTED_INITIALIZATION | INITIALIZED_OK | INTEGRITY_LOSS

text \<open>One version-matched reader of Home Assistant: it refuses another version with
  \<open>NotImplementedError\<close>, fails otherwise, or gives what it loaded.\<close>

datatype reader_result = RefusesVersion | ReaderFails | Loads "json option"

fun load_current_or_schema1 :: "reader_result list \<Rightarrow> json option option" where
  "load_current_or_schema1 [] = None"
| "load_current_or_schema1 (RefusesVersion # readers) = load_current_or_schema1 readers"
| "load_current_or_schema1 (ReaderFails # readers) = None"
| "load_current_or_schema1 (Loads v # readers) = Some v"

definition adopt_parsed ::
  "bool \<Rightarrow> StoreData \<Rightarrow> SafetyStore \<Rightarrow> SafetyStore \<times> (SetupClassification \<times> StoreData option) result" where
  "adopt_parsed runtime_store_initialized parsed s =
     (if st_generation_id parsed \<noteq> ss_generation_id s then (s, Inr (INTEGRITY_LOSS, None))
      else (s\<lparr>ss_data := Some parsed\<rparr>,
            Inr (if runtime_store_initialized then INITIALIZED_OK else INTERRUPTED_INITIALIZATION, Some parsed)))"

definition save_then_adopt ::
  "json_io \<Rightarrow> bool \<Rightarrow> StoreData \<Rightarrow> SafetyStore \<Rightarrow> SafetyStore \<times> (SetupClassification \<times> StoreData option) result" where
  "save_then_adopt io runtime_store_initialized data s =
     (case save_and_verify_payload io data s of
        (s', Some e) \<Rightarrow> (s', Inl e)
      | (s', None) \<Rightarrow> adopt_parsed runtime_store_initialized data s')"

definition classify_setup ::
  "(string \<Rightarrow> string \<Rightarrow> string \<Rightarrow> string) \<Rightarrow> reader_result list \<Rightarrow> json_io \<Rightarrow> bool \<Rightarrow>
   (string \<times> MigrationRecordContext) list option \<Rightarrow> SafetyStore \<Rightarrow>
   SafetyStore \<times> (SetupClassification \<times> StoreData option) result" where
  "classify_setup uid readers io runtime_store_initialized migration_records s =
     (let lost = (s, Inr (INTEGRITY_LOSS, None))
      in case load_current_or_schema1 readers of
           None \<Rightarrow> lost
         | Some None \<Rightarrow> if runtime_store_initialized then lost else (s, Inr (FIRST_INSTALL, None))
         | Some (Some (JObj d)) \<Rightarrow>
             if json_equals_int (dict_get d ''version'') LEGACY_STORE_SCHEMA_VERSION then
               (case schema1_store_data_from_dict (JObj d) of
                  Inl e \<Rightarrow> if is_store_data_error e then lost else (s, Inl e)
                | Inr legacy \<Rightarrow>
                    if s1_generation_id legacy \<noteq> ss_generation_id s then lost
                    else (case migrate_schema1_to_schema2 uid legacy
                                 (filter (\<lambda>(k, _). k \<in> fst ` set (s1_zones legacy))
                                    (case migration_records of None \<Rightarrow> [] | Some rs \<Rightarrow> rs)) of
                            Inl e \<Rightarrow>
                              if is_store_data_error e \<or> is_value_error e then lost else (s, Inl e)
                          | Inr migrated \<Rightarrow> save_then_adopt io runtime_store_initialized migrated s))
             else if json_equals_int (dict_get d ''version'') PRIOR_STORE_SCHEMA_VERSION then
               (case migrate_schema2_to_schema3 (JObj d) of
                  Inl e \<Rightarrow> if is_store_data_error e then lost else (s, Inl e)
                | Inr upgraded \<Rightarrow>
                    if st_generation_id upgraded \<noteq> ss_generation_id s then lost
                    else save_then_adopt io runtime_store_initialized upgraded s)
             else
               (case store_data_from_dict (JObj d) of
                  Inl e \<Rightarrow> if is_store_data_error e then lost else (s, Inl e)
                | Inr parsed \<Rightarrow> adopt_parsed runtime_store_initialized parsed s)
         | Some (Some _) \<Rightarrow> lost)"

end
