(* ===== verification/Codec_Laws.thy ===== *)
theory Codec_Laws
  imports Store_Codec
begin

text \<open>
  The laws of readers and writers.  \<open>enumeration\<close> says what a table of member values must
  satisfy; \<open>codec\<close> is the contract between a writer and a reader, up to a normal form (the live
  fields that are not written), with its consequences for optional values and lists.  The
  enumerations and the elementary readers are interpreted here; each dataclass interprets
  \<open>codec\<close> where its codec is proved.
\<close>

named_theorems codec_simps \<open>readers applied to what the writers write\<close>

section \<open>Enumerations\<close>

locale enumeration =
  fixes table :: "'e enum_table"
  assumes values_unique: "distinct (map fst table)" and total: "x \<in> snd ` set table"
begin

lemma value_in_table: "\<exists>s. enum_value table x = JStr s \<and> (s, x) \<in> set table"
proof -
  from total [of x] have "filter (\<lambda>p. snd p = x) table \<noteq> []" by (fastforce simp: filter_empty_conv)
  then have "hd (filter (\<lambda>p. snd p = x) table) \<in> set (filter (\<lambda>p. snd p = x) table)"
    by (intro hd_in_set) auto
  then show ?thesis by (metis (mono_tags, lifting) enum_value_def mem_Collect_eq prod.collapse set_filter)
qed

lemma call_value: "enum_call table (enum_value table x) = Inr x"
  using value_in_table [of x] values_unique by (auto simp: enum_call_def)

lemma value_not_null: "enum_value table x \<noteq> JNull"
  by (simp add: enum_value_def)

lemma value_injective: "enum_value table x = enum_value table y \<longleftrightarrow> x = y"
  by (metis call_value sum.inject(2))

lemma optional_value: "enum_or_none table name (opt_json (enum_value table) v) = Inr v"
  by (cases v) (simp_all add: enum_or_none_def opt_json_def value_not_null call_value)

lemma list_value: "res_map (enum_call table) (map (enum_value table) xs) = Inr xs"
  by (induction xs) (simp_all add: call_value)

lemma tuple_value: "enum_tuple table name (JList (map (enum_value table) xs)) =
    (if distinct xs then Inr xs else malformed (name @ '' must not contain duplicates''))"
  by (simp add: enum_tuple_def tuple_of_def list_value)

end

interpretation states: enumeration controller_states
proof unfold_locales
  show "distinct (map fst controller_states)" by (simp add: controller_states_def)
  show "x \<in> snd ` set controller_states" for x by (cases x) (simp_all add: controller_states_def)
qed

interpretation modes: enumeration session_modes
proof unfold_locales
  show "distinct (map fst session_modes)" by (simp add: session_modes_def)
  show "x \<in> snd ` set session_modes" for x by (cases x) (simp_all add: session_modes_def)
qed

interpretation faults: enumeration fault_codes
proof unfold_locales
  show "distinct (map fst fault_codes)" by (simp add: fault_codes_def)
  show "x \<in> snd ` set fault_codes" for x by (cases x) (simp_all add: fault_codes_def)
qed

interpretation reasons: enumeration completion_reasons
proof unfold_locales
  show "distinct (map fst completion_reasons)" by (simp add: completion_reasons_def)
  show "x \<in> snd ` set completion_reasons" for x by (cases x) (simp_all add: completion_reasons_def)
qed

interpretation estimations: enumeration estimation_reasons
proof unfold_locales
  show "distinct (map fst estimation_reasons)" by (simp add: estimation_reasons_def)
  show "x \<in> snd ` set estimation_reasons" for x by (cases x) (simp_all add: estimation_reasons_def)
qed

interpretation blockers: enumeration blocker_values
proof unfold_locales
  show "distinct (map fst blocker_values)" by (simp add: blocker_values_def)
  show "x \<in> snd ` set blocker_values" for x by (cases x) (simp_all add: blocker_values_def)
qed

interpretation lifecycles: enumeration lifecycles
proof unfold_locales
  show "distinct (map fst lifecycles)" by (simp add: lifecycles_def)
  show "x \<in> snd ` set lifecycles" for x by (cases x) (simp_all add: lifecycles_def)
qed

interpretation statuses: enumeration identity_statuses
proof unfold_locales
  show "distinct (map fst identity_statuses)" by (simp add: identity_statuses_def)
  show "x \<in> snd ` set identity_statuses" for x by (cases x) (simp_all add: identity_statuses_def)
qed

interpretation owners: enumeration flow_owners
proof unfold_locales
  show "distinct (map fst flow_owners)" by (simp add: flow_owners_def)
  show "x \<in> snd ` set flow_owners" for x by (cases x) (simp_all add: flow_owners_def)
qed

interpretation incidents: enumeration incident_kinds
proof unfold_locales
  show "distinct (map fst incident_kinds)" by (simp add: incident_kinds_def)
  show "x \<in> snd ` set incident_kinds" for x by (cases x) (simp_all add: incident_kinds_def)
qed

interpretation clamps: enumeration clamp_reasons
proof unfold_locales
  show "distinct (map fst clamp_reasons)" by (simp add: clamp_reasons_def)
  show "x \<in> snd ` set clamp_reasons" for x by (cases x) (simp_all add: clamp_reasons_def)
qed

lemmas enum_reads [codec_simps] =
  states.call_value modes.call_value faults.call_value reasons.call_value estimations.call_value
  blockers.call_value lifecycles.call_value statuses.call_value owners.call_value incidents.call_value
  clamps.call_value states.optional_value faults.optional_value owners.optional_value clamps.list_value
  blockers.tuple_value

section \<open>Elementary readers\<close>

definition utc_opt_ok :: "utc option \<Rightarrow> bool" where
  "utc_opt_ok v = (case v of None \<Rightarrow> True | Some t \<Rightarrow> utc_ok t)"

definition float_opt_ok :: "pyfloat option \<Rightarrow> bool" where
  "float_opt_ok v = (case v of None \<Rightarrow> True | Some x \<Rightarrow> fl_isfinite x)"

definition text_opt_ok :: "string option \<Rightarrow> bool" where
  "text_opt_ok v \<longleftrightarrow> v \<noteq> Some []"

lemma read_string [codec_simps]: "strict_string name (JStr s) = (if s = [] then malformed (name @ '' must be a non-empty string'') else Inr s)"
  by (simp add: strict_string_def)

lemma read_nullable [codec_simps]: "text_opt_ok v \<Longrightarrow> strict_string_nullable name (opt_json JStr v) = Inr v"
  by (cases v) (auto simp: strict_string_nullable_def opt_json_def strict_string_def text_opt_ok_def)

lemma read_bool [codec_simps]: "strict_bool name (JBool b) = Inr b"
  by (simp add: strict_bool_def)

lemma read_int [codec_simps]: "minimum \<le> i \<Longrightarrow> strict_int name minimum (JInt i) = Inr i"
  by (simp add: strict_int_def)

lemma read_float [codec_simps]: "0 \<le> r \<Longrightarrow> strict_float name (JFloat (Fin r)) = Inr r"
  by (simp add: strict_float_def json_float_def)

lemma read_float_opt [codec_simps]: "float_opt_ok v \<Longrightarrow> float_or_none (opt_json JFloat v) = Inr v"
  by (cases v) (simp_all add: float_or_none_def opt_json_def json_float_def float_opt_ok_def)

lemma read_time [codec_simps]: "utc_opt_ok v \<Longrightarrow> iso_to_dt name (dt_to_iso v) = Inr v"
  by (cases v) (simp_all add: iso_to_dt_def dt_to_iso_def opt_json_def utc_opt_ok_def isoformat_roundtrip)

lemma read_time_text [codec_simps]: "utc_ok t \<Longrightarrow> iso_to_dt name (JStr (isoformat t)) = Inr (Some t)"
  by (simp add: iso_to_dt_def isoformat_roundtrip)

lemma read_date [codec_simps]: "date_ok d \<Longrightarrow> date_of_text (date_isoformat d) = Inr d"
  by (simp add: date_of_text_def date_text_roundtrip)

lemma read_strings: "list_all (\<lambda>s. s \<noteq> []) xs \<Longrightarrow> res_map (strict_string name) (map JStr xs) = Inr xs"
  by (induction xs) (simp_all add: strict_string_def)

lemma read_string_tuple [codec_simps]:
  "list_all (\<lambda>s. s \<noteq> []) xs \<Longrightarrow> string_tuple name (JList (map JStr xs)) =
     (if distinct xs then Inr xs else malformed (name @ '' must not contain duplicates''))"
  by (simp add: string_tuple_def tuple_of_def read_strings)

lemmas [codec_simps] = utc_opt_ok_def [of "Some t" for t]

lemma read_at_Cons [codec_simps]: "read_at ((k, v) # d) key f = (if k = key then f v else read_at d key f)"
  by (simp add: read_at_def dict_at_def)

lemma dict_at_Cons [codec_simps]: "dict_at ((k, v) # d) key = (if k = key then Inr v else dict_at d key)"
  by (simp add: dict_at_def)

lemma dict_get_Cons [codec_simps]: "dict_get ((k, v) # d) key = (if k = key then v else dict_get d key)"
  by (simp add: dict_get_def)

lemma require_at_Cons [codec_simps]: "require_at ((k, v) # d) key ctx f = (if k = key then f v else require_at d key ctx f)"
  by (simp add: require_at_def json_require_def)

lemma json_require_Cons [codec_simps]:
  "json_require (JObj ((k, v) # d)) key ctx = (if k = key then Inr v else json_require (JObj d) key ctx)"
  by (simp add: json_require_def)

lemma exact_keys [codec_simps]: "map fst d = expected \<Longrightarrow> require_exact_keys (JObj d) expected ctx = Inr d"
  by (auto simp: require_exact_keys_def simp flip: list.set_map)

lemma catch_plain_Inr [codec_simps]: "catch_plain msg (Inr x) = Inr x"
  by simp

section \<open>What the elementary readers accept\<close>

named_theorems accept_dests \<open>what a reader that returns has accepted\<close>

lemma days_bound:
  assumes "1 \<le> y" and "y \<le> 9999"
  shows "0 \<le> days_before_year y \<and> days_before_year y + (if is_leap y then 366 else 365) \<le> 3652059"
proof -
  define p where "p = y - 1"
  have p: "0 \<le> p" "p \<le> 9998" using assms by (auto simp: p_def)
  have "p div 4 - p div 4 div 25 \<le> 2499 - 99" "0 \<le> p div 4 - p div 4 div 25"
    using p by linarith+
  moreover have "p div 100 = p div 4 div 25" by (simp flip: zdiv_zmult2_eq)
  moreover have "p div 400 \<le> 24" "0 \<le> p div 400" using p by auto
  moreover have "days_before_year y = p * 365 + p div 4 - p div 100 + p div 400"
    by (simp add: days_before_year_def Let_def p_def)
  moreover have "p \<le> 9997 \<or> \<not> is_leap y" using p by (auto simp: p_def is_leap_def)
  ultimately have "0 \<le> days_before_year y" "days_before_year y + 365 \<le> 3652059"
    and "is_leap y \<Longrightarrow> days_before_year y + 366 \<le> 3652059"
    using p by linarith+
  then show ?thesis by simp
qed

lemma days_before_month_bound:
  assumes "0 \<le> m" and "m \<le> 13"
  shows "0 \<le> days_before_month leap m \<and> days_before_month leap m \<le> (if leap then 366 else 365)"
proof -
  define L :: "int list" where "L = [0, 0, 31, 59, 90, 120, 151, 181, 212, 243, 273, 304, 334, 365]"
  have "nat m < length L" using assms by (simp add: L_def)
  then have "L ! nat m \<in> set L" by (rule nth_mem)
  moreover have "\<forall>x\<in>set L. 0 \<le> x \<and> x \<le> 365" by (simp add: L_def)
  moreover have "days_before_month leap m = L ! nat m + (if leap \<and> m > 2 then 1 else 0)"
    unfolding days_before_month_def L_def ..
  ultimately show ?thesis by auto
qed

lemma valid_civil_date_ok:
  assumes "valid_civil y m d"
  shows "date_ok (days_of_civil y m d)"
  using days_bound [of y] days_before_month_bound [of m "is_leap y"] days_before_month_bound [of "m + 1" "is_leap y"] assms
  by (auto simp: date_ok_def days_of_civil_def valid_civil_def)

lemma digits_value_bound: "list_all is_digit s \<Longrightarrow> digits_value s n < (n + 1) * 10 ^ length s"
proof (induction s arbitrary: n)
  case (Cons c cs)
  then have "digits_value cs (10 * n + (char_code c - 48)) < (10 * n + (char_code c - 48) + 1) * 10 ^ length cs" by simp
  also have "\<dots> \<le> (10 * n + 10) * 10 ^ length cs"
    using Cons.prems by (intro mult_right_mono) (auto simp: is_digit_def)
  finally show ?case by (simp add: algebra_simps)
qed simp

lemma fraction_bound:
  assumes "read_fraction s = Some (us, rest)"
  shows "0 \<le> us \<and> us < 1000000"
proof -
  have "0 \<le> v \<and> v < 1000000" if "read_digits (take 6 t) = Some v" for t v
  proof -
    from that have "list_all is_digit (take 6 t)" "v = int (digits_value (take 6 t) 0)"
      by (auto simp: read_digits_def split: if_splits)
    moreover from this(1) have "digits_value (take 6 t) 0 < 10 ^ length (take 6 t)"
      using digits_value_bound [of "take 6 t" 0] by simp
    moreover have "(10::nat) ^ length (take 6 t) \<le> 10 ^ 6" by (rule power_increasing) auto
    ultimately show ?thesis by simp
  qed
  note bound = this
  show ?thesis
    using assms by (auto simp: read_fraction_def simp del: take_append split: list.splits if_splits dest!: bound)
qed

lemma accept_date [accept_dests]: "date_of_text s = Inr d \<Longrightarrow> date_ok d"
  by (auto simp: date_of_text_def date_fromisoformat_def valid_civil_date_ok split: option.splits if_splits)

lemma datetime_fromisoformat_ok:
  assumes "datetime_fromisoformat s = Some (t, Some 0)"
  shows "utc_ok t"
proof -
  from assms obtain day h m sec us rest where day: "date_fromisoformat (take 10 s) = Some day"
    and hms: "h < 24" "m < 60" "sec < 60" and us: "read_fraction (drop 19 s) = Some (us, rest)"
    and ds: "read_digits (take 2 (drop 11 s)) = Some h" "read_digits (take 2 (drop 14 s)) = Some m"
      "read_digits (take 2 (drop 17 s)) = Some sec"
    and t: "t = day * 86400000000 + timedelta_s (h * 3600 + m * 60 + sec) + us - timedelta_s 0"
    by (auto simp: datetime_fromisoformat_def split: option.splits if_splits)
  have "0 \<le> h" "0 \<le> m" "0 \<le> sec" using ds by (auto simp: read_digits_def split: if_splits)
  moreover have "0 \<le> us" "us < 1000000" using fraction_bound [OF us] by auto
  ultimately have "t div 86400000000 = day"
    using hms by (intro int_div_pos_eq [where r = "timedelta_s (h * 3600 + m * 60 + sec) + us"]) (auto simp: t timedelta_s_def)
  moreover have "date_ok day"
    using day accept_date [of "take 10 s" day] by (simp add: date_of_text_def)
  ultimately show ?thesis by (simp add: utc_ok_def)
qed


lemma accept_string [accept_dests]: "strict_string name j = Inr s \<Longrightarrow> s \<noteq> []"
  by (auto simp: strict_string_def split: json.splits if_splits)

lemma accept_nullable [accept_dests]: "strict_string_nullable name j = Inr v \<Longrightarrow> text_opt_ok v"
  by (auto simp: strict_string_nullable_def text_opt_ok_def res_bind_eq_Inr dest: accept_string split: if_splits)

lemma accept_int [accept_dests]: "strict_int name minimum j = Inr i \<Longrightarrow> minimum \<le> i"
  by (auto simp: strict_int_def split: json.splits if_splits)

lemma accept_float [accept_dests]: "strict_float name j = Inr r \<Longrightarrow> 0 \<le> r"
  by (cases "json_float (name @ '' must be a finite number'') j")
    (auto simp: strict_float_def split: pyfloat.split_asm if_split_asm)

lemma accept_float_opt [accept_dests]: "float_or_none j = Inr v \<Longrightarrow> float_opt_ok v"
  by (auto simp: float_or_none_def float_opt_ok_def res_bind_eq_Inr split: if_splits)

lemma accept_time [accept_dests]: "iso_to_dt name j = Inr v \<Longrightarrow> utc_opt_ok v"
  by (auto simp: iso_to_dt_def utc_opt_ok_def datetime_fromisoformat_ok split: json.splits option.splits if_splits)

lemma accept_required_time [accept_dests]: "require_dt name v = Inr t \<Longrightarrow> v = Some t"
  by (auto simp: require_dt_def split: option.splits)

lemma catch_plain_eq_Inr: "catch_plain msg r = Inr x \<longleftrightarrow> r = Inr x"
  by (cases "(msg, r)" rule: catch_plain.cases) auto

lemma catch_value_error_eq_Inr: "catch_value_error msg r = Inr x \<longleftrightarrow> r = Inr x"
  by (cases "(msg, r)" rule: catch_value_error.cases) auto

lemma accept_tuple: "tuple_of item name j = Inr xs \<Longrightarrow> distinct xs \<and> (\<exists>js. res_map item js = Inr xs)"
  by (auto simp: tuple_of_def res_bind_eq_Inr catch_value_error_eq_Inr split: json.splits if_splits)

lemma res_map_strings: "res_map (strict_string name) js = Inr xs \<Longrightarrow> list_all (\<lambda>s. s \<noteq> []) xs"
  by (induction js arbitrary: xs) (auto simp: res_bind_eq_Inr dest: accept_string)

lemma accept_strings [accept_dests]: "string_tuple name j = Inr xs \<Longrightarrow> distinct xs \<and> list_all (\<lambda>s. s \<noteq> []) xs"
  by (auto simp: string_tuple_def dest!: accept_tuple res_map_strings)

lemma accept_members [accept_dests]: "enum_tuple table name j = Inr xs \<Longrightarrow> distinct xs"
  by (auto simp: enum_tuple_def dest!: accept_tuple)

lemma read_at_eq_Inr: "read_at d k f = Inr x \<longleftrightarrow> (\<exists>v. dict_at d k = Inr v \<and> f v = Inr x)"
  by (simp add: read_at_def res_bind_eq_Inr)

lemma require_at_eq_Inr: "require_at d k ctx f = Inr x \<longleftrightarrow> (\<exists>v. json_require (JObj d) k ctx = Inr v \<and> f v = Inr x)"
  by (simp add: require_at_def res_bind_eq_Inr)

text \<open>The accepting half of a codec is proved along the reader: one rule per construct, so that
  what each reader has accepted becomes an assumption about the value it returned.\<close>

named_theorems accept_rules \<open>postconditions of readers, construct by construct\<close>

lemma holds_bindI [accept_rules]: "holds r Q \<Longrightarrow> (\<And>x. Q x \<Longrightarrow> holds (f x) P) \<Longrightarrow> holds (res_bind r f) P"
  by (cases r) (auto simp: holds_def)

lemma holds_read_at [accept_rules]: "(\<And>v. holds (f v) P) \<Longrightarrow> holds (read_at d k f) P"
  by (simp add: read_at_def holds_def dict_at_def split: option.split)

lemma holds_require_at [accept_rules]: "(\<And>v. holds (f v) P) \<Longrightarrow> holds (require_at d k ctx f) P"
  by (simp add: require_at_def json_require_def holds_def split: option.split)

lemma holds_catch [accept_rules]: "holds r P \<Longrightarrow> holds (catch_plain msg r) P"
  by (auto simp: holds_def catch_plain_eq_Inr split: sum.splits)

lemma holds_case_list [accept_rules]: "(\<And>xs. holds (f xs) P) \<Longrightarrow> holds (case j of JList xs \<Rightarrow> f xs | _ \<Rightarrow> Inl e) P"
  by (cases j) (auto simp: holds_def)

lemma holds_case_str [accept_rules]: "(\<And>s. holds (f s) P) \<Longrightarrow> holds (case j of JStr s \<Rightarrow> f s | _ \<Rightarrow> Inl e) P"
  by (cases j) (auto simp: holds_def)

lemma holds_case_int [accept_rules]: "(\<And>i. holds (f i) P) \<Longrightarrow> holds (case j of JInt i \<Rightarrow> f i | _ \<Rightarrow> Inl e) P"
  by (cases j) (auto simp: holds_def)

lemma holds_case_obj [accept_rules]: "(\<And>d. j = JObj d \<Longrightarrow> holds (f d) P) \<Longrightarrow> holds (case j of JObj d \<Rightarrow> f d | _ \<Rightarrow> Inl e) P"
  by (cases j) (auto simp: holds_def)

lemma holds_case_some [accept_rules]: "(\<And>y. v = Some y \<Longrightarrow> holds (f y) P) \<Longrightarrow> holds (case v of None \<Rightarrow> Inl e | Some y \<Rightarrow> f y) P"
  by (cases v) (auto simp: holds_def)

lemma holds_case_pair [accept_rules]: "holds (f a b) P \<Longrightarrow> holds (case (a, b) of (x, y) \<Rightarrow> f x y) P"
  by simp

lemma holds_guard [accept_rules]: "(\<not> b \<Longrightarrow> holds r P) \<Longrightarrow> holds (if b then Inl e else r) P"
  by (simp add: holds_def)

lemma holds_members [accept_rules]:
  "holds (enum_call table v) (\<lambda>_. True)" "holds (enum_or_none table name v) (\<lambda>_. True)"
  "holds (res_map (enum_call table) vs) (\<lambda>_. True)" "holds (strict_bool name v) (\<lambda>_. True)"
  "holds (enum_tuple table name v) distinct"
  by (simp_all add: holds_iff accept_members)

lemma holds_elementary [accept_rules]:
  "holds (strict_string name v) (\<lambda>s. s \<noteq> [])" "holds (strict_string_nullable name v) text_opt_ok"
  "holds (strict_int name minimum v) ((\<le>) minimum)" "holds (strict_float name v) ((\<le>) 0)"
  "holds (float_or_none v) float_opt_ok" "holds (iso_to_dt name v) utc_opt_ok" "holds (date_of_text s) date_ok"
  "holds (string_tuple name v) (\<lambda>xs. distinct xs \<and> list_all (\<lambda>s. s \<noteq> []) xs)"
  "holds (require_dt name t) (\<lambda>x. t = Some x)" "holds (map_id ctx key) (\<lambda>k. k = key \<and> key \<noteq> [])"
  by (auto simp: holds_iff map_id_def dest: accept_dests split: if_splits)

lemma holds_dict [accept_rules]:
  "holds (require_exact_keys j expected ctx) (\<lambda>_. True)" "holds (json_require j k ctx) (\<lambda>_. True)"
  "holds (dict_at d k) (\<lambda>_. True)"
  by (auto simp: holds_iff require_exact_keys_def split: json.splits if_splits)

section \<open>The contract of a codec\<close>

locale codec =
  fixes enc :: "'a \<Rightarrow> json" and dec :: "json \<Rightarrow> 'a result" and norm :: "'a \<Rightarrow> 'a" and ok :: "'a \<Rightarrow> bool"
  assumes decode: "ok x \<Longrightarrow> dec (enc x) = Inr (norm x)"
    and accept: "holds (dec j) (\<lambda>x. ok x \<and> norm x = x)"
    and not_null: "enc x \<noteq> JNull"
begin

lemma accepted: "dec j = Inr x \<Longrightarrow> ok x \<and> norm x = x"
  using holdsD [OF accept] .

lemma stable: "dec j = Inr x \<Longrightarrow> dec (enc x) = Inr x"
  using accepted decode by metis

lemma norm_ok: "ok x \<Longrightarrow> ok (norm x) \<and> norm (norm x) = norm x"
  using accepted decode by metis

lemma same_text: "ok x \<Longrightarrow> ok y \<Longrightarrow> enc x = enc y \<Longrightarrow> norm x = norm y"
  by (metis decode sum.inject(2))

lemma opt_decode: "pred_option ok v \<Longrightarrow> opt_read dec (opt_json enc v) = Inr (map_option norm v)"
  by (cases v) (simp_all add: opt_read_def opt_json_def not_null decode)

lemma opt_accept: "holds (opt_read dec j) (\<lambda>v. pred_option ok v \<and> map_option norm v = v)"
  by (auto simp: opt_read_def accepted)

lemma list_decode: "list_all ok xs \<Longrightarrow> res_map dec (map enc xs) = Inr (map norm xs)"
  by (induction xs) (simp_all add: decode)

lemma list_accept: "holds (res_map dec js) (\<lambda>xs. list_all ok xs \<and> map norm xs = xs)"
proof -
  have "res_map dec js = Inr xs \<Longrightarrow> list_all ok xs \<and> map norm xs = xs" for xs
    using accepted by (induction js arbitrary: xs) (auto simp: res_bind_eq_Inr)
  then show ?thesis by (simp add: holds_iff)
qed

lemmas reads = decode opt_decode list_decode
lemmas accepts = accept opt_accept list_accept

end

text \<open>A constructor whose checks pass returns its argument.\<close>

lemma holds_mk [accept_rules]:
  "(mk_session s = Inr s \<Longrightarrow> P1 s) \<Longrightarrow> holds (mk_session s) P1"
  "(mk_persisted_session p = Inr p \<Longrightarrow> P2 p) \<Longrightarrow> holds (mk_persisted_session p) P2"
  "(mk_sensor_identity i = Inr i \<Longrightarrow> P3 i) \<Longrightarrow> holds (mk_sensor_identity i) P3"
  "(mk_applied_identity ai = Inr ai \<Longrightarrow> P4 ai) \<Longrightarrow> holds (mk_applied_identity ai) P4"
  "(mk_actuator_identity ac = Inr ac \<Longrightarrow> P5 ac) \<Longrightarrow> holds (mk_actuator_identity ac) P5"
  "(mk_contribution c = Inr c \<Longrightarrow> P6 c) \<Longrightarrow> holds (mk_contribution c) P6"
  "(mk_zone_runtime zr = Inr zr \<Longrightarrow> P7 zr) \<Longrightarrow> holds (mk_zone_runtime zr) P7"
  "(mk_removed_ack k = Inr k \<Longrightarrow> P8 k) \<Longrightarrow> holds (mk_removed_ack k) P8"
  "(mk_incident n = Inr n \<Longrightarrow> P9 n) \<Longrightarrow> holds (mk_incident n) P9"
  by (auto simp: holds_iff mk_session_def mk_persisted_session_def mk_sensor_identity_def mk_applied_identity_def
      mk_actuator_identity_def mk_contribution_def mk_zone_runtime_def mk_removed_ack_def mk_incident_def
      split: option.splits if_splits)

lemma holds_mk_checked [accept_rules]:
  "(mk_shadow s = Inr s \<Longrightarrow> P1 s) \<Longrightarrow> holds (mk_shadow s) P1"
  "(mk_zone_daily z = Inr z \<Longrightarrow> P2 z) \<Longrightarrow> holds (mk_zone_daily z) P2"
  "(mk_zone_history h = Inr h \<Longrightarrow> P3 h) \<Longrightarrow> holds (mk_zone_history h) P3"
  "(mk_safety_record r = Inr r \<Longrightarrow> P4 r) \<Longrightarrow> holds (mk_safety_record r) P4"
  "(mk_store_data d = Inr d \<Longrightarrow> P5 d) \<Longrightarrow> holds (mk_store_data d) P5"
  by (auto simp: holds_iff mk_shadow_def mk_zone_daily_def mk_zone_history_def mk_safety_record_def
      record_lifecycle_check_def mk_store_data_def res_bind_eq_Inr split: option.splits if_splits)

end
