(* ===== verification/Codec_Roundtrip.thy ===== *)
theory Codec_Roundtrip
  imports Codec_Laws
begin

text \<open>
  The codec of every dataclass of the store.  For each of them \<open>..._ok\<close> says which values can be
  stored, \<open>..._read_back\<close> that the reader gives back what the writer wrote, \<open>..._accepted\<close> that the
  reader returns storable values only, and the interpretation of \<open>codec\<close> makes both available to
  the dataclasses that contain it.
\<close>

section \<open>Sessions\<close>

definition session_ok :: "SessionContext \<Rightarrow> bool" where
  "session_ok s \<longleftrightarrow>
     ses_session_id s \<noteq> [] \<and> ses_owner_run_id s \<noteq> [] \<and> ses_config_fingerprint s \<noteq> [] \<and>
     utc_ok (ses_started_at_utc s) \<and> 0 \<le> ses_cycle s \<and> 0 \<le> ses_session_runtime_s s \<and>
     utc_opt_ok (ses_pulse_intent_at_utc s) \<and> utc_opt_ok (ses_pulse_commanded_at_utc s) \<and>
     utc_opt_ok (ses_pulse_confirmed_at_utc s) \<and> utc_opt_ok (ses_pulse_ends_at_utc s) \<and>
     utc_opt_ok (ses_off_confirmed_at_utc s) \<and> utc_opt_ok (ses_soak_ends_at_utc s) \<and>
     utc_opt_ok (ses_recheck_not_before_utc s) \<and> utc_opt_ok (ses_recheck_grace_deadline_at_utc s) \<and>
     float_opt_ok (ses_manual_requested_duration_s s) \<and> float_opt_ok (ses_manual_effective_duration_s s) \<and>
     float_opt_ok (ses_moisture_at_start s) \<and> mk_session s = Inr s"

lemma mk_session_frame: "mk_session s = Inr s \<Longrightarrow> ses_retained_sensor_fault t = ses_retained_sensor_fault s \<Longrightarrow> mk_session t = Inr t"
  by (auto simp: mk_session_def split: option.splits if_splits)

lemma session_read_back: "session_ok s \<Longrightarrow> session_from_dict (session_to_dict s) = Inr (persisted_session_view s)"
  unfolding session_ok_def session_from_dict_def session_to_dict_def SESSION_KEYS_def
  by (simp add: codec_simps persisted_session_view_def mk_session_frame [of s])


lemma session_accepted: "holds (session_from_dict j) (\<lambda>s. session_ok s \<and> persisted_session_view s = s)"
  unfolding session_from_dict_def
  by ((rule accept_rules)+; simp add: session_ok_def persisted_session_view_def utc_opt_ok_def)

interpretation session: codec session_to_dict session_from_dict persisted_session_view session_ok
  by unfold_locales (simp_all add: session_read_back session_accepted, simp add: session_to_dict_def)

definition summary_ok :: "SessionSummary \<Rightarrow> bool" where
  "summary_ok s \<longleftrightarrow>
     0 \<le> sum_runtime_s s \<and> float_opt_ok (sum_requested_duration_s s) \<and> float_opt_ok (sum_effective_duration_s s) \<and>
     0 \<le> sum_cycles s \<and> float_opt_ok (sum_moisture_before s) \<and> float_opt_ok (sum_moisture_after s) \<and>
     utc_ok (sum_started_at_utc s) \<and> utc_ok (sum_ended_at_utc s)"

lemma summary_read_back: "summary_ok s \<Longrightarrow> summary_from_dict (summary_to_dict s) = Inr s"
  unfolding summary_ok_def summary_from_dict_def summary_to_dict_def SUMMARY_KEYS_def
  by (simp add: codec_simps)

lemma summary_accepted: "holds (summary_from_dict j) summary_ok"
  unfolding summary_from_dict_def
  by ((rule accept_rules)+; simp add: summary_ok_def utc_opt_ok_def)

interpretation summary: codec summary_to_dict summary_from_dict "\<lambda>s. s" summary_ok
  by unfold_locales (simp_all add: summary_read_back summary_accepted, simp add: summary_to_dict_def)

definition persisted_ok :: "PersistedSession \<Rightarrow> bool" where
  "persisted_ok p \<longleftrightarrow> ps_owner_safety_record_id p \<noteq> [] \<and> session_ok (ps_context p)"

definition session_view :: "PersistedSession \<Rightarrow> PersistedSession" where
  "session_view p = p\<lparr>ps_context := persisted_session_view (ps_context p)\<rparr>"

lemma persisted_read_back:
  assumes "persisted_ok p"
  shows "persisted_session_from_dict (persisted_session_to_dict p) = Inr (session_view p)"
proof -
  obtain d where d: "session_to_dict (ps_context p) = JObj d" "''owner_safety_record_id'' \<notin> fst ` set d"
    by (simp add: session_to_dict_def)
  moreover have "session_from_dict (JObj d) = Inr (persisted_session_view (ps_context p))"
    using assms session.decode by (metis d(1) persisted_ok_def)
  ultimately show ?thesis
    using assms by (simp add: persisted_session_from_dict_def persisted_session_to_dict_def dict_get_def update_conv'
        delete_update_same strict_string_def persisted_ok_def mk_persisted_session_def session_view_def)
qed

lemma persisted_accepted: "holds (persisted_session_from_dict j) (\<lambda>p. persisted_ok p \<and> session_view p = p)"
  unfolding persisted_session_from_dict_def
  by ((rule accept_rules session.accept)+; simp add: persisted_ok_def session_view_def)

interpretation persisted: codec persisted_session_to_dict persisted_session_from_dict session_view persisted_ok
  by unfold_locales (simp_all add: persisted_read_back persisted_accepted,
      simp add: persisted_session_to_dict_def session_to_dict_def)

section \<open>Identities and configuration\<close>

definition sensor_ok :: "SensorIdentity \<Rightarrow> bool" where
  "sensor_ok i \<longleftrightarrow> text_opt_ok (si_registry_entry_id i) \<and> text_opt_ok (si_last_known_entity_id i) \<and> mk_sensor_identity i = Inr i"

lemma sensor_read_back: "sensor_ok i \<Longrightarrow> sensor_identity_from_dict (sensor_identity_to_dict i) = Inr i"
  unfolding sensor_ok_def sensor_identity_from_dict_def sensor_identity_to_dict_def
  by (cases i) (simp add: codec_simps)

lemma sensor_accepted: "holds (sensor_identity_from_dict j) sensor_ok"
  unfolding sensor_identity_from_dict_def by ((rule accept_rules)+; simp add: sensor_ok_def)

interpretation sensor: codec sensor_identity_to_dict sensor_identity_from_dict "\<lambda>i. i" sensor_ok
  by unfold_locales (simp_all add: sensor_read_back sensor_accepted, simp add: sensor_identity_to_dict_def)

definition applied_ok :: "AppliedEntityIdentity \<Rightarrow> bool" where
  "applied_ok i \<longleftrightarrow> text_opt_ok (ae_registry_entry_id i) \<and> ae_last_known_entity_id i \<noteq> [] \<and> ae_domain i \<noteq> [] \<and>
     mk_applied_identity i = Inr i"

lemma applied_read_back: "applied_ok i \<Longrightarrow> applied_identity_from_dict ctx (applied_identity_to_dict i) = Inr i"
  unfolding applied_ok_def applied_identity_from_dict_def applied_identity_to_dict_def
  by (cases i) (simp add: codec_simps)

lemma applied_accepted: "holds (applied_identity_from_dict ctx j) applied_ok"
  unfolding applied_identity_from_dict_def by ((rule accept_rules)+; simp add: applied_ok_def)

interpretation applied: codec applied_identity_to_dict "applied_identity_from_dict ctx" "\<lambda>i. i" applied_ok for ctx
  by unfold_locales (simp_all add: applied_read_back applied_accepted, simp add: applied_identity_to_dict_def)

definition actuator_ok :: "ActuatorIdentity \<Rightarrow> bool" where
  "actuator_ok i \<longleftrightarrow>
     text_opt_ok (ai_registry_entry_id i) \<and> text_opt_ok (ai_last_known_entity_id i) \<and> text_opt_ok (ai_domain i) \<and>
     text_opt_ok (ai_off_service i) \<and> pred_option ((\<le>) 1) (ai_confirm_timeout_s i) \<and> mk_actuator_identity i = Inr i"

lemma timeout_read_back:
  "pred_option ((\<le>) 1) v \<Longrightarrow>
   (if opt_json JInt v = JNull then Inr None else res_bind (strict_int name 1 (opt_json JInt v)) (\<lambda>t. Inr (Some t))) = Inr v"
  by (cases v) (simp_all add: opt_json_def codec_simps)

lemma actuator_read_back: "actuator_ok i \<Longrightarrow> actuator_identity_from_dict (actuator_identity_to_dict i) = Inr i"
  unfolding actuator_ok_def actuator_identity_from_dict_def actuator_identity_to_dict_def ACTUATOR_IDENTITY_KEYS_def
  by (cases i) (simp add: codec_simps timeout_read_back)

lemma timeout_accepted:
  "holds (if v = JNull then Inr None else res_bind (strict_int name 1 v) (\<lambda>t. Inr (Some t))) (pred_option ((\<le>) 1))"
  by (auto simp: holds_iff res_bind_eq_Inr dest: accept_dests split: if_splits)

lemma actuator_accepted: "holds (actuator_identity_from_dict j) actuator_ok"
  unfolding actuator_identity_from_dict_def
  by ((rule timeout_accepted accept_rules)+; simp add: actuator_ok_def)

interpretation actuator: codec actuator_identity_to_dict actuator_identity_from_dict "\<lambda>i. i" actuator_ok
  by unfold_locales (simp_all add: actuator_read_back actuator_accepted, simp add: actuator_identity_to_dict_def)

definition settings_ok :: "NormalizedZoneSettings \<Rightarrow> bool" where
  "settings_ok n \<longleftrightarrow>
     ns_name n \<noteq> [] \<and> 0 \<le> ns_start_threshold n \<and> 0 \<le> ns_target_threshold n \<and> 0 \<le> ns_pulse_duration_s n \<and>
     0 \<le> ns_soak_duration_s n \<and> 0 \<le> ns_max_cycles n \<and> 0 \<le> ns_max_session_runtime_s n \<and>
     0 \<le> ns_max_daily_runtime_s n \<and> 0 \<le> ns_min_session_interval_s n \<and> 0 \<le> ns_sensor_max_age_s n \<and>
     0 \<le> ns_actuator_confirm_timeout_s n \<and> 0 \<le> ns_manual_max_duration_s n"

lemma settings_read_back: "settings_ok n \<Longrightarrow> settings_from_dict (settings_to_dict n) = Inr n"
  unfolding settings_ok_def settings_from_dict_def settings_to_dict_def SETTING_FIELDS_def by (simp add: codec_simps)

lemma settings_accepted: "holds (settings_from_dict j) settings_ok"
  unfolding settings_from_dict_def by ((rule accept_rules)+; simp add: settings_ok_def)

interpretation settings: codec settings_to_dict settings_from_dict "\<lambda>n. n" settings_ok
  by unfold_locales (simp_all add: settings_read_back settings_accepted, simp add: settings_to_dict_def)

definition shadow_ok :: "AppliedConfigurationShadow \<Rightarrow> bool" where
  "shadow_ok s \<longleftrightarrow>
     sh_subentry_id s \<noteq> [] \<and> sh_config_fingerprint s \<noteq> [] \<and> sh_entry_snapshot_fingerprint s \<noteq> [] \<and>
     0 \<le> sh_applied_generation s \<and> settings_ok (sh_normalized_settings s) \<and> applied_ok (sh_sensor_identity s) \<and>
     applied_ok (sh_actuator_identity s) \<and> mk_shadow s = Inr s"

lemma shadow_read_back: "shadow_ok s \<Longrightarrow> shadow_from_dict (shadow_to_dict s) = Inr s"
  unfolding shadow_ok_def shadow_from_dict_def shadow_to_dict_def SHADOW_KEYS_def
  by (cases s) (simp add: codec_simps settings.decode applied.decode)

lemma shadow_accepted: "holds (shadow_from_dict j) shadow_ok"
  unfolding shadow_from_dict_def
  by ((rule settings_accepted applied_accepted accept_rules)+; simp add: shadow_ok_def)

interpretation shadow: codec shadow_to_dict shadow_from_dict "\<lambda>s. s" shadow_ok
  by unfold_locales (simp_all add: shadow_read_back shadow_accepted, simp add: shadow_to_dict_def)

section \<open>Zone histories\<close>

definition contribution_ok :: "AccountingContribution \<Rightarrow> bool" where
  "contribution_ok c \<longleftrightarrow>
     con_accounting_contribution_id c \<noteq> [] \<and> con_source_safety_record_id c \<noteq> [] \<and> utc_opt_ok (con_start_utc c) \<and>
     utc_opt_ok (con_end_utc c) \<and> 0 \<le> con_runtime_s c \<and> pred_option date_ok (con_local_date c) \<and>
     mk_contribution c = Inr c"

lemma date_read_back:
  "pred_option date_ok v \<Longrightarrow>
   (case opt_json (\<lambda>d. JStr (date_isoformat d)) v of
      JStr s \<Rightarrow> res_bind (date_of_text s) (\<lambda>day. Inr (Some day)) | _ \<Rightarrow> Inr None) = Inr v"
  "(case opt_json (\<lambda>d. JStr (date_isoformat d)) v of JNull \<Rightarrow> False | JStr _ \<Rightarrow> False | _ \<Rightarrow> True) = False"
  by (cases v; simp add: opt_json_def codec_simps)+

lemma date_accepted:
  "holds (case j of JStr s \<Rightarrow> res_bind (date_of_text s) (\<lambda>day. Inr (Some day)) | _ \<Rightarrow> Inr None) (pred_option date_ok)"
  by (cases j) (auto dest: accept_date)

lemma contribution_read_back: "contribution_ok c \<Longrightarrow> contribution_from_dict (contribution_to_dict c) = Inr c"
  unfolding contribution_ok_def contribution_from_dict_def contribution_to_dict_def CONTRIBUTION_KEYS_def
  by (cases c) (simp add: codec_simps date_read_back)

lemma contribution_accepted: "holds (contribution_from_dict j) contribution_ok"
  unfolding contribution_from_dict_def
  by ((rule date_accepted accept_rules)+; simp add: contribution_ok_def)

interpretation contribution: codec contribution_to_dict contribution_from_dict "\<lambda>c. c" contribution_ok
  by unfold_locales (simp_all add: contribution_read_back contribution_accepted, simp add: contribution_to_dict_def)

definition daily_ok :: "ZoneDailyRuntime \<Rightarrow> bool" where
  "daily_ok z \<longleftrightarrow>
     date_ok (zdr_date_local z) \<and> 0 \<le> zdr_runtime_s z \<and> 0 \<le> zdr_conservative_unattributed_runtime_s z \<and>
     list_all contribution_ok (zdr_contributions z) \<and> mk_zone_daily z = Inr z"

lemma daily_read_back: "daily_ok z \<Longrightarrow> daily_from_dict (daily_to_dict z) = Inr z"
  unfolding daily_ok_def daily_from_dict_def daily_to_dict_def DAILY_KEYS_def
  by (cases z) (simp add: codec_simps contribution.list_decode)

lemma daily_accepted: "holds (daily_from_dict j) daily_ok"
  unfolding daily_from_dict_def
  by ((rule contribution.list_accept accept_rules)+; simp add: daily_ok_def)

interpretation daily: codec daily_to_dict daily_from_dict "\<lambda>z. z" daily_ok
  by unfold_locales (simp_all add: daily_read_back daily_accepted, simp add: daily_to_dict_def)

definition runtime_ok :: "ZoneRuntime \<Rightarrow> bool" where
  "runtime_ok z \<longleftrightarrow>
     sensor_ok (zr_sensor_identity z) \<and> pred_option summary_ok (zr_last_session_summary z) \<and>
     pred_option persisted_ok (zr_session z) \<and> mk_zone_runtime z = Inr z"

definition runtime_view :: "ZoneRuntime \<Rightarrow> ZoneRuntime" where
  "runtime_view z = z\<lparr>zr_session := map_option session_view (zr_session z)\<rparr>"

definition runtime_reader :: "json \<Rightarrow> ZoneRuntime result" where
  "runtime_reader v = res_bind (require_exact_keys v ZONE_RUNTIME_KEYS ''zone_runtime'') zone_runtime_from_dict"

lemma runtime_read_back: "runtime_ok z \<Longrightarrow> runtime_reader (zone_runtime_to_dict z) = Inr (runtime_view z)"
  unfolding runtime_ok_def runtime_reader_def zone_runtime_from_dict_def zone_runtime_to_dict_def ZONE_RUNTIME_KEYS_def
  by (cases z) (simp add: codec_simps sensor.decode summary.opt_decode persisted.opt_decode option.map_ident
      runtime_view_def mk_zone_runtime_def in_scope_def split: if_splits)

lemma zone_runtime_accepted: "holds (zone_runtime_from_dict d) (\<lambda>z. runtime_ok z \<and> runtime_view z = z)"
  unfolding zone_runtime_from_dict_def
  by ((rule sensor_accepted summary.opt_accept persisted.opt_accept accept_rules)+; simp add: runtime_ok_def runtime_view_def)

interpretation runtime: codec zone_runtime_to_dict runtime_reader runtime_view runtime_ok
  by unfold_locales (simp_all add: runtime_read_back, simp_all add: runtime_reader_def zone_runtime_to_dict_def
      zone_runtime_accepted)

definition history_ok :: "string \<Rightarrow> ZoneHistory \<Rightarrow> bool" where
  "history_ok key h \<longleftrightarrow>
     key \<noteq> [] \<and> zh_zone_history_id h = key \<and> text_opt_ok (zh_active_subentry_id h) \<and>
     distinct (zh_previous_subentry_ids h) \<and> list_all (\<lambda>s. s \<noteq> []) (zh_previous_subentry_ids h) \<and>
     utc_opt_ok (zh_last_session_end_utc h) \<and> utc_opt_ok (zh_last_auto_session_start_utc h) \<and>
     runtime_ok (zh_zone_runtime h) \<and> pred_option daily_ok (zh_daily h) \<and> mk_zone_history h = Inr h"

lemma history_view_eq: "history_view h = h\<lparr>zh_zone_runtime := runtime_view (zh_zone_runtime h)\<rparr>"
  by (simp add: history_view_def runtime_view_def session_view_def [abs_def])

lemma history_read_back:
  assumes "history_ok key h"
  shows "zone_history_from_dict key (zone_history_to_dict h) = Inr (history_view h)"
proof -
  obtain d where d: "require_exact_keys (zone_runtime_to_dict (zh_zone_runtime h)) ZONE_RUNTIME_KEYS ''zone_runtime'' = Inr d"
    "zone_runtime_from_dict d = Inr (runtime_view (zh_zone_runtime h))"
    using assms runtime.decode [of "zh_zone_runtime h"] by (auto simp: history_ok_def runtime_reader_def res_bind_eq_Inr)
  then show ?thesis
    using assms unfolding history_ok_def zone_history_from_dict_def zone_history_to_dict_def ZONE_HISTORY_KEYS_def
    by (cases h) (simp add: codec_simps map_id_def daily.opt_decode option.map_ident history_view_eq mk_zone_history_def
        res_bind_eq_Inr)
qed

lemma history_accepted: "holds (zone_history_from_dict key j) (\<lambda>h. history_ok key h \<and> history_view h = h)"
  unfolding zone_history_from_dict_def
  by ((rule zone_runtime_accepted daily.opt_accept accept_rules)+; simp add: history_ok_def history_view_eq)

interpretation history: codec zone_history_to_dict "zone_history_from_dict key" history_view "history_ok key" for key
  by unfold_locales (simp_all add: history_read_back history_accepted, simp add: zone_history_to_dict_def)

section \<open>Safety records\<close>

definition ack_ok :: "RemovedActuatorAcknowledgement \<Rightarrow> bool" where
  "ack_ok a \<longleftrightarrow> utc_ok (rak_acknowledged_at_utc a) \<and> rak_registry_entry_id a \<noteq> [] \<and>
     text_opt_ok (rak_last_known_entity_id a) \<and> mk_removed_ack a = Inr a"

lemma ack_read_back: "ack_ok a \<Longrightarrow> removed_ack_from_dict (removed_ack_to_dict a) = Inr a"
  unfolding ack_ok_def removed_ack_from_dict_def removed_ack_to_dict_def ACK_KEYS_def
  by (cases a) (simp add: codec_simps require_dt_def)

lemma ack_accepted: "holds (removed_ack_from_dict j) ack_ok"
  unfolding removed_ack_from_dict_def
  by ((rule accept_rules)+; simp add: ack_ok_def utc_opt_ok_def)

interpretation ack: codec removed_ack_to_dict removed_ack_from_dict "\<lambda>a. a" ack_ok
  by unfold_locales (simp_all add: ack_read_back ack_accepted, simp add: removed_ack_to_dict_def)

definition incident_ok :: "IdentityIncident \<Rightarrow> bool" where
  "incident_ok i \<longleftrightarrow> inc_detail i \<noteq> []"

lemma incident_read_back: "incident_ok i \<Longrightarrow> incident_from_dict (incident_to_dict i) = Inr i"
  unfolding incident_ok_def incident_from_dict_def incident_to_dict_def
  by (cases i) (simp add: codec_simps mk_incident_def)

lemma incident_accepted: "holds (incident_from_dict j) incident_ok"
  unfolding incident_from_dict_def
  by ((rule accept_rules)+; simp add: incident_ok_def)

interpretation incident: codec incident_to_dict incident_from_dict "\<lambda>i. i" incident_ok
  by unfold_locales (simp_all add: incident_read_back incident_accepted, simp add: incident_to_dict_def)

definition record_ok :: "string \<Rightarrow> SafetyRecord \<Rightarrow> bool" where
  "record_ok key r \<longleftrightarrow>
     key \<noteq> [] \<and> sr_safety_record_id r = key \<and> sr_zone_id r \<noteq> [] \<and> text_opt_ok (sr_active_subentry_id r) \<and>
     distinct (sr_previous_subentry_ids r) \<and> list_all (\<lambda>s. s \<noteq> []) (sr_previous_subentry_ids r) \<and>
     sr_safety_lineage_id r \<noteq> [] \<and> sr_zone_history_id r \<noteq> [] \<and>
     distinct (sr_historical_zone_history_ids r) \<and> list_all (\<lambda>s. s \<noteq> []) (sr_historical_zone_history_ids r) \<and>
     pred_option shadow_ok (sr_applied_config r) \<and> actuator_ok (sr_actuator_identity r) \<and>
     distinct (sr_blocker_reasons r) \<and> pred_option incident_ok (sr_identity_incident r) \<and>
     pred_option ack_ok (sr_removed_actuator_ack r) \<and> mk_safety_record r = Inr r"

lemma record_read_back: "record_ok key r \<Longrightarrow> safety_record_from_dict key (safety_record_to_dict r) = Inr r"
  unfolding record_ok_def safety_record_from_dict_def safety_record_to_dict_def SAFETY_RECORD_KEYS_def
  by (cases r) (simp add: codec_simps map_id_def shadow.opt_decode actuator.decode incident.opt_decode ack.opt_decode
      option.map_ident)

lemma record_accepted: "holds (safety_record_from_dict key j) (record_ok key)"
  unfolding safety_record_from_dict_def
  by ((rule shadow.opt_accept actuator_accepted incident.opt_accept ack.opt_accept accept_rules)+; simp add: record_ok_def)

interpretation safety: codec safety_record_to_dict "safety_record_from_dict key" "\<lambda>r. r" "record_ok key" for key
  by unfold_locales (simp_all add: record_read_back record_accepted, simp add: safety_record_to_dict_def)

end
