(* ===== verification/Store_Roundtrip.thy ===== *)
theory Store_Roundtrip
  imports Codec_Roundtrip Store_Safety "HOL-Library.Multiset"
begin

text \<open>
  The payload of the safety store comes back as it was written.  \<open>storable\<close> says when a
  snapshot can be written: it is valid, its maps are dictionaries and every value in it is one
  the strict readers accept.  The theorems state the round trip, that the reader only returns
  storable snapshots, and that two payloads agree exactly when the snapshots do up to the live
  fields of the sessions and the order of the maps.
\<close>


section \<open>Validity does not depend on the order of the maps\<close>

lemma somes_mset: "mset (somes xs) = image_mset the (filter_mset (\<lambda>x. x \<noteq> None) (mset xs))"
  by (simp add: somes_def)

lemma distinct_sort: "distinct (map fst xs) \<Longrightarrow> distinct (map fst (sort_key fst xs))"
  using mset_eq_imp_distinct_iff [of "map fst (sort_key fst xs)" "map fst xs"] by simp

lemma map_of_sort: "distinct (map fst xs) \<Longrightarrow> map_of (sort_key fst xs) = map_of xs"
  using map_of_inject_set [of "sort_key fst xs" xs] distinct_sort [of xs] by simp

lemma sort_values:
  "sort_key fst (map (\<lambda>(k, x). (k, f k x)) xs) = map (\<lambda>(k, x). (k, f k x)) (sort_key fst xs)"
  for xs :: "(string \<times> 'a) list"
proof (induction xs)
  case (Cons x xs)
  have "insort_key fst (k, f k y) (map (\<lambda>(k, x). (k, f k x)) ys) =
      map (\<lambda>(k, x). (k, f k x)) (insort_key fst (k, y) ys)" for k y ys
    by (induction ys) auto
  with Cons show ?case by (cases x) simp
qed simp

definition storable :: "StoreData \<Rightarrow> bool" where
  "storable d \<longleftrightarrow>
     validate_store_data d = Inr () \<and> text_opt_ok (run_active_run_id (st_run d)) \<and>
     text_opt_ok (run_last_clean_shutdown_run_id (st_run d)) \<and>
     distinct (map fst (st_zone_histories d)) \<and> distinct (map fst (st_safety_records d)) \<and>
     list_all (\<lambda>(k, h). history_ok k h) (st_zone_histories d) \<and> list_all (\<lambda>(k, r). record_ok k r) (st_safety_records d)"

lemma views:
  assumes "storable d"
  shows "st_zone_histories (persisted_view d) = map (\<lambda>(k, h). (k, history_view h)) (sort_key fst (st_zone_histories d))"
    and "st_safety_records (persisted_view d) = sort_key fst (st_safety_records d)"
proof -
  have "map (\<lambda>(k, r). (k, r\<lparr>sr_safety_record_id := k\<rparr>)) (st_safety_records d) = st_safety_records d"
    using assms by (intro map_idI) (auto simp: storable_def list_all_iff record_ok_def)
  then show "st_safety_records (persisted_view d) = sort_key fst (st_safety_records d)"
    by (simp add: persisted_view_def)
  have ids: "map (\<lambda>(k, h). (k, (history_view h)\<lparr>zh_zone_history_id := k\<rparr>)) (st_zone_histories d) =
      map (\<lambda>(k, h). (k, history_view h)) (st_zone_histories d)"
    using assms by (intro map_cong) (auto simp: storable_def list_all_iff history_ok_def history_view_def)
  show "st_zone_histories (persisted_view d) =
      map (\<lambda>(k, h). (k, history_view h)) (sort_key fst (st_zone_histories d))"
    using ids by (simp add: persisted_view_def sort_values del: map_eq_conv)
qed

lemma history_view_sel [simp]:
  "zh_zone_history_id (history_view h) = zh_zone_history_id h"
  "zh_active_subentry_id (history_view h) = zh_active_subentry_id h" "zh_daily (history_view h) = zh_daily h"
  "zr_session (zh_zone_runtime (history_view h)) = map_option session_view (zr_session (zh_zone_runtime h))"
  by (simp_all add: history_view_eq runtime_view_def)

lemma contributions_view:
  assumes "storable d"
  shows "mset (all_contributions (persisted_view d)) = mset (all_contributions d)"
proof -
  let ?c = "\<lambda>(k :: string, h). case zh_daily h of None \<Rightarrow> [] | Some z \<Rightarrow> zdr_contributions z"
  have eq: "?c \<circ> (\<lambda>(k, h). (k, history_view h)) = ?c" by (auto simp: fun_eq_iff)
  have sum: "mset (concat (map ?c xs)) = (\<Sum>x\<in>#mset xs. mset (?c x))" for xs
    by (induction xs) auto
  have "mset (concat (map ?c (sort_key fst xs))) = mset (concat (map ?c xs))" for xs
    unfolding sum by simp
  then show ?thesis
    unfolding all_contributions_def views [OF assms] map_map eq .
qed

lemma validate_view:
  assumes "storable d"
  shows "validate_store_data (persisted_view d) = Inr ()"
proof -
  have v: "validate_store_data d = Inr ()" using assms by (simp add: storable_def)
  note w = views [OF assms]
  have sels: "st_version (persisted_view d) = st_version d" "st_generation_id (persisted_view d) = st_generation_id d"
    "st_store_revision (persisted_view d) = st_store_revision d"
    by (simp_all add: persisted_view_def)
  have keys: "store_keys_ok (persisted_view d)"
  proof -
    have lin: "mset (map (sr_safety_lineage_id \<circ> snd) (st_safety_records (persisted_view d))) =
        mset (map (sr_safety_lineage_id \<circ> snd) (st_safety_records d))"
      and sub: "mset (somes (map (sr_active_subentry_id \<circ> snd) (st_safety_records (persisted_view d)))) =
        mset (somes (map (sr_active_subentry_id \<circ> snd) (st_safety_records d)))"
      and hist: "mset (somes (map (zh_active_subentry_id \<circ> snd) (st_zone_histories (persisted_view d)))) =
        mset (somes (map (zh_active_subentry_id \<circ> snd) (st_zone_histories d)))"
      by (simp_all add: w somes_mset multiset.map_comp comp_def case_prod_beta)
    show ?thesis
      using v mset_eq_imp_distinct_iff [OF lin] mset_eq_imp_distinct_iff [OF sub] mset_eq_imp_distinct_iff [OF hist]
      unfolding validate_iff store_keys_ok_def by (simp add: w image_image case_prod_beta)
  qed
  have look: "map_of (st_zone_histories (persisted_view d)) k = map_option history_view (map_of (st_zone_histories d) k)"
    "map_of (st_safety_records (persisted_view d)) k = map_of (st_safety_records d) k" for k
    using assms by (simp_all add: w storable_def map_of_map map_of_sort)
  have cons: "distinct (map con_accounting_contribution_id (all_contributions (persisted_view d)))"
    "set (all_contributions (persisted_view d)) = set (all_contributions d)"
    using v mset_eq_imp_distinct_iff [of "map con_accounting_contribution_id (all_contributions (persisted_view d))"
        "map con_accounting_contribution_id (all_contributions d)"] mset_eq_setD [OF contributions_view [OF assms]]
    by (simp_all add: validate_iff store_refs_ok_def contributions_view [OF assms])
  have sets: "set (st_safety_records (persisted_view d)) = set (st_safety_records d)"
    "set (st_zone_histories (persisted_view d)) = (\<lambda>(k, h). (k, history_view h)) ` set (st_zone_histories d)"
    by (simp_all add: w)
  have refs: "store_refs_ok (persisted_view d)"
    unfolding store_refs_ok_def look cons(2) sets
  proof (intro conjI cons(1))
    have d: "store_refs_ok d" using v by (simp add: validate_iff)
    then show "\<forall>(k, r)\<in>set (st_safety_records d). \<exists>h. map_option history_view (map_of (st_zone_histories d) (sr_zone_history_id r)) = Some h \<and>
        (sr_runtime_lifecycle r = ACTIVE \<longrightarrow> zh_active_subentry_id h = sr_active_subentry_id r)"
      by (fastforce simp: store_refs_ok_def)
    show "\<forall>(k, h)\<in>(\<lambda>(k, h). (k, history_view h)) ` set (st_zone_histories d). \<forall>p. zr_session (zh_zone_runtime h) = Some p \<longrightarrow>
        (\<exists>r. map_of (st_safety_records d) (ps_owner_safety_record_id p) = Some r \<and> sr_zone_history_id r = zh_zone_history_id h)"
      using d by (fastforce simp: store_refs_ok_def session_view_def)
    show "\<forall>c\<in>set (all_contributions d). con_source_safety_record_id c \<in> fst ` set (st_safety_records d)"
      using d by (simp add: store_refs_ok_def)
  qed
  show ?thesis using v keys refs by (simp add: validate_iff sels)
qed

section \<open>The payload\<close>

lemma items_read_back:
  assumes "list_all (\<lambda>(k, x). k \<noteq> [] \<and> f k (enc x) = Inr (view x)) xs"
  shows "read_items ctx f (map (\<lambda>(k, x). (k, enc x)) xs) = Inr (map (\<lambda>(k, x). (k, view x)) xs)"
  using assms by (induction xs) (auto simp: read_items_def map_id_def)

lemma run_read_back:
  "text_opt_ok (run_active_run_id r) \<Longrightarrow> text_opt_ok (run_last_clean_shutdown_run_id r) \<Longrightarrow> run_from_dict (run_to_dict r) = Inr r"
  by (cases r) (simp add: run_from_dict_def run_to_dict_def codec_simps)

lemma payload_read_back:
  assumes "storable d"
  shows "store_data_from_dict (store_payload d) = Inr (persisted_view d)"
proof -
  have ok: "list_all (\<lambda>(k, h). history_ok k h) (sort_key fst (st_zone_histories d))"
    "list_all (\<lambda>(k, r). record_ok k r) (sort_key fst (st_safety_records d))"
    using assms by (simp_all add: storable_def list_all_iff)
  have h: "read_items ''zone_history'' zone_history_from_dict
        (map (\<lambda>(k, h). (k, zone_history_to_dict h)) (sort_key fst (st_zone_histories d))) =
      Inr (st_zone_histories (persisted_view d))"
    unfolding views [OF assms]
    by (rule items_read_back, rule list.pred_mono_strong [OF ok(1)]) (auto simp: history.decode history_ok_def [of "[]"])
  have "read_items ''safety_record'' safety_record_from_dict
        (map (\<lambda>(k, r). (k, safety_record_to_dict r)) (sort_key fst (st_safety_records d))) =
      Inr (map (\<lambda>(k, r). (k, r)) (sort_key fst (st_safety_records d)))"
    by (rule items_read_back, rule list.pred_mono_strong [OF ok(2)]) (auto simp: safety.decode record_ok_def [of "[]"])
  then have r: "read_items ''safety_record'' safety_record_from_dict
        (map (\<lambda>(k, r). (k, safety_record_to_dict r)) (sort_key fst (st_safety_records d))) =
      Inr (st_safety_records (persisted_view d))"
    unfolding views [OF assms] by simp
  have v: "st_version d = STORE_SCHEMA_VERSION" "st_generation_id d \<noteq> []" "1 \<le> st_store_revision d"
    using assms by (auto simp: storable_def validate_iff STORE_SCHEMA_VERSION_def)
  have "\<lparr>st_generation_id = st_generation_id d, st_store_revision = st_store_revision d, st_run = st_run d,
      st_zone_histories = st_zone_histories (persisted_view d), st_safety_records = st_safety_records (persisted_view d),
      st_version = STORE_SCHEMA_VERSION\<rparr> = persisted_view d"
    using v by (cases d) (simp add: persisted_view_def)
  then show ?thesis
    using assms v h r validate_view [OF assms]
    by (simp add: store_payload_def store_data_from_dict_def storable_def STORE_KEYS_def codec_simps run_read_back
        mk_store_data_def)
qed

text \<open>(C20) Whatever snapshot the store writes is what the strict reader gives back: the maps come back in key order,
  and only the live fields of the sessions, which are not written, are at their defaults.\<close>

theorem store_payload_roundtrip:
  assumes "storable d"
  shows "res_bind (store_data_to_dict d) store_data_from_dict = Inr (persisted_view d)"
  using assms payload_read_back by (simp add: store_data_to_dict_def storable_def)

section \<open>What the reader accepts\<close>

text \<open>A JSON object is a dictionary: no key occurs twice.\<close>

fun dict_json :: "json \<Rightarrow> bool" where
  "dict_json (JList vs) = list_all dict_json vs"
| "dict_json (JObj d) = (distinct (map fst d) \<and> list_all (\<lambda>p. dict_json (snd p)) d)"
| "dict_json _ = True"

lemma holds_items:
  assumes "\<And>k v. holds (f k v) (Q k)"
  shows "holds (read_items ctx f items) (\<lambda>xs. map fst xs = map fst items \<and> list_all (\<lambda>(k, x). k \<noteq> [] \<and> Q k x) xs)"
proof (induction items)
  case (Cons item items)
  obtain k v where item: "item = (k, v)" by (cases item)
  show ?case
    using Cons holdsD [OF assms [of k v]] unfolding item read_items_def
    by (auto simp: holds_iff res_bind_eq_Inr map_id_def split: if_splits)
qed (simp add: read_items_def)

definition run_ok :: "RunIds \<Rightarrow> bool" where
  "run_ok r \<longleftrightarrow> text_opt_ok (run_active_run_id r) \<and> text_opt_ok (run_last_clean_shutdown_run_id r)"

lemma run_accepted: "holds (run_from_dict j) run_ok"
  unfolding run_from_dict_def by ((rule accept_rules)+; simp add: run_ok_def)

lemma holds_member: "holds (dict_at d k) (\<lambda>v. (k, v) \<in> set d)"
  by (auto simp: holds_iff dict_at_def map_of_SomeD split: option.splits)

lemma holds_exact: "holds (require_exact_keys j expected ctx) (\<lambda>d. j = JObj d)"
  by (auto simp: holds_iff require_exact_keys_def split: json.splits if_splits)

lemma reader_accepts:
  "holds (store_data_from_dict j)
     (\<lambda>d. dict_json j \<longrightarrow> storable d \<and> list_all (\<lambda>(k, h). history_view h = h) (st_zone_histories d))"
  unfolding store_data_from_dict_def
  by ((rule holds_member holds_exact run_accepted holds_items [OF history_accepted] holds_items [OF record_accepted]
        accept_rules)+; auto simp: mk_store_data_def res_bind_eq_Inr storable_def run_ok_def list_all_iff)

text \<open>(C21) The strict reader is a type check: every payload it accepts, whatever it is, becomes a snapshot that satisfies
  all consistency rules of the store, whose values are all in range, and that can be written and read again without losing
  anything.\<close>

theorem accepted_payload_well_typed:
  assumes "dict_json j" and "store_data_from_dict j = Inr d"
  shows "storable d \<and> validate_store_data d = Inr () \<and>
    (\<forall>k. map_of (st_zone_histories (persisted_view d)) k = map_of (st_zone_histories d) k \<and>
         map_of (st_safety_records (persisted_view d)) k = map_of (st_safety_records d) k) \<and>
    store_data_from_dict (store_payload d) = Inr (persisted_view d)"
proof -
  note acc = holdsD [OF reader_accepts assms(2), rule_format, OF assms(1)]
  then have s: "storable d" ..
  have "map (\<lambda>(k, h). (k, history_view h)) (sort_key fst (st_zone_histories d)) = sort_key fst (st_zone_histories d)"
    using acc by (intro map_idI) (auto simp: list_all_iff)
  then have "map_of (st_zone_histories (persisted_view d)) = map_of (st_zone_histories d)"
    "map_of (st_safety_records (persisted_view d)) = map_of (st_safety_records d)"
    using s by (simp_all add: views map_of_sort storable_def)
  with s payload_read_back show ?thesis by (simp add: storable_def)
qed

section \<open>Agreement of payloads\<close>

lemma live_fields_unwritten:
  "session_to_dict (persisted_session_view s) = session_to_dict s"
  "persisted_session_to_dict (session_view p) = persisted_session_to_dict p"
  "zone_history_to_dict ((history_view h)\<lparr>zh_zone_history_id := k\<rparr>) = zone_history_to_dict h"
  "safety_record_to_dict (r\<lparr>sr_safety_record_id := k\<rparr>) = safety_record_to_dict r"
proof -
  show s: "session_to_dict (persisted_session_view s) = session_to_dict s" for s
    by (simp add: session_to_dict_def persisted_session_view_def)
  show p: "persisted_session_to_dict (session_view p) = persisted_session_to_dict p" for p
    by (simp add: persisted_session_to_dict_def session_view_def s split: json.split)
  have "opt_json persisted_session_to_dict (map_option session_view v) = opt_json persisted_session_to_dict v" for v
    by (cases v) (simp_all add: opt_json_def p)
  then show "zone_history_to_dict ((history_view h)\<lparr>zh_zone_history_id := k\<rparr>) = zone_history_to_dict h"
    by (simp add: zone_history_to_dict_def history_view_eq runtime_view_def zone_runtime_to_dict_def)
  show "safety_record_to_dict (r\<lparr>sr_safety_record_id := k\<rparr>) = safety_record_to_dict r"
    by (simp add: safety_record_to_dict_def)
qed

lemma sort_idem: "sort_key fst (sort_key fst xs) = sort_key fst xs"
  by (rule properties_for_sort_key) simp_all

lemma payload_view: "store_payload (persisted_view d) = store_payload d"
  by (simp add: store_payload_def persisted_view_def sort_values sort_idem comp_def split_beta live_fields_unwritten
      map_idI [of _ "\<lambda>p. (fst p, _ p)"])

lemma payload_eq_iff:
  assumes "storable d" and "storable e"
  shows "store_payload d = store_payload e \<longleftrightarrow> persisted_view d = persisted_view e"
  using payload_read_back [OF assms(1)] payload_read_back [OF assms(2)] payload_view by (metis sum.inject(2))

section \<open>Witnesses\<close>

text \<open>A zone whose watering session is interrupted, with a day of accounting.\<close>

definition archived_data :: StoreData where
  "archived_data =
     sample_data
       \<lparr>st_zone_histories :=
          [(''h'', sample_history
             \<lparr>zh_zone_runtime := (zh_zone_runtime sample_history)
                \<lparr>zr_state := WATERING,
                 zr_session := Some \<lparr>ps_owner_safety_record_id = ''r'',
                   ps_context = (session_defaults ''s'' ''run'' ''fp'' AUTO 1000)
                     \<lparr>ses_pulse_intent_at_utc := Some 1000, ses_last_recheck_value := Some (Fin 20),
                      ses_manual_clamp_reasons := [CLAMP_MAX_SESSION_RUNTIME]\<rparr>\<rparr>\<rparr>,
              zh_last_session_end_utc := Some 500,
              zh_daily := Some \<lparr>zdr_date_local = 0, zdr_runtime_s = 60, zdr_conservative_unattributed_runtime_s = 60,
                zdr_contributions = []\<rparr>\<rparr>)],
        st_safety_records := [(''r'', sample_record)]\<rparr>"

lemmas archived_defs = archived_data_def sample_store_defs session_defaults_def

lemma archived_storable: "storable archived_data"
  by (simp add: archived_defs storable_def validate_store_data_def STORE_SCHEMA_VERSION_def somes_def all_contributions_def
      check_record_history_def check_session_owner_def Let_def text_opt_ok_def history_ok_def runtime_ok_def sensor_ok_def
      persisted_ok_def session_ok_def utc_opt_ok_def utc_ok_def date_ok_def EPOCH_ORDINAL_def float_opt_ok_def mk_session_def
      mk_sensor_identity_def mk_zone_runtime_def in_scope_def daily_ok_def mk_zone_daily_def known_runtime_def
      deduplicate_accounting_contributions_def mk_zone_history_def validate_id_history_def record_ok_def actuator_ok_def
      mk_actuator_identity_def expected_off_service_def mk_safety_record_def ACTUATOR_FAULTS_def requires_user_ack_def
      record_lifecycle_check_def entity_domain_def domain_defs)

lemma archived_dict: "dict_json (store_payload archived_data)"
  by (simp add: archived_defs store_payload_def run_to_dict_def opt_json_def zone_history_to_dict_def dt_to_iso_def
      zone_runtime_to_dict_def enum_value_def sensor_identity_to_dict_def persisted_session_to_dict_def session_to_dict_def
      daily_to_dict_def safety_record_to_dict_def actuator_identity_to_dict_def)

theorem store_payload_roundtrip_witness:
  "res_bind (store_data_to_dict archived_data) store_data_from_dict = Inr (persisted_view archived_data) \<and>
   persisted_view archived_data \<noteq> archived_data"
proof -
  have "persisted_view archived_data \<noteq> archived_data"
    by (simp add: archived_defs persisted_view_def history_view_def persisted_session_view_def)
  with store_payload_roundtrip [OF archived_storable] show ?thesis by simp
qed

theorem accepted_payload_well_typed_witness:
  "validate_store_data (persisted_view archived_data) = Inr ()"
  using accepted_payload_well_typed [OF archived_dict payload_read_back [OF archived_storable]] by blast

end
