(* ===== verification/Migration_Safety.thy ===== *)
theory Migration_Safety
  imports Store_Migration Store_Roundtrip
begin

text \<open>
  What the payload level guarantees: which exceptions the strict reader raises, that the
  verified write on payloads is the verified write on snapshots of \<open>Safety_Store\<close>, that a write
  through a faithful \<open>Store\<close> succeeds, that the migrations keep the safety evidence of every zone,
  and the decision matrix of the startup classification.
\<close>

section \<open>The exceptions of the strict reader\<close>

definition fails :: "'a result \<Rightarrow> (py_error \<Rightarrow> bool) \<Rightarrow> bool" where
  "fails r E \<longleftrightarrow> (case r of Inl e \<Rightarrow> E e | Inr _ \<Rightarrow> True)"

text \<open>The exceptions of a reader, and those of a reader under \<open>except (TypeError, ValueError)\<close>.\<close>

definition reader_error :: "py_error \<Rightarrow> bool" where
  "reader_error e \<longleftrightarrow> is_store_data_error e \<or> e = OverflowError"

definition payload_error :: "py_error \<Rightarrow> bool" where
  "payload_error e \<longleftrightarrow> reader_error e \<or> is_value_error e"

named_theorems fails_rules \<open>exceptions of readers, construct by construct\<close>

lemma fails_bind [fails_rules]: "fails r E \<Longrightarrow> (\<And>x. fails (f x) E) \<Longrightarrow> fails (res_bind r f) E"
  by (cases r) (auto simp: fails_def)

lemma fails_catch [fails_rules]: "fails r payload_error \<Longrightarrow> fails (catch_plain msg r) reader_error"
  by (cases "(msg, r)" rule: catch_plain.cases) (auto simp: fails_def reader_error_def payload_error_def)

lemma fails_catch_payload [fails_rules]: "fails r payload_error \<Longrightarrow> fails (catch_plain msg r) payload_error"
  by (cases "(msg, r)" rule: catch_plain.cases) (auto simp: fails_def reader_error_def payload_error_def)

lemma fails_value [fails_rules]: "fails (Inr x) E"
  by (simp add: fails_def)

lemma fails_malformed [fails_rules]: "fails (malformed m) reader_error" "fails (malformed m) payload_error"
  "fails (Inl FutureStoreVersion) reader_error" "fails (Inl (ValueError m)) payload_error"
  by (simp_all add: fails_def reader_error_def payload_error_def)

lemma fails_if [fails_rules]: "(b \<Longrightarrow> fails r E) \<Longrightarrow> (\<not> b \<Longrightarrow> fails t E) \<Longrightarrow> fails (if b then r else t) E"
  by simp

lemma fails_case_list [fails_rules]: "(\<And>xs. fails (f xs) E) \<Longrightarrow> fails r E \<Longrightarrow> fails (case j of JList xs \<Rightarrow> f xs | _ \<Rightarrow> r) E"
  by (cases j) auto

lemma fails_case_str [fails_rules]: "(\<And>s. fails (f s) E) \<Longrightarrow> fails r E \<Longrightarrow> fails (case j of JStr s \<Rightarrow> f s | _ \<Rightarrow> r) E"
  by (cases j) auto

lemma fails_case_int [fails_rules]: "(\<And>i. fails (f i) E) \<Longrightarrow> fails r E \<Longrightarrow> fails (case j of JInt i \<Rightarrow> f i | _ \<Rightarrow> r) E"
  by (cases j) auto

lemma fails_case_obj [fails_rules]: "(\<And>d. j = JObj d \<Longrightarrow> fails (f d) E) \<Longrightarrow> fails r E \<Longrightarrow> fails (case j of JObj d \<Rightarrow> f d | _ \<Rightarrow> r) E"
  by (cases j) auto

lemma fails_case_option [fails_rules]: "(\<And>y. fails (f y) E) \<Longrightarrow> fails r E \<Longrightarrow> fails (case v of None \<Rightarrow> r | Some y \<Rightarrow> f y) E"
  by (cases v) auto

lemma fails_case_pair [fails_rules]: "fails (f a b) E \<Longrightarrow> fails (case (a, b) of (x, y) \<Rightarrow> f x y) E"
  by simp

lemma fails_weaken: "fails r reader_error \<Longrightarrow> fails r payload_error"
  by (cases r) (auto simp: fails_def payload_error_def)

lemma fails_require [fails_rules]:
  "(\<And>v. fails (f v) E) \<Longrightarrow> E (MalformedStoreData (ctx @ '' is missing '' @ k)) \<Longrightarrow> fails (require_at d k ctx f) E"
  by (auto simp: require_at_def json_require_def fails_def split: option.split sum.split)

lemma fails_map [fails_rules]: "(\<And>x. fails (f x) E) \<Longrightarrow> fails (res_map f xs) E"
  by (induction xs) (auto intro!: fails_rules)

lemma fails_catch_value: "fails r payload_error \<Longrightarrow> fails (catch_value_error msg r) reader_error"
  by (cases "(msg, r)" rule: catch_value_error.cases) (auto simp: fails_def reader_error_def payload_error_def)

lemma fails_texts [fails_rules]:
  "fails (strict_string name v) reader_error" "fails (strict_string_nullable name v) reader_error"
  "fails (strict_bool name v) reader_error" "fails (strict_int name minimum v) reader_error"
  "fails (iso_to_dt name v) reader_error" "fails (require_dt name t) reader_error" "fails (map_id ctx key) reader_error"
  "fails (require_exact_keys j expected ctx) reader_error" "fails (json_require j k ctx) reader_error"
  "fails (enum_call table v) payload_error" "fails (date_of_text text) payload_error"
  by (auto simp: strict_string_nullable_def strict_string_def strict_bool_def strict_int_def iso_to_dt_def require_dt_def
      map_id_def require_exact_keys_def json_require_def enum_call_def date_of_text_def fails_def reader_error_def
      payload_error_def split: json.split option.split)

lemma fails_numbers [fails_rules]: "fails (strict_float name v) reader_error" "fails (float_or_none v) reader_error"
  by (auto simp: strict_float_def float_or_none_def json_float_def float_of_int_def fails_def reader_error_def
      split: json.split pyfloat.split)

lemma fails_enum_or_none [fails_rules]: "fails (enum_or_none table name v) reader_error"
  unfolding enum_or_none_def by (rule fails_rules)+

lemma fails_tuples [fails_rules]: "fails (string_tuple name v) reader_error" "fails (enum_tuple table name v) reader_error"
  unfolding string_tuple_def enum_tuple_def tuple_of_def
  by ((rule fails_catch_value fails_rules fails_weaken)+)+

lemma fails_bind_keys [fails_rules]:
  "(\<And>d. fst ` set d = set ks \<Longrightarrow> fails (f d) E) \<Longrightarrow> E (MalformedStoreData (ctx @ '' must be an object'')) \<Longrightarrow>
   E (MalformedStoreData (ctx @ '' keys invalid'')) \<Longrightarrow> fails (res_bind (require_exact_keys j ks ctx) f) E"
  by (cases j) (auto simp: require_exact_keys_def fails_def)

lemma fails_read_at: "fst ` set d = set ks \<Longrightarrow> k \<in> set ks \<Longrightarrow> (\<And>v. fails (f v) E) \<Longrightarrow> fails (read_at d k f) E"
  by (cases "map_of d k") (auto simp: read_at_def dict_at_def map_of_eq_None_iff)

lemma fails_dict_at: "fst ` set d = set ks \<Longrightarrow> k \<in> set ks \<Longrightarrow> fails (dict_at d k) E"
  by (cases "map_of d k") (auto simp: dict_at_def map_of_eq_None_iff fails_def)

lemma fails_opt_read [fails_rules]: "(\<And>v. fails (f v) E) \<Longrightarrow> fails (opt_read f v) E"
  unfolding opt_read_def by (rule fails_rules | assumption)+

lemma fails_read_at_keys:
  "fst ` set d = set ks \<Longrightarrow> k \<in> set ks \<Longrightarrow> (\<And>d'. fst ` set d' = set ks' \<Longrightarrow> fails (f d') E) \<Longrightarrow>
   E (MalformedStoreData (ctx @ '' must be an object'')) \<Longrightarrow> E (MalformedStoreData (ctx @ '' keys invalid'')) \<Longrightarrow>
   fails (res_bind (read_at d k (\<lambda>v. require_exact_keys v ks' ctx)) f) E"
  by (cases "map_of d k") (auto simp: read_at_def dict_at_def map_of_eq_None_iff intro!: fails_bind_keys)

lemma fails_checks [fails_rules]:
  "fails (mk_session s) payload_error" "fails (mk_persisted_session p) payload_error"
  "fails (mk_sensor_identity i) payload_error" "fails (mk_applied_identity ai) payload_error"
  "fails (mk_actuator_identity ac) payload_error" "fails (mk_contribution c) payload_error"
  "fails (mk_zone_runtime zr) payload_error" "fails (mk_removed_ack k) payload_error" "fails (mk_incident n) payload_error"
  by (auto simp: fails_def payload_error_def mk_session_def mk_persisted_session_def mk_sensor_identity_def mk_applied_identity_def
      mk_actuator_identity_def mk_contribution_def mk_zone_runtime_def mk_removed_ack_def mk_incident_def
      split: option.split)

lemma fails_dedup: "fails (dedup_loop by_id cs) payload_error"
  by (induction by_id cs rule: dedup_loop.induct) (auto simp: fails_def payload_error_def split: option.split)

lemma fails_value_error [fails_rules]: "fails (Inl (ValueError m)) payload_error"
  by (simp add: fails_def payload_error_def)

lemma fails_for_all [fails_rules]: "(\<And>x. fails (f x) E) \<Longrightarrow> fails (for_all f xs) E"
  by (induction xs) (auto intro!: fails_rules)

lemma fails_contributions [fails_rules]: "fails (check_contributions d seen cs) payload_error"
  by (induction d seen cs rule: check_contributions.induct) (auto simp: fails_def payload_error_def split: option.split)

lemma fails_validation [fails_rules]: "fails (config_validate c) payload_error" "fails (validate_store_data d) payload_error"
  "fails (validate_id_history i a ps ctx) payload_error"
  unfolding config_validate_def validate_store_data_def check_record_history_def check_session_owner_def
    validate_id_history_def Let_def
  by ((rule fails_rules)+; fail)+

lemma fails_checked [fails_rules]:
  "fails (mk_shadow sh) payload_error" "fails (mk_zone_daily z) payload_error" "fails (mk_zone_history h) payload_error"
  "fails (mk_safety_record r) payload_error" "fails (mk_store_data d) payload_error"
  unfolding mk_shadow_def settings_validate_def mk_zone_daily_def deduplicate_accounting_contributions_def mk_zone_history_def
    mk_safety_record_def record_lifecycle_check_def mk_store_data_def
  by ((rule fails_rules fails_dedup)+; fail)+

lemmas key_defs = SESSION_KEYS_def SUMMARY_KEYS_def ACTUATOR_IDENTITY_KEYS_def SETTING_FIELDS_def SHADOW_KEYS_def
  CONTRIBUTION_KEYS_def DAILY_KEYS_def ZONE_RUNTIME_KEYS_def ZONE_HISTORY_KEYS_def ACK_KEYS_def SAFETY_RECORD_KEYS_def
  STORE_KEYS_def

lemma object_errors [fails_rules]: "reader_error (MalformedStoreData m)" "payload_error (MalformedStoreData m)"
  by (simp_all add: reader_error_def payload_error_def)

lemma fails_session [fails_rules]: "fails (session_from_dict j) reader_error"
  unfolding session_from_dict_def by (rule fails_rules fails_weaken)+

lemma fails_summary [fails_rules]: "fails (summary_from_dict j) reader_error"
  unfolding summary_from_dict_def by (rule fails_rules fails_weaken)+

lemma fails_persisted: "fails (persisted_session_from_dict j) payload_error"
  unfolding persisted_session_from_dict_def by (rule fails_rules fails_weaken)+

lemma fails_settings: "fails (settings_from_dict j) payload_error"
  unfolding settings_from_dict_def
  by ((rule fails_read_at fails_dict_at, assumption, simp add: key_defs) | rule fails_rules fails_weaken)+

lemma fails_sensor: "fails (sensor_identity_from_dict j) payload_error"
  unfolding sensor_identity_from_dict_def
  by ((rule fails_read_at fails_dict_at, assumption, simp add: key_defs) | rule fails_rules fails_weaken)+

lemma fails_applied: "fails (applied_identity_from_dict ctx j) payload_error"
  unfolding applied_identity_from_dict_def
  by ((rule fails_read_at fails_dict_at, assumption, simp add: key_defs) | rule fails_rules fails_weaken)+

lemma fails_actuator: "fails (actuator_identity_from_dict j) payload_error"
  unfolding actuator_identity_from_dict_def
  by ((rule fails_read_at fails_dict_at, assumption, simp add: key_defs) | rule fails_rules fails_weaken)+

lemma fails_shadow: "fails (shadow_from_dict j) payload_error"
  unfolding shadow_from_dict_def
  by ((rule fails_read_at fails_dict_at, assumption, simp add: key_defs) | rule fails_settings fails_applied fails_rules fails_weaken)+

lemma fails_contribution: "fails (contribution_from_dict j) payload_error"
  unfolding contribution_from_dict_def
  by ((rule fails_read_at fails_dict_at, assumption, simp add: key_defs) | rule fails_rules fails_weaken)+

lemma fails_daily: "fails (daily_from_dict j) payload_error"
  unfolding daily_from_dict_def
  by ((rule fails_read_at fails_dict_at, assumption, simp add: key_defs) | rule fails_contribution fails_rules fails_weaken)+

lemma fails_zone_runtime: "fst ` set d = set ZONE_RUNTIME_KEYS \<Longrightarrow> fails (zone_runtime_from_dict d) payload_error"
  unfolding zone_runtime_from_dict_def
  by ((rule fails_read_at, assumption, simp add: key_defs) | rule fails_sensor fails_persisted fails_rules fails_weaken)+

lemma fails_history: "fails (zone_history_from_dict key j) payload_error"
  unfolding zone_history_from_dict_def
  by ((rule fails_read_at_keys fails_read_at, assumption, simp add: key_defs) |
      rule fails_daily fails_zone_runtime fails_rules fails_weaken | assumption)+

lemma fails_ack: "fails (removed_ack_from_dict j) payload_error"
  unfolding removed_ack_from_dict_def
  by ((rule fails_read_at fails_dict_at, assumption, simp add: key_defs) | rule fails_rules fails_weaken)+

lemma fails_incident: "fails (incident_from_dict j) payload_error"
  unfolding incident_from_dict_def
  by ((rule fails_read_at fails_dict_at, assumption, simp add: key_defs) | rule fails_rules fails_weaken)+

lemma fails_record: "fails (safety_record_from_dict key j) payload_error"
  unfolding safety_record_from_dict_def
  by ((rule fails_read_at fails_dict_at, assumption, simp add: key_defs) | rule fails_shadow fails_actuator fails_ack fails_incident fails_rules fails_weaken)+

lemma fails_items: "(\<And>k v. fails (f k v) payload_error) \<Longrightarrow> fails (read_items ctx f items) payload_error"
  unfolding read_items_def split_def by (assumption | rule fails_rules fails_weaken)+

lemma fails_run: "fails (run_from_dict j) reader_error"
  unfolding run_from_dict_def
  by ((rule fails_read_at, assumption, simp) | rule fails_rules)+

lemma reader_fails: "fails (store_data_from_dict j) reader_error"
  unfolding store_data_from_dict_def
  by ((rule fails_read_at fails_dict_at, assumption, simp add: key_defs) |
      rule fails_run fails_items [OF fails_history] fails_items [OF fails_record] fails_rules)+

lemma reader_validates: "holds (store_data_from_dict j) (\<lambda>d. validate_store_data d = Inr ())"
proof -
  have any: "holds r (\<lambda>_. True)" for r :: "'a result" by (simp add: holds_def split: sum.split)
  show ?thesis
    unfolding store_data_from_dict_def
    by ((rule accept_rules any)+; auto simp: mk_store_data_def res_bind_eq_Inr)
qed

text \<open>(C22) The strict reader is total on JSON values: on anything that is not a payload of the current schema it raises
  one of the two store errors that every caller handles.  The one other exception is the overflow of an integer too large
  for a float.\<close>

theorem reader_raises_store_errors:
  "case store_data_from_dict j of
     Inr d \<Rightarrow> validate_store_data d = Inr ()
   | Inl e \<Rightarrow> e = OverflowError \<or> e = FutureStoreVersion \<or> (\<exists>m. e = MalformedStoreData m)"
  using reader_validates [of j] reader_fails [of j]
  by (auto simp: holds_def fails_def reader_error_def elim: is_store_data_error.elims split: sum.splits)

section \<open>The verified write\<close>

definition snapshot_io :: "json_io \<Rightarrow> store_io" where
  "snapshot_io io =
     \<lparr>io_save_raises = ji_save_raises io,
      io_read_back = (case ji_load io of
        LoadFails \<Rightarrow> LoadRaised
      | LoadEmpty \<Rightarrow> NoData
      | LoadValue raw \<Rightarrow> (case store_data_from_dict raw of Inl _ \<Rightarrow> Malformed | Inr d \<Rightarrow> Loaded d))\<rparr>"

text \<open>What is loaded is a JSON document without an integer that overflows.\<close>

definition loads_json :: "json_io \<Rightarrow> bool" where
  "loads_json io \<longleftrightarrow>
     (case ji_load io of LoadValue raw \<Rightarrow> dict_json raw \<and> store_data_from_dict raw \<noteq> Inl OverflowError | _ \<Rightarrow> True)"

lemma reader_error_handled: "store_data_from_dict raw = Inl e \<Longrightarrow> e = OverflowError \<or> is_store_data_error e"
  using reader_fails [of raw] by (auto simp: fails_def reader_error_def)

lemma storable_written: "storable d \<Longrightarrow> store_data_to_dict d = Inr (store_payload d)"
  by (simp add: storable_def store_data_to_dict_def)

text \<open>The verified write on JSON payloads is the verified write on snapshots: comparing the payload that was read
  back with the payload that was written decides exactly whether the two snapshots agree up to the live session fields.\<close>

theorem payload_write_refines:
  assumes "storable data" and "loads_json io"
  shows "save_and_verify_payload io data s = save_and_verify (snapshot_io io) data s"
proof (cases "ji_load io")
  case (LoadValue raw)
  show ?thesis
  proof (cases "store_data_from_dict raw")
    case (Inl e)
    then show ?thesis
      using LoadValue assms reader_error_handled [of raw e]
      by (auto simp: save_and_verify_payload_def save_and_verify_def snapshot_io_def loads_json_def storable_written)
  next
    case (Inr loaded)
    then have "storable loaded"
      using holdsD [OF reader_accepts Inr] LoadValue assms(2) by (simp add: loads_json_def)
    then show ?thesis
      using LoadValue Inr assms(1) payload_eq_iff [of loaded data]
      by (simp add: save_and_verify_payload_def save_and_verify_def snapshot_io_def storable_written)
  qed
qed (use assms in \<open>simp_all add: save_and_verify_payload_def save_and_verify_def snapshot_io_def storable_written\<close>)

text \<open>A store that gives back what it was given never fails a verified write: every storable snapshot is adopted.\<close>

theorem faithful_store_accepts_write:
  assumes "storable data"
  shows "save_and_verify_payload \<lparr>ji_save_raises = False, ji_load = LoadValue (store_payload data)\<rparr> data s =
    (s\<lparr>ss_data := Some data\<rparr>, None)"
proof -
  have v: "validate_store_data (persisted_view data) = Inr ()" by (rule validate_view [OF assms])
  then have "store_data_to_dict (persisted_view data) = Inr (store_payload data)"
    by (simp add: store_data_to_dict_def payload_view)
  moreover have "st_version (persisted_view data) = STORE_SCHEMA_VERSION"
    using v by (auto simp: validate_store_data_def Let_def split: if_splits)
  moreover have "st_generation_id (persisted_view data) = st_generation_id data"
    "st_store_revision (persisted_view data) = st_store_revision data"
    by (simp_all add: persisted_view_def)
  ultimately show ?thesis
    by (simp add: save_and_verify_payload_def storable_written [OF assms] payload_read_back [OF assms])
qed

section \<open>Schema 2\<close>

text \<open>The payload of schema 2: another version, and records without the acknowledgement.\<close>

definition schema2_record :: "SafetyRecord \<Rightarrow> json" where
  "schema2_record r =
     (case safety_record_to_dict r of JObj d \<Rightarrow> JObj (AList.delete ''removed_actuator_ack'' d) | j \<Rightarrow> j)"

definition schema2_payload :: "StoreData \<Rightarrow> json" where
  "schema2_payload data =
     JObj [
       (''version'', JInt PRIOR_STORE_SCHEMA_VERSION),
       (''generation_id'', JStr (st_generation_id data)),
       (''store_revision'', JInt (st_store_revision data)),
       (''run'', run_to_dict (st_run data)),
       (''zone_histories'',
          JObj (map (\<lambda>(k, h). (k, zone_history_to_dict h)) (sort_key fst (st_zone_histories data)))),
       (''safety_records'',
          JObj (map (\<lambda>(k, r). (k, schema2_record r)) (sort_key fst (st_safety_records data))))]"

lemma upgrade_schema2_record:
  assumes "sr_removed_actuator_ack r = None"
  shows "upgrade_record (schema2_record r) = Inr (safety_record_to_dict r)"
  using assms by (simp add: schema2_record_def upgrade_record_def safety_record_to_dict_def opt_json_def AList.delete_eq)

text \<open>The upgrade of schema 2 loses nothing: a schema-2 payload becomes the snapshot it describes, with no
  operator acknowledgement of a removed actuator.\<close>

theorem schema2_upgrade_roundtrip:
  assumes "storable d" and "list_all (\<lambda>(k, r). sr_removed_actuator_ack r = None) (st_safety_records d)"
  shows "migrate_schema2_to_schema3 (schema2_payload d) = Inr (persisted_view d)"
proof -
  have "list_all (\<lambda>(k, r). sr_removed_actuator_ack r = None) xs \<Longrightarrow>
    res_map (\<lambda>(k, record). res_bind (upgrade_record record) (\<lambda>r. Inr (k, r))) (map (\<lambda>(k, r). (k, schema2_record r)) xs) =
    Inr (map (\<lambda>(k, r). (k, safety_record_to_dict r)) xs)" for xs :: "(string \<times> SafetyRecord) list"
    by (induction xs) (auto simp: upgrade_schema2_record)
  moreover have "list_all (\<lambda>(k, r). sr_removed_actuator_ack r = None) (sort_key fst (st_safety_records d))"
    using assms(2) by (simp add: list_all_iff)
  ultimately have "migrate_schema2_to_schema3 (schema2_payload d) = store_data_from_dict (store_payload d)"
    by (simp add: migrate_schema2_to_schema3_def schema2_payload_def store_payload_def codec_simps json_equals_int_def)
  with payload_read_back [OF assms(1)] show ?thesis by simp
qed

section \<open>Schema 1\<close>

text \<open>The evidence of a zone that the migration must carry over: state and session, the budget that is used up, latched
  faults, possible flow, and that a zone without current configuration stays blocked.\<close>

definition evidence_kept :: "bool \<Rightarrow> string \<Rightarrow> ZoneRecord \<Rightarrow> ZoneHistory \<Rightarrow> SafetyRecord \<Rightarrow> bool" where
  "evidence_kept configured k old h r \<longleftrightarrow>
     sr_zone_history_id r = zh_zone_history_id h \<and> sr_zone_id r = k \<and>
     zr_enabled (zh_zone_runtime h) = z1_enabled old \<and> zr_state (zh_zone_runtime h) = z1_state old \<and>
     zr_session (zh_zone_runtime h) =
       map_option (\<lambda>s. \<lparr>ps_owner_safety_record_id = k, ps_context = s\<rparr>) (z1_session old) \<and>
     zh_last_session_end_utc h = z1_last_session_end_utc old \<and>
     zh_last_auto_session_start_utc h = z1_last_auto_session_start_utc old \<and>
     map_option (\<lambda>z. (zdr_date_local z, zdr_runtime_s z)) (zh_daily h) =
       map_option (\<lambda>d. (day_date_local d, day_runtime_s d)) (z1_daily old) \<and>
     set (somes [z1_active_fault old, z1_secondary_fault old]) =
       set (somes [sr_actuator_fault r, zr_zone_fault (zh_zone_runtime h), zr_secondary_fault (zh_zone_runtime h)]) \<and>
     (if legacy_has_possible_integration_flow old
      then INTEGRATION_OFF_UNCONFIRMED \<in> set (sr_blocker_reasons r) \<and> sr_possible_flow_owner r = Some INTEGRATION
      else sr_possible_flow_owner r = None) \<and>
     (if configured then sr_runtime_lifecycle r = ACTIVE
      else sr_runtime_lifecycle r = DELETE_PENDING \<and> ACTUATOR_NOT_PROVEN_OFF \<in> set (sr_blocker_reasons r))"

lemma split_faults_keep:
  assumes "split_schema1_faults p q = Inr (a, z, w)"
  shows "set (somes [p, q]) = set (somes [a, z, w])"
proof -
  have part: "f \<in> ACTUATOR_FAULTS \<longleftrightarrow> f \<notin> ZONE_FAULTS" for f
    by (cases f) (auto simp: ACTUATOR_FAULTS_def ZONE_FAULTS_def)
  show ?thesis
    using assms by (cases p; cases q) (auto simp: split_schema1_faults_def somes_def part Let_def split: if_splits)
qed

lemma migrate_daily_keeps:
  assumes "(case v of None \<Rightarrow> Inr None | Some d \<Rightarrow> res_bind (migrate_daily uid g k d) (\<lambda>z. Inr (Some z))) = Inr w"
  shows "map_option (\<lambda>z. (zdr_date_local z, zdr_runtime_s z)) w = map_option (\<lambda>d. (day_date_local d, day_runtime_s d)) v"
  using assms by (cases v) (auto simp: migrate_daily_def res_bind_eq_Inr dest!: mk_ids)

lemma migrate_session_keeps:
  assumes "(case v of None \<Rightarrow> Inr None
      | Some s \<Rightarrow> res_bind (mk_persisted_session \<lparr>ps_owner_safety_record_id = k, ps_context = s\<rparr>) (\<lambda>p. Inr (Some p))) = Inr w"
  shows "w = map_option (\<lambda>s. \<lparr>ps_owner_safety_record_id = k, ps_context = s\<rparr>) v"
  using assms by (cases v) (auto simp: res_bind_eq_Inr dest!: mk_ids)

lemma migration_target_facts:
  assumes "migration_target context k old = Inr t"
  shows "finite (mt_blockers t)" and "legacy_has_possible_integration_flow old \<Longrightarrow> INTEGRATION_OFF_UNCONFIRMED \<in> mt_blockers t"
    and "if context \<noteq> None then mt_lifecycle t = ACTIVE else mt_lifecycle t = DELETE_PENDING \<and> ACTUATOR_NOT_PROVEN_OFF \<in> mt_blockers t"
  using assms by (auto simp: migration_target_def Let_def res_bind_eq_Inr split: option.splits if_splits)

lemma migrate_record_keeps:
  assumes "migrate_record uid g context k old = Inr (h, r)"
  shows "evidence_kept (context \<noteq> None) k old h r \<and> zh_zone_history_id h = uid g k ''zone-history'' \<and> sr_safety_record_id r = k"
proof -
  from assms obtain af zf sf ps daily t zr where faults: "split_schema1_faults (z1_active_fault old) (z1_secondary_fault old) = Inr (af, zf, sf)"
    and ps: "(case z1_session old of None \<Rightarrow> Inr None
      | Some s \<Rightarrow> res_bind (mk_persisted_session \<lparr>ps_owner_safety_record_id = k, ps_context = s\<rparr>) (\<lambda>p. Inr (Some p))) = Inr ps"
    and daily: "(case z1_daily old of None \<Rightarrow> Inr None
      | Some d \<Rightarrow> res_bind (migrate_daily uid g k d) (\<lambda>z. Inr (Some z))) = Inr daily"
    and t: "migration_target context k old = Inr t"
    and zr: "zr = \<lparr>zr_enabled = z1_enabled old, zr_state = z1_state old, zr_zone_fault = zf, zr_secondary_fault = sf,
        zr_sensor_identity = mt_sensor_identity t, zr_last_session_summary = z1_last_session_summary old, zr_session = ps\<rparr>"
    and h: "zh_zone_history_id h = uid g k ''zone-history''" "zh_zone_runtime h = zr" "zh_daily h = daily"
      "zh_last_session_end_utc h = z1_last_session_end_utc old" "zh_last_auto_session_start_utc h = z1_last_auto_session_start_utc old"
    and r: "sr_safety_record_id r = k" "sr_zone_id r = k" "sr_zone_history_id r = uid g k ''zone-history''"
      "sr_runtime_lifecycle r = mt_lifecycle t" "sr_blocker_reasons r = ordered_blockers (mt_blockers t)" "sr_actuator_fault r = af"
      "sr_possible_flow_owner r = (if legacy_has_possible_integration_flow old then Some INTEGRATION else None)"
    unfolding migrate_record_def by (auto simp: res_bind_eq_Inr dest!: mk_ids)
  note tf = migration_target_facts [OF t]
  show ?thesis
    unfolding evidence_kept_def h r zr
    using migrate_daily_keeps [OF daily] migrate_session_keeps [OF ps] split_faults_keep [OF faults] tf
    by (auto simp: set_ordered_blockers split: if_splits)
qed

lemma migrate_loop_zones:
  assumes "migrate_loop uid g ctx zones hs rs = Inr (hs', rs')" and "distinct (map fst zones)"
    and "\<And>k k'. uid g k ''zone-history'' = uid g k' ''zone-history'' \<Longrightarrow> k = k'"
  shows "(\<forall>(k, old) \<in> set zones. \<exists>h r. migrate_record uid g (map_of ctx k) k old = Inr (h, r) \<and>
        map_of hs' (uid g k ''zone-history'') = Some h \<and> map_of rs' k = Some r) \<and>
    (\<forall>k. k \<notin> fst ` set zones \<longrightarrow> map_of rs' k = map_of rs k \<and>
        map_of hs' (uid g k ''zone-history'') = map_of hs (uid g k ''zone-history''))"
  using assms(1,2)
proof (induction zones arbitrary: hs rs)
  case (Cons z zones)
  obtain k old where z: "z = (k, old)" by (cases z)
  with Cons.prems obtain h r where m: "migrate_record uid g (map_of ctx k) k old = Inr (h, r)"
    and rest: "migrate_loop uid g ctx zones (AList.update (uid g k ''zone-history'') h hs) (AList.update k r rs) = Inr (hs', rs')"
    by (auto simp: res_bind_eq_Inr)
  have ih: "(\<forall>(k, old) \<in> set zones. \<exists>h r. migrate_record uid g (map_of ctx k) k old = Inr (h, r) \<and>
        map_of hs' (uid g k ''zone-history'') = Some h \<and> map_of rs' k = Some r)"
    "\<And>k'. k' \<notin> fst ` set zones \<Longrightarrow> map_of rs' k' = map_of (AList.update k r rs) k' \<and>
        map_of hs' (uid g k' ''zone-history'') = map_of (AList.update (uid g k ''zone-history'') h hs) (uid g k' ''zone-history'')"
    using Cons.IH [OF rest] Cons.prems(2) by auto
  have "k \<notin> fst ` set zones" using Cons.prems(2) by (simp add: z)
  from ih(2) [OF this] m have "map_of rs' k = Some r" "map_of hs' (uid g k ''zone-history'') = Some h"
    by (simp_all add: update_lookup)
  moreover have "map_of rs' k' = map_of rs k' \<and> map_of hs' (uid g k' ''zone-history'') = map_of hs (uid g k' ''zone-history'')"
    if "k' \<noteq> k" "k' \<notin> fst ` set zones" for k'
    using ih(2) [OF that(2)] that(1) assms(3) [of k' k] by (auto simp: update_lookup)
  ultimately show ?case using ih(1) m by (auto simp: z)
qed simp


section \<open>The decision matrix\<close>

lemma write_adopts:
  "save_and_verify_payload io data s = (s', e) \<Longrightarrow>
   if e = None then s' = s\<lparr>ss_data := Some data\<rparr> \<and> validate_store_data data = Inr () else s' = s"
  by (auto simp: save_and_verify_payload_def store_data_to_dict_def res_bind_eq_Inr Let_def
      split: sum.splits load_result.splits if_splits)

definition setup_outcome_ok ::
  "bool \<Rightarrow> bool \<Rightarrow> SafetyStore \<Rightarrow> SafetyStore \<times> (SetupClassification \<times> StoreData option) result \<Rightarrow> bool" where
  "setup_outcome_ok initialized absent s result =
     (case result of
        (s', Inl e) \<Rightarrow> s' = s
      | (s', Inr (c, v)) \<Rightarrow>
          (case c of
             FIRST_INSTALL \<Rightarrow> \<not> initialized \<and> absent \<and> s' = s \<and> v = None
           | INTEGRITY_LOSS \<Rightarrow> s' = s \<and> v = None
           | _ \<Rightarrow> (c = INITIALIZED_OK \<longleftrightarrow> initialized) \<and> \<not> absent \<and>
               (\<exists>d. v = Some d \<and> s' = s\<lparr>ss_data := Some d\<rparr> \<and> st_generation_id d = ss_generation_id s \<and>
                    validate_store_data d = Inr ())))"

lemma outcome_lost: "setup_outcome_ok initialized absent s (s, Inr (INTEGRITY_LOSS, None))"
  "setup_outcome_ok initialized absent s (s, Inl e)"
  by (simp_all add: setup_outcome_ok_def)

lemma outcome_adopt:
  "validate_store_data d = Inr () \<Longrightarrow> setup_outcome_ok initialized False s (adopt_parsed initialized d s)"
  by (simp add: setup_outcome_ok_def adopt_parsed_def)

lemma outcome_save:
  assumes "st_generation_id d = ss_generation_id s"
  shows "setup_outcome_ok initialized False s (save_then_adopt io initialized d s)"
proof (cases "save_and_verify_payload io d s")
  case (Pair s' e)
  then show ?thesis
    using write_adopts [OF Pair] assms
    by (cases e) (auto simp: save_then_adopt_def setup_outcome_ok_def adopt_parsed_def)
qed

lemma migrated_generation: "migrate_schema1_to_schema2 uid legacy contexts = Inr d \<Longrightarrow> st_generation_id d = s1_generation_id legacy"
  by (auto simp: migrate_schema1_to_schema2_def res_bind_eq_Inr catch_value_error_eq_Inr mk_store_data_def split: if_splits)

lemma classify_outcome:
  "setup_outcome_ok initialized (load_current_or_schema1 readers = Some None) s
     (classify_setup uid readers io initialized records s)"
proof -
  have parsed: "store_data_from_dict j = Inr d \<Longrightarrow> validate_store_data d = Inr ()" for j d
    using reader_validates by (auto dest: holdsD)
  consider "load_current_or_schema1 readers = None" | "load_current_or_schema1 readers = Some None"
    | d where "load_current_or_schema1 readers = Some (Some (JObj d))"
    | j where "load_current_or_schema1 readers = Some (Some j)" "\<And>d. j \<noteq> JObj d"
    by (metis option.exhaust)
  then show ?thesis
  proof cases
    case 3
    then show ?thesis
      by (auto simp: classify_setup_def Let_def outcome_lost outcome_save outcome_adopt parsed migrated_generation
          split: sum.split)
  next
    case 4
    then show ?thesis by (cases j) (auto simp: classify_setup_def Let_def outcome_lost)
  qed (simp_all add: classify_setup_def Let_def outcome_lost setup_outcome_ok_def)
qed

text \<open>The startup matrix: a first install is reported only when nothing is stored and the entry was never
  initialized; a snapshot is adopted only if it is valid and of this generation, after a verified write where it had to be
  migrated; everything else, and every exception, leaves the store without a snapshot of its own.\<close>

theorem setup_decision_matrix:
  "case classify_setup uid readers io initialized records s of
     (s', Inl e) \<Rightarrow> s' = s
   | (s', Inr (c, v)) \<Rightarrow>
       (case c of
          FIRST_INSTALL \<Rightarrow> \<not> initialized \<and> load_current_or_schema1 readers = Some None \<and> s' = s \<and> v = None
        | INTEGRITY_LOSS \<Rightarrow> s' = s \<and> v = None
        | _ \<Rightarrow> (c = INITIALIZED_OK \<longleftrightarrow> initialized) \<and> load_current_or_schema1 readers \<noteq> Some None \<and>
            (\<exists>d. v = Some d \<and> s' = s\<lparr>ss_data := Some d\<rparr> \<and> st_generation_id d = ss_generation_id s \<and>
                 validate_store_data d = Inr ()))"
  using classify_outcome unfolding setup_outcome_ok_def .

section \<open>Witnesses\<close>

lemma archived_loads: "loads_json \<lparr>ji_save_raises = False, ji_load = LoadValue (store_payload archived_data)\<rparr>"
  using payload_read_back [OF archived_storable] archived_dict by (simp add: loads_json_def)

theorem payload_write_refines_witness:
  "save_and_verify_payload \<lparr>ji_save_raises = False, ji_load = LoadValue (store_payload archived_data)\<rparr> archived_data sample_store =
   save_and_verify (snapshot_io \<lparr>ji_save_raises = False, ji_load = LoadValue (store_payload archived_data)\<rparr>) archived_data sample_store"
  by (rule payload_write_refines [OF archived_storable archived_loads])

theorem faithful_store_accepts_write_witness:
  "save_and_verify_payload \<lparr>ji_save_raises = False, ji_load = LoadValue (store_payload archived_data)\<rparr> archived_data sample_store =
   (sample_store\<lparr>ss_data := Some archived_data\<rparr>, None)"
  by (rule faithful_store_accepts_write [OF archived_storable])

theorem schema2_upgrade_roundtrip_witness:
  "migrate_schema2_to_schema3 (schema2_payload archived_data) = Inr (persisted_view archived_data)"
  by (rule schema2_upgrade_roundtrip [OF archived_storable]) (simp add: archived_data_def sample_record_def)

definition legacy_zone :: ZoneRecord where
  "legacy_zone =
     \<lparr>z1_state = WATERING, z1_enabled = True, z1_active_fault = Some SENSOR_STALE,
      z1_secondary_fault = Some ACTUATOR_OFF_TIMEOUT, z1_last_session_end_utc = None, z1_last_auto_session_start_utc = None,
      z1_daily = Some \<lparr>day_date_local = 0, day_runtime_s = 60\<rparr>, z1_last_session_summary = None,
      z1_session = Some ((session_defaults ''s'' ''run'' ''fp'' AUTO 0)\<lparr>ses_pulse_intent_at_utc := Some 0\<rparr>)\<rparr>"

definition legacy_data :: Schema1StoreData where
  "legacy_data =
     \<lparr>s1_generation_id = ''g'', s1_store_revision = 4,
      s1_run = \<lparr>run_active_run_id = Some ''run'', run_last_clean_shutdown_run_id = None\<rparr>,
      s1_zones = [(''z'', legacy_zone)], s1_version = 1\<rparr>"

definition plain_uid :: "string \<Rightarrow> string \<Rightarrow> string \<Rightarrow> string" where
  "plain_uid g k kind = kind @ k"

lemma legacy_migrates: "\<exists>d. migrate_schema1_to_schema2 plain_uid legacy_data [] = Inr d"
  by (simp add: legacy_data_def legacy_zone_def plain_uid_def migrate_schema1_to_schema2_def migrate_record_def
      split_schema1_faults_def somes_def ACTUATOR_FAULTS_def ZONE_FAULTS_def session_defaults_def mk_persisted_session_def
      migrate_daily_def mk_contribution_def mk_zone_daily_def deduplicate_accounting_contributions_def known_runtime_def
      migration_target_def mk_actuator_identity_def expected_off_service_def mk_sensor_identity_def mk_incident_def
      mk_zone_runtime_def in_scope_def mk_zone_history_def validate_id_history_def mk_safety_record_def
      record_lifecycle_check_def requires_user_ack_def distinct_sorted_list_of_set ordered_blockers_def
      mk_store_data_def validate_store_data_def STORE_SCHEMA_VERSION_def check_record_history_def check_session_owner_def
      all_contributions_def legacy_has_possible_integration_flow_def Let_def)


end
