(* ===== verification/Store_Planning.thy ===== *)
theory Store_Planning
  imports Reconciliation
begin

text \<open>
  The configuration and store union of \<open>runtime.py\<close>: how a configuration snapshot is built from
  the subentries and the entity registry, and how \<open>_plan_reconciled_store\<close> turns the stored records
  and histories and one snapshot into the records and histories of the next verified transaction.

  The home (\<open>plan_env\<close>) is the environment: the state of an entity with the instant of its last
  report, the entity registry, the clock, the local calendar day of an instant, and the supply of
  fresh identifiers of \<open>uuid4\<close>.  A dictionary is an association list in insertion order.  Every
  \<open>evolve\<close> and \<open>replace\<close> runs the checks of the class again, so it is a \<open>mk_\<close> call that may raise.
  Identifiers inside the text of a list are written between single quotes, as Python writes
  strings without quotes, backslashes or control characters.
\<close>

section \<open>The home\<close>

record registry_entry =
  re_id :: string
  re_entity_id :: string

text \<open>\<open>pe_registry\<close> is the registry lookup: by entity identifier or by registry identifier.\<close>

record plan_env =
  pe_states :: "string \<Rightarrow> (HaState \<times> utc) option"
  pe_registry :: "string \<Rightarrow> registry_entry option"
  pe_now :: utc
  pe_local_day :: "utc \<Rightarrow> local_date"
  pe_uuid4 :: "nat \<Rightarrow> string"

text \<open>Item access of a dictionary.\<close>

definition dict_item :: "('k \<times> 'v) list \<Rightarrow> 'k \<Rightarrow> 'v result" where
  "dict_item d k = (case map_of d k of None \<Rightarrow> Inl KeyError | Some v \<Rightarrow> Inr v)"

section \<open>Building a snapshot\<close>

text \<open>What a current subentry's record and history say about its sensor and its actuator: the
  configured reference and the durable registry identifier.\<close>

type_synonym identity_hint = "string \<times> string option"

definition record_hint ::
  "StoreData \<Rightarrow> SafetyRecord \<Rightarrow> (string \<times> identity_hint \<times> identity_hint) option" where
  "record_hint data record1 =
     (case (sr_active_subentry_id record1, sr_applied_config record1) of
        (Some subentry_id, Some shadow) \<Rightarrow>
          (let sensor_uuid =
                 (case map_of (st_zone_histories data) (sr_zone_history_id record1) of
                    None \<Rightarrow> None
                  | Some history \<Rightarrow>
                      si_registry_entry_id (zr_sensor_identity (zh_zone_runtime history)))
           in Some (subentry_id,
                (ae_last_known_entity_id (sh_sensor_identity shadow), sensor_uuid),
                (ae_last_known_entity_id (sh_actuator_identity shadow),
                 ai_registry_entry_id (sr_actuator_identity record1))))
      | _ \<Rightarrow> None)"

definition durable_identity_hints ::
  "StoreData option \<Rightarrow> (string \<times> identity_hint \<times> identity_hint) list" where
  "durable_identity_hints loaded =
     (case loaded of
        None \<Rightarrow> []
      | Some data \<Rightarrow>
          fold (\<lambda>record1 hints.
                  case record_hint data record1 of
                    None \<Rightarrow> hints
                  | Some (subentry_id, hint) \<Rightarrow> AList.update subentry_id hint hints)
            (map snd (st_safety_records data)) [])"

text \<open>The result is the registry identifier, the current entity identifier, and whether two
  durable identities compete for the configured reference.\<close>

definition resolve_by_text ::
  "(string \<Rightarrow> registry_entry option) \<Rightarrow> string \<Rightarrow> string option \<times> string \<times> bool" where
  "resolve_by_text registry configured_entity_id =
     (case registry configured_entity_id of
        Some resolved \<Rightarrow> (Some (re_id resolved), re_entity_id resolved, False)
      | None \<Rightarrow> (None, configured_entity_id, False))"

definition resolve_configured_entity ::
  "(string \<Rightarrow> registry_entry option) \<Rightarrow> string \<Rightarrow> identity_hint option \<Rightarrow>
   string option \<times> string \<times> bool" where
  "resolve_configured_entity registry configured_entity_id hint =
     (case hint of
        Some (hinted_reference, Some durable_uuid) \<Rightarrow>
          if hinted_reference = configured_entity_id then
            (case registry durable_uuid of
               Some renamed_entry \<Rightarrow>
                 if adapter_domain (re_entity_id renamed_entry) = adapter_domain configured_entity_id
                 then (Some (re_id renamed_entry), re_entity_id renamed_entry,
                       (case registry configured_entity_id of
                          None \<Rightarrow> False
                        | Some competing \<Rightarrow> re_id competing \<noteq> durable_uuid))
                 else resolve_by_text registry configured_entity_id
             | None \<Rightarrow> resolve_by_text registry configured_entity_id)
          else resolve_by_text registry configured_entity_id
      | _ \<Rightarrow> resolve_by_text registry configured_entity_id)"

text \<open>A subentry is its type and its data, which \<open>config_of\<close> reads into a zone
  configuration.\<close>

record 'd subentry =
  sub_type :: string
  sub_data :: 'd

definition zone_snapshot ::
  "plan_env \<Rightarrow> (FingerprintPayload \<Rightarrow> string) \<Rightarrow> string \<Rightarrow>
   (string \<times> identity_hint \<times> identity_hint) list \<Rightarrow> string \<Rightarrow> ZoneConfig \<Rightarrow>
   ImmutableZoneSnapshot result" where
  "zone_snapshot e digest tz hints subentry_id config =
     (let zone_hints = map_of hints subentry_id;
          (sensor_uuid, current_sensor1, _) =
            resolve_configured_entity (pe_registry e) (cfg_moisture_sensor config)
              (map_option fst zone_hints);
          (actuator_uuid, current_actuator1, actuator_ambiguous) =
            resolve_configured_entity (pe_registry e) (cfg_actuator config)
              (map_option snd zone_hints);
          conflict_detail =
            (if actuator_ambiguous
             then Some (''configured actuator '' @ cfg_actuator config @ '' for '' @ subentry_id @
                    '' now resolves to a different Entity Registry identity than the durable identity already held'')
             else None)
      in res_bind (mk_applied_identity
           \<lparr>ae_registry_entry_id = sensor_uuid,
            ae_last_known_entity_id = cfg_moisture_sensor config,
            ae_domain = adapter_domain (cfg_moisture_sensor config)\<rparr>) (\<lambda>sensor_identity.
         res_bind (mk_applied_identity
           \<lparr>ae_registry_entry_id = actuator_uuid,
            ae_last_known_entity_id = cfg_actuator config,
            ae_domain = adapter_domain (cfg_actuator config)\<rparr>) (\<lambda>actuator_identity.
         res_bind (normalized_zone_fingerprint digest subentry_id config sensor_identity
                     actuator_identity tz) (\<lambda>fingerprint.
           Inr \<lparr>iz_subentry_id = subentry_id, iz_config = config,
                iz_sensor_identity = sensor_identity, iz_actuator_identity = actuator_identity,
                iz_config_fingerprint = fingerprint,
                iz_current_sensor_entity_id = Some current_sensor1,
                iz_current_actuator_entity_id = Some current_actuator1,
                iz_identity_conflict_detail = conflict_detail\<rparr>))))"

definition build_immutable_snapshot ::
  "plan_env \<Rightarrow> (FingerprintPayload \<Rightarrow> string) \<Rightarrow> ((string \<times> string) list \<Rightarrow> string) \<Rightarrow> string \<Rightarrow>
   ('d \<Rightarrow> ZoneConfig result) \<Rightarrow> (string \<times> 'd subentry) list \<Rightarrow> StoreData option \<Rightarrow> int \<Rightarrow>
   ImmutableEntrySnapshot result" where
  "build_immutable_snapshot e digest entry_digest tz config_of subentries loaded generation =
     (let hints = durable_identity_hints loaded
      in res_bind
           (res_map (\<lambda>(subentry_id, sub).
                res_bind (config_of (sub_data sub)) (zone_snapshot e digest tz hints subentry_id))
              (filter (\<lambda>(_, sub). sub_type sub = ''zone'') (sort_key fst subentries)))
           (\<lambda>zones. Inr (immutable_entry_snapshot entry_digest generation zones)))"

section \<open>Identities\<close>

definition durable_actuator_identity :: "ImmutableZoneSnapshot \<Rightarrow> bool \<Rightarrow> ActuatorIdentity result" where
  "durable_actuator_identity z current =
     (let identity = iz_actuator_identity z; domain = ae_domain identity
      in mk_actuator_identity
           \<lparr>ai_registry_entry_id = ae_registry_entry_id identity,
            ai_last_known_entity_id =
              Some (if current then current_actuator z else ae_last_known_entity_id identity),
            ai_domain = Some domain,
            ai_identity_status =
              (if ae_registry_entry_id identity \<noteq> None then REGISTRY_CONFIRMED
               else REGISTRY_UNAVAILABLE),
            ai_off_service =
              Some (if domain = ''switch'' then ''switch.turn_off'' else ''valve.close_valve''),
            ai_confirm_timeout_s = Some (cfg_actuator_confirm_timeout_s (iz_config z))\<rparr>)"

definition same_actuator :: "SafetyRecord \<Rightarrow> ImmutableZoneSnapshot \<Rightarrow> bool" where
  "same_actuator record1 z =
     (let stored = sr_actuator_identity record1
      in case ae_registry_entry_id (iz_actuator_identity z) of
           Some current_uuid \<Rightarrow> ai_registry_entry_id stored = Some current_uuid
         | None \<Rightarrow>
             sr_active_subentry_id record1 = Some (iz_subentry_id z) \<and>
             ai_identity_status stored = REGISTRY_UNAVAILABLE \<and>
             ai_last_known_entity_id stored = Some (current_actuator z))"

text \<open>The keys of the assessments of one planning run.\<close>

definition zone_key :: "string \<Rightarrow> string" where "zone_key subentry_id = ''zone:'' @ subentry_id"
definition record_key :: "string \<Rightarrow> string" where "record_key record_id = ''record:'' @ record_id"

definition adapter_current :: "plan_env \<Rightarrow> string \<Rightarrow> ActuatorAssessment result" where
  "adapter_current e entity_id = assess entity_id (map_option fst (pe_states e entity_id))"

definition record_entity :: "plan_env \<Rightarrow> SafetyRecord \<Rightarrow> string option" where
  "record_entity e record1 =
     (let identity = sr_actuator_identity record1
      in case ai_registry_entry_id identity of
           Some uuid \<Rightarrow> map_option re_entity_id (pe_registry e uuid)
         | None \<Rightarrow>
             if ai_identity_status identity = REGISTRY_UNAVAILABLE \<and>
                sr_runtime_lifecycle record1 = ACTIVE
             then ai_last_known_entity_id identity else None)"

fun assess_zones ::
  "plan_env \<Rightarrow> ImmutableZoneSnapshot list \<Rightarrow> (string \<times> ActuatorAssessment) list \<Rightarrow>
   (string \<times> ActuatorAssessment) list result" where
  "assess_zones e [] acc = Inr acc"
| "assess_zones e (z # zs) acc =
     res_bind (adapter_current e (current_actuator z)) (\<lambda>a.
       assess_zones e zs (AList.update (zone_key (iz_subentry_id z)) a acc))"

fun assess_records ::
  "plan_env \<Rightarrow> SafetyRecord list \<Rightarrow> (string \<times> ActuatorAssessment) list \<Rightarrow>
   (string \<times> ActuatorAssessment) list result" where
  "assess_records e [] acc = Inr acc"
| "assess_records e (r # rs) acc =
     (case record_entity e r of
        None \<Rightarrow> assess_records e rs acc
      | Some entity_id \<Rightarrow>
          res_bind (adapter_current e entity_id) (\<lambda>a.
            assess_records e rs (AList.update (record_key (sr_safety_record_id r)) a acc)))"

definition actuator_assessments ::
  "plan_env \<Rightarrow> ImmutableEntrySnapshot \<Rightarrow> StoreData option \<Rightarrow>
   (string \<times> ActuatorAssessment) list result" where
  "actuator_assessments e snapshot loaded =
     res_bind (assess_zones e (es_zones snapshot) []) (\<lambda>assessments.
       case loaded of
         None \<Rightarrow> Inr assessments
       | Some data \<Rightarrow> assess_records e (map snd (st_safety_records data)) assessments)"

section \<open>Blockers of one record\<close>

definition with_blocker :: "BlockerReason list \<Rightarrow> BlockerReason \<Rightarrow> BlockerReason list" where
  "with_blocker blockers reason = ordered_blockers (insert reason (set blockers))"

definition without_blockers :: "BlockerReason list \<Rightarrow> BlockerReason list \<Rightarrow> BlockerReason list" where
  "without_blockers blockers reasons = filter (\<lambda>b. b \<notin> set reasons) blockers"

text \<open>What OFF evidence for the exact actuator resolves.\<close>

definition resolve_by_off ::
  "BlockerReason list \<Rightarrow> PossibleFlowOwner option \<Rightarrow> PersistedSession option \<Rightarrow>
   BlockerReason list \<times> PossibleFlowOwner option" where
  "resolve_by_off blockers owner session =
     (let blockers' = without_blockers blockers [ACTUATOR_NOT_PROVEN_OFF, EXTERNAL_FLOW]
      in (blockers',
          if session = None \<and> INTEGRATION_OFF_UNCONFIRMED \<notin> set blockers' then None else owner))"

definition reconcile_active_record ::
  "SafetyRecord \<Rightarrow> ZoneHistory \<Rightarrow> ActuatorAssessment option \<Rightarrow> bool \<Rightarrow> SafetyRecord result" where
  "reconcile_active_record record1 history assessment operator_off_proof =
     (let blockers = sr_blocker_reasons record1; owner = sr_possible_flow_owner record1;
          session = zr_session (zh_zone_runtime history);
          (blockers', owner') =
            (case assessment of
               None \<Rightarrow>
                 if operator_off_proof then resolve_by_off blockers owner session
                 else (with_blocker blockers ACTUATOR_NOT_PROVEN_OFF, owner)
             | Some a \<Rightarrow>
                 if act_proven_off a then resolve_by_off blockers owner session
                 else if act_observed_on a \<and> session = None
                 then (with_blocker blockers EXTERNAL_FLOW, Some EXTERNAL)
                 else (with_blocker blockers ACTUATOR_NOT_PROVEN_OFF, owner))
      in mk_safety_record
           (record1\<lparr>sr_blocker_reasons := blockers', sr_possible_flow_owner := owner'\<rparr>))"

definition retained_identity_after_rename :: "plan_env \<Rightarrow> SafetyRecord \<Rightarrow> SafetyRecord result" where
  "retained_identity_after_rename e record1 =
     (let identity = sr_actuator_identity record1
      in case (ai_registry_entry_id identity, ai_domain identity) of
           (Some uuid, Some domain) \<Rightarrow>
             (case pe_registry e uuid of
                None \<Rightarrow> Inr record1
              | Some entry \<Rightarrow>
                  if Some (re_entity_id entry) = ai_last_known_entity_id identity \<or>
                     adapter_domain (re_entity_id entry) \<noteq> domain
                  then Inr record1
                  else res_bind (mk_actuator_identity
                         (identity\<lparr>ai_last_known_entity_id := Some (re_entity_id entry)\<rparr>))
                         (\<lambda>i. mk_safety_record (record1\<lparr>sr_actuator_identity := i\<rparr>)))
         | _ \<Rightarrow> Inr record1)"

text \<open>An operator acknowledgement counts only while the identity is absent and it covers it.\<close>

definition operator_proof :: "SafetyRecord \<Rightarrow> ActuatorAssessment option \<Rightarrow> bool" where
  "operator_proof record1 assessment \<longleftrightarrow>
     assessment = None \<and>
     (case sr_removed_actuator_ack record1 of
        None \<Rightarrow> False
      | Some ack \<Rightarrow> ack_covers ack (sr_actuator_identity record1))"

definition retained_identity :: "SafetyRecord \<Rightarrow> ActuatorAssessment option \<Rightarrow> bool \<Rightarrow> SafetyRecord result" where
  "retained_identity record1 assessment proof1 =
     (if assessment \<noteq> None then Inr record1
      else res_bind (mk_actuator_identity ((sr_actuator_identity record1)\<lparr>ai_identity_status := MISSING\<rparr>))
        (\<lambda>identity.
           if proof1
           then mk_safety_record (record1\<lparr>sr_actuator_identity := identity, sr_identity_incident := None\<rparr>)
           else res_bind (mk_incident
                  \<lparr>inc_kind = IDENTITY_MISSING,
                   inc_detail = ''retained actuator identity unresolved for '' @ sr_safety_record_id record1\<rparr>)
                  (\<lambda>incident. mk_safety_record
                     (record1\<lparr>sr_actuator_identity := identity, sr_identity_incident := Some incident\<rparr>))))"

definition safe_to_retire ::
  "SafetyRecord \<Rightarrow> ZoneHistory \<Rightarrow> ActuatorAssessment option \<Rightarrow> bool \<Rightarrow> bool" where
  "safe_to_retire record1 history assessment proof1 \<longleftrightarrow>
     ((case assessment of None \<Rightarrow> False | Some a \<Rightarrow> act_proven_off a) \<or> proof1) \<and>
     sr_blocker_reasons record1 = [] \<and> sr_possible_flow_owner record1 = None \<and>
     zr_session (zh_zone_runtime history) = None"

definition reconcile_retained_record ::
  "plan_env \<Rightarrow> SafetyRecord \<Rightarrow> ZoneHistory \<Rightarrow> ActuatorAssessment option \<Rightarrow> SafetyRecord result" where
  "reconcile_retained_record e record1 history assessment =
     res_bind (retained_identity_after_rename e record1) (\<lambda>r1.
       let proof1 = operator_proof r1 assessment
       in res_bind (reconcile_active_record r1 history assessment proof1) (\<lambda>r2.
          res_bind (retained_identity r2 assessment proof1) (\<lambda>r3.
          mk_safety_record
            (r3\<lparr>sr_runtime_lifecycle :=
                 (if safe_to_retire r3 history assessment proof1 then RETIRED
                  else DELETE_PENDING)\<rparr>))))"

section \<open>New records and histories\<close>

definition new_safety_record ::
  "plan_env \<Rightarrow> nat \<Rightarrow> ImmutableZoneSnapshot \<Rightarrow> ImmutableEntrySnapshot \<Rightarrow> SafetyRecord result" where
  "new_safety_record e minted z snapshot =
     res_bind (applied_shadow (es_entry_snapshot_fingerprint snapshot)
                 (es_observed_generation snapshot) z) (\<lambda>shadow.
     res_bind (durable_actuator_identity z True) (\<lambda>identity.
     mk_safety_record
       \<lparr>sr_safety_record_id = pe_uuid4 e minted, sr_zone_id = iz_subentry_id z,
        sr_active_subentry_id = Some (iz_subentry_id z), sr_previous_subentry_ids = [],
        sr_safety_lineage_id = pe_uuid4 e (minted + 1), sr_zone_history_id = pe_uuid4 e (minted + 2),
        sr_historical_zone_history_ids = [], sr_runtime_lifecycle = ACTIVE,
        sr_applied_config = Some shadow, sr_actuator_identity = identity,
        sr_blocker_reasons = [], sr_possible_flow_owner = None, sr_identity_incident = None,
        sr_actuator_fault = None, sr_acknowledgement_required = False,
        sr_removed_actuator_ack = None\<rparr>))"

definition zone_sensor_identity :: "ImmutableZoneSnapshot \<Rightarrow> SensorIdentity result" where
  "zone_sensor_identity z =
     mk_sensor_identity
       \<lparr>si_registry_entry_id = ae_registry_entry_id (iz_sensor_identity z),
        si_last_known_entity_id = Some (current_sensor z)\<rparr>"

definition new_zone_history ::
  "plan_env \<Rightarrow> SafetyRecord \<Rightarrow> ImmutableZoneSnapshot \<Rightarrow> ZoneHistory result" where
  "new_zone_history e record1 z =
     res_bind (zone_sensor_identity z) (\<lambda>sensor.
     res_bind (mk_zone_runtime
       \<lparr>zr_enabled = False, zr_state = DISABLED, zr_zone_fault = None, zr_secondary_fault = None,
        zr_sensor_identity = sensor, zr_last_session_summary = None, zr_session = None\<rparr>)
       (\<lambda>zone_runtime.
     res_bind (mk_zone_daily
       \<lparr>zdr_date_local = pe_local_day e (pe_now e), zdr_runtime_s = 0,
        zdr_conservative_unattributed_runtime_s = 0, zdr_contributions = []\<rparr>) (\<lambda>daily.
     mk_zone_history
       \<lparr>zh_zone_history_id = sr_zone_history_id record1,
        zh_active_subentry_id = Some (iz_subentry_id z), zh_previous_subentry_ids = [],
        zh_last_session_end_utc = None, zh_last_auto_session_start_utc = None,
        zh_zone_runtime = zone_runtime, zh_daily = Some daily\<rparr>)))"

definition current_zone_fault :: "plan_env \<Rightarrow> ImmutableZoneSnapshot \<Rightarrow> FaultCode option" where
  "current_zone_fault e z =
     (let st = pe_states e (current_sensor z)
      in case obs_classification (classify_moisture (map_option fst st) (map_option snd st)
                (pe_now e) (cfg_sensor_max_age_s (iz_config z))) of
           UNAVAILABLE \<Rightarrow> Some SENSOR_UNAVAILABLE
         | INVALID \<Rightarrow> Some SENSOR_INVALID
         | STALE \<Rightarrow> Some SENSOR_STALE
         | _ \<Rightarrow> None)"

section \<open>The plan\<close>

text \<open>The two maps under construction, the conflicts reported so far, and how many fresh
  identifiers were drawn.\<close>

record plan_state =
  pl_records :: "(string \<times> SafetyRecord) list"
  pl_histories :: "(string \<times> ZoneHistory) list"
  pl_conflicts :: "string list"
  pl_minted :: nat

definition put_record :: "string \<Rightarrow> SafetyRecord \<Rightarrow> plan_state \<Rightarrow> plan_state" where
  "put_record k r p = p\<lparr>pl_records := AList.update k r (pl_records p)\<rparr>"

definition put_history :: "string \<Rightarrow> ZoneHistory \<Rightarrow> plan_state \<Rightarrow> plan_state" where
  "put_history k h p = p\<lparr>pl_histories := AList.update k h (pl_histories p)\<rparr>"

definition add_conflict :: "string \<Rightarrow> plan_state \<Rightarrow> plan_state" where
  "add_conflict detail p = p\<lparr>pl_conflicts := pl_conflicts p @ [detail]\<rparr>"

definition all_records :: "plan_state \<Rightarrow> SafetyRecord list" where
  "all_records p = map snd (pl_records p)"

definition append_new :: "'a \<Rightarrow> 'a list \<Rightarrow> 'a list" where
  "append_new x xs = (if x \<in> set xs then xs else xs @ [x])"

text \<open>Duplicate current durable identities are configuration conflicts.\<close>

definition identity_key :: "ImmutableZoneSnapshot \<Rightarrow> string \<times> string" where
  "identity_key z =
     (case ae_registry_entry_id (iz_actuator_identity z) of
        Some uuid \<Rightarrow> if uuid = [] then (''text'', current_actuator z) else (''uuid'', uuid)
      | None \<Rightarrow> (''text'', current_actuator z))"

fun check_duplicates ::
  "ImmutableZoneSnapshot list \<Rightarrow> ((string \<times> string) \<times> string) list \<Rightarrow> string list \<Rightarrow> string list" where
  "check_duplicates [] seen conflicts = conflicts"
| "check_duplicates (z # zs) seen conflicts =
     check_duplicates zs (AList.update (identity_key z) (iz_subentry_id z) seen)
       (case map_of seen (identity_key z) of
          None \<Rightarrow> conflicts
        | Some other \<Rightarrow>
            conflicts @ [''actuator identity is selected by both '' @ other @ '' and '' @ iz_subentry_id z])"

text \<open>First pass: every record whose subentry is gone or selects another actuator becomes a
  tombstone, and every record without a subentry is reconciled again.\<close>

definition displaced_record :: "string \<Rightarrow> SafetyRecord \<Rightarrow> SafetyRecord result" where
  "displaced_record subentry_id r =
     mk_safety_record
       (r\<lparr>sr_active_subentry_id := None,
          sr_previous_subentry_ids := append_new subentry_id (sr_previous_subentry_ids r),
          sr_runtime_lifecycle := DELETE_PENDING\<rparr>)"

definition orphan_history :: "string \<Rightarrow> ZoneHistory \<Rightarrow> plan_state \<Rightarrow> plan_state result" where
  "orphan_history subentry_id history p =
     res_bind (mk_zone_history
       (history\<lparr>zh_active_subentry_id := None,
                zh_previous_subentry_ids := append_new subentry_id (zh_previous_subentry_ids history)\<rparr>))
       (\<lambda>h. Inr (put_history (zh_zone_history_id history) h p))"

definition reconcile_tombstone ::
  "plan_env \<Rightarrow> (string \<times> ActuatorAssessment) list \<Rightarrow> string \<Rightarrow> SafetyRecord \<Rightarrow> plan_state \<Rightarrow>
   plan_state result" where
  "reconcile_tombstone e assessments record_id r p =
     res_bind (dict_item (pl_histories p) (sr_zone_history_id r)) (\<lambda>history.
     res_bind (reconcile_retained_record e r history (map_of assessments (record_key record_id)))
       (\<lambda>r'. Inr (put_record record_id r' p)))"

definition retain_record ::
  "plan_env \<Rightarrow> (string \<times> ActuatorAssessment) list \<Rightarrow> (string \<times> ImmutableZoneSnapshot) list \<Rightarrow>
   string \<times> SafetyRecord \<Rightarrow> plan_state \<Rightarrow> plan_state result" where
  "retain_record e assessments zones item p =
     (case item of (record_id, old_record) \<Rightarrow>
        (case sr_active_subentry_id old_record of
           None \<Rightarrow> reconcile_tombstone e assessments record_id old_record p
         | Some subentry_id \<Rightarrow>
             (case map_of zones subentry_id of
                Some z \<Rightarrow>
                  if same_actuator old_record z then Inr p
                  else res_bind (displaced_record subentry_id old_record) (\<lambda>r.
                    reconcile_tombstone e assessments record_id r p)
              | None \<Rightarrow>
                  res_bind (displaced_record subentry_id old_record) (\<lambda>r.
                  res_bind (dict_item (pl_histories p) (sr_zone_history_id r)) (\<lambda>history.
                  res_bind (orphan_history subentry_id history p) (\<lambda>p'.
                  reconcile_tombstone e assessments record_id r p'))))))"

fun plan_loop :: "('a \<Rightarrow> plan_state \<Rightarrow> plan_state result) \<Rightarrow> 'a list \<Rightarrow> plan_state \<Rightarrow> plan_state result" where
  "plan_loop f [] p = Inr p"
| "plan_loop f (x # xs) p = res_bind (f x p) (plan_loop f xs)"

section \<open>Second pass: the record of a zone\<close>

fun flag_records ::
  "IdentityIncidentKind \<Rightarrow> string \<Rightarrow> SafetyRecord list \<Rightarrow> plan_state \<Rightarrow> plan_state result" where
  "flag_records kind detail [] p = Inr p"
| "flag_records kind detail (candidate # cs) p =
     res_bind (mk_incident \<lparr>inc_kind = kind, inc_detail = detail\<rparr>) (\<lambda>incident.
     res_bind (mk_safety_record
       (candidate\<lparr>sr_identity_incident := Some incident,
                  sr_blocker_reasons :=
                    with_blocker (sr_blocker_reasons candidate) ACTUATOR_NOT_PROVEN_OFF\<rparr>)) (\<lambda>r.
     flag_records kind detail cs (put_record (sr_safety_record_id candidate) r p)))"

definition zone_uuid :: "ImmutableZoneSnapshot \<Rightarrow> string option" where
  "zone_uuid z = ae_registry_entry_id (iz_actuator_identity z)"

definition record_uuid :: "SafetyRecord \<Rightarrow> string option" where
  "record_uuid r = ai_registry_entry_id (sr_actuator_identity r)"

definition ambiguous_candidates :: "ImmutableZoneSnapshot \<Rightarrow> plan_state \<Rightarrow> SafetyRecord list" where
  "ambiguous_candidates z p =
     filter (\<lambda>r. record_uuid r = zone_uuid z \<or> sr_active_subentry_id r = Some (iz_subentry_id z) \<or>
                 sr_zone_id r = iz_subentry_id z) (all_records p)"

definition exact_records :: "ImmutableZoneSnapshot \<Rightarrow> plan_state \<Rightarrow> SafetyRecord list" where
  "exact_records z p = filter (\<lambda>r. zone_uuid z \<noteq> None \<and> record_uuid r = zone_uuid z) (all_records p)"

definition textual_conflicts :: "ImmutableZoneSnapshot \<Rightarrow> plan_state \<Rightarrow> SafetyRecord list" where
  "textual_conflicts z p =
     filter (\<lambda>r. ai_last_known_entity_id (sr_actuator_identity r) = Some (current_actuator z) \<and>
                 record_uuid r \<notin> {None, zone_uuid z}) (all_records p)"

definition mapped_candidates :: "ImmutableZoneSnapshot \<Rightarrow> plan_state \<Rightarrow> SafetyRecord list" where
  "mapped_candidates z p =
     filter (\<lambda>r. sr_zone_id r = iz_subentry_id z \<and> sr_active_subentry_id r = None \<and>
                 ai_identity_status (sr_actuator_identity r) = MISSING) (all_records p)"

definition unregistered_conflicts :: "ImmutableZoneSnapshot \<Rightarrow> plan_state \<Rightarrow> SafetyRecord list" where
  "unregistered_conflicts z p =
     filter (\<lambda>r. zone_uuid z = None \<and> sr_active_subentry_id r \<noteq> Some (iz_subentry_id z) \<and>
                 ai_last_known_entity_id (sr_actuator_identity r) = Some (current_actuator z))
       (all_records p)"

text \<open>How Python writes a list of strings.\<close>

fun join_quoted :: "string list \<Rightarrow> string" where
  "join_quoted [] = []"
| "join_quoted [x] = [CHR 0x27] @ x @ [CHR 0x27]"
| "join_quoted (x # xs) = [CHR 0x27] @ x @ [CHR 0x27] @ '', '' @ join_quoted xs"

definition list_repr :: "string list \<Rightarrow> string" where
  "list_repr xs = ''['' @ join_quoted xs @ '']''"

text \<open>The chosen record with a flag for a new one, or \<open>None\<close> where the loop goes on to the
  next zone.\<close>

type_synonym selection = "plan_state \<times> (SafetyRecord \<times> bool) option"

definition refuse_zone ::
  "IdentityIncidentKind \<Rightarrow> string \<Rightarrow> SafetyRecord list \<Rightarrow> plan_state \<Rightarrow> selection result" where
  "refuse_zone kind detail candidates p =
     res_bind (flag_records kind detail candidates (add_conflict detail p)) (\<lambda>p'. Inr (p', None))"

definition create_or_refuse ::
  "plan_env \<Rightarrow> ImmutableEntrySnapshot \<Rightarrow> ImmutableZoneSnapshot \<Rightarrow> plan_state \<Rightarrow> selection result" where
  "create_or_refuse e snapshot z p =
     (if unregistered_conflicts z p \<noteq> [] \<or> pe_states e (current_actuator z) = None
      then refuse_zone IDENTITY_MISSING
             (''durable actuator identity missing/ambiguous for '' @ iz_subentry_id z)
             (unregistered_conflicts z p) p
      else res_bind (new_safety_record e (pl_minted p) z snapshot) (\<lambda>selected.
           let p1 = put_record (sr_safety_record_id selected) selected
                      (p\<lparr>pl_minted := pl_minted p + 3\<rparr>)
           in res_bind (new_zone_history e selected z) (\<lambda>history.
              Inr (put_history (sr_zone_history_id selected) history p1, Some (selected, True)))))"

text \<open>The code tests \<open>prior_same\<close> a second time, after the mapped candidates; that branch cannot be
  reached.\<close>

definition prior_same :: "SafetyRecord option \<Rightarrow> ImmutableZoneSnapshot \<Rightarrow> bool" where
  "prior_same prior z = (case prior of None \<Rightarrow> False | Some r \<Rightarrow> same_actuator r z)"

definition select_record ::
  "plan_env \<Rightarrow> ImmutableEntrySnapshot \<Rightarrow> SafetyRecord option \<Rightarrow> ImmutableZoneSnapshot \<Rightarrow> plan_state \<Rightarrow>
   selection result" where
  "select_record e snapshot prior z p =
     (let exact = exact_records z p; textual = textual_conflicts z p; mapped = mapped_candidates z p
      in if length exact > 1 \<or> textual \<noteq> []
         then refuse_zone IDENTITY_CONFLICT
                (''identity conflict for '' @ iz_subentry_id z @ '': records '' @
                 list_repr (sort (map sr_safety_record_id (exact @ textual)))) (exact @ textual) p
         else if prior_same prior z
         then res_bind (dict_item (pl_records p) (sr_safety_record_id (the prior)))
                (\<lambda>r. Inr (p, Some (r, False)))
         else if length exact = 1 then Inr (p, Some (hd exact, False))
         else if length mapped = 1 \<and> textual = [] \<and>
                 (zone_uuid z \<noteq> None \<or> pe_states e (current_actuator z) \<noteq> None)
         then Inr (p, Some (hd mapped, False))
         else create_or_refuse e snapshot z p)"

section \<open>Second pass: the history of a zone\<close>

definition history_in_use :: "SafetyRecord \<Rightarrow> string \<Rightarrow> plan_state \<Rightarrow> bool" where
  "history_in_use selected history_id p \<longleftrightarrow>
     list_ex (\<lambda>r. sr_safety_record_id r \<noteq> sr_safety_record_id selected \<and>
                  sr_zone_history_id r = history_id) (all_records p)"

text \<open>A retained record of another actuator joins the history of its new zone; \<open>None\<close> where
  the loop goes on to the next zone.\<close>

definition adopt_history ::
  "string \<Rightarrow> SafetyRecord \<Rightarrow> plan_state \<Rightarrow> (plan_state \<times> SafetyRecord option) result" where
  "adopt_history continuing_history_id selected p =
     (if sr_zone_history_id selected = continuing_history_id then Inr (p, Some selected)
      else
        let retained_history_id = sr_zone_history_id selected
        in res_bind (dict_item (pl_histories p) continuing_history_id) (\<lambda>continuing.
           res_bind (dict_item (pl_histories p) retained_history_id) (\<lambda>retained.
             if zr_session (zh_zone_runtime retained) \<noteq> None
             then Inr (add_conflict (''retained record '' @ sr_safety_record_id selected @
                         '' has unresolved session'') p, None)
             else res_bind (merge_zone_history_continuity continuing retained) (\<lambda>merged.
               let p1 = put_history continuing_history_id merged p;
                   p2 = (if history_in_use selected retained_history_id p1 then p1
                         else p1\<lparr>pl_histories := AList.delete retained_history_id (pl_histories p1)\<rparr>)
               in res_bind (mk_safety_record
                    (selected\<lparr>sr_zone_history_id := continuing_history_id,
                              sr_historical_zone_history_ids :=
                                append_new retained_history_id
                                  (sr_historical_zone_history_ids selected)\<rparr>))
                    (\<lambda>r. Inr (p2, Some r))))))"

definition continuing_same_actuator ::
  "SafetyRecord option \<Rightarrow> SafetyRecord list \<Rightarrow> SafetyRecord \<Rightarrow> ImmutableZoneSnapshot \<Rightarrow> bool" where
  "continuing_same_actuator prior exact selected z =
     (case prior of
        Some r \<Rightarrow> sr_safety_record_id selected = sr_safety_record_id r \<and> same_actuator r z
      | None \<Rightarrow> length exact = 1 \<and> sr_safety_record_id selected = sr_safety_record_id (hd exact) \<and>
                same_actuator selected z)"

text \<open>The previous owners when a subentry takes over.\<close>

definition previous_after :: "string \<Rightarrow> string option \<Rightarrow> string list \<Rightarrow> string list" where
  "previous_after subentry_id active previous =
     (let kept = filter (\<lambda>i. i \<noteq> subentry_id) previous
      in case active of
           None \<Rightarrow> kept
         | Some a \<Rightarrow> if a \<noteq> subentry_id \<and> a \<notin> set kept then kept @ [a] else kept)"

definition configuration_changed :: "SafetyRecord \<Rightarrow> ImmutableZoneSnapshot \<Rightarrow> bool" where
  "configuration_changed selected z \<longleftrightarrow>
     (case sr_applied_config selected of
        None \<Rightarrow> True
      | Some shadow \<Rightarrow> sh_config_fingerprint shadow \<noteq> iz_config_fingerprint z) \<or>
     sr_active_subentry_id selected \<noteq> Some (iz_subentry_id z)"

text \<open>\<open>reevaluate\<close>: the operational state of the zone is derived again from its sensor.\<close>

definition planned_runtime ::
  "plan_env \<Rightarrow> ImmutableZoneSnapshot \<Rightarrow> SafetyRecord \<Rightarrow> bool \<Rightarrow> bool \<Rightarrow> ZoneRuntime \<Rightarrow> ZoneRuntime result" where
  "planned_runtime e z selected same reevaluate zr =
     (let zone_fault = (if reevaluate then current_zone_fault e z else zr_zone_fault zr);
          state =
            (if \<not> reevaluate then zr_state zr
             else if \<not> zr_enabled zr then DISABLED
             else if sr_actuator_fault selected \<noteq> None \<or> zone_fault \<noteq> None then FAULT else IDLE)
      in res_bind (zone_sensor_identity z) (\<lambda>sensor.
         mk_zone_runtime
           (zr\<lparr>zr_state := state, zr_sensor_identity := sensor, zr_zone_fault := zone_fault,
               zr_secondary_fault := (if reevaluate then None else zr_secondary_fault zr),
               zr_session := (if same then zr_session zr else None)\<rparr>)))"

definition activate_record ::
  "ImmutableEntrySnapshot \<Rightarrow> ImmutableZoneSnapshot \<Rightarrow> string \<Rightarrow> SafetyRecord \<Rightarrow> SafetyRecord result" where
  "activate_record snapshot z history_id selected =
     res_bind (applied_shadow (es_entry_snapshot_fingerprint snapshot)
                 (es_observed_generation snapshot) z) (\<lambda>shadow.
     res_bind (durable_actuator_identity z True) (\<lambda>identity.
     mk_safety_record
       (selected\<lparr>sr_zone_id := iz_subentry_id z, sr_active_subentry_id := Some (iz_subentry_id z),
                 sr_previous_subentry_ids :=
                   previous_after (iz_subentry_id z) (sr_active_subentry_id selected)
                     (sr_previous_subentry_ids selected),
                 sr_zone_history_id := history_id, sr_runtime_lifecycle := ACTIVE,
                 sr_applied_config := Some shadow, sr_actuator_identity := identity,
                 sr_identity_incident := None\<rparr>)))"

definition assign_zone ::
  "plan_env \<Rightarrow> ImmutableEntrySnapshot \<Rightarrow> (string \<times> ActuatorAssessment) list \<Rightarrow> SafetyRecord option \<Rightarrow>
   SafetyRecord list \<Rightarrow> bool \<Rightarrow> ImmutableZoneSnapshot \<Rightarrow> string \<Rightarrow> SafetyRecord \<Rightarrow> plan_state \<Rightarrow>
   plan_state result" where
  "assign_zone e snapshot assessments prior exact created_new z history_id selected p =
     res_bind (dict_item (pl_histories p) history_id) (\<lambda>history.
       let same = continuing_same_actuator prior exact selected z;
           zr = zh_zone_runtime history;
           reevaluate = ((\<not> same \<or> configuration_changed selected z) \<and> \<not> (created_new \<and> prior = None))
       in if zr_session zr \<noteq> None \<and> \<not> same
          then Inr (add_conflict (''zone history '' @ history_id @ '' has unresolved session'') p)
          else
            res_bind (planned_runtime e z selected same reevaluate zr) (\<lambda>zone_runtime.
            res_bind (mk_zone_history
              (history\<lparr>zh_active_subentry_id := Some (iz_subentry_id z),
                       zh_previous_subentry_ids :=
                         previous_after (iz_subentry_id z) (zh_active_subentry_id history)
                           (zh_previous_subentry_ids history),
                       zh_zone_runtime := zone_runtime\<rparr>)) (\<lambda>history'.
            res_bind (activate_record snapshot z history_id selected) (\<lambda>active.
            res_bind (reconcile_active_record active history'
                        (map_of assessments (zone_key (iz_subentry_id z))) False) (\<lambda>final.
            Inr (put_record (sr_safety_record_id final) final (put_history history_id history' p)))))))"

definition plan_zone ::
  "plan_env \<Rightarrow> ImmutableEntrySnapshot \<Rightarrow> (string \<times> ActuatorAssessment) list \<Rightarrow>
   (string \<times> SafetyRecord) list \<Rightarrow> ImmutableZoneSnapshot \<Rightarrow> plan_state \<Rightarrow> plan_state result" where
  "plan_zone e snapshot assessments original_active z p =
     (let prior = map_of original_active (iz_subentry_id z)
      in case iz_identity_conflict_detail z of
           Some detail \<Rightarrow>
             (let p1 = add_conflict detail p
              in flag_records IDENTITY_CONFLICT detail (ambiguous_candidates z p1) p1)
         | None \<Rightarrow>
             res_bind (select_record e snapshot prior z p) (\<lambda>(p1, choice).
               case choice of
                 None \<Rightarrow> Inr p1
               | Some (selected, created_new) \<Rightarrow>
                   (let history_id =
                          (case prior of Some r \<Rightarrow> sr_zone_history_id r
                           | None \<Rightarrow> sr_zone_history_id selected)
                    in res_bind (adopt_history history_id selected p1) (\<lambda>(p2, adopted).
                       case adopted of
                         None \<Rightarrow> Inr p2
                       | Some selected' \<Rightarrow>
                           assign_zone e snapshot assessments prior (exact_records z p) created_new z
                             history_id selected' p2))))"

definition original_active :: "StoreData \<Rightarrow> (string \<times> SafetyRecord) list" where
  "original_active data =
     fold (\<lambda>r owners. case sr_active_subentry_id r of
                        None \<Rightarrow> owners | Some subentry_id \<Rightarrow> AList.update subentry_id r owners)
       (map snd (st_safety_records data)) []"

definition plan_reconciled_store ::
  "plan_env \<Rightarrow> StoreData \<Rightarrow> ImmutableEntrySnapshot \<Rightarrow> (string \<times> ActuatorAssessment) list \<Rightarrow>
   string list \<Rightarrow> plan_state result" where
  "plan_reconciled_store e data snapshot assessments conflicts =
     (let p0 = \<lparr>pl_records = st_safety_records data, pl_histories = st_zone_histories data,
                pl_conflicts = check_duplicates (es_zones snapshot) [] conflicts, pl_minted = 0\<rparr>
      in res_bind (plan_loop (retain_record e assessments (by_subentry_id snapshot))
                     (st_safety_records data) p0)
           (plan_loop (plan_zone e snapshot assessments (original_active data)) (es_zones snapshot)))"

text \<open>The transaction of the store.\<close>

definition reconcile_store ::
  "plan_env \<Rightarrow> ImmutableEntrySnapshot \<Rightarrow> (string \<times> ActuatorAssessment) list \<Rightarrow> StoreData \<Rightarrow>
   StoreData option result" where
  "reconcile_store e snapshot assessments =
     reconcile_plan (\<lambda>data.
       res_bind (plan_reconciled_store e data snapshot assessments []) (\<lambda>p.
         Inr (pl_records p, pl_histories p)))"

end
