(* ===== verification/Planning_Safety.thy ===== *)
theory Planning_Safety
  imports Store_Planning Controller_Safety
begin

text \<open>
  What the planned union of configuration and store guarantees: no record and no open session is
  lost, hazards are released by OFF evidence only, a record retires only under proof, and water is
  never enabled by a configuration change.
\<close>

lemma mk_identity_ids:
  "mk_actuator_identity i = Inr i' \<Longrightarrow> i' = i" "mk_sensor_identity s = Inr s' \<Longrightarrow> s' = s"
  "mk_incident n = Inr n' \<Longrightarrow> n' = n"
  by (auto simp: mk_actuator_identity_def mk_sensor_identity_def mk_incident_def split: if_splits option.splits)

lemmas plan_ids = mk_ids(3-5) mk_identity_ids

section \<open>Keyed maps\<close>

text \<open>A map whose keys are the identifiers of its values, all of which satisfy a predicate.\<close>

definition keyed :: "('v \<Rightarrow> 'k) \<Rightarrow> ('v \<Rightarrow> bool) \<Rightarrow> ('k \<times> 'v) list \<Rightarrow> bool" where
  "keyed ident ok m \<longleftrightarrow> distinct (map fst m) \<and> (\<forall>(k, v) \<in> set m. ident v = k \<and> ok v)"

lemma keyed_iff:
  "keyed ident ok m \<longleftrightarrow> distinct (map fst m) \<and> (\<forall>k v. map_of m k = Some v \<longrightarrow> ident v = k \<and> ok v)"
  by (auto simp: keyed_def dest: map_of_SomeD)

lemma keyed_update: "keyed ident ok m \<Longrightarrow> ok v \<Longrightarrow> ident v = k \<Longrightarrow> keyed ident ok (AList.update k v m)"
  by (auto simp: keyed_iff distinct_update update_conv' split: if_splits)

lemma keyed_delete: "keyed ident ok m \<Longrightarrow> keyed ident ok (AList.delete k m)"
  by (auto simp: keyed_iff distinct_delete delete_conv' split: if_splits)

lemma keyed_lookup: "keyed ident ok m \<Longrightarrow> map_of m k = Some v \<Longrightarrow> ok v \<and> ident v = k"
  by (auto simp: keyed_def dest: map_of_SomeD)

lemma keyed_value: "keyed ident ok m \<Longrightarrow> v \<in> snd ` set m \<Longrightarrow> ok v \<and> map_of m (ident v) = Some v"
  by (auto simp: keyed_def)

lemma keyed_mono: "keyed ident ok m \<Longrightarrow> (\<And>v. ok v \<Longrightarrow> ok' v) \<Longrightarrow> keyed ident ok' m"
  by (auto simp: keyed_def)

lemma dict_item_eq_Inr: "dict_item d k = Inr v \<longleftrightarrow> map_of d k = Some v"
  by (simp add: dict_item_def split: option.split)

lemma plan_loop_inv:
  assumes "plan_loop f xs p = Inr p'" and "I p"
    and "\<And>x q q'. x \<in> set xs \<Longrightarrow> I q \<Longrightarrow> f x q = Inr q' \<Longrightarrow> I q'"
  shows "I p'"
  using assms by (induction xs arbitrary: p) (auto simp: res_bind_eq_Inr)

section \<open>What happens to one record\<close>

text \<open>The evidence of a record that planning may never drop.\<close>

definition record_kept :: "SafetyRecord \<Rightarrow> SafetyRecord \<Rightarrow> bool" where
  "record_kept r r' \<longleftrightarrow>
     sr_safety_record_id r' = sr_safety_record_id r \<and>
     sr_safety_lineage_id r' = sr_safety_lineage_id r \<and>
     sr_actuator_fault r' = sr_actuator_fault r \<and>
     sr_acknowledgement_required r' = sr_acknowledgement_required r \<and>
     sr_removed_actuator_ack r' = sr_removed_actuator_ack r \<and>
     set (sr_zone_history_id r # sr_historical_zone_history_ids r)
       \<subseteq> set (sr_zone_history_id r' # sr_historical_zone_history_ids r') \<and>
     (INTEGRATION_OFF_UNCONFIRMED \<in> set (sr_blocker_reasons r) \<longrightarrow>
        INTEGRATION_OFF_UNCONFIRMED \<in> set (sr_blocker_reasons r') \<and>
        (sr_possible_flow_owner r \<noteq> None \<longrightarrow> sr_possible_flow_owner r' \<noteq> None))"

lemma record_kept_refl [simp]: "record_kept r r"
  by (auto simp: record_kept_def)

lemma record_kept_trans: "record_kept r s \<Longrightarrow> record_kept s t \<Longrightarrow> record_kept r t"
  by (auto simp: record_kept_def)

lemma set_ordered_all [simp]: "set (ordered_blockers B) = B"
proof (rule set_ordered_blockers)
  have "B \<subseteq> {EXTERNAL_FLOW, INTEGRATION_OFF_UNCONFIRMED, ACTUATOR_NOT_PROVEN_OFF}"
    using BlockerReason.exhaust by blast
  then show "finite B" using finite_subset by blast
qed

lemma set_with_blocker [simp]: "set (with_blocker bs b) = insert b (set bs)"
  by (simp add: with_blocker_def)

lemma set_without_blockers [simp]: "set (without_blockers bs cs) = set bs - set cs"
  by (auto simp: without_blockers_def)

lemma set_append_new [simp]: "set (append_new x xs) = insert x (set xs)"
  by (auto simp: append_new_def)

text \<open>The owner and the durable identity of a record.\<close>

definition same_owner :: "SafetyRecord \<Rightarrow> SafetyRecord \<Rightarrow> bool" where
  "same_owner r r' \<longleftrightarrow>
     sr_active_subentry_id r' = sr_active_subentry_id r \<and> sr_zone_history_id r' = sr_zone_history_id r \<and>
     sr_runtime_lifecycle r' = sr_runtime_lifecycle r \<and> record_uuid r' = record_uuid r"

lemmas record_frames = record_kept_def same_owner_def record_uuid_def

lemma reconcile_active_kept:
  "reconcile_active_record r h a pr = Inr r' \<Longrightarrow> record_kept r r' \<and> same_owner r r'"
  by (cases a) (auto simp: record_frames reconcile_active_record_def resolve_by_off_def Let_def
      dest!: plan_ids(3) split: if_splits)

lemma reconcile_active_off_evidence:
  assumes "reconcile_active_record r h a pr = Inr r'"
    and "b \<in> set (sr_blocker_reasons r)" and "b \<notin> set (sr_blocker_reasons r')"
  shows "case a of None \<Rightarrow> pr | Some x \<Rightarrow> act_proven_off x"
  using assms
  by (cases a) (auto simp: reconcile_active_record_def resolve_by_off_def Let_def dest!: plan_ids(3) split: if_splits)

lemma rename_kept:
  "retained_identity_after_rename e r = Inr r' \<Longrightarrow>
     record_kept r r' \<and> same_owner r r' \<and> sr_possible_flow_owner r' = sr_possible_flow_owner r"
  by (auto simp: retained_identity_after_rename_def record_frames Let_def res_bind_eq_Inr dest!: plan_ids
      split: option.splits if_splits)

lemma retained_identity_kept:
  "retained_identity r a pr = Inr r' \<Longrightarrow>
     record_kept r r' \<and> same_owner r r' \<and> sr_blocker_reasons r' = sr_blocker_reasons r \<and>
     sr_possible_flow_owner r' = sr_possible_flow_owner r"
  by (auto simp: retained_identity_def record_frames res_bind_eq_Inr dest!: plan_ids split: if_splits)

text \<open>OFF evidence for the exact identity of a record: an assessment that proves OFF, or an
  operator acknowledgement that covers an absent identity.\<close>

definition off_proof :: "ActuatorAssessment option \<Rightarrow> SafetyRecord \<Rightarrow> bool" where
  "off_proof a r \<longleftrightarrow>
     (case a of
        Some x \<Rightarrow> act_proven_off x
      | None \<Rightarrow> (case sr_removed_actuator_ack r of
                  None \<Rightarrow> False | Some ack \<Rightarrow> Some (rak_registry_entry_id ack) = record_uuid r))"

lemma operator_proof_off: "operator_proof r a \<Longrightarrow> off_proof a r"
  by (auto simp: operator_proof_def off_proof_def ack_covers_def record_uuid_def split: option.splits)

lemma off_proof_kept: "record_kept r r' \<Longrightarrow> same_owner r r' \<Longrightarrow> off_proof a r' = off_proof a r"
  by (simp add: off_proof_def record_kept_def same_owner_def split: option.split)

lemma off_proof_lifecycle [simp]: "off_proof a (r\<lparr>sr_runtime_lifecycle := l\<rparr>) = off_proof a r"
  by (simp add: off_proof_def record_uuid_def split: option.split)

lemma retained_steps:
  assumes "reconcile_retained_record e r h a = Inr r'"
  obtains r1 r2 r3 where "retained_identity_after_rename e r = Inr r1"
    "reconcile_active_record r1 h a (operator_proof r1 a) = Inr r2"
    "retained_identity r2 a (operator_proof r1 a) = Inr r3"
    "r' = r3\<lparr>sr_runtime_lifecycle :=
            (if safe_to_retire r3 h a (operator_proof r1 a) then RETIRED else DELETE_PENDING)\<rparr>"
  using assms by (auto simp: reconcile_retained_record_def Let_def res_bind_eq_Inr dest!: plan_ids(3))

lemma retained_kept:
  assumes "reconcile_retained_record e r h a = Inr r'"
  shows "record_kept r r'" "sr_active_subentry_id r' = sr_active_subentry_id r"
    "sr_zone_history_id r' = sr_zone_history_id r" "record_uuid r' = record_uuid r"
    "sr_runtime_lifecycle r' \<noteq> ACTIVE"
proof -
  from assms obtain r1 r2 r3 where r1: "retained_identity_after_rename e r = Inr r1"
    and r2: "reconcile_active_record r1 h a (operator_proof r1 a) = Inr r2"
    and r3: "retained_identity r2 a (operator_proof r1 a) = Inr r3"
    and r': "r' = r3\<lparr>sr_runtime_lifecycle :=
      (if safe_to_retire r3 h a (operator_proof r1 a) then RETIRED else DELETE_PENDING)\<rparr>"
    by (elim retained_steps)
  note steps = rename_kept [OF r1] reconcile_active_kept [OF r2] retained_identity_kept [OF r3]
  from r' have "record_kept r3 r'" "sr_active_subentry_id r' = sr_active_subentry_id r3"
    "sr_zone_history_id r' = sr_zone_history_id r3" "record_uuid r' = record_uuid r3"
    "sr_runtime_lifecycle r' \<noteq> ACTIVE" by (auto simp: record_kept_def record_uuid_def)
  with steps show "record_kept r r'" "sr_active_subentry_id r' = sr_active_subentry_id r"
    "sr_zone_history_id r' = sr_zone_history_id r" "record_uuid r' = record_uuid r"
    "sr_runtime_lifecycle r' \<noteq> ACTIVE"
    by (auto simp: same_owner_def intro: record_kept_trans)
qed

text \<open>A tombstone retires only under OFF evidence, without blocker, owner or open session.\<close>

lemma retired_under_proof:
  assumes "reconcile_retained_record e r h a = Inr r'" and "sr_runtime_lifecycle r' = RETIRED"
  shows "off_proof a r' \<and> sr_blocker_reasons r' = [] \<and> sr_possible_flow_owner r' = None \<and>
    zr_session (zh_zone_runtime h) = None"
proof -
  from assms(1) obtain r1 r2 r3 where r2: "reconcile_active_record r1 h a (operator_proof r1 a) = Inr r2"
    and r3: "retained_identity r2 a (operator_proof r1 a) = Inr r3"
    and r': "r' = r3\<lparr>sr_runtime_lifecycle :=
      (if safe_to_retire r3 h a (operator_proof r1 a) then RETIRED else DELETE_PENDING)\<rparr>"
    by (elim retained_steps)
  note steps = reconcile_active_kept [OF r2] retained_identity_kept [OF r3]
  from r' assms(2) have safe: "safe_to_retire r3 h a (operator_proof r1 a)" by (auto split: if_splits)
  have "off_proof a r1 = off_proof a r3"
    using steps off_proof_kept [of r1 r2 a] off_proof_kept [of r2 r3 a] by simp
  moreover have "off_proof a r' = off_proof a r3"
    using r' by simp
  moreover have "off_proof a r1 \<or> off_proof a r3"
    using safe operator_proof_off [of r1 a]
    by (auto simp: safe_to_retire_def off_proof_def split: option.splits)
  ultimately show ?thesis using safe r' by (simp add: safe_to_retire_def)
qed

text \<open>A blocker leaves a tombstone only under OFF evidence.\<close>

lemma retained_release:
  assumes "reconcile_retained_record e r h a = Inr r'"
    and "b \<in> set (sr_blocker_reasons r)" and "b \<notin> set (sr_blocker_reasons r')"
  shows "off_proof a r'"
proof -
  from assms(1) obtain r1 r2 r3 where r1: "retained_identity_after_rename e r = Inr r1"
    and r2: "reconcile_active_record r1 h a (operator_proof r1 a) = Inr r2"
    and r3: "retained_identity r2 a (operator_proof r1 a) = Inr r3"
    and r': "r' = r3\<lparr>sr_runtime_lifecycle :=
      (if safe_to_retire r3 h a (operator_proof r1 a) then RETIRED else DELETE_PENDING)\<rparr>"
    by (elim retained_steps)
  have b1: "sr_blocker_reasons r1 = sr_blocker_reasons r"
    using r1 by (auto simp: retained_identity_after_rename_def Let_def res_bind_eq_Inr dest!: plan_ids
      split: option.splits if_splits)
  have b3: "sr_blocker_reasons r' = sr_blocker_reasons r2"
    using r' retained_identity_kept [OF r3] by auto
  from reconcile_active_off_evidence [OF r2, of b] assms(2,3) b1 b3
  have "case a of None \<Rightarrow> operator_proof r1 a | Some x \<Rightarrow> act_proven_off x" by simp
  then have "off_proof a r1"
    using operator_proof_off [of r1 a] by (auto simp: off_proof_def split: option.splits)
  moreover have "off_proof a r1 = off_proof a r3"
    using reconcile_active_kept [OF r2] retained_identity_kept [OF r3]
      off_proof_kept [of r1 r2 a] off_proof_kept [of r2 r3 a] by simp
  moreover have "off_proof a r' = off_proof a r3" using r' by simp
  ultimately show ?thesis by simp
qed

section \<open>What the plan keeps\<close>

definition rec_ok :: "StoreData \<Rightarrow> SafetyRecord \<Rightarrow> bool" where
  "rec_ok data r \<longleftrightarrow>
     (\<forall>old. map_of (st_safety_records data) (sr_safety_record_id r) = Some old \<longrightarrow> record_kept old r)"

text \<open>A history keeps its enabled switch and its session; a new one is disabled.\<close>

definition hist_ok :: "StoreData \<Rightarrow> ZoneHistory \<Rightarrow> bool" where
  "hist_ok data h \<longleftrightarrow>
     (let zr = zh_zone_runtime h
      in case map_of (st_zone_histories data) (zh_zone_history_id h) of
           Some old \<Rightarrow> zr_enabled zr = zr_enabled (zh_zone_runtime old) \<and>
                       zr_session zr = zr_session (zh_zone_runtime old)
         | None \<Rightarrow> \<not> zr_enabled zr \<and> zr_state zr = DISABLED \<and> zr_session zr = None)"

definition plan_inv :: "StoreData \<Rightarrow> plan_state \<Rightarrow> bool" where
  "plan_inv data p \<longleftrightarrow>
     keyed sr_safety_record_id (rec_ok data) (pl_records p) \<and>
     keyed zh_zone_history_id (hist_ok data) (pl_histories p) \<and>
     dom (map_of (st_safety_records data)) \<subseteq> dom (map_of (pl_records p)) \<and>
     (\<forall>k h. map_of (st_zone_histories data) k = Some h \<and> zr_session (zh_zone_runtime h) \<noteq> None \<longrightarrow>
        k \<in> dom (map_of (pl_histories p)))"

lemma rec_ok_kept: "rec_ok data r \<Longrightarrow> record_kept r r' \<Longrightarrow> rec_ok data r'"
  unfolding rec_ok_def using record_kept_trans by (metis record_kept_def)

lemma hist_ok_runtime:
  assumes "hist_ok data h" and "zh_zone_history_id h' = zh_zone_history_id h"
    and "zr_enabled (zh_zone_runtime h') = zr_enabled (zh_zone_runtime h)"
    and "zr_session (zh_zone_runtime h') = zr_session (zh_zone_runtime h)"
    and "\<not> zr_enabled (zh_zone_runtime h) \<Longrightarrow> zr_state (zh_zone_runtime h) = DISABLED \<Longrightarrow>
      zr_state (zh_zone_runtime h') = DISABLED"
  shows "hist_ok data h'"
  using assms by (auto simp: hist_ok_def Let_def split: option.splits)

lemma inv_put_record: "plan_inv data p \<Longrightarrow> rec_ok data r \<Longrightarrow> k = sr_safety_record_id r \<Longrightarrow> plan_inv data (put_record k r p)"
  by (auto simp: plan_inv_def put_record_def keyed_update update_conv')

lemma inv_put_history: "plan_inv data p \<Longrightarrow> hist_ok data h \<Longrightarrow> k = zh_zone_history_id h \<Longrightarrow> plan_inv data (put_history k h p)"
  by (auto simp: plan_inv_def put_history_def keyed_update update_conv')

lemma plan_inv_frame [simp]:
  "plan_inv data (add_conflict c p) = plan_inv data p"
  "plan_inv data (p\<lparr>pl_minted := n\<rparr>) = plan_inv data p"
  by (auto simp: plan_inv_def add_conflict_def)

lemma all_records_conflict [simp]: "all_records (add_conflict c p) = all_records p"
  by (simp add: all_records_def add_conflict_def)

lemma inv_record: "plan_inv data p \<Longrightarrow> r \<in> set (all_records p) \<Longrightarrow> rec_ok data r"
  by (auto simp: plan_inv_def all_records_def dest: keyed_value)

lemma inv_lookup:
  "plan_inv data p \<Longrightarrow> map_of (pl_records p) k = Some r \<Longrightarrow> rec_ok data r \<and> sr_safety_record_id r = k"
  by (auto simp: plan_inv_def dest: keyed_lookup)

lemma inv_history:
  "plan_inv data p \<Longrightarrow> map_of (pl_histories p) k = Some h \<Longrightarrow> hist_ok data h \<and> zh_zone_history_id h = k"
  by (auto simp: plan_inv_def dest: keyed_lookup)

lemma flag_inv:
  assumes "flag_records kind detail cs p = Inr p'" and "plan_inv data p" and "\<forall>c \<in> set cs. rec_ok data c"
  shows "plan_inv data p'"
  using assms
proof (induction cs arbitrary: p)
  case (Cons c cs)
  from Cons.prems(1) obtain incident where rest: "flag_records kind detail cs (put_record (sr_safety_record_id c)
      (c\<lparr>sr_identity_incident := Some incident,
         sr_blocker_reasons := with_blocker (sr_blocker_reasons c) ACTUATOR_NOT_PROVEN_OFF\<rparr>) p) = Inr p'"
    by (auto simp: res_bind_eq_Inr dest!: plan_ids(3))
  have "rec_ok data (c\<lparr>sr_identity_incident := Some incident,
      sr_blocker_reasons := with_blocker (sr_blocker_reasons c) ACTUATOR_NOT_PROVEN_OFF\<rparr>)"
    using Cons.prems(3) by (auto intro: rec_ok_kept simp: record_kept_def)
  with Cons.prems(2) have "plan_inv data (put_record (sr_safety_record_id c)
      (c\<lparr>sr_identity_incident := Some incident,
         sr_blocker_reasons := with_blocker (sr_blocker_reasons c) ACTUATOR_NOT_PROVEN_OFF\<rparr>) p)"
    by (rule inv_put_record) simp
  from Cons.IH [OF rest this] Cons.prems(3) show ?case by simp
qed simp

section \<open>The first pass\<close>

lemma displaced_kept: "displaced_record s r = Inr r' \<Longrightarrow> record_kept r r'"
  by (auto simp: displaced_record_def record_kept_def dest!: plan_ids(3))

lemma tombstone_inv:
  assumes "reconcile_tombstone e as k r p = Inr p'" and "plan_inv data p" and "rec_ok data r"
    and "sr_safety_record_id r = k"
  shows "plan_inv data p'"
  using assms retained_kept(1)
  by (auto simp: reconcile_tombstone_def res_bind_eq_Inr record_kept_def intro!: inv_put_record
      intro: rec_ok_kept)

lemma orphan_inv:
  assumes "orphan_history s h p = Inr p'" and "plan_inv data p" and "hist_ok data h"
  shows "plan_inv data p'"
  using assms
  by (auto simp: orphan_history_def res_bind_eq_Inr dest!: plan_ids(2) intro!: inv_put_history
      intro: hist_ok_runtime)

lemma retain_inv:
  assumes "retain_record e as zones (k, r) p = Inr p'" and "plan_inv data p" and "rec_ok data r"
    and "sr_safety_record_id r = k"
  shows "plan_inv data p'"
proof -
  have dis: "rec_ok data r' \<and> sr_safety_record_id r' = k" if "displaced_record s r = Inr r'" for s r'
    using displaced_kept [OF that] assms(3,4) rec_ok_kept by (auto simp: record_kept_def)
  show ?thesis
    using assms
    by (auto simp: retain_record_def res_bind_eq_Inr dict_item_eq_Inr split: option.splits if_splits
        dest!: dis intro: tombstone_inv orphan_inv dest: inv_history)
qed

section \<open>The second pass\<close>

text \<open>Fresh identifiers do not occur in the store.\<close>

definition fresh_ids :: "plan_env \<Rightarrow> StoreData \<Rightarrow> bool" where
  "fresh_ids e data \<longleftrightarrow>
     (\<forall>n. pe_uuid4 e n \<notin> dom (map_of (st_safety_records data)) \<union> dom (map_of (st_zone_histories data)))"

lemma refuse_none: "refuse_zone kind detail cs p = Inr (p', choice) \<Longrightarrow> choice = None"
  by (auto simp: refuse_zone_def res_bind_eq_Inr)

lemma refuse_inv:
  assumes "refuse_zone kind detail cs p = Inr (p', choice)" and "plan_inv data p"
    and "set cs \<subseteq> set (all_records p)"
  shows "plan_inv data p' \<and> choice = None"
proof -
  from assms(2,3) have "\<forall>c \<in> set cs. rec_ok data c" by (blast intro: inv_record)
  then show ?thesis
    using assms(1,2) flag_inv [of kind detail cs "add_conflict detail p" p' data]
    by (auto simp: refuse_zone_def res_bind_eq_Inr)
qed

lemma new_record_fields:
  assumes "new_safety_record e n z snapshot = Inr r"
  shows "sr_safety_record_id r = pe_uuid4 e n \<and> sr_zone_history_id r = pe_uuid4 e (n + 2) \<and>
    sr_removed_actuator_ack r = None"
  using assms by (auto simp: new_safety_record_def res_bind_eq_Inr dest!: plan_ids(3))

text \<open>A newly configured zone starts disabled and without a session.\<close>

lemma new_history_fields:
  assumes "new_zone_history e r z = Inr h"
  shows "zh_zone_history_id h = sr_zone_history_id r \<and> \<not> zr_enabled (zh_zone_runtime h) \<and>
    zr_state (zh_zone_runtime h) = DISABLED \<and> zr_session (zh_zone_runtime h) = None"
  using assms by (auto simp: new_zone_history_def res_bind_eq_Inr dest!: plan_ids)

lemma create_inv:
  assumes "create_or_refuse e snapshot z p = Inr (p', choice)" and "plan_inv data p" and "fresh_ids e data"
  shows "plan_inv data p' \<and> (\<forall>s c. choice = Some (s, c) \<longrightarrow> rec_ok data s)"
proof (cases "unregistered_conflicts z p \<noteq> [] \<or> pe_states e (current_actuator z) = None")
  case True
  then show ?thesis
    using assms(1,2) refuse_inv [of IDENTITY_MISSING _ "unregistered_conflicts z p" p p' choice data]
    by (auto simp: create_or_refuse_def unregistered_conflicts_def)
next
  case False
  with assms(1) obtain r h where r: "new_safety_record e (pl_minted p) z snapshot = Inr r"
    and h: "new_zone_history e r z = Inr h"
    and p': "p' = put_history (sr_zone_history_id r) h
                    (put_record (sr_safety_record_id r) r (p\<lparr>pl_minted := pl_minted p + 3\<rparr>))"
    and choice: "choice = Some (r, True)"
    by (auto simp: create_or_refuse_def Let_def res_bind_eq_Inr)
  have "rec_ok data r"
    using new_record_fields [OF r] assms(3) by (auto simp: rec_ok_def fresh_ids_def)
  moreover have "hist_ok data h"
    using new_record_fields [OF r] new_history_fields [OF h] assms(3)
    by (auto simp: hist_ok_def fresh_ids_def Let_def split: option.split)
  ultimately show ?thesis
    using assms(2) p' choice new_history_fields [OF h] by (auto intro!: inv_put_history inv_put_record)
qed

lemma select_inv:
  assumes "select_record e snapshot prior z p = Inr (p', choice)" and "plan_inv data p" and "fresh_ids e data"
  shows "plan_inv data p' \<and> (\<forall>s c. choice = Some (s, c) \<longrightarrow> rec_ok data s)"
proof -
  have sub: "set (exact_records z p @ textual_conflicts z p) \<subseteq> set (all_records p)"
    "set (exact_records z p) \<subseteq> set (all_records p)" "set (mapped_candidates z p) \<subseteq> set (all_records p)"
    by (auto simp: exact_records_def textual_conflicts_def mapped_candidates_def)
  have hd: "rec_ok data (hd xs)" if "length xs = 1" "set xs \<subseteq> set (all_records p)" for xs
    using that assms(2) by (cases xs) (auto intro: inv_record)
  show ?thesis
    using assms refuse_inv [OF _ assms(2) sub(1)] create_inv [OF _ assms(2,3)] hd [OF _ sub(2)] hd [OF _ sub(3)]
    by (auto simp: select_record_def Let_def res_bind_eq_Inr dict_item_eq_Inr split: if_splits dest: inv_lookup refuse_none)
qed

lemma merge_fields:
  assumes "merge_zone_history_continuity c r = Inr h"
  shows "zh_zone_history_id h = zh_zone_history_id c \<and> zh_zone_runtime h = zh_zone_runtime c"
  using assms
  by (auto simp: merge_zone_history_continuity_def res_bind_eq_Inr dest!: plan_ids(2) split: if_splits)

lemma inv_delete_history:
  assumes "plan_inv data p" and "map_of (pl_histories p) k = Some h" and "zr_session (zh_zone_runtime h) = None"
  shows "plan_inv data (p\<lparr>pl_histories := AList.delete k (pl_histories p)\<rparr>)"
proof -
  from inv_history [OF assms(1,2)] assms(3)
  have "zr_session (zh_zone_runtime old) = None" if "map_of (st_zone_histories data) k = Some old" for old
    using that by (auto simp: hist_ok_def)
  with assms(1) show ?thesis
    by (auto simp: plan_inv_def keyed_delete delete_conv')
qed

lemma adopt_inv:
  assumes "adopt_history k selected p = Inr (p', adopted)" and "plan_inv data p" and "rec_ok data selected"
  shows "plan_inv data p' \<and> (\<forall>s. adopted = Some s \<longrightarrow> rec_ok data s \<and> sr_zone_history_id s = k)"
proof (cases "sr_zone_history_id selected = k")
  case False
  let ?old = "sr_zone_history_id selected"
  from False assms(1) obtain c r where c: "map_of (pl_histories p) k = Some c"
    and r: "map_of (pl_histories p) ?old = Some r"
    and cases: "if zr_session (zh_zone_runtime r) \<noteq> None
      then p' = add_conflict (''retained record '' @ sr_safety_record_id selected @ '' has unresolved session'') p \<and>
           adopted = None
      else \<exists>m s. merge_zone_history_continuity c r = Inr m \<and>
        p' = (if history_in_use selected ?old (put_history k m p) then put_history k m p
              else (put_history k m p)\<lparr>pl_histories := AList.delete ?old (pl_histories (put_history k m p))\<rparr>) \<and>
        adopted = Some s \<and>
        s = selected\<lparr>sr_zone_history_id := k,
              sr_historical_zone_history_ids := append_new ?old (sr_historical_zone_history_ids selected)\<rparr>"
    by (auto simp: adopt_history_def Let_def res_bind_eq_Inr dict_item_eq_Inr dest!: plan_ids(3) split: if_splits)
  show ?thesis
  proof (cases "zr_session (zh_zone_runtime r) = None")
    case True
    with cases obtain m s where m: "merge_zone_history_continuity c r = Inr m" and
      p': "p' = (if history_in_use selected ?old (put_history k m p) then put_history k m p
              else (put_history k m p)\<lparr>pl_histories := AList.delete ?old (pl_histories (put_history k m p))\<rparr>)"
      and s: "adopted = Some s" "s = selected\<lparr>sr_zone_history_id := k,
              sr_historical_zone_history_ids := append_new ?old (sr_historical_zone_history_ids selected)\<rparr>"
      by auto
    have "hist_ok data m"
      using inv_history [OF assms(2) c] merge_fields [OF m] by (auto intro: hist_ok_runtime)
    with assms(2) have inv: "plan_inv data (put_history k m p)"
      using inv_history [OF assms(2) c] merge_fields [OF m] by (auto intro: inv_put_history)
    have "map_of (pl_histories (put_history k m p)) ?old = Some r"
      using r False by (simp add: put_history_def update_conv')
    with inv True have "plan_inv data p'" unfolding p' by (auto intro: inv_delete_history)
    moreover have "record_kept selected s" using s by (auto simp: record_kept_def)
    ultimately show ?thesis using s assms(3) rec_ok_kept by auto
  qed (use cases assms(2) in auto)
qed (use assms in \<open>auto simp: adopt_history_def\<close>)

lemma planned_runtime_fields:
  assumes "planned_runtime e z s same re zr = Inr zr'" and "same \<or> zr_session zr = None"
  shows "zr_enabled zr' = zr_enabled zr \<and> zr_session zr' = zr_session zr \<and>
    (\<not> zr_enabled zr \<longrightarrow> zr_state zr = DISABLED \<longrightarrow> zr_state zr' = DISABLED)"
  using assms by (auto simp: planned_runtime_def Let_def res_bind_eq_Inr dest!: plan_ids(1))

lemma activate_kept:
  assumes "activate_record snapshot z k r = Inr r'" and "sr_zone_history_id r = k"
  shows "record_kept r r' \<and> sr_runtime_lifecycle r' = ACTIVE"
  using assms by (auto simp: activate_record_def res_bind_eq_Inr record_kept_def dest!: plan_ids(3))

lemma assign_steps:
  assumes "assign_zone e snapshot as prior exact new z k s p = Inr p'"
  obtains h c where "map_of (pl_histories p) k = Some h" "p' = add_conflict c p"
  | h same re zr h' r r' where "map_of (pl_histories p) k = Some h"
    "same \<or> zr_session (zh_zone_runtime h) = None"
    "planned_runtime e z s same re (zh_zone_runtime h) = Inr zr"
    "zh_zone_history_id h' = zh_zone_history_id h" "zh_zone_runtime h' = zr"
    "activate_record snapshot z k s = Inr r"
    "reconcile_active_record r h' (map_of as (zone_key (iz_subentry_id z))) False = Inr r'"
    "p' = put_record (sr_safety_record_id r') r' (put_history k h' p)"
proof -
  from assms obtain h where h: "map_of (pl_histories p) k = Some h"
    by (auto simp: assign_zone_def res_bind_eq_Inr dict_item_eq_Inr)
  let ?same = "continuing_same_actuator prior exact s z"
  show thesis
  proof (cases "zr_session (zh_zone_runtime h) \<noteq> None \<and> \<not> ?same")
    case True
    with assms h have "p' = add_conflict (''zone history '' @ k @ '' has unresolved session'') p"
      by (simp add: assign_zone_def Let_def dict_item_def)
    with h that(1) show thesis by blast
  next
    case False
    with assms h obtain re zr h' r r' where
      "planned_runtime e z s ?same re (zh_zone_runtime h) = Inr zr"
      "h' = h\<lparr>zh_active_subentry_id := Some (iz_subentry_id z),
             zh_previous_subentry_ids := previous_after (iz_subentry_id z) (zh_active_subentry_id h)
               (zh_previous_subentry_ids h), zh_zone_runtime := zr\<rparr>"
      "activate_record snapshot z k s = Inr r"
      "reconcile_active_record r h' (map_of as (zone_key (iz_subentry_id z))) False = Inr r'"
      "p' = put_record (sr_safety_record_id r') r' (put_history k h' p)"
      unfolding assign_zone_def Let_def dict_item_def
      by (simp only: option.case res_bind.simps if_False) (auto simp: res_bind_eq_Inr dest!: plan_ids(2))
    with h False show thesis by (intro that(2) [of h ?same re zr h' r r']) auto
  qed
qed

lemma assign_inv:
  assumes "assign_zone e snapshot as prior exact new z k s p = Inr p'"
    and "plan_inv data p" and "rec_ok data s" and "sr_zone_history_id s = k"
  shows "plan_inv data p'"
  using assms(1)
proof (cases rule: assign_steps)
  case (2 h same re zr h' r r')
  have "hist_ok data h'"
    using inv_history [OF assms(2) 2(1)] planned_runtime_fields [OF 2(3,2)] 2(4,5)
    by (auto intro: hist_ok_runtime)
  moreover have "rec_ok data r'"
    using assms(3) activate_kept [OF 2(6) assms(4)] reconcile_active_kept [OF 2(7)] rec_ok_kept by blast
  ultimately show ?thesis
    using assms(2) 2(4,8) inv_history [OF assms(2) 2(1)] by (auto intro!: inv_put_record inv_put_history)
qed (use assms(2) in simp)

text \<open>The ways a zone without an identity conflict is planned.\<close>

lemma zone_steps:
  assumes "plan_zone e snapshot as owners z p = Inr p'" and "iz_identity_conflict_detail z = None"
  obtains (refused) "select_record e snapshot (map_of owners (iz_subentry_id z)) z p = Inr (p', None)"
  | (held) p1 s c k where
      "select_record e snapshot (map_of owners (iz_subentry_id z)) z p = Inr (p1, Some (s, c))"
      "adopt_history k s p1 = Inr (p', None)"
  | (assigned) p1 s c k p2 s' where
      "select_record e snapshot (map_of owners (iz_subentry_id z)) z p = Inr (p1, Some (s, c))"
      "adopt_history k s p1 = Inr (p2, Some s')"
      "assign_zone e snapshot as (map_of owners (iz_subentry_id z)) (exact_records z p) c z k s' p2 = Inr p'"
proof -
  from assms obtain p1 choice where
    sel: "select_record e snapshot (map_of owners (iz_subentry_id z)) z p = Inr (p1, choice)"
    by (auto simp: plan_zone_def Let_def res_bind_eq_Inr)
  show thesis
  proof (cases choice)
    case None
    with assms sel have "p' = p1" by (simp add: plan_zone_def Let_def)
    with sel None refused show thesis by simp
  next
    case (Some a)
    then obtain s c where choice: "choice = Some (s, c)" by (cases a) auto
    let ?k = "case map_of owners (iz_subentry_id z) of
      Some r \<Rightarrow> sr_zone_history_id r | None \<Rightarrow> sr_zone_history_id s"
    from assms sel choice obtain p2 adopted where ad: "adopt_history ?k s p1 = Inr (p2, adopted)"
      and rest: "(case adopted of None \<Rightarrow> Inr p2
        | Some s' \<Rightarrow> assign_zone e snapshot as (map_of owners (iz_subentry_id z)) (exact_records z p) c z ?k s' p2)
        = Inr p'"
      by (auto simp: plan_zone_def Let_def res_bind_eq_Inr)
    show thesis
    proof (cases adopted)
      case None
      with rest ad sel choice held show thesis by simp
    next
      case (Some s')
      with rest ad sel choice assigned show thesis by simp
    qed
  qed
qed

lemma plan_zone_inv:
  assumes "plan_zone e snapshot as owners z p = Inr p'" and "plan_inv data p" and "fresh_ids e data"
  shows "plan_inv data p'"
proof (cases "iz_identity_conflict_detail z")
  case (Some detail)
  have "\<forall>c \<in> set (ambiguous_candidates z (add_conflict detail p)). rec_ok data c"
    using assms(2) by (auto simp: ambiguous_candidates_def intro: inv_record)
  then show ?thesis using assms(1,2) Some by (auto simp: plan_zone_def Let_def intro: flag_inv)
next
  case None
  from assms(1) None show ?thesis
  proof (cases rule: zone_steps)
    case refused
    then show ?thesis using select_inv [OF _ assms(2,3)] by blast
  next
    case (held p1 s c k)
    with select_inv [OF held(1) assms(2,3)] adopt_inv [OF held(2)] show ?thesis by blast
  next
    case (assigned p1 s c k p2 s')
    with select_inv [OF assigned(1) assms(2,3)] adopt_inv [OF assigned(2)]
    show ?thesis by (blast intro: assign_inv)
  qed
qed

text \<open>The hypotheses about the input: maps keyed by the identifiers of their values.\<close>

definition keyed_snapshot :: "StoreData \<Rightarrow> bool" where
  "keyed_snapshot data \<longleftrightarrow>
     keyed sr_safety_record_id (\<lambda>_. True) (st_safety_records data) \<and>
     keyed zh_zone_history_id (\<lambda>_. True) (st_zone_histories data)"

lemma initial_inv:
  assumes "keyed_snapshot data"
  shows "plan_inv data \<lparr>pl_records = st_safety_records data, pl_histories = st_zone_histories data,
    pl_conflicts = cs, pl_minted = n\<rparr>"
  using assms
  by (auto simp: keyed_snapshot_def plan_inv_def keyed_iff rec_ok_def hist_ok_def split: option.split)

lemma plan_steps:
  assumes "plan_reconciled_store e data snapshot as cs = Inr p"
  obtains p0 p1 where
    "p0 = \<lparr>pl_records = st_safety_records data, pl_histories = st_zone_histories data,
           pl_conflicts = check_duplicates (es_zones snapshot) [] cs, pl_minted = 0\<rparr>"
    "plan_loop (retain_record e as (by_subentry_id snapshot)) (st_safety_records data) p0 = Inr p1"
    "plan_loop (plan_zone e snapshot as (original_active data)) (es_zones snapshot) p1 = Inr p"
  using assms by (auto simp: plan_reconciled_store_def Let_def res_bind_eq_Inr)

lemma first_pass_invariant:
  assumes "keyed_snapshot data"
    and "plan_loop (retain_record e as zones) (st_safety_records data)
      \<lparr>pl_records = st_safety_records data, pl_histories = st_zone_histories data,
       pl_conflicts = cs, pl_minted = n\<rparr> = Inr p"
  shows "plan_inv data p"
proof -
  have rec: "rec_ok data r \<and> sr_safety_record_id r = k" if "(k, r) \<in> set (st_safety_records data)" for k r
  proof -
    from that assms(1) have "map_of (st_safety_records data) k = Some r" "sr_safety_record_id r = k"
      by (auto simp: keyed_snapshot_def keyed_def)
    then show ?thesis by (simp add: rec_ok_def)
  qed
  from assms(2) initial_inv [OF assms(1), of cs n] show ?thesis
    by (rule plan_loop_inv) (use rec in \<open>auto intro: retain_inv\<close>)
qed

lemma plan_invariant:
  assumes "plan_reconciled_store e data snapshot as cs = Inr p" and "keyed_snapshot data" and "fresh_ids e data"
  shows "plan_inv data p"
  using assms(1)
proof (cases rule: plan_steps)
  case (1 p0 p1)
  with assms(2) have "plan_inv data p1" by (auto intro: first_pass_invariant)
  with 1(3) show ?thesis by (rule plan_loop_inv) (use assms(3) in \<open>auto intro: plan_zone_inv\<close>)
qed

section \<open>Evidence of tombstones\<close>

definition flagged :: "IdentityIncident \<Rightarrow> SafetyRecord \<Rightarrow> SafetyRecord" where
  "flagged incident r =
     r\<lparr>sr_identity_incident := Some incident,
       sr_blocker_reasons := with_blocker (sr_blocker_reasons r) ACTUATOR_NOT_PROVEN_OFF\<rparr>"

text \<open>A property of stored records that the second pass respects: it may only flag a record or
  activate it.\<close>

locale zone_stable =
  fixes Q :: "string \<Rightarrow> SafetyRecord \<Rightarrow> bool"
  assumes flag: "Q k r \<Longrightarrow> Q k (flagged i r)"
    and active: "sr_runtime_lifecycle r = ACTIVE \<Longrightarrow> Q k r"
begin

definition all_Q :: "plan_state \<Rightarrow> bool" where
  "all_Q p \<longleftrightarrow> keyed sr_safety_record_id (\<lambda>r. Q (sr_safety_record_id r) r) (pl_records p)"

lemma all_Q_put: "all_Q p \<Longrightarrow> Q k r \<Longrightarrow> k = sr_safety_record_id r \<Longrightarrow> all_Q (put_record k r p)"
  by (simp add: all_Q_def put_record_def keyed_update)

lemma all_Q_frame [simp]:
  "all_Q (put_history k h p) = all_Q p" "all_Q (add_conflict c p) = all_Q p"
  "all_Q (p\<lparr>pl_minted := n\<rparr>) = all_Q p" "all_Q (p\<lparr>pl_histories := hs\<rparr>) = all_Q p"
  by (simp_all add: all_Q_def put_history_def add_conflict_def)

lemma all_Q_record: "all_Q p \<Longrightarrow> r \<in> set (all_records p) \<Longrightarrow> Q (sr_safety_record_id r) r"
  by (auto simp: all_Q_def all_records_def dest: keyed_value)

lemma flag_records_Q:
  assumes "flag_records kind detail cs p = Inr p'" and "all_Q p" and "set cs \<subseteq> set rs"
    and "\<forall>c \<in> set rs. Q (sr_safety_record_id c) c"
  shows "all_Q p'"
  using assms
proof (induction cs arbitrary: p)
  case (Cons c cs)
  from Cons.prems(1) obtain incident where
    rest: "flag_records kind detail cs (put_record (sr_safety_record_id c) (flagged incident c) p) = Inr p'"
    by (auto simp: res_bind_eq_Inr flagged_def dest!: plan_ids(3))
  have "all_Q (put_record (sr_safety_record_id c) (flagged incident c) p)"
    by (intro all_Q_put) (use Cons.prems flag in \<open>auto simp: flagged_def\<close>)
  from Cons.IH [OF rest this] Cons.prems(3,4) show ?case by simp
qed simp

lemma refuse_Q:
  assumes "refuse_zone kind detail cs p = Inr (p', choice)" and "all_Q p" and "set cs \<subseteq> set (all_records p)"
  shows "all_Q p'"
  using assms all_Q_record flag_records_Q [of kind detail cs "add_conflict detail p" p' "all_records p"]
  by (auto simp: refuse_zone_def res_bind_eq_Inr)

lemma new_record_active: "new_safety_record e n z snapshot = Inr r \<Longrightarrow> sr_runtime_lifecycle r = ACTIVE"
  by (auto simp: new_safety_record_def res_bind_eq_Inr dest!: plan_ids(3))

lemma select_Q:
  assumes "select_record e snapshot prior z p = Inr (p', choice)" and "all_Q p"
  shows "all_Q p'"
proof -
  have sub: "set (exact_records z p @ textual_conflicts z p) \<subseteq> set (all_records p)"
    "set (unregistered_conflicts z p) \<subseteq> set (all_records p)"
    by (auto simp: exact_records_def textual_conflicts_def unregistered_conflicts_def)
  have "all_Q q" if "create_or_refuse e snapshot z p = Inr (q, c)" for q c
    using that assms(2) refuse_Q [OF _ assms(2) sub(2)] new_record_active active
    by (auto simp: create_or_refuse_def Let_def res_bind_eq_Inr split: if_splits intro!: all_Q_put)
  then show ?thesis
    using assms refuse_Q [OF _ assms(2) sub(1)]
    by (auto simp: select_record_def Let_def res_bind_eq_Inr split: if_splits)
qed

lemma adopt_Q: "adopt_history k s p = Inr (p', adopted) \<Longrightarrow> all_Q p \<Longrightarrow> all_Q p'"
  by (auto simp: adopt_history_def Let_def res_bind_eq_Inr split: if_splits)

lemma assign_Q:
  assumes "assign_zone e snapshot as prior exact new z k s p = Inr p'" and "all_Q p"
  shows "all_Q p'"
  using assms(1)
proof (cases rule: assign_steps)
  case (2 h same re zr h' r r')
  from 2(6) have "sr_runtime_lifecycle r = ACTIVE"
    by (auto simp: activate_record_def res_bind_eq_Inr dest!: plan_ids(3))
  with reconcile_active_kept [OF 2(7)] have "sr_runtime_lifecycle r' = ACTIVE" by (simp add: same_owner_def)
  with 2(8) assms(2) active show ?thesis by (auto intro!: all_Q_put)
qed (use assms(2) in simp)

lemma plan_zone_Q:
  assumes "plan_zone e snapshot as owners z p = Inr p'" and "all_Q p"
  shows "all_Q p'"
proof (cases "iz_identity_conflict_detail z")
  case (Some detail)
  have "set (ambiguous_candidates z (add_conflict detail p)) \<subseteq> set (all_records p)"
    by (auto simp: ambiguous_candidates_def)
  moreover have "\<forall>c \<in> set (all_records p). Q (sr_safety_record_id c) c"
    using all_Q_record [OF assms(2)] by blast
  ultimately show ?thesis
    using assms Some flag_records_Q [of IDENTITY_CONFLICT detail _ "add_conflict detail p" p' "all_records p"]
    by (simp add: plan_zone_def Let_def)
next
  case None
  from assms(1) None show ?thesis
    by (cases rule: zone_steps) (meson assms(2) select_Q adopt_Q assign_Q)+
qed

end

text \<open>What a tombstone shows: it lost a blocker or it retired only under OFF evidence for its own
  identity.\<close>

definition tombstone_ok ::
  "(string \<times> ActuatorAssessment) list \<Rightarrow> StoreData \<Rightarrow> string \<Rightarrow> SafetyRecord \<Rightarrow> bool" where
  "tombstone_ok as data k r \<longleftrightarrow> sr_runtime_lifecycle r = ACTIVE \<or>
     ((\<forall>old b. map_of (st_safety_records data) k = Some old \<and> b \<in> set (sr_blocker_reasons old) \<and>
               b \<notin> set (sr_blocker_reasons r) \<longrightarrow> off_proof (map_of as (record_key k)) r) \<and>
      (sr_runtime_lifecycle r = RETIRED \<longrightarrow>
         off_proof (map_of as (record_key k)) r \<and> sr_possible_flow_owner r = None \<and>
         set (sr_blocker_reasons r) \<subseteq> {ACTUATOR_NOT_PROVEN_OFF} \<and>
         (sr_blocker_reasons r \<noteq> [] \<longrightarrow> sr_identity_incident r \<noteq> None)))"

lemma off_proof_flagged [simp]: "off_proof a (flagged i r) = off_proof a r"
  by (simp add: off_proof_def flagged_def record_uuid_def split: option.split)

interpretation tomb: zone_stable "tombstone_ok as data" for as data
proof (unfold_locales, goal_cases)
  case (1 k r i)
  then show ?case by (auto simp: tombstone_ok_def) (auto simp: flagged_def)
qed (simp add: tombstone_ok_def)

lemma tombstone_reconciled:
  assumes "reconcile_retained_record e r h (map_of as (record_key k)) = Inr r'"
    and "map_of (st_safety_records data) k = Some old" and "sr_blocker_reasons r = sr_blocker_reasons old"
  shows "tombstone_ok as data k r'"
  using retained_release [OF assms(1)] retired_under_proof [OF assms(1)] assms(2,3)
  by (auto simp: tombstone_ok_def)

lemma retain_records:
  assumes "retain_record e as zones (k, r) p = Inr p'"
  shows "(\<exists>s. sr_active_subentry_id r = Some s) \<and> p' = p \<or>
    (\<exists>r1 h r'. pl_records p' = AList.update k r' (pl_records p) \<and>
       sr_safety_record_id r1 = sr_safety_record_id r \<and> sr_blocker_reasons r1 = sr_blocker_reasons r \<and>
       reconcile_retained_record e r1 h (map_of as (record_key k)) = Inr r')"
  using assms
  by (auto simp: retain_record_def reconcile_tombstone_def orphan_history_def displaced_record_def
      put_record_def put_history_def res_bind_eq_Inr split: option.splits if_splits dest!: plan_ids(3)) fastforce+

text \<open>Every stored record passed the checks of its class.\<close>

definition checked_records :: "StoreData \<Rightarrow> bool" where
  "checked_records data \<longleftrightarrow> list_all (\<lambda>(k, r). mk_safety_record r = Inr r) (st_safety_records data)"

lemma checked_active: "mk_safety_record r = Inr r \<Longrightarrow> sr_active_subentry_id r = Some s \<Longrightarrow> sr_runtime_lifecycle r = ACTIVE"
  by (auto simp: mk_safety_record_def record_lifecycle_check_def res_bind_eq_Inr split: if_splits)

lemma retain_pass:
  assumes "plan_loop (retain_record e as zones) xs p = Inr p'" and "distinct (map fst xs)"
    and "\<forall>(k, r) \<in> set xs. map_of (st_safety_records data) k = Some r \<and>
      map_of (pl_records p) k = Some r \<and> mk_safety_record r = Inr r"
  shows "(\<forall>k. k \<in> fst ` set xs \<longrightarrow> (\<exists>r'. map_of (pl_records p') k = Some r' \<and> tombstone_ok as data k r')) \<and>
    (\<forall>k. k \<notin> fst ` set xs \<longrightarrow> map_of (pl_records p') k = map_of (pl_records p) k)"
  using assms
proof (induction xs arbitrary: p)
  case (Cons x xs)
  obtain k r where x: "x = (k, r)" by (cases x)
  from Cons.prems(1) obtain q where step: "retain_record e as zones (k, r) p = Inr q"
    and rest: "plan_loop (retain_record e as zones) xs q = Inr p'"
    by (auto simp: x res_bind_eq_Inr)
  from Cons.prems(3) x have r: "map_of (st_safety_records data) k = Some r" "map_of (pl_records p) k = Some r"
    "mk_safety_record r = Inr r" by auto
  have "(\<exists>r'. map_of (pl_records q) k = Some r' \<and> tombstone_ok as data k r') \<and>
      (\<forall>l. l \<noteq> k \<longrightarrow> map_of (pl_records q) l = map_of (pl_records p) l)"
  proof (cases "\<exists>s. sr_active_subentry_id r = Some s \<and> q = p")
    case True
    with checked_active [OF r(3)] r(2) show ?thesis by (auto simp: tombstone_ok_def)
  next
    case False
    with retain_records [OF step] obtain r1 h r' where
      q: "pl_records q = AList.update k r' (pl_records p)" and b: "sr_blocker_reasons r1 = sr_blocker_reasons r"
      and rec: "reconcile_retained_record e r1 h (map_of as (record_key k)) = Inr r'" by blast
    from tombstone_reconciled [OF rec r(1) b] q show ?thesis by (auto simp: update_conv')
  qed
  then have k: "\<exists>r'. map_of (pl_records q) k = Some r' \<and> tombstone_ok as data k r'"
    and frame: "\<And>l. l \<noteq> k \<Longrightarrow> map_of (pl_records q) l = map_of (pl_records p) l" by blast+
  have IH: "(\<forall>l. l \<in> fst ` set xs \<longrightarrow> (\<exists>r'. map_of (pl_records p') l = Some r' \<and> tombstone_ok as data l r')) \<and>
    (\<forall>l. l \<notin> fst ` set xs \<longrightarrow> map_of (pl_records p') l = map_of (pl_records q) l)"
  proof (rule Cons.IH [OF rest])
    show "distinct (map fst xs)" using Cons.prems(2) by simp
    have "l \<noteq> k" if "(l, s) \<in> set xs" for l s using that Cons.prems(2) x by force
    then show "\<forall>(l, s) \<in> set xs. map_of (st_safety_records data) l = Some s \<and>
      map_of (pl_records q) l = Some s \<and> mk_safety_record s = Inr s"
      using Cons.prems(3) frame by (metis (no_types, lifting) case_prodD case_prodI2 list.set_intros(2))
  qed
  have "k \<notin> fst ` set xs" using Cons.prems(2) x by simp
  with IH k have now: "\<exists>r'. map_of (pl_records p') k = Some r' \<and> tombstone_ok as data k r'" by simp
  show ?case using IH now frame x by simp
qed simp

lemma plan_tombstones:
  assumes "plan_reconciled_store e data snapshot as cs = Inr p" and "keyed_snapshot data" and "checked_records data"
  shows "tomb.all_Q as data p"
  using assms(1)
proof (cases rule: plan_steps)
  case (1 p0 p1)
  have inv: "plan_inv data p1" using 1(1,2) assms(2) by (auto intro: first_pass_invariant)
  have "(\<forall>k. k \<in> fst ` set (st_safety_records data) \<longrightarrow>
        (\<exists>r'. map_of (pl_records p1) k = Some r' \<and> tombstone_ok as data k r')) \<and>
    (\<forall>k. k \<notin> fst ` set (st_safety_records data) \<longrightarrow> map_of (pl_records p1) k = map_of (pl_records p0) k)"
    by (rule retain_pass [OF 1(2)])
       (use assms(2,3) 1(1) in \<open>auto simp: keyed_snapshot_def keyed_def checked_records_def list_all_iff\<close>)
  then have "tombstone_ok as data k r" if "map_of (pl_records p1) k = Some r" for k r
    using that 1(1) by (cases "k \<in> fst ` set (st_safety_records data)") (force dest: map_of_SomeD)+
  with inv have "tomb.all_Q as data p1"
    by (auto simp: tomb.all_Q_def plan_inv_def keyed_iff)
  with 1(3) show ?thesis by (rule plan_loop_inv) (rule tomb.plan_zone_Q)
qed

section \<open>A concrete replacement\<close>

text \<open>The zone of the stored record now selects another actuator, and the registry no longer knows
  the old one.\<close>

definition plan_home :: plan_env where
  "plan_home =
     \<lparr>pe_states = (\<lambda>i. if i = ''switch.bed'' then Some (\<lparr>st_state = StateText ''off'', st_current_position = None\<rparr>, 0)
                    else None),
      pe_registry = (\<lambda>i. if i = ''uuid-b'' \<or> i = ''switch.bed''
                        then Some \<lparr>re_id = ''uuid-b'', re_entity_id = ''switch.bed''\<rparr> else None),
      pe_now = 0, pe_local_day = (\<lambda>_. 0), pe_uuid4 = (\<lambda>n. CHR ''u'' # replicate n CHR ''i'')\<rparr>"

definition replaced_record :: SafetyRecord where
  "replaced_record =
     sample_record\<lparr>sr_active_subentry_id := Some ''z'', sr_runtime_lifecycle := ACTIVE,
       sr_applied_config := Some sample_shadow,
       sr_actuator_identity :=
         \<lparr>ai_registry_entry_id = Some ''uuid-a'', ai_last_known_entity_id = Some ''switch.old'',
          ai_domain = Some ''switch'', ai_identity_status = REGISTRY_CONFIRMED,
          ai_off_service = Some ''switch.turn_off'', ai_confirm_timeout_s = Some 30\<rparr>,
       sr_blocker_reasons := [ACTUATOR_NOT_PROVEN_OFF, EXTERNAL_FLOW],
       sr_possible_flow_owner := Some EXTERNAL, sr_actuator_fault := None,
       sr_acknowledgement_required := False\<rparr>"

definition replaced_data :: StoreData where
  "replaced_data =
     sample_data\<lparr>st_zone_histories := [(''h'', sample_history\<lparr>zh_active_subentry_id := Some ''z''\<rparr>)],
                 st_safety_records := [(''r'', replaced_record)]\<rparr>"

definition replacing_zone :: ImmutableZoneSnapshot where
  "replacing_zone =
     \<lparr>iz_subentry_id = ''z'', iz_config = sample_config,
      iz_sensor_identity = \<lparr>ae_registry_entry_id = None, ae_last_known_entity_id = ''sensor.bed'', ae_domain = ''sensor''\<rparr>,
      iz_actuator_identity =
        \<lparr>ae_registry_entry_id = Some ''uuid-b'', ae_last_known_entity_id = ''switch.bed'', ae_domain = ''switch''\<rparr>,
      iz_config_fingerprint = ''fp2'', iz_current_sensor_entity_id = Some ''sensor.bed'',
      iz_current_actuator_entity_id = Some ''switch.bed'', iz_identity_conflict_detail = None\<rparr>"

definition replacing_snapshot :: ImmutableEntrySnapshot where
  "replacing_snapshot =
     \<lparr>es_observed_generation = 1, es_entry_snapshot_fingerprint = ''e2'', es_zones = [replacing_zone]\<rparr>"

definition replaced_plan :: "plan_state result" where
  "replaced_plan =
     res_bind (actuator_assessments plan_home replacing_snapshot (Some replaced_data)) (\<lambda>as.
       plan_reconciled_store plan_home replaced_data replacing_snapshot as [])"

lemmas replaced_defs = replaced_data_def replaced_record_def sample_store_defs

lemma replaced_ok: "keyed_snapshot replaced_data" "checked_records replaced_data"
  by code_simp+

lemma replaced_fresh: "fresh_ids plan_home replaced_data"
  by (simp add: fresh_ids_def plan_home_def replaced_defs)

definition replaced_assessments :: "(string \<times> ActuatorAssessment) list" where
  "replaced_assessments =
     [(zone_key ''z'', \<lparr>act_available = True, act_proven_off = True, act_observed_on = False\<rparr>)]"

lemma replaced_assessed:
  "actuator_assessments plan_home replacing_snapshot (Some replaced_data) = Inr replaced_assessments"
  by code_simp

text \<open>An acknowledged tombstone whose actuator is configured again.\<close>

definition returning_record :: SafetyRecord where
  "returning_record =
     sample_record\<lparr>sr_actuator_identity := (sr_actuator_identity replaced_record)
         \<lparr>ai_registry_entry_id := Some ''uuid-b'', ai_identity_status := MISSING\<rparr>,
       sr_actuator_fault := None, sr_acknowledgement_required := False,
       sr_removed_actuator_ack :=
         Some \<lparr>rak_acknowledged_at_utc = 0, rak_registry_entry_id = ''uuid-b'', rak_last_known_entity_id = None\<rparr>\<rparr>"

definition returning_state :: plan_state where
  "returning_state =
     \<lparr>pl_records = [(''r'', returning_record)], pl_histories = [(''h'', sample_history)],
      pl_conflicts = [], pl_minted = 0\<rparr>"

section \<open>Properties\<close>

text \<open>(C9) A successful reconciliation transaction writes a consistent snapshot that still holds
  every safety record of the old one, with its lineage, fault, acknowledgements and history
  references; an unconfirmed OFF of the integration stays a blocker and keeps its owner.\<close>

theorem planning_loses_no_record:
  assumes "reconcile_store e snapshot as data = Inr (Some data')" and "keyed_snapshot data"
    and "fresh_ids e data" and "map_of (st_safety_records data) k = Some r"
  shows "validate_store_data data' = Inr () \<and>
    (\<exists>r'. map_of (st_safety_records data') k = Some r' \<and> record_kept r r')"
proof -
  from assms(1) obtain p where p: "plan_reconciled_store e data snapshot as [] = Inr p"
    and data': "commit_plan (data\<lparr>st_safety_records := pl_records p, st_zone_histories := pl_histories p\<rparr>) = Inr (Some data')"
    by (auto simp: reconcile_store_def reconcile_plan_def res_bind_eq_Inr)
  from plan_invariant [OF p assms(2,3)] assms(4)
  obtain r' where "map_of (pl_records p) k = Some r'" "record_kept r r'"
    by (auto simp: plan_inv_def keyed_iff rec_ok_def dom_def)
  then show ?thesis
    using data' by (auto simp: commit_plan_def next_revision_def mk_store_data_def res_bind_eq_Inr)
qed

theorem planning_loses_no_record_witness:
  "\<exists>data' r'. reconcile_store plan_home replacing_snapshot replaced_assessments replaced_data = Inr (Some data') \<and>
     map_of (st_safety_records data') ''r'' = Some r' \<and> record_kept replaced_record r'"
proof -
  have "case reconcile_store plan_home replacing_snapshot replaced_assessments replaced_data of
      Inr (Some _) \<Rightarrow> True | _ \<Rightarrow> False" by code_simp
  then obtain data' where
    d: "reconcile_store plan_home replacing_snapshot replaced_assessments replaced_data = Inr (Some data')"
    by (auto split: sum.splits option.splits)
  have "map_of (st_safety_records replaced_data) ''r'' = Some replaced_record"
    by (simp add: replaced_data_def)
  from planning_loses_no_record [OF d replaced_ok(1) replaced_fresh this] d show ?thesis by blast
qed

lemma replaced_plan_result:
  obtains p where "plan_reconciled_store plan_home replaced_data replacing_snapshot replaced_assessments [] = Inr p"
proof -
  have "is_ok (plan_reconciled_store plan_home replaced_data replacing_snapshot replaced_assessments [])"
    by code_simp
  then show thesis using that by (auto simp: is_ok_def split: sum.splits)
qed

text \<open>(C10) Planning never touches the operation of a zone: an open session stays in its history
  unchanged, no session appears, the enabled switch of every history keeps its position, and the
  history of a new zone starts disabled.\<close>

theorem planning_keeps_operation:
  assumes "plan_reconciled_store e data snapshot as cs = Inr p" and "keyed_snapshot data" and "fresh_ids e data"
  shows "(\<forall>k h. map_of (pl_histories p) k = Some h \<longrightarrow>
      (case map_of (st_zone_histories data) k of
         Some old \<Rightarrow> zr_enabled (zh_zone_runtime h) = zr_enabled (zh_zone_runtime old) \<and>
                     zr_session (zh_zone_runtime h) = zr_session (zh_zone_runtime old)
       | None \<Rightarrow> \<not> zr_enabled (zh_zone_runtime h) \<and> zr_state (zh_zone_runtime h) = DISABLED \<and>
                 zr_session (zh_zone_runtime h) = None)) \<and>
    (\<forall>k old. map_of (st_zone_histories data) k = Some old \<and> zr_session (zh_zone_runtime old) \<noteq> None \<longrightarrow>
      (\<exists>h. map_of (pl_histories p) k = Some h))"
proof -
  note inv = plan_invariant [OF assms]
  from inv have "hist_ok data h \<and> zh_zone_history_id h = k" if "map_of (pl_histories p) k = Some h" for k h
    using that by (rule inv_history)
  with inv show ?thesis by (fastforce simp: hist_ok_def Let_def plan_inv_def dom_def)
qed

theorem planning_keeps_operation_witness:
  "\<exists>p. plan_reconciled_store plan_home replaced_data replacing_snapshot replaced_assessments [] = Inr p \<and>
     (\<forall>h. map_of (pl_histories p) ''h'' = Some h \<longrightarrow>
        zr_enabled (zh_zone_runtime h) \<and> zr_session (zh_zone_runtime h) = None)"
proof -
  obtain p where p: "plan_reconciled_store plan_home replaced_data replacing_snapshot replaced_assessments [] = Inr p"
    by (rule replaced_plan_result)
  have old: "map_of (st_zone_histories replaced_data) ''h'' = Some (sample_history\<lparr>zh_active_subentry_id := Some ''z''\<rparr>)"
    by (simp add: replaced_data_def)
  have "zr_enabled (zh_zone_runtime h) \<and> zr_session (zh_zone_runtime h) = None"
    if "map_of (pl_histories p) ''h'' = Some h" for h
    using spec [OF spec [OF conjunct1 [OF planning_keeps_operation [OF p replaced_ok(1) replaced_fresh]],
        of "''h''"], of h] that old by (simp add: sample_history_def)
  with p show ?thesis by blast
qed

text \<open>(C11) A tombstone of the plan gives up a blocker only under OFF evidence for its own durable
  identity, which is an assessment of that record's actuator or an operator acknowledgement that
  covers it; it is retired only under the same evidence and without a possible flow owner.\<close>

theorem tombstones_need_own_off_evidence:
  assumes "plan_reconciled_store e data snapshot as cs = Inr p" and "keyed_snapshot data"
    and "checked_records data" and "map_of (pl_records p) k = Some r" and "sr_runtime_lifecycle r \<noteq> ACTIVE"
  shows "(\<forall>old b. map_of (st_safety_records data) k = Some old \<and> b \<in> set (sr_blocker_reasons old) \<and>
            b \<notin> set (sr_blocker_reasons r) \<longrightarrow> off_proof (map_of as (record_key k)) r) \<and>
    (sr_runtime_lifecycle r = RETIRED \<longrightarrow>
       off_proof (map_of as (record_key k)) r \<and> sr_possible_flow_owner r = None \<and>
       set (sr_blocker_reasons r) \<subseteq> {ACTUATOR_NOT_PROVEN_OFF} \<and>
       (sr_blocker_reasons r \<noteq> [] \<longrightarrow> sr_identity_incident r \<noteq> None))"
proof -
  from plan_tombstones [OF assms(1-3)] have "tombstone_ok as data (sr_safety_record_id r) r \<and> sr_safety_record_id r = k"
    unfolding tomb.all_Q_def using assms(4) by (rule keyed_lookup)
  then have "tombstone_ok as data k r" by auto
  with assms(5) show ?thesis by (simp add: tombstone_ok_def)
qed

definition emptied_snapshot :: ImmutableEntrySnapshot where
  "emptied_snapshot = replacing_snapshot\<lparr>es_zones := []\<rparr>"

theorem tombstones_need_own_off_evidence_witness:
  "\<exists>p r. plan_reconciled_store plan_home replaced_data emptied_snapshot
       [(record_key ''r'', \<lparr>act_available = True, act_proven_off = True, act_observed_on = False\<rparr>)] [] = Inr p \<and>
     map_of (pl_records p) ''r'' = Some r \<and> sr_runtime_lifecycle r = RETIRED \<and> sr_blocker_reasons r = [] \<and>
     off_proof (Some \<lparr>act_available = True, act_proven_off = True, act_observed_on = False\<rparr>) r"
proof -
  let ?as = "[(record_key ''r'', \<lparr>act_available = True, act_proven_off = True, act_observed_on = False\<rparr>)]"
  have "case plan_reconciled_store plan_home replaced_data emptied_snapshot ?as [] of
      Inl _ \<Rightarrow> False
    | Inr p \<Rightarrow> (case map_of (pl_records p) ''r'' of None \<Rightarrow> False
        | Some r \<Rightarrow> sr_runtime_lifecycle r = RETIRED \<and> sr_blocker_reasons r = [])" by code_simp
  then obtain p r where p: "plan_reconciled_store plan_home replaced_data emptied_snapshot ?as [] = Inr p"
    and r: "map_of (pl_records p) ''r'' = Some r" "sr_runtime_lifecycle r = RETIRED" "sr_blocker_reasons r = []"
    by (auto split: sum.splits option.splits)
  from tombstones_need_own_off_evidence [OF p replaced_ok r(1)] r(2)
  have "off_proof (Some \<lparr>act_available = True, act_proven_off = True, act_observed_on = False\<rparr>) r"
    by simp
  with p r show ?thesis by blast
qed


text \<open>(C33) A record that carries an operator acknowledgement for its removed actuator can never be
  activated again: when a zone selects its actuator, planning raises.\<close>

theorem acknowledged_record_cannot_return:
  assumes "exact_records z p = [r]" and "textual_conflicts z p = []" and "iz_identity_conflict_detail z = None"
    and "map_of owners (iz_subentry_id z) = None" and "sr_removed_actuator_ack r \<noteq> None"
    and "map_of (pl_histories p) (sr_zone_history_id r) = Some h" and "zr_session (zh_zone_runtime h) = None"
  shows "\<exists>err. plan_zone e snapshot as owners z p = Inl err"
proof (cases "plan_zone e snapshot as owners z p")
  case (Inr p')
  let ?k = "sr_zone_history_id r"
  have "select_record e snapshot None z p = Inr (p, Some (r, False))"
    using assms(1,2) by (simp add: select_record_def prior_same_def)
  moreover have "adopt_history ?k r p = Inr (p, Some r)" by (simp add: adopt_history_def)
  ultimately have assign: "assign_zone e snapshot as None (exact_records z p) False z ?k r p = Inr p'"
    using Inr assms(3,4) by (simp add: plan_zone_def)
  have "False"
    using assign assms(5-7)
    by (auto simp: assign_zone_def activate_record_def dict_item_def Let_def res_bind_eq_Inr mk_safety_record_def
        split: if_splits)
  then show ?thesis ..
qed simp

theorem acknowledged_record_cannot_return_witness:
  "\<exists>err. plan_zone plan_home replacing_snapshot replaced_assessments [] replacing_zone returning_state = Inl err"
proof (rule acknowledged_record_cannot_return [of _ _ returning_record _ sample_history])
  show "exact_records replacing_zone returning_state = [returning_record]"
    "textual_conflicts replacing_zone returning_state = []"
    "map_of (pl_histories returning_state) (sr_zone_history_id returning_record) = Some sample_history"
    by code_simp+
qed (simp_all add: replacing_zone_def returning_record_def sample_history_def)

end
