(* ===== verification/Controller_Identity.thy ===== *)
theory Controller_Identity
  imports Store_Planning
begin

text \<open>
  The identity of a zone controller (\<open>zone_controller.py\<close>, with \<open>config_fingerprint\<close> of
  \<open>models.py\<close>): its construction from the verified store, the listeners of the moisture adapter,
  and how it follows a rename in the entity registry.  The registry and the states of entities are
  those of \<open>plan_env\<close>; a listener of Home Assistant is the pair of what it listens for and the
  entity.  Logging, the wake event and the callbacks to entities are left out.
\<close>

section \<open>Configuration fingerprint\<close>

text \<open>\<open>digest\<close> stands for SHA-256 of the canonical JSON text of the payload.\<close>

record ConfigPayload =
  cp_version :: int
  cp_config :: ZoneConfig
  cp_ha_timezone :: string

definition config_fingerprint :: "(ConfigPayload \<Rightarrow> string) \<Rightarrow> ZoneConfig \<Rightarrow> string \<Rightarrow> string" where
  "config_fingerprint digest config ha_timezone =
     digest \<lparr>cp_version = 1, cp_config = config, cp_ha_timezone = ha_timezone\<rparr>"

section \<open>The moisture adapter\<close>

datatype listener = StateChange string | StateReport string | RegistryUpdate string

record MoistureAdapter =
  ma_entity_id :: string
  ma_sensor_max_age_s :: int
  ma_unsubscribers :: "listener list"

definition new_moisture_adapter :: "string \<Rightarrow> int \<Rightarrow> MoistureAdapter" where
  "new_moisture_adapter entity_id sensor_max_age_s =
     \<lparr>ma_entity_id = entity_id, ma_sensor_max_age_s = sensor_max_age_s, ma_unsubscribers = []\<rparr>"

definition started :: "MoistureAdapter \<Rightarrow> bool" where
  "started a \<longleftrightarrow> ma_unsubscribers a \<noteq> []"

definition adapter_start :: "MoistureAdapter \<Rightarrow> MoistureAdapter" where
  "adapter_start a =
     (if started a then a
      else a\<lparr>ma_unsubscribers :=
             [StateChange (ma_entity_id a), StateReport (ma_entity_id a), RegistryUpdate (ma_entity_id a)]\<rparr>)"

definition adapter_stop :: "MoistureAdapter \<Rightarrow> MoistureAdapter" where
  "adapter_stop a = a\<lparr>ma_unsubscribers := []\<rparr>"

text \<open>The active listeners of the home are those of the adapter and the ones still to be removed.  The
  result lists the active listeners after each change.\<close>

definition adapter_rebind :: "string \<Rightarrow> MoistureAdapter \<Rightarrow> MoistureAdapter \<times> listener list list" where
  "adapter_rebind entity_id a =
     (if entity_id = ma_entity_id a then (a, [ma_unsubscribers a])
      else
        let previous = ma_unsubscribers a;
            a1 = a\<lparr>ma_entity_id := entity_id, ma_unsubscribers := []\<rparr>
        in if previous = [] then (a1, [previous])
           else let a2 = adapter_start a1
                in (a2, previous # map (\<lambda>n. ma_unsubscribers a2 @ drop n previous) [0..<Suc (length previous)]))"

definition scan_current :: "plan_env \<Rightarrow> MoistureAdapter \<Rightarrow> MoistureObservation" where
  "scan_current e a =
     (let st = pe_states e (ma_entity_id a)
      in classify_moisture (map_option fst st) (map_option snd st) (pe_now e) (ma_sensor_max_age_s a))"

text \<open>The state-change and the state-report listener: the instant is the report time of the new
  state, or the one of the report event.\<close>

definition handle_state_change :: "utc \<Rightarrow> (HaState \<times> utc) option \<Rightarrow> MoistureAdapter \<Rightarrow> MoistureObservation" where
  "handle_state_change now new_state a =
     classify_moisture (map_option fst new_state) (map_option snd new_state) now (ma_sensor_max_age_s a)"

definition handle_state_report :: "utc \<Rightarrow> HaState option \<Rightarrow> utc \<Rightarrow> MoistureAdapter \<Rightarrow> MoistureObservation" where
  "handle_state_report now new_state last_reported a =
     classify_moisture new_state (Some last_reported) now (ma_sensor_max_age_s a)"

text \<open>An event of the entity registry: a removal, or an update with the old identifier where it was
  renamed.\<close>

datatype registry_event = Removed | Updated "string option" string | OtherAction

datatype adapter_call = NoCall | CallRemoved | CallRenamed string

definition handle_registry_update :: "bool \<Rightarrow> registry_event \<Rightarrow> MoistureAdapter \<Rightarrow> adapter_call" where
  "handle_registry_update has_on_renamed event a =
     (case event of
        Removed \<Rightarrow> CallRemoved
      | Updated (Some old_entity_id) new_entity_id \<Rightarrow>
          if new_entity_id = ma_entity_id a \<or> \<not> has_on_renamed then NoCall
          else CallRenamed new_entity_id
      | _ \<Rightarrow> NoCall)"

section \<open>Commands of the actuator\<close>

definition on_service :: "string \<Rightarrow> string" where
  "on_service entity_id = (if adapter_domain entity_id = ''valve'' then ''open_valve'' else ''turn_on'')"

definition off_service :: "string \<Rightarrow> string" where
  "off_service entity_id = (if adapter_domain entity_id = ''valve'' then ''close_valve'' else ''turn_off'')"

section \<open>Construction\<close>

definition mk_zone_controller ::
  "(ConfigPayload \<Rightarrow> string) \<Rightarrow> string \<Rightarrow> utc \<Rightarrow> string \<Rightarrow> ZoneConfig \<Rightarrow> SafetyStore \<Rightarrow> string \<Rightarrow> tzinfo \<Rightarrow>
   string option \<Rightarrow> ZoneController result" where
  "mk_zone_controller digest tz_name now zone_id config store run_id tz safety_record_id =
     (let record_id = or_else safety_record_id zone_id
      in if record_id = [] then Inl (ValueError ''safety_record_id must be non-empty'')
         else (case ss_data store of
                 None \<Rightarrow> Inl (ValueError ''ZoneController requires a verified canonical safety record'')
               | Some data \<Rightarrow>
                   (case map_of (st_safety_records data) record_id of
                      None \<Rightarrow> Inl (ValueError ''ZoneController requires a verified canonical safety record'')
                    | Some canonical \<Rightarrow>
                        res_bind (mk_daily (tz_local_day tz now) 0) (\<lambda>daily.
                        res_bind (mk_assessment False False False) (\<lambda>assessment.
                        Inr \<lparr>ctl_zone_id = zone_id, ctl_safety_record_id = record_id,
                             ctl_zone_history_id = sr_zone_history_id canonical,
                             ctl_runtime_lifecycle = sr_runtime_lifecycle canonical,
                             ctl_applied_config = sr_applied_config canonical,
                             ctl_runtime_eligible = (sr_runtime_lifecycle canonical = ACTIVE),
                             ctl_config = config, ctl_run_id = run_id, ctl_tz = tz,
                             ctl_fingerprint = config_fingerprint digest config tz_name,
                             ctl_state = DISABLED, ctl_enabled = False, ctl_session = None,
                             ctl_active_fault = None, ctl_secondary_fault = None,
                             ctl_last_session_end = None, ctl_last_auto_session_start = None,
                             ctl_last_summary = None, ctl_daily = daily,
                             ctl_observation = mk_observation None UNAVAILABLE None None,
                             ctl_external_on = False, ctl_armed_watchdog = None,
                             ctl_plausibility = mk_plausibility None None None,
                             ctl_session_peak = None, ctl_unresponsive_sessions = 0,
                             ctl_last_session_peak_rise = None, ctl_assessment = assessment,
                             ctl_timers = (\<lambda>_. None), ctl_watchdog_handle = None,
                             ctl_session_task = False, ctl_slot_task = False,
                             ctl_on_requested = False, ctl_off_requested = False,
                             ctl_off_operation = None, ctl_off_proven = False,
                             ctl_off_proven_at = None, ctl_pending_manual = None,
                             ctl_persist_failed = False, ctl_quiescing = False,
                             ctl_detaching = False, ctl_inflight_on = None, ctl_evaluations = 0\<rparr>)))))"

text \<open>\<open>async_detach\<close> up to the first await.\<close>

definition begin_detach :: "ZoneController \<Rightarrow> ZoneController" where
  "begin_detach c =
     (cancel_all_timers (c\<lparr>ctl_detaching := True, ctl_quiescing := True, ctl_runtime_eligible := False\<rparr>))
       \<lparr>ctl_slot_task := False\<rparr>"

section \<open>Renames\<close>

definition durable_registry_entry_id :: "SafetyStore \<Rightarrow> ZoneController \<Rightarrow> bool \<Rightarrow> string option" where
  "durable_registry_entry_id store c actuator =
     (case ss_data store of
        None \<Rightarrow> None
      | Some data \<Rightarrow>
          (case map_of (st_safety_records data) (ctl_safety_record_id c) of
             None \<Rightarrow> None
           | Some r \<Rightarrow>
               if actuator then ai_registry_entry_id (sr_actuator_identity r)
               else (case map_of (st_zone_histories data) (sr_zone_history_id r) of
                       None \<Rightarrow> None
                     | Some h \<Rightarrow> si_registry_entry_id (zr_sensor_identity (zh_zone_runtime h)))))"

definition verified_rename_target ::
  "plan_env \<Rightarrow> SafetyStore \<Rightarrow> ZoneController \<Rightarrow> string \<Rightarrow> string \<Rightarrow> bool \<Rightarrow> bool" where
  "verified_rename_target e store c new_entity_id current actuator =
     (case durable_registry_entry_id store c actuator of
        None \<Rightarrow> False
      | Some durable \<Rightarrow>
          (case pe_registry e new_entity_id of
             None \<Rightarrow> False
           | Some entry \<Rightarrow>
               if re_id entry \<noteq> durable then False
               else adapter_domain (re_entity_id entry) = adapter_domain current))"

definition on_actuator_registry_update ::
  "(ConfigPayload \<Rightarrow> string) \<Rightarrow> string \<Rightarrow> plan_env \<Rightarrow> SafetyStore \<Rightarrow> registry_event \<Rightarrow> ZoneController \<Rightarrow>
   (ZoneController \<times> (string \<times> string) option) result" where
  "on_actuator_registry_update digest tz_name e store event c =
     (case event of
        Updated (Some old_entity_id) new_entity_id \<Rightarrow>
          (let current = cfg_actuator (ctl_config c)
           in if new_entity_id = current \<or>
                 \<not> verified_rename_target e store c new_entity_id current True
              then Inr (c, None)
              else
                let config = (ctl_config c)\<lparr>cfg_actuator := new_entity_id\<rparr>;
                    c1 = c\<lparr>ctl_config := config, ctl_fingerprint := config_fingerprint digest config tz_name\<rparr>
                in (case pe_states e new_entity_id of
                      None \<Rightarrow> Inr (c1, Some (current, new_entity_id))
                    | Some st \<Rightarrow>
                        res_bind (assess new_entity_id (Some (fst st))) (\<lambda>a.
                          Inr (c1\<lparr>ctl_assessment := a\<rparr>, Some (current, new_entity_id)))))
      | _ \<Rightarrow> Inr (c, None))"

definition on_sensor_renamed ::
  "(ConfigPayload \<Rightarrow> string) \<Rightarrow> string \<Rightarrow> plan_env \<Rightarrow> SafetyStore \<Rightarrow> string \<Rightarrow> ZoneController \<Rightarrow> MoistureAdapter \<Rightarrow>
   ZoneController \<times> MoistureAdapter \<times> (string \<times> string) option" where
  "on_sensor_renamed digest tz_name e store new_entity_id c a =
     (let current = cfg_moisture_sensor (ctl_config c)
      in if new_entity_id = current \<or>
            \<not> verified_rename_target e store c new_entity_id current False
         then (c, a, None)
         else
           let config = (ctl_config c)\<lparr>cfg_moisture_sensor := new_entity_id\<rparr>
           in (c\<lparr>ctl_config := config, ctl_fingerprint := config_fingerprint digest config tz_name\<rparr>,
               fst (adapter_rebind new_entity_id a), Some (current, new_entity_id)))"

end
