(* ===== verification/Entry_Lifecycle.thy ===== *)
theory Entry_Lifecycle
  imports Controller_Identity On_Authority
begin

text \<open>
  The lifecycle half of \<open>EntryRuntime\<close> (\<open>runtime.py\<close>): the controllers of an entry beside the
  store and the slot manager they share, the recovery of persisted sessions at startup, the
  publication of controllers for a reconciled snapshot, the refresh of tombstones, and the
  operator's acknowledgements.

  Controllers are objects with identity, so the runtime holds them in a heap and refers to them by
  number; \<open>on_world\<close> runs an operation of one controller on the shared components.  Home Assistant
  is \<open>plan_env\<close>.  Where an operation awaits, the outcome of its store write is an argument.
  Logging, emitted payloads and Repairs are left out.
\<close>

section \<open>The runtime\<close>

record Runtime =
  rt_en :: EntryRuntime
  rt_heap :: "nat \<Rightarrow> ZoneController"
  rt_next_ref :: nat
  rt_retained :: "(string \<times> nat) list"
  rt_slots :: SlotManager
  rt_store :: SafetyStore
  rt_emitted :: "Emission list"
  rt_run_id :: string
  rt_previous_run :: "RunIds option"
  rt_soaking_adoptions :: "(string \<times> bool) list"

datatype entry_error =
    ConfigEntryNotReady string
  | ReconciliationError string
  | AcknowledgementError string
  | Plain py_error

type_synonym 's entry_outcome = "'s \<times> entry_error option"

definition plain :: "'s outcome \<Rightarrow> 's entry_outcome" where
  "plain r = (fst r, map_option Plain (snd r))"

definition and_also :: "'s entry_outcome \<Rightarrow> ('s \<Rightarrow> 's entry_outcome) \<Rightarrow> 's entry_outcome" where
  "and_also r f = (case r of (s, Some e) \<Rightarrow> (s, Some e) | (s, None) \<Rightarrow> f s)"

text \<open>Each current or retained controller once, in the order of first occurrence.\<close>

definition all_controllers :: "Runtime \<Rightarrow> nat list" where
  "all_controllers rt = rev (remdups (rev (map snd (en_controllers (rt_en rt)) @ map snd (rt_retained rt))))"

definition controller_for_safety_record :: "string \<Rightarrow> Runtime \<Rightarrow> nat option" where
  "controller_for_safety_record record_id rt =
     find (\<lambda>ref. ctl_safety_record_id (rt_heap rt ref) = record_id) (all_controllers rt)"

definition world_of :: "nat \<Rightarrow> Runtime \<Rightarrow> World" where
  "world_of ref rt =
     \<lparr>w_ctl = rt_heap rt ref, w_slots = rt_slots rt, w_store = rt_store rt, w_emitted = rt_emitted rt\<rparr>"

definition with_world :: "nat \<Rightarrow> World \<Rightarrow> Runtime \<Rightarrow> Runtime" where
  "with_world ref w rt =
     rt\<lparr>rt_heap := (rt_heap rt)(ref := w_ctl w), rt_slots := w_slots w, rt_store := w_store w,
        rt_emitted := w_emitted w\<rparr>"

definition on_world :: "nat \<Rightarrow> (World \<Rightarrow> World outcome) \<Rightarrow> Runtime \<Rightarrow> Runtime outcome" where
  "on_world ref f rt = (case f (world_of ref rt) of (w, err) \<Rightarrow> (with_world ref w rt, err))"

definition on_controller :: "nat \<Rightarrow> (ZoneController \<Rightarrow> ZoneController) \<Rightarrow> Runtime \<Rightarrow> Runtime" where
  "on_controller ref f rt = rt\<lparr>rt_heap := (rt_heap rt)(ref := f (rt_heap rt ref))\<rparr>"

text \<open>\<open>async_dispatch\<close> of one controller.\<close>

definition dispatch ::
  "(nat \<Rightarrow> step_env) \<Rightarrow> string \<Rightarrow> utc \<Rightarrow> nat \<Rightarrow> ControllerEvent \<Rightarrow> Runtime \<Rightarrow> Runtime outcome" where
  "dispatch env session_uuid now ref event = on_world ref (decide_and_apply env session_uuid now event)"

definition runtime_transact ::
  "store_io \<Rightarrow> (StoreData \<Rightarrow> StoreData option result) \<Rightarrow> Runtime \<Rightarrow> Runtime outcome" where
  "runtime_transact io plan rt =
     (case transact io plan (rt_store rt) of (s, err) \<Rightarrow> (rt\<lparr>rt_store := s\<rparr>, err))"

section \<open>Construction of a controller\<close>

record entry_params =
  ep_digest :: "ConfigPayload \<Rightarrow> string"
  ep_tz_name :: string

definition create_controller ::
  "entry_params \<Rightarrow> plan_env \<Rightarrow> ImmutableZoneSnapshot \<Rightarrow> SafetyRecord \<Rightarrow> Runtime \<Rightarrow>
   entry_error + ZoneController" where
  "create_controller ep e z record1 rt =
     (case store_data (rt_store rt) of
        Inl err \<Rightarrow> Inl (Plain err)
      | Inr data \<Rightarrow>
          if sr_runtime_lifecycle record1 \<noteq> ACTIVE \<or> sr_active_subentry_id record1 \<noteq> Some (iz_subentry_id z) \<or>
             sr_applied_config record1 = None \<or>
             map_of (st_zone_histories data) (sr_zone_history_id record1) = None
          then Inl (ReconciliationError
                 (''zone '' @ iz_subentry_id z @ '' lacks verified ACTIVE canonical ownership''))
          else map_sum Plain id
                 (mk_zone_controller (ep_digest ep) (ep_tz_name ep) (pe_now e) (iz_subentry_id z)
                    (current_config z) (rt_store rt) (rt_run_id rt) (en_local_tz (rt_en rt))
                    (Some (sr_safety_record_id record1))))"

definition config_from_shadow :: "AppliedConfigurationShadow \<Rightarrow> ZoneConfig" where
  "config_from_shadow shadow =
     settings_to_config (sh_normalized_settings shadow)
       (ae_last_known_entity_id (sh_sensor_identity shadow))
       (ae_last_known_entity_id (sh_actuator_identity shadow))"

text \<open>\<open>None\<close> is the failed assertion that the record has an applied configuration.\<close>

definition config_from_record :: "StoreData \<Rightarrow> SafetyRecord \<Rightarrow> ZoneConfig option" where
  "config_from_record data record1 =
     map_option (\<lambda>shadow.
       let reference = ae_last_known_entity_id (sh_sensor_identity shadow);
           sensor_entity_id =
             (case map_of (st_zone_histories data) (sr_zone_history_id record1) of
                None \<Rightarrow> reference
              | Some h \<Rightarrow> or_else (si_last_known_entity_id (zr_sensor_identity (zh_zone_runtime h))) reference)
       in (config_from_shadow shadow)
            \<lparr>cfg_moisture_sensor := sensor_entity_id,
             cfg_actuator := or_else (ai_last_known_entity_id (sr_actuator_identity record1))
                               (ae_last_known_entity_id (sh_actuator_identity shadow))\<rparr>)
       (sr_applied_config record1)"

section \<open>Recovery of a persisted session\<close>

record startup_env =
  su_home :: plan_env
  su_clear_io :: store_io
  su_rebase_io :: store_io
  su_dispatch :: "nat \<Rightarrow> step_env"
  su_grace :: "nat \<Rightarrow> step_env"
  su_uuid :: string
  su_later :: utc

definition attach :: "plan_env \<Rightarrow> nat \<Rightarrow> Runtime \<Rightarrow> Runtime outcome" where
  "attach e ref rt =
     (let config = ctl_config (rt_heap rt ref);
          sensor = new_moisture_adapter (cfg_moisture_sensor config) (cfg_sensor_max_age_s config)
      in case adapter_current e (cfg_actuator config) of
           Inl err \<Rightarrow> (rt, Some err)
         | Inr assessment \<Rightarrow> on_world ref (async_attach assessment (scan_current e sensor)) rt)"

definition session_structure_valid :: "SessionContext \<Rightarrow> bool" where
  "session_structure_valid s \<longleftrightarrow>
     ses_mode s = AUTO \<and>
     (case (ses_soak_ends_at_utc s, ses_recheck_not_before_utc s, ses_recheck_grace_deadline_at_utc s) of
        (Some soak, Some recheck, Some grace) \<Rightarrow>
          recheck = soak \<and> soak \<le> grace \<and>
          (case ses_off_confirmed_at_utc s of None \<Rightarrow> False | Some off \<Rightarrow> off \<le> soak)
      | _ \<Rightarrow> False)"

definition clear_configuration_fault ::
  "string \<Rightarrow> StoreData \<Rightarrow> ((string \<times> SafetyRecord) list \<times> (string \<times> ZoneHistory) list) result" where
  "clear_configuration_fault record_id data =
     res_bind (dict_item (st_safety_records data) record_id) (\<lambda>r.
     res_bind (dict_item (st_zone_histories data) (sr_zone_history_id r)) (\<lambda>h.
       let zr = zh_zone_runtime h
       in if zr_zone_fault zr \<noteq> Some CONFIGURATION_INVALID
          then Inr (st_safety_records data, st_zone_histories data)
          else res_bind (mk_zone_runtime
                 (zr\<lparr>zr_state := (if zr_enabled zr then IDLE else DISABLED), zr_zone_fault := None\<rparr>)) (\<lambda>zr'.
               res_bind (mk_zone_history (h\<lparr>zh_zone_runtime := zr'\<rparr>)) (\<lambda>h'.
                 Inr (st_safety_records data,
                      AList.update (zh_zone_history_id h) h' (st_zone_histories data))))))"

definition maybe_clear_configuration_fault ::
  "startup_env \<Rightarrow> nat \<Rightarrow> SafetyRecord \<Rightarrow> Runtime \<Rightarrow> Runtime outcome" where
  "maybe_clear_configuration_fault su ref record1 rt =
     (case res_bind (store_data (rt_store rt)) (\<lambda>data.
             dict_item (st_zone_histories data) (sr_zone_history_id record1)) of
        Inl err \<Rightarrow> (rt, Some err)
      | Inr history \<Rightarrow>
          let config = ctl_config (rt_heap rt ref)
          in if zr_zone_fault (zh_zone_runtime history) \<noteq> Some CONFIGURATION_INVALID then (rt, None)
             else if pe_states (su_home su) (cfg_moisture_sensor config) = None \<or>
                     pe_states (su_home su) (cfg_actuator config) = None
             then (rt, None)
             else runtime_transact (su_clear_io su)
                    (reconcile_plan (clear_configuration_fault (sr_safety_record_id record1))) rt)"

definition soak_trusted ::
  "entry_params \<Rightarrow> RunIds \<Rightarrow> SessionContext \<Rightarrow> ActuatorAssessment \<Rightarrow> ZoneController \<Rightarrow> bool" where
  "soak_trusted ep previous s assessment c \<longleftrightarrow>
     previous_run_was_clean previous \<and> Some (ses_owner_run_id s) = run_active_run_id previous \<and>
     session_structure_valid s \<and>
     ses_config_fingerprint s = config_fingerprint (ep_digest ep) (ctl_config c) (ep_tz_name ep) \<and>
     act_available assessment \<and> act_proven_off assessment"

definition set_adoption :: "string \<Rightarrow> bool \<Rightarrow> Runtime \<Rightarrow> Runtime" where
  "set_adoption zone_id b rt = rt\<lparr>rt_soaking_adoptions := AList.update zone_id b (rt_soaking_adoptions rt)\<rparr>"

definition deadlines_passed :: "utc \<Rightarrow> SessionContext option \<Rightarrow> bool" where
  "deadlines_passed now session \<longleftrightarrow>
     (case session of
        None \<Rightarrow> False
      | Some s \<Rightarrow>
          (case (ses_soak_ends_at_utc s, ses_recheck_grace_deadline_at_utc s) of
             (Some soak, Some grace) \<Rightarrow> soak \<le> now \<and> grace \<le> now
           | _ \<Rightarrow> False))"

text \<open>The rest of a trusted adoption: attach, resume, and the check of the current reading when both
  deadlines passed offline.\<close>

definition resume_soaking :: "startup_env \<Rightarrow> nat \<Rightarrow> Runtime \<Rightarrow> Runtime entry_outcome" where
  "resume_soaking su ref rt =
     and_also (plain (attach (su_home su) ref rt)) (\<lambda>rt1.
     and_also (plain (dispatch (su_dispatch su) (su_uuid su) (pe_now (su_home su)) ref
                (StartupPersistedSoaking True (Some (rt_run_id rt1)) None) rt1)) (\<lambda>rt2.
       let rt3 = set_adoption (ctl_zone_id (rt_heap rt2 ref)) True rt2;
           c = rt_heap rt3 ref;
           sensor = new_moisture_adapter (cfg_moisture_sensor (ctl_config c)) (cfg_sensor_max_age_s (ctl_config c))
       in if deadlines_passed (su_later su) (ctl_session c)
          then plain (dispatch (su_grace su) (su_uuid su) (su_later su) ref GraceDeadlineReached
                 (on_controller ref (\<lambda>c. c\<lparr>ctl_observation := scan_current (su_home su) sensor\<rparr>) rt3))
          else (rt3, None)))"

definition reject_soaking :: "startup_env \<Rightarrow> nat \<Rightarrow> Runtime \<Rightarrow> Runtime entry_outcome" where
  "reject_soaking su ref rt =
     and_also (plain (attach (su_home su) ref rt)) (\<lambda>rt1.
     and_also (plain (dispatch (su_dispatch su) (su_uuid su) (pe_now (su_home su)) ref
                (StartupPersistedSoaking False None None) rt1)) (\<lambda>rt2.
       (set_adoption (ctl_zone_id (rt_heap rt2 ref)) False rt2, None)))"

definition reconcile_soaking ::
  "entry_params \<Rightarrow> startup_env \<Rightarrow> nat \<Rightarrow> SessionContext \<Rightarrow> ActuatorAssessment \<Rightarrow> Runtime \<Rightarrow>
   Runtime entry_outcome" where
  "reconcile_soaking ep su ref s assessment rt =
     (case rt_previous_run rt of
        None \<Rightarrow> (rt, Some (Plain AssertionError))
      | Some previous \<Rightarrow>
          if soak_trusted ep previous s assessment (rt_heap rt ref)
          then (case runtime_transact (su_rebase_io su)
                       (rebase_soaking_owner_plan (ctl_safety_record_id (rt_heap rt ref)) (rt_run_id rt)) rt of
                  (rt1, Some (StoreWriteVerificationError m)) \<Rightarrow>
                    (rt1, Some (ConfigEntryNotReady ''soaking owner rebase failed''))
                | (rt1, Some err) \<Rightarrow> (rt1, Some (Plain err))
                | (rt1, None) \<Rightarrow> resume_soaking su ref rt1)
          else reject_soaking su ref rt)"

definition actuator_finding :: "ActuatorAssessment \<Rightarrow> ActuatorFinding" where
  "actuator_finding a =
     (if act_observed_on a then FOUND_ON
      else if act_proven_off a then FOUND_OFF else FOUND_UNPROVEN)"

definition reconcile_zone ::
  "entry_params \<Rightarrow> startup_env \<Rightarrow> nat \<Rightarrow> SafetyRecord \<Rightarrow> ActuatorAssessment \<Rightarrow> Runtime \<Rightarrow>
   Runtime entry_outcome" where
  "reconcile_zone ep su ref record1 assessment rt =
     and_also (plain (maybe_clear_configuration_fault su ref record1 rt)) (\<lambda>rt1.
       case res_bind (store_data (rt_store rt1)) (\<lambda>data.
              res_bind (dict_item (st_safety_records data) (sr_safety_record_id record1)) (\<lambda>r.
                dict_item (st_zone_histories data) (sr_zone_history_id r))) of
         Inl err \<Rightarrow> (rt1, Some (Plain err))
       | Inr history \<Rightarrow>
           (case (zr_state (zh_zone_runtime history), zr_session (zh_zone_runtime history)) of
              (WATERING, Some _) \<Rightarrow>
                and_also (plain (attach (su_home su) ref rt1)) (\<lambda>rt2.
                  plain (dispatch (su_dispatch su) (su_uuid su) (pe_now (su_home su)) ref
                    (StartupPersistedWatering (actuator_finding assessment)) rt2))
            | (SOAKING, Some p) \<Rightarrow> reconcile_soaking ep su ref (ps_context p) assessment rt1
            | _ \<Rightarrow> plain (attach (su_home su) ref rt1)))"

section \<open>Publication of controllers\<close>

text \<open>\<open>async_detach\<close>: the synchronous part, then what ending its tasks does to the runtime.\<close>

definition detach :: "(Runtime \<Rightarrow> Runtime) \<Rightarrow> nat \<Rightarrow> Runtime \<Rightarrow> Runtime" where
  "detach tasks_end ref rt =
     on_controller ref (\<lambda>c. c\<lparr>ctl_session_task := False\<rparr>) (tasks_end (on_controller ref begin_detach rt))"

definition set_bindings :: "(string \<times> RuntimeControllerBinding) list \<Rightarrow> Runtime \<Rightarrow> Runtime" where
  "set_bindings bs rt = rt\<lparr>rt_en := (rt_en rt)\<lparr>en_bindings := bs\<rparr>\<rparr>"

definition set_controllers :: "(string \<times> nat) list \<Rightarrow> Runtime \<Rightarrow> Runtime" where
  "set_controllers cs rt = rt\<lparr>rt_en := (rt_en rt)\<lparr>en_controllers := cs\<rparr>\<rparr>"

definition publish_ownership :: "nat \<Rightarrow> SafetyRecord \<Rightarrow> Runtime \<Rightarrow> Runtime" where
  "publish_ownership ref r =
     on_controller ref (update_runtime_ownership (sr_zone_history_id r) (sr_runtime_lifecycle r) (sr_applied_config r))"

definition keeps_binding :: "ImmutableZoneSnapshot option \<Rightarrow> SafetyRecord option \<Rightarrow> string \<Rightarrow> bool" where
  "keeps_binding desired record1 subentry_id \<longleftrightarrow>
     (case (desired, record1) of
        (Some z, Some r) \<Rightarrow>
          sr_runtime_lifecycle r = ACTIVE \<and> sr_active_subentry_id r = Some subentry_id \<and>
          (case sr_applied_config r of
             None \<Rightarrow> False
           | Some shadow \<Rightarrow> sh_config_fingerprint shadow = iz_config_fingerprint z)
      | _ \<Rightarrow> False)"

text \<open>One existing binding; the flag is \<open>is_current()\<close>, which ends the loop where it fails.  The
  result says whether the loop goes on.\<close>

definition sync_binding ::
  "bool \<Rightarrow> (Runtime \<Rightarrow> Runtime) \<Rightarrow> (string \<times> ImmutableZoneSnapshot) list \<Rightarrow> StoreData \<Rightarrow>
   string \<times> RuntimeControllerBinding \<Rightarrow> Runtime \<Rightarrow> Runtime \<times> bool" where
  "sync_binding current tasks_end zones data item rt =
     (case item of (subentry_id, binding) \<Rightarrow>
        let desired = map_of zones subentry_id;
            record1 = map_of (st_safety_records data) (bd_safety_record_id binding);
            ref = bd_controller binding
        in if keeps_binding desired record1 subentry_id
           then (let r = the record1
                 in (publish_ownership ref r
                       (set_bindings (AList.update subentry_id
                          (binding\<lparr>bd_lifecycle := ACTIVE, bd_applied_shadow := the (sr_applied_config r),
                                   bd_zone_history_id := sr_zone_history_id r, bd_quiescing := False\<rparr>)
                          (en_bindings (rt_en rt))) rt), True))
           else if \<not> current then (rt, False)
           else
             let rt1 = set_bindings (AList.delete subentry_id (en_bindings (rt_en rt)))
                         (set_controllers (AList.delete subentry_id (en_controllers (rt_en rt))) rt)
             in (case record1 of
                   Some r \<Rightarrow>
                     if sr_runtime_lifecycle r = DELETE_PENDING
                     then ((publish_ownership ref r rt1)
                             \<lparr>rt_retained := AList.update (sr_safety_record_id r) ref (rt_retained rt1)\<rparr>, True)
                     else (detach tasks_end ref rt1, True)
                 | None \<Rightarrow> (detach tasks_end ref rt1, True)))"

text \<open>A new binding for a zone: \<open>None\<close> as the result where \<open>is_current()\<close> fails before the
  construction.\<close>

definition bind_controller :: "nat \<Rightarrow> SafetyRecord \<Rightarrow> string \<Rightarrow> Runtime \<Rightarrow> Runtime" where
  "bind_controller ref r subentry_id rt =
     set_controllers (AList.update subentry_id ref (en_controllers (rt_en rt)))
       (set_bindings (AList.update subentry_id
          \<lparr>bd_subentry_id = subentry_id, bd_safety_record_id = sr_safety_record_id r,
           bd_zone_history_id = sr_zone_history_id r, bd_lifecycle = sr_runtime_lifecycle r,
           bd_applied_shadow = the (sr_applied_config r), bd_controller = ref, bd_quiescing = False\<rparr>
          (en_bindings (rt_en rt))) rt)"

definition active_matches :: "StoreData \<Rightarrow> string \<Rightarrow> SafetyRecord list" where
  "active_matches data subentry_id =
     filter (\<lambda>r. sr_active_subentry_id r = Some subentry_id \<and> sr_runtime_lifecycle r = ACTIVE)
       (map snd (st_safety_records data))"

definition recover_controller ::
  "entry_params \<Rightarrow> startup_env \<Rightarrow> ImmutableZoneSnapshot \<Rightarrow> SafetyRecord \<Rightarrow> Runtime \<Rightarrow> Runtime entry_outcome" where
  "recover_controller ep su z r rt =
     (case create_controller ep (su_home su) z r rt of
        Inl err \<Rightarrow> (rt, Some err)
      | Inr c \<Rightarrow>
          (let ref = rt_next_ref rt;
               rt1 = rt\<lparr>rt_heap := (rt_heap rt)(ref := c), rt_next_ref := ref + 1\<rparr>
           in case res_bind (store_data (rt_store rt1)) (\<lambda>data.
                     res_bind (dict_item (st_zone_histories data) (sr_zone_history_id r)) (\<lambda>history.
                     res_bind (adapter_current (su_home su) (current_actuator z)) (\<lambda>a. Inr (history, a)))) of
                Inl err \<Rightarrow> (rt1, Some (Plain err))
              | Inr (history, assessment) \<Rightarrow>
                  (let watering_recovery = (zr_state (zh_zone_runtime history) = WATERING \<and>
                                            zr_session (zh_zone_runtime history) \<noteq> None)
                   in and_also (reconcile_zone ep su ref r assessment rt1) (\<lambda>rt2.
                      and_also (if act_observed_on assessment \<and> \<not> watering_recovery
                                then plain (dispatch (su_grace su) (su_uuid su) (su_later su) ref ExternalActuatorOn rt2)
                                else (rt2, None)) (\<lambda>rt3.
                      (bind_controller ref r (iz_subentry_id z) rt3, None))))))"

definition sync_zone ::
  "entry_params \<Rightarrow> startup_env \<Rightarrow> bool \<Rightarrow> (Runtime \<Rightarrow> Runtime) \<Rightarrow> ImmutableZoneSnapshot \<Rightarrow> Runtime \<Rightarrow>
   Runtime entry_outcome \<times> bool" where
  "sync_zone ep su current tasks_end z rt =
     (case store_data (rt_store rt) of
        Inl err \<Rightarrow> ((rt, Some (Plain err)), False)
      | Inr data \<Rightarrow>
          (case active_matches data (iz_subentry_id z) of
             [r] \<Rightarrow>
               if map_of (en_bindings (rt_en rt)) (iz_subentry_id z) \<noteq> None then ((rt, None), True)
               else
                 let rt1 = (case map_of (rt_retained rt) (sr_safety_record_id r) of
                              None \<Rightarrow> rt
                            | Some old \<Rightarrow> detach tasks_end old
                                (rt\<lparr>rt_retained := AList.delete (sr_safety_record_id r) (rt_retained rt)\<rparr>))
                 in if \<not> current then ((rt1, None), False)
                    else (recover_controller ep su z r rt1, True)
           | _ \<Rightarrow> ((rt, Some (ReconciliationError
                    (''configured zone '' @ iz_subentry_id z @ '' has ambiguous canonical records''))), False)))"

text \<open>The two loops.  A loop returns with \<open>False\<close> where the method returned early or raised;
  \<open>current\<close> and \<open>su\<close> give, for each zone, the answer of \<open>is_current()\<close> and the environment.\<close>

fun sync_bindings ::
  "(string \<Rightarrow> bool) \<Rightarrow> (Runtime \<Rightarrow> Runtime) \<Rightarrow> (string \<times> ImmutableZoneSnapshot) list \<Rightarrow>
   (string \<times> RuntimeControllerBinding) list \<Rightarrow> Runtime \<Rightarrow> Runtime entry_outcome \<times> bool" where
  "sync_bindings current tasks_end zones [] rt = ((rt, None), True)"
| "sync_bindings current tasks_end zones (item # items) rt =
     (case store_data (rt_store rt) of
        Inl err \<Rightarrow> ((rt, Some (Plain err)), False)
      | Inr data \<Rightarrow>
          (case sync_binding (current (fst item)) tasks_end zones data item rt of
             (rt1, False) \<Rightarrow> ((rt1, None), False)
           | (rt1, True) \<Rightarrow> sync_bindings current tasks_end zones items rt1))"

fun sync_zones ::
  "entry_params \<Rightarrow> (string \<Rightarrow> startup_env) \<Rightarrow> (string \<Rightarrow> bool) \<Rightarrow> (Runtime \<Rightarrow> Runtime) \<Rightarrow>
   ImmutableZoneSnapshot list \<Rightarrow> Runtime \<Rightarrow> Runtime entry_outcome" where
  "sync_zones ep su current tasks_end [] rt = (rt, None)"
| "sync_zones ep su current tasks_end (z # zs) rt =
     (case sync_zone ep (su (iz_subentry_id z)) (current (iz_subentry_id z)) tasks_end z rt of
        ((rt1, Some err), goes_on) \<Rightarrow> (rt1, Some err)
      | ((rt1, None), False) \<Rightarrow> (rt1, None)
      | ((rt1, None), True) \<Rightarrow> sync_zones ep su current tasks_end zs rt1)"

definition synchronize_live_controllers ::
  "entry_params \<Rightarrow> (string \<Rightarrow> startup_env) \<Rightarrow> (string \<Rightarrow> bool) \<Rightarrow> (Runtime \<Rightarrow> Runtime) \<Rightarrow>
   ImmutableEntrySnapshot \<Rightarrow> Runtime \<Rightarrow> Runtime entry_outcome" where
  "synchronize_live_controllers ep su current tasks_end snapshot rt =
     (case sync_bindings current tasks_end (by_subentry_id snapshot) (en_bindings (rt_en rt)) rt of
        ((rt1, Some err), goes_on) \<Rightarrow> (rt1, Some err)
      | ((rt1, None), False) \<Rightarrow> (rt1, None)
      | ((rt1, None), True) \<Rightarrow> sync_zones ep su current tasks_end (es_zones snapshot) rt1)"

section \<open>Tombstones\<close>

definition tombstone_assessments ::
  "plan_env \<Rightarrow> StoreData \<Rightarrow> (string \<times> ActuatorAssessment) list result" where
  "tombstone_assessments e data =
     res_map (\<lambda>(record_id, entity_id). res_bind (adapter_current e entity_id) (\<lambda>a. Inr (record_id, a)))
       (concat (map (\<lambda>r.
          if sr_runtime_lifecycle r = ACTIVE then []
          else (case record_uuid r of
                  None \<Rightarrow> []
                | Some uuid \<Rightarrow>
                    (case pe_registry e uuid of
                       None \<Rightarrow> []
                     | Some entry \<Rightarrow> [(sr_safety_record_id r, re_entity_id entry)])))
          (map snd (st_safety_records data))))"

fun refresh_records ::
  "plan_env \<Rightarrow> (string \<times> ActuatorAssessment) list \<Rightarrow> (string \<times> ZoneHistory) list \<Rightarrow>
   (string \<times> SafetyRecord) list \<Rightarrow> (string \<times> SafetyRecord) list result" where
  "refresh_records e as histories [] = Inr []"
| "refresh_records e as histories ((record_id, r) # rs) =
     res_bind (if sr_runtime_lifecycle r = ACTIVE then Inr r
               else res_bind (dict_item histories (sr_zone_history_id r)) (\<lambda>h.
                      reconcile_retained_record e r h (map_of as record_id))) (\<lambda>r'.
     res_bind (refresh_records e as histories rs) (\<lambda>rs'. Inr ((record_id, r') # rs')))"

definition refresh_tombstones ::
  "plan_env \<Rightarrow> (string \<times> ActuatorAssessment) list \<Rightarrow> StoreData \<Rightarrow> StoreData option result" where
  "refresh_tombstones e as =
     reconcile_plan (\<lambda>data.
       res_bind (refresh_records e as (st_zone_histories data) (st_safety_records data)) (\<lambda>records.
         Inr (records, st_zone_histories data)))"

text \<open>The retained controllers follow their records; one of a retired record without blockers ends.\<close>

definition refresh_retained ::
  "(Runtime \<Rightarrow> Runtime) \<Rightarrow> StoreData \<Rightarrow> string \<times> nat \<Rightarrow> Runtime \<Rightarrow> Runtime outcome" where
  "refresh_retained tasks_end data item rt =
     (case item of (record_id, ref) \<Rightarrow>
        case map_of (st_safety_records data) record_id of
          None \<Rightarrow> (rt, Some KeyError)
        | Some r \<Rightarrow>
            (let rt1 = publish_ownership ref r rt
             in if sr_runtime_lifecycle r = RETIRED \<and> sr_blocker_reasons r = [] \<and> sr_possible_flow_owner r = None
                then (let rt2 = detach tasks_end ref rt1
                      in (rt2\<lparr>rt_retained := AList.delete record_id (rt_retained rt2)\<rparr>, None))
                else (rt1, None)))"

fun refresh_retained_all ::
  "(Runtime \<Rightarrow> Runtime) \<Rightarrow> (string \<times> nat) list \<Rightarrow> Runtime \<Rightarrow> Runtime outcome" where
  "refresh_retained_all tasks_end [] rt = (rt, None)"
| "refresh_retained_all tasks_end (item # items) rt =
     (case store_data (rt_store rt) of
        Inl err \<Rightarrow> (rt, Some err)
      | Inr data \<Rightarrow>
          and_then (refresh_retained tasks_end data item rt) (refresh_retained_all tasks_end items))"

definition refresh_tombstone_lifecycles ::
  "plan_env \<Rightarrow> store_io \<Rightarrow> (Runtime \<Rightarrow> Runtime) \<Rightarrow> Runtime \<Rightarrow> Runtime outcome" where
  "refresh_tombstone_lifecycles e io tasks_end rt =
     (case res_bind (store_data (rt_store rt)) (tombstone_assessments e) of
        Inl err \<Rightarrow> (rt, Some err)
      | Inr as \<Rightarrow>
          and_then (runtime_transact io (refresh_tombstones e as) rt) (\<lambda>rt1.
            refresh_retained_all tasks_end (rt_retained rt1) rt1))"

section \<open>Live blockers\<close>

definition record_blocker_keys :: "StoreData \<Rightarrow> BlockerKey list" where
  "record_blocker_keys data =
     concat (map (\<lambda>r. map (\<lambda>b. (sr_safety_record_id r, b)) (sr_blocker_reasons r)) (map snd (st_safety_records data)))"

definition on_resource ::
  "(SlotManager \<times> SafetyStore \<Rightarrow> (SlotManager \<times> SafetyStore) outcome) \<Rightarrow> Runtime \<Rightarrow> Runtime outcome" where
  "on_resource f rt =
     (case f (rt_slots rt, rt_store rt) of ((m, s), err) \<Rightarrow> (rt\<lparr>rt_slots := m, rt_store := s\<rparr>, err))"

fun add_blockers :: "store_io \<Rightarrow> BlockerKey list \<Rightarrow> Runtime \<Rightarrow> Runtime outcome" where
  "add_blockers io [] rt = (rt, None)"
| "add_blockers io (k # ks) rt =
     and_then (on_resource (resource_add (persist_slot_blocker io) k) rt) (add_blockers io ks)"

fun remove_blockers :: "store_io \<Rightarrow> BlockerKey list \<Rightarrow> Runtime \<Rightarrow> Runtime outcome" where
  "remove_blockers io [] rt = (rt, None)"
| "remove_blockers io (k # ks) rt =
     and_then (on_resource (resource_remove (persist_slot_blocker io) k) rt) (remove_blockers io ks)"

text \<open>The second loop ranges over a set difference; \<open>order\<close> is the order of that set.\<close>

definition republish_record_blockers ::
  "store_io \<Rightarrow> (BlockerKey set \<Rightarrow> BlockerKey list) \<Rightarrow> Runtime \<Rightarrow> Runtime outcome" where
  "republish_record_blockers io order rt =
     (case store_data (rt_store rt) of
        Inl err \<Rightarrow> (rt, Some err)
      | Inr data \<Rightarrow>
          (let persisted = record_blocker_keys data
           in and_then (add_blockers io persisted rt) (\<lambda>rt1.
                remove_blockers io (order (sl_blockers (rt_slots rt1) - set persisted)) rt1)))"

section \<open>Retained controllers\<close>

text \<open>One retained controller of the first loop; \<open>bound\<close> is \<open>current_record_ids\<close>.\<close>

definition retain_or_detach ::
  "(Runtime \<Rightarrow> Runtime) \<Rightarrow> string list \<Rightarrow> StoreData \<Rightarrow> string \<times> nat \<Rightarrow> Runtime \<Rightarrow> Runtime" where
  "retain_or_detach tasks_end bound data item rt =
     (case item of (record_id, ref) \<Rightarrow>
        case map_of (st_safety_records data) record_id of
          Some r \<Rightarrow>
            if record_id \<in> set bound
            then (let rt1 = detach tasks_end ref rt
                  in rt1\<lparr>rt_retained := AList.delete record_id (rt_retained rt1)\<rparr>)
            else publish_ownership ref r rt
        | None \<Rightarrow>
            (let rt1 = detach tasks_end ref rt
             in rt1\<lparr>rt_retained := AList.delete record_id (rt_retained rt1)\<rparr>))"

fun retain_or_detach_all ::
  "(Runtime \<Rightarrow> Runtime) \<Rightarrow> string list \<Rightarrow> (string \<times> nat) list \<Rightarrow> Runtime \<Rightarrow> Runtime outcome" where
  "retain_or_detach_all tasks_end bound [] rt = (rt, None)"
| "retain_or_detach_all tasks_end bound (item # items) rt =
     (case store_data (rt_store rt) of
        Inl err \<Rightarrow> (rt, Some err)
      | Inr data \<Rightarrow> retain_or_detach_all tasks_end bound items (retain_or_detach tasks_end bound data item rt))"

definition needs_observation :: "SafetyRecord \<Rightarrow> ZoneHistory \<Rightarrow> bool" where
  "needs_observation r h \<longleftrightarrow>
     sr_runtime_lifecycle r = DELETE_PENDING \<or> sr_blocker_reasons r \<noteq> [] \<or>
     sr_possible_flow_owner r \<noteq> None \<or> zr_session (zh_zone_runtime h) \<noteq> None"

text \<open>A record of the second loop gets a controller of its own.\<close>

definition wants_retained_controller :: "string list \<Rightarrow> StoreData \<Rightarrow> SafetyRecord \<Rightarrow> Runtime \<Rightarrow> bool result" where
  "wants_retained_controller bound data r rt =
     (if sr_safety_record_id r \<in> set bound then Inr False
      else res_bind (dict_item (st_zone_histories data) (sr_zone_history_id r)) (\<lambda>history. Inr (
        needs_observation r history \<and> sr_applied_config r \<noteq> None \<and>
        map_of (rt_retained rt) (sr_safety_record_id r) = None \<and>
        ai_identity_status (sr_actuator_identity r) \<in> {REGISTRY_CONFIRMED, REGISTRY_UNAVAILABLE})))"

definition recover_retained ::
  "entry_params \<Rightarrow> startup_env \<Rightarrow> StoreData \<Rightarrow> SafetyRecord \<Rightarrow> Runtime \<Rightarrow> Runtime entry_outcome" where
  "recover_retained ep su data r rt =
     (case config_from_record data r of
        None \<Rightarrow> (rt, Some (Plain AssertionError))
      | Some config \<Rightarrow>
          (case mk_zone_controller (ep_digest ep) (ep_tz_name ep) (pe_now (su_home su)) (sr_zone_id r) config
                  (rt_store rt) (rt_run_id rt) (en_local_tz (rt_en rt)) (Some (sr_safety_record_id r)) of
             Inl err \<Rightarrow> (rt, Some (Plain err))
           | Inr c \<Rightarrow>
               (let ref = rt_next_ref rt;
                    rt1 = rt\<lparr>rt_heap := (rt_heap rt)(ref := c), rt_next_ref := ref + 1\<rparr>
                in case res_bind (dict_item (st_zone_histories data) (sr_zone_history_id r)) (\<lambda>history.
                          res_bind (adapter_current (su_home su) (cfg_actuator config)) (\<lambda>a. Inr (history, a))) of
                     Inl err \<Rightarrow> (rt1, Some (Plain err))
                   | Inr (history, assessment) \<Rightarrow>
                       and_also
                         (if zr_state (zh_zone_runtime history) = SOAKING \<and>
                             zr_session (zh_zone_runtime history) \<noteq> None
                          then and_also (plain (attach (su_home su) ref rt1)) (\<lambda>rt2.
                                 plain (dispatch (su_dispatch su) (su_uuid su) (pe_now (su_home su)) ref
                                   (StartupPersistedSoaking False None None) rt2))
                          else reconcile_zone ep su ref r assessment rt1)
                         (\<lambda>rt2. (rt2\<lparr>rt_retained := AList.update (sr_safety_record_id r) ref (rt_retained rt2)\<rparr>,
                                 None)))))"

fun recover_retained_all ::
  "entry_params \<Rightarrow> (string \<Rightarrow> startup_env) \<Rightarrow> (string \<Rightarrow> bool) \<Rightarrow> string list \<Rightarrow> SafetyRecord list \<Rightarrow>
   Runtime \<Rightarrow> Runtime entry_outcome \<times> bool" where
  "recover_retained_all ep su current bound [] rt = ((rt, None), True)"
| "recover_retained_all ep su current bound (r # rs) rt =
     (case store_data (rt_store rt) of
        Inl err \<Rightarrow> ((rt, Some (Plain err)), False)
      | Inr data \<Rightarrow>
          (case wants_retained_controller bound data r rt of
             Inl err \<Rightarrow> ((rt, Some (Plain err)), False)
           | Inr False \<Rightarrow> recover_retained_all ep su current bound rs rt
           | Inr True \<Rightarrow>
               if \<not> current (sr_safety_record_id r) then ((rt, None), False)
               else (case recover_retained ep (su (sr_safety_record_id r)) data r rt of
                       (rt1, Some err) \<Rightarrow> ((rt1, Some err), False)
                     | (rt1, None) \<Rightarrow> recover_retained_all ep su current bound rs rt1)))"

definition synchronize_retained_controllers ::
  "entry_params \<Rightarrow> (string \<Rightarrow> startup_env) \<Rightarrow> (string \<Rightarrow> bool) \<Rightarrow> (Runtime \<Rightarrow> Runtime) \<Rightarrow> plan_env \<Rightarrow>
   store_io \<Rightarrow> Runtime \<Rightarrow> Runtime entry_outcome" where
  "synchronize_retained_controllers ep su current tasks_end e io rt =
     (let bound = map (\<lambda>(k, b). bd_safety_record_id b) (en_bindings (rt_en rt))
      in and_also (plain (retain_or_detach_all tasks_end bound (rt_retained rt) rt)) (\<lambda>rt1.
           case store_data (rt_store rt1) of
             Inl err \<Rightarrow> (rt1, Some (Plain err))
           | Inr data \<Rightarrow>
               (case recover_retained_all ep su current bound (map snd (st_safety_records data)) rt1 of
                  ((rt2, Some err), goes_on) \<Rightarrow> (rt2, Some err)
                | ((rt2, None), False) \<Rightarrow> (rt2, None)
                | ((rt2, None), True) \<Rightarrow> plain (refresh_tombstone_lifecycles e io tasks_end rt2))))"

end
