(* ===== verification/Entry_Operator.thy ===== *)
theory Entry_Operator
  imports Entry_Lifecycle
begin

text \<open>
  What an operator or a failed start does with a retained record (\<open>runtime.py\<close>): the defensive OFF
  of a start that could not persist its run, and the two acknowledgements.
\<close>

section \<open>Defensive OFF\<close>

text \<open>The entities that \<open>_defensive_reconciliation\<close> commands OFF when the run identifier could not
  be persisted.\<close>

fun defensive_off_targets ::
  "plan_env \<Rightarrow> (string \<times> ZoneHistory) list \<Rightarrow> SafetyRecord list \<Rightarrow> string list result" where
  "defensive_off_targets e histories [] = Inr []"
| "defensive_off_targets e histories (r # rs) =
     res_bind (dict_item histories (sr_zone_history_id r)) (\<lambda>history.
     res_bind (if zr_state (zh_zone_runtime history) \<noteq> WATERING then Inr []
               else (case record_entity e r of
                       None \<Rightarrow> Inr []
                     | Some entity_id \<Rightarrow>
                         res_bind (adapter_current e entity_id) (\<lambda>a.
                           Inr (if act_proven_off a then [] else [entity_id])))) (\<lambda>here.
     res_bind (defensive_off_targets e histories rs) (\<lambda>rest. Inr (here @ rest))))"

section \<open>Operator acknowledgements\<close>

definition removed_actuator_recovery_context ::
  "plan_env \<Rightarrow> string \<Rightarrow> string \<Rightarrow> Runtime \<Rightarrow> (SafetyRecord \<times> string) option" where
  "removed_actuator_recovery_context e record_id lineage_id rt =
     (case ss_data (rt_store rt) of
        None \<Rightarrow> None
      | Some data \<Rightarrow>
          (case map_of (st_safety_records data) record_id of
             None \<Rightarrow> None
           | Some r \<Rightarrow>
               if sr_safety_lineage_id r \<noteq> lineage_id then None
               else if sr_runtime_lifecycle r = ACTIVE then None
               else (case record_uuid r of
                  None \<Rightarrow> None
                | Some uuid \<Rightarrow>
                    if ai_identity_status (sr_actuator_identity r) \<noteq> MISSING then None
                    else if pe_registry e uuid \<noteq> None then None
                    else if list_ex (\<lambda>other. sr_safety_record_id other \<noteq> record_id \<and>
                              sr_runtime_lifecycle other = ACTIVE \<and> record_uuid other = Some uuid)
                              (map snd (st_safety_records data)) then None
                    else if sr_possible_flow_owner r \<noteq> None then None
                    else if sr_actuator_fault r \<noteq> None \<or> sr_acknowledgement_required r then None
                    else (case map_of (st_zone_histories data) (sr_zone_history_id r) of
                       None \<Rightarrow> None
                     | Some h \<Rightarrow>
                         if zr_session (zh_zone_runtime h) \<noteq> None then None
                         else (case controller_for_safety_record record_id rt of
                            None \<Rightarrow> Some (r, uuid)
                          | Some ref \<Rightarrow>
                              (let c = rt_heap rt ref
                               in if ctl_session c \<noteq> None \<or> may_be_flowing c \<or>
                                     ctl_off_operation c = Some None
                                  then None else Some (r, uuid)))))))"

text \<open>\<open>async_acknowledge_removed_actuator\<close>: the acknowledgement, then the refresh of the tombstones
  and of the live blockers.  \<open>io_ack\<close>, \<open>io_refresh\<close> and \<open>io_blockers\<close> are the store in each phase.\<close>

definition persist_removal_acknowledgement ::
  "plan_env \<Rightarrow> store_io \<Rightarrow> string \<Rightarrow> string \<Rightarrow> Runtime \<Rightarrow> Runtime entry_outcome" where
  "persist_removal_acknowledgement e io record_id lineage_id rt =
     (case removed_actuator_recovery_context e record_id lineage_id rt of
        None \<Rightarrow> (rt, Some (AcknowledgementError ''record_removal_not_confirmed''))
      | Some (r, registry_entry_id) \<Rightarrow>
          (case runtime_transact io
                  (acknowledge_removed_actuator_plan record_id lineage_id registry_entry_id (pe_now e)) rt of
             (rt1, Some (StoreWriteVerificationError m)) \<Rightarrow>
               (rt1, Some (AcknowledgementError ''record_acknowledgement_failed''))
           | (rt1, Some err) \<Rightarrow> (rt1, Some (Plain err))
           | (rt1, None) \<Rightarrow> (rt1, None)))"

definition acknowledge_removed_actuator ::
  "plan_env \<Rightarrow> store_io \<Rightarrow> store_io \<Rightarrow> store_io \<Rightarrow> (BlockerKey set \<Rightarrow> BlockerKey list) \<Rightarrow>
   (Runtime \<Rightarrow> Runtime) \<Rightarrow> string \<Rightarrow> string \<Rightarrow> Runtime \<Rightarrow> Runtime entry_outcome" where
  "acknowledge_removed_actuator e io_ack io_refresh io_blockers order tasks_end record_id lineage_id rt =
     and_also (persist_removal_acknowledgement e io_ack record_id lineage_id rt) (\<lambda>rt1.
     and_also (plain (refresh_tombstone_lifecycles e io_refresh tasks_end rt1)) (\<lambda>rt2.
       plain (republish_record_blockers io_blockers order rt2)))"

text \<open>The checks of \<open>async_acknowledge_safety_record\<close> before it acts.\<close>

definition record_acknowledgement_refusal :: "bool \<Rightarrow> string \<Rightarrow> string \<Rightarrow> Runtime \<Rightarrow> entry_error option" where
  "record_acknowledgement_refusal off_unconfirmed_issue record_id lineage_id rt =
     (let refuse = (\<lambda>key. Some (AcknowledgementError key))
      in if \<not> off_unconfirmed_issue then refuse ''record_fault_not_acknowledgeable''
         else (case ss_data (rt_store rt) of
            None \<Rightarrow> refuse ''record_not_found''
          | Some data \<Rightarrow>
              (case map_of (st_safety_records data) record_id of
                 None \<Rightarrow> refuse ''record_not_found''
               | Some r \<Rightarrow>
                   if sr_safety_lineage_id r \<noteq> lineage_id then refuse ''record_not_found''
                   else if sr_actuator_fault r \<noteq> Some ACTUATOR_OFF_TIMEOUT then refuse ''record_fault_changed''
                   else if \<not> sr_acknowledgement_required r then refuse ''record_fault_not_acknowledgeable''
                   else if sr_identity_incident r \<noteq> None \<or>
                           ai_identity_status (sr_actuator_identity r) \<in> {MISSING, CONFLICT}
                   then refuse ''record_identity_unresolved''
                   else (case map_of (st_zone_histories data) (sr_zone_history_id r) of
                      None \<Rightarrow> Some (Plain KeyError)
                    | Some h \<Rightarrow>
                        if sr_blocker_reasons r \<noteq> [] \<or> sr_possible_flow_owner r \<noteq> None \<or>
                           zr_session (zh_zone_runtime h) \<noteq> None
                        then refuse ''record_off_not_proven'' else None))))"

text \<open>\<open>async_acknowledge_safety_record\<close> up to the update of Repairs.  A live controller proves OFF
  once more and clears the fault through the state machine; without one the record must be retired.
  The decision for the event is the one of the controller as it is when the event is dispatched.\<close>

definition refresh_actuator_for_final_gate :: "plan_env \<Rightarrow> ZoneController \<Rightarrow> ZoneController result" where
  "refresh_actuator_for_final_gate e c =
     res_bind (adapter_current e (cfg_actuator (ctl_config c))) (\<lambda>a. Inr (c\<lparr>ctl_assessment := a\<rparr>))"

definition event_decision :: "string \<Rightarrow> utc \<Rightarrow> ControllerEvent \<Rightarrow> nat \<Rightarrow> Runtime \<Rightarrow> Decision option" where
  "event_decision session_uuid now event ref rt =
     (case res_bind (build_input session_uuid now event (world_of ref rt)) decide of
        Inl err \<Rightarrow> None | Inr d \<Rightarrow> Some d)"

definition fault_remains :: "string \<Rightarrow> Runtime \<Rightarrow> bool" where
  "fault_remains record_id rt \<longleftrightarrow>
     (case ss_data (rt_store rt) of
        None \<Rightarrow> True
      | Some data \<Rightarrow>
          (case map_of (st_safety_records data) record_id of
             None \<Rightarrow> True
           | Some r \<Rightarrow> sr_actuator_fault r \<noteq> None \<or> sr_acknowledgement_required r))"

definition clear_fault_of_controller ::
  "plan_env \<Rightarrow> (nat \<Rightarrow> step_env) \<Rightarrow> string \<Rightarrow> string \<Rightarrow> nat \<Rightarrow> Runtime \<Rightarrow> Runtime entry_outcome" where
  "clear_fault_of_controller e env session_uuid record_id ref rt =
     (case refresh_actuator_for_final_gate e (rt_heap rt ref) of
        Inl err \<Rightarrow> (rt, Some (Plain err))
      | Inr c \<Rightarrow>
          (let rt1 = on_controller ref (\<lambda>_. c) rt
           in if \<not> act_proven_off (ctl_assessment c)
              then (rt1, Some (AcknowledgementError ''record_off_not_proven''))
              else and_also (plain (dispatch env session_uuid (pe_now e) ref ClearFaultRequested rt1)) (\<lambda>rt2.
                if (case event_decision session_uuid (pe_now e) ClearFaultRequested ref rt1 of
                      None \<Rightarrow> False | Some d \<Rightarrow> dec_transition_id d = Some ''T44'') \<or>
                   fault_remains record_id rt2
                then (rt2, Some (AcknowledgementError ''record_fault_changed''))
                else (rt2, None))))"

definition acknowledge_safety_record ::
  "plan_env \<Rightarrow> store_io \<Rightarrow> (nat \<Rightarrow> step_env) \<Rightarrow> string \<Rightarrow> bool \<Rightarrow> string \<Rightarrow> string \<Rightarrow> Runtime \<Rightarrow>
   Runtime entry_outcome" where
  "acknowledge_safety_record e io env session_uuid off_unconfirmed_issue record_id lineage_id rt =
     (case record_acknowledgement_refusal off_unconfirmed_issue record_id lineage_id rt of
        Some err \<Rightarrow> (rt, Some err)
      | None \<Rightarrow>
          (case controller_for_safety_record record_id rt of
             Some ref \<Rightarrow> clear_fault_of_controller e env session_uuid record_id ref rt
           | None \<Rightarrow>
               if (case ss_data (rt_store rt) of
                     None \<Rightarrow> None | Some data \<Rightarrow> map_option sr_runtime_lifecycle
                                                     (map_of (st_safety_records data) record_id)) \<noteq> Some RETIRED
               then (rt, Some (AcknowledgementError ''record_off_not_proven''))
               else (case runtime_transact io
                            (acknowledge_actuator_fault_plan record_id lineage_id ACTUATOR_OFF_TIMEOUT) rt of
                       (rt1, Some (StoreWriteVerificationError m)) \<Rightarrow>
                         (rt1, Some (AcknowledgementError ''record_acknowledgement_failed''))
                     | (rt1, Some err) \<Rightarrow> (rt1, Some (Plain err))
                     | (rt1, None) \<Rightarrow>
                         (rt1\<lparr>rt_emitted := rt_emitted rt1 @ [FaultClearedEvent ACTUATOR_OFF_TIMEOUT]\<rparr>, None))))"

end
