(* ===== verification/Entry_Shutdown.thy ===== *)
theory Entry_Shutdown
  imports Entry_Operator
begin

text \<open>
  How an entry ends (\<open>runtime.py\<close>): the shutdown job of the process, from the synchronous closure of
  admission to the clean marker; the unload of the entry; and the preparation of a reconfiguration.

  What runs while the program waits is the environment: \<open>sh_off\<close> is
  \<open>_await_off_within_budget\<close> for one controller, \<open>sh_join\<close> the hand-over of the
  reconciliation worker.  Either may be cancelled.  A failure of the report is a constructor with the
  record it names; logging and deadlines are left out.
\<close>

section \<open>Report\<close>

datatype shutdown_failure =
    Stage1Cancelled
  | Stage1Failed
  | ConfigurationSnapshot
  | ReconciliationHandoff
  | SafetyWriteFailed string
  | SafetyStoreNotLoaded
  | IntegrationOffUnconfirmed string
  | TerminalOffNotProven string
  | CleanMarkerWriteFailed

record Stage1ShutdownReport =
  rep_watering_records :: "string list"
  rep_preserved_soaking_records :: "string list"
  rep_failures :: "shutdown_failure list"
  rep_clean :: bool

record shutdown_log =
  lg_failures :: "shutdown_failure list"
  lg_watering :: "string list"
  lg_preserved :: "string list"

definition empty_log :: shutdown_log where
  "empty_log = \<lparr>lg_failures = [], lg_watering = [], lg_preserved = []\<rparr>"

definition log_failure :: "shutdown_failure \<Rightarrow> shutdown_log \<Rightarrow> shutdown_log" where
  "log_failure f l = l\<lparr>lg_failures := lg_failures l @ [f]\<rparr>"

text \<open>A phase ends normally, by cancellation, or with an exception.\<close>

datatype stage_end = StageCancelled | StageRaised entry_error

type_synonym stage = "Runtime \<times> shutdown_log"

type_synonym stage_outcome = "stage \<times> stage_end option"

definition next_stage :: "stage_outcome \<Rightarrow> (stage \<Rightarrow> stage_outcome) \<Rightarrow> stage_outcome" where
  "next_stage r f = (case r of (s, Some e) \<Rightarrow> (s, Some e) | (s, None) \<Rightarrow> f s)"

definition staged :: "shutdown_log \<Rightarrow> Runtime outcome \<Rightarrow> stage_outcome" where
  "staged l r = ((fst r, l), map_option (StageRaised \<circ> Plain) (snd r))"

section \<open>Environment\<close>

record shutdown_env =
  sh_home :: plan_env
  sh_dispatch :: "nat \<Rightarrow> nat \<Rightarrow> step_env"
  sh_uuid :: string
  sh_off :: "nat \<Rightarrow> Runtime \<Rightarrow> Runtime \<times> bool"
  sh_join :: "Runtime \<Rightarrow> Runtime \<times> bool"
  sh_persist :: "nat \<Rightarrow> step_env"
  sh_final :: plan_env
  sh_mark :: store_io

section \<open>The synchronous region\<close>

definition begin_stage1 :: "Runtime \<Rightarrow> Runtime" where
  "begin_stage1 rt =
     (let rt1 = rt\<lparr>rt_en := (rt_en rt)\<lparr>en_process_stopping := True\<rparr>\<rparr>
      in case close_publication_now (en_coordinator (rt_en rt1), (rt_slots rt1, None)) of
           (co, (m, _)) \<Rightarrow>
             fold (\<lambda>ref. on_controller ref begin_quiescing) (all_controllers rt1)
               (rt1\<lparr>rt_en := (rt_en rt1)\<lparr>en_coordinator := co\<rparr>, rt_slots := close_admission_now m\<rparr>))"

section \<open>Signalling\<close>

definition store_record :: "Runtime \<Rightarrow> string \<Rightarrow> SafetyRecord option" where
  "store_record rt record_id =
     (case ss_data (rt_store rt) of None \<Rightarrow> None | Some data \<Rightarrow> map_of (st_safety_records data) record_id)"

definition record_owes_flow :: "SafetyRecord \<Rightarrow> bool" where
  "record_owes_flow r \<longleftrightarrow>
     sr_possible_flow_owner r = Some INTEGRATION \<or> INTEGRATION_OFF_UNCONFIRMED \<in> set (sr_blocker_reasons r)"

definition integration_owned_possible_flow :: "nat \<Rightarrow> Runtime \<Rightarrow> bool" where
  "integration_owned_possible_flow ref rt \<longleftrightarrow>
     ctl_inflight_on (rt_heap rt ref) \<noteq> None \<or>
     (case store_record rt (ctl_safety_record_id (rt_heap rt ref)) of
        None \<Rightarrow> False | Some r \<Rightarrow> record_owes_flow r)"

definition begin_shutdown_off :: "nat \<Rightarrow> Runtime \<Rightarrow> Runtime" where
  "begin_shutdown_off ref rt =
     (let c = rt_heap rt ref
      in if ctl_inflight_on c \<noteq> None then rt
         else if \<not> integration_owned_possible_flow ref rt then rt
         else if ctl_off_operation c = None \<and>
                 (case store_record rt (ctl_safety_record_id c) of
                    None \<Rightarrow> False
                  | Some r \<Rightarrow> ai_identity_status (sr_actuator_identity r) \<in> {MISSING, CONFLICT})
         then rt
         else on_controller ref begin_off_operation rt)"

definition preservable ::
  "(string \<times> ImmutableZoneSnapshot) list \<Rightarrow> nat \<Rightarrow> ZoneController \<Rightarrow> Runtime \<Rightarrow> bool" where
  "preservable fresh_zones ref c rt \<longleftrightarrow>
     (case (store_record rt (ctl_safety_record_id c), map_of (en_bindings (rt_en rt)) (ctl_zone_id c),
            ctl_applied_config c, map_of fresh_zones (ctl_zone_id c)) of
        (Some r, Some binding, Some applied, Some z) \<Rightarrow>
          sr_runtime_lifecycle r = ACTIVE \<and> sr_active_subentry_id r = Some (ctl_zone_id c) \<and>
          bd_controller binding = ref \<and> iz_config_fingerprint z = sh_config_fingerprint applied
      | _ \<Rightarrow> False)"

text \<open>The event to dispatch, whether the soak is preserved, and whether an OFF is needed.\<close>

definition soaking_shutdown_outcome ::
  "plan_env \<Rightarrow> (string \<times> ImmutableZoneSnapshot) list \<Rightarrow> nat \<Rightarrow> Runtime \<Rightarrow>
   (Runtime \<times> ControllerEvent \<times> bool \<times> bool) result" where
  "soaking_shutdown_outcome e fresh_zones ref rt =
     res_bind (refresh_actuator_for_final_gate e (rt_heap rt ref)) (\<lambda>c.
       let rt1 = on_controller ref (\<lambda>_. c) rt; live = ctl_assessment c
       in Inr (rt1,
            if act_observed_on live \<or> \<not> act_proven_off live
            then (if \<not> act_available live then (ActuatorBecameUnavailable, False, False)
                  else (ExternalActuatorOn, False, True))
            else if preservable fresh_zones ref c rt1 then (HomeAssistantShutdown, True, False)
            else (ConfigChangedPrepare, False, False)))"

definition signal_idle :: "nat \<Rightarrow> Runtime \<Rightarrow> Runtime" where
  "signal_idle ref rt =
     (if ctl_state (rt_heap rt ref) \<in> {WATERING, SOAKING} then rt else begin_shutdown_off ref rt)"

definition signal_active ::
  "shutdown_env \<Rightarrow> (string \<times> ImmutableZoneSnapshot) list \<Rightarrow> nat \<Rightarrow> stage \<Rightarrow> stage_outcome" where
  "signal_active env fresh_zones ref s =
     (case s of (rt, l) \<Rightarrow>
        let record_id = ctl_safety_record_id (rt_heap rt ref);
            send = (\<lambda>event rt. dispatch (sh_dispatch env ref) (sh_uuid env) (pe_now (sh_home env)) ref event rt)
        in if ctl_state (rt_heap rt ref) = WATERING
           then next_stage (staged (l\<lparr>lg_watering := lg_watering l @ [record_id]\<rparr>) (send HomeAssistantShutdown rt))
                  (\<lambda>(rt1, l1). ((if ctl_inflight_on (rt_heap rt1 ref) = None
                                 then on_controller ref begin_off_operation rt1 else rt1, l1), None))
           else if ctl_state (rt_heap rt ref) = SOAKING
           then (case soaking_shutdown_outcome (sh_home env) fresh_zones ref rt of
                   Inl err \<Rightarrow> (s, Some (StageRaised (Plain err)))
                 | Inr (rt1, event, eligible, needs_off) \<Rightarrow>
                     next_stage (staged l (send event rt1)) (\<lambda>(rt2, l2).
                       ((if \<not> eligible \<and> needs_off then begin_shutdown_off ref rt2 else rt2,
                         if eligible then l2\<lparr>lg_preserved := lg_preserved l2 @ [record_id]\<rparr> else l2), None)))
           else (s, None))"

fun each_stage :: "(nat \<Rightarrow> stage \<Rightarrow> stage_outcome) \<Rightarrow> nat list \<Rightarrow> stage \<Rightarrow> stage_outcome" where
  "each_stage f [] s = (s, None)"
| "each_stage f (ref # refs) s = next_stage (f ref s) (each_stage f refs)"

section \<open>Convergence, persistence and the marker\<close>

definition converge :: "shutdown_env \<Rightarrow> nat \<Rightarrow> stage \<Rightarrow> stage_outcome" where
  "converge env ref s =
     (case s of (rt, l) \<Rightarrow>
        let c = rt_heap rt ref
        in if ctl_safety_record_id c \<in> set (lg_watering l) \<or> ctl_inflight_on c \<noteq> None \<or> off_operation_active c
           then (case sh_off env ref rt of
                   (rt1, cancelled) \<Rightarrow> ((rt1, l), if cancelled then Some StageCancelled else None))
           else (s, None))"

definition join_handoff :: "shutdown_env \<Rightarrow> stage \<Rightarrow> stage_outcome" where
  "join_handoff env s =
     (case s of (rt, l) \<Rightarrow>
        (case sh_join env rt of
           (rt1, failed) \<Rightarrow> ((rt1, if failed then log_failure ReconciliationHandoff l else l), None)))"

definition owns_zone_runtime :: "ZoneController \<Rightarrow> Runtime \<Rightarrow> bool" where
  "owns_zone_runtime c rt \<longleftrightarrow>
     (case ss_data (rt_store rt) of
        None \<Rightarrow> False
      | Some data \<Rightarrow>
          (case map_of (st_safety_records data) (ctl_safety_record_id c) of
             None \<Rightarrow> False
           | Some r \<Rightarrow>
               sr_zone_history_id r = ctl_zone_history_id c \<and>
               map_of (st_zone_histories data) (ctl_zone_history_id c) \<noteq> None \<and>
               \<not> list_ex (\<lambda>w. sr_safety_record_id w \<noteq> ctl_safety_record_id c \<and>
                              sr_zone_history_id w = ctl_zone_history_id c \<and> sr_runtime_lifecycle w = ACTIVE)
                   (map snd (st_safety_records data))))"

definition persist_outcome :: "shutdown_env \<Rightarrow> nat \<Rightarrow> stage \<Rightarrow> stage_outcome" where
  "persist_outcome env ref s =
     (case s of (rt, l) \<Rightarrow>
        let c = rt_heap rt ref; record_id = ctl_safety_record_id c
        in if ctl_persist_failed c then ((rt, log_failure (SafetyWriteFailed record_id) l), None)
           else if \<not> owns_zone_runtime c rt then (s, None)
           else (case on_world ref (persist_locked (sh_persist env ref)) rt of
                   (rt1, Some (StoreWriteVerificationError m)) \<Rightarrow>
                     ((rt1, log_failure (SafetyWriteFailed record_id) l), None)
                 | (rt1, err) \<Rightarrow> ((rt1, l), map_option (StageRaised \<circ> Plain) err)))"

definition unconfirmed_records :: "StoreData \<Rightarrow> shutdown_failure list" where
  "unconfirmed_records data =
     map (\<lambda>r. IntegrationOffUnconfirmed (sr_safety_record_id r))
       (filter record_owes_flow (map snd (st_safety_records data)))"

definition check_terminal_off :: "shutdown_env \<Rightarrow> nat \<Rightarrow> stage \<Rightarrow> stage_outcome" where
  "check_terminal_off env ref s =
     (case s of (rt, l) \<Rightarrow>
        let record_id = ctl_safety_record_id (rt_heap rt ref)
        in if record_id \<notin> set (lg_watering l) \<union> set (lg_preserved l) then (s, None)
           else (case refresh_actuator_for_final_gate (sh_final env) (rt_heap rt ref) of
                   Inl err \<Rightarrow> (s, Some (StageRaised (Plain err)))
                 | Inr c \<Rightarrow>
                     ((on_controller ref (\<lambda>_. c) rt,
                       if act_proven_off (ctl_assessment c) then l
                       else log_failure (TerminalOffNotProven record_id) l), None)))"

definition mark_clean :: "shutdown_env \<Rightarrow> stage \<Rightarrow> stage_outcome" where
  "mark_clean env s =
     (case s of (rt, l) \<Rightarrow>
        if lg_failures l \<noteq> [] then (s, None)
        else (case runtime_transact (sh_mark env) mark_clean_shutdown_plan rt of
                (rt1, Some (StoreWriteVerificationError m)) \<Rightarrow> ((rt1, log_failure CleanMarkerWriteFailed l), None)
              | (rt1, err) \<Rightarrow> ((rt1, l), map_option (StageRaised \<circ> Plain) err)))"

definition aggregate :: "shutdown_env \<Rightarrow> nat list \<Rightarrow> stage \<Rightarrow> stage_outcome" where
  "aggregate env refs s =
     (case s of (rt, l) \<Rightarrow>
        (case ss_data (rt_store rt) of
           None \<Rightarrow> ((rt, log_failure SafetyStoreNotLoaded l), None)
         | Some data \<Rightarrow>
             next_stage (each_stage (check_terminal_off env) refs
               (rt, l\<lparr>lg_failures := lg_failures l @ unconfirmed_records data\<rparr>)) (mark_clean env)))"

section \<open>The whole operation\<close>

definition fresh_zone_snapshots :: "Runtime \<Rightarrow> shutdown_log \<Rightarrow> (string \<times> ImmutableZoneSnapshot) list \<times> shutdown_log" where
  "fresh_zone_snapshots rt l =
     (case en_build (rt_en rt) (co_observed_generation (en_coordinator (rt_en rt))) of
        None \<Rightarrow> ([], log_failure ConfigurationSnapshot l)
      | Some snapshot \<Rightarrow> (by_subentry_id snapshot, l))"

definition run_stage1_shutdown :: "shutdown_env \<Rightarrow> nat list \<Rightarrow> Runtime \<Rightarrow> stage_outcome" where
  "run_stage1_shutdown env refs rt =
     (case fresh_zone_snapshots rt empty_log of (fresh_zones, l) \<Rightarrow>
        next_stage (each_stage (signal_active env fresh_zones) refs (fold signal_idle refs rt, l)) (\<lambda>s1.
        next_stage (each_stage (converge env) refs s1) (\<lambda>s2.
        next_stage (join_handoff env s2) (\<lambda>s3.
        next_stage (each_stage (persist_outcome env) refs s3) (aggregate env refs)))))"

definition stage1_report :: "stage_outcome \<Rightarrow> Stage1ShutdownReport" where
  "stage1_report r =
     (let l = snd (fst r);
          failures = lg_failures l @
            (case snd r of None \<Rightarrow> [] | Some StageCancelled \<Rightarrow> [Stage1Cancelled] | Some (StageRaised e) \<Rightarrow> [Stage1Failed])
      in \<lparr>rep_watering_records = lg_watering l, rep_preserved_soaking_records = lg_preserved l,
          rep_failures = rev (remdups (rev failures)), rep_clean = (failures = [])\<rparr>)"

text \<open>\<open>async_stage1_shutdown\<close>: the first call runs the operation; a later one joins it and does
  nothing itself.\<close>

definition stage1_shutdown ::
  "shutdown_env \<Rightarrow> Runtime \<times> Stage1ShutdownReport option \<Rightarrow> Runtime \<times> Stage1ShutdownReport option" where
  "stage1_shutdown env s =
     (case s of
        (rt, Some report) \<Rightarrow> (rt, Some report)
      | (rt, None) \<Rightarrow>
          (let r = run_stage1_shutdown env (all_controllers rt) (begin_stage1 rt)
           in (fst (fst r), Some (stage1_report r))))"

section \<open>Unload and reconfiguration\<close>

definition reload_controller :: "shutdown_env \<Rightarrow> nat \<Rightarrow> Runtime \<Rightarrow> Runtime outcome" where
  "reload_controller env ref rt =
     (let was_watering = (ctl_state (rt_heap rt ref) = WATERING)
      in and_then
           (if ctl_state (rt_heap rt ref) \<in> {WATERING, SOAKING}
            then dispatch (sh_dispatch env ref) (sh_uuid env) (pe_now (sh_home env)) ref ConfigEntryReload rt
            else (rt, None))
           (\<lambda>rt1. (if was_watering then fst (sh_off env ref rt1) else rt1, None)))"

fun each_outcome :: "(nat \<Rightarrow> Runtime \<Rightarrow> Runtime outcome) \<Rightarrow> nat list \<Rightarrow> Runtime \<Rightarrow> Runtime outcome" where
  "each_outcome f [] rt = (rt, None)"
| "each_outcome f (ref # refs) rt = and_then (f ref rt) (each_outcome f refs)"

definition clear_runtime :: "Runtime \<Rightarrow> Runtime" where
  "clear_runtime rt = (set_bindings [] (set_controllers [] rt))\<lparr>rt_retained := []\<rparr>"

definition async_unload :: "shutdown_env \<Rightarrow> (Runtime \<Rightarrow> Runtime) \<Rightarrow> Runtime \<Rightarrow> Runtime outcome" where
  "async_unload env tasks_end rt =
     (case close_publication_now (en_coordinator (rt_en rt), (rt_slots rt, None)) of
        (co, (m, _)) \<Rightarrow>
          (let (rt1, join_failed) = sh_join env (rt\<lparr>rt_en := (rt_en rt)\<lparr>en_coordinator := co\<rparr>, rt_slots := m\<rparr>);
               rt2 = rt1\<lparr>rt_slots := disable_grants (rt_slots rt1)\<rparr>
           in if join_failed then (rt1, Some (RuntimeError ''reconciliation worker failed''))
              else and_then
                (if en_process_stopping (rt_en rt2) then (rt2, None)
                 else each_outcome (reload_controller env) (all_controllers rt2) rt2)
                (\<lambda>rt3. (clear_runtime (fold (detach tasks_end) (all_controllers rt3) rt3), None))))"

definition prepare_reconfigure :: "shutdown_env \<Rightarrow> string \<Rightarrow> Runtime \<Rightarrow> Runtime outcome" where
  "prepare_reconfigure env zone_id rt =
     (case map_of (en_controllers (rt_en rt)) zone_id of
        None \<Rightarrow> (rt, None)
      | Some ref \<Rightarrow>
          (let rt1 = rt\<lparr>rt_slots := cancel_request zone_id (rt_slots rt)\<rparr>; state = ctl_state (rt_heap rt1 ref)
           in if state \<notin> {WATERING, SOAKING} then (rt1, None)
              else and_then
                (dispatch (sh_dispatch env ref) (sh_uuid env) (pe_now (sh_home env)) ref ConfigChangedPrepare rt1)
                (\<lambda>rt2. (if state = WATERING then fst (sh_off env ref rt2) else rt2, None))))"

end
