(* ===== verification/Entry_Startup.thy ===== *)
theory Entry_Startup
  imports Entry_Operator Store_Migration
begin

text \<open>
  The start of an entry (\<open>async_initialize\<close> of \<open>runtime.py\<close>): classification of the
  stored data, the run protocol, the first reconciliation and the release of grants.

  The environment gives what Home Assistant answers: the readers and the store, the two snapshots
  that the configuration yields, and \<open>ie_start\<close>, which is the first reconciliation
  (\<open>Reconciliation\<close>) and may fail.  Listeners, Repairs and logging are left out.
\<close>

record init_env =
  ie_uid :: "string \<Rightarrow> string \<Rightarrow> string \<Rightarrow> string"
  ie_readers :: "reader_result list"
  ie_migration_io :: json_io
  ie_first_io :: store_io
  ie_reconstruct_io :: store_io
  ie_day_text :: string
  ie_detection_date :: local_date
  ie_zone_budgets :: "(string \<times> int) list"
  ie_run_io :: store_io
  ie_home :: plan_env
  ie_snapshot :: "ImmutableEntrySnapshot option"
  ie_later_snapshot :: "ImmutableEntrySnapshot option"
  ie_start :: "Runtime \<Rightarrow> Runtime \<times> string option"

text \<open>What a start leaves behind beside the runtime: the flag of the entry, and the entities that
  were commanded OFF.\<close>

record Startup =
  st_runtime :: Runtime
  st_initialized_flag :: bool
  st_defensive_off :: "string list"

definition migration_contexts ::
  "ImmutableEntrySnapshot \<Rightarrow> (string \<times> MigrationRecordContext) list result" where
  "migration_contexts snapshot =
     res_map (\<lambda>z.
       res_bind (applied_shadow (es_entry_snapshot_fingerprint snapshot) (es_observed_generation snapshot) z) (\<lambda>shadow.
       res_bind (durable_actuator_identity z False) (\<lambda>identity.
       res_bind (mk_sensor_identity
         \<lparr>si_registry_entry_id = ae_registry_entry_id (iz_sensor_identity z),
          si_last_known_entity_id = Some (ae_last_known_entity_id (iz_sensor_identity z))\<rparr>) (\<lambda>sensor.
       res_bind (mk_migration_context
         \<lparr>mc_active_subentry_id = iz_subentry_id z, mc_applied_config = shadow,
          mc_actuator_identity = identity, mc_sensor_identity = sensor\<rparr>) (\<lambda>c.
         Inr (iz_subentry_id z, c)))))) (es_zones snapshot)"

definition observe_configuration :: "ImmutableEntrySnapshot option \<Rightarrow> Runtime \<Rightarrow> Runtime" where
  "observe_configuration built rt =
     (case observe_current built (en_coordinator (rt_en rt), (rt_slots rt, None)) of
        (co, (m, _)) \<Rightarrow> rt\<lparr>rt_en := (rt_en rt)\<lparr>en_coordinator := co\<rparr>, rt_slots := m\<rparr>)"

definition set_store :: "SafetyStore \<Rightarrow> Startup \<Rightarrow> Startup" where
  "set_store s u = u\<lparr>st_runtime := (st_runtime u)\<lparr>rt_store := s\<rparr>\<rparr>"

definition not_ready :: "string \<Rightarrow> py_error \<Rightarrow> entry_error" where
  "not_ready message err =
     (case err of StoreWriteVerificationError _ \<Rightarrow> ConfigEntryNotReady message | _ \<Rightarrow> Plain err)"

text \<open>What each classification does.\<close>

definition settle_classification ::
  "init_env \<Rightarrow> SetupClassification \<Rightarrow> Startup \<Rightarrow> Startup entry_outcome" where
  "settle_classification env classification u =
     (case classification of
        FIRST_INSTALL \<Rightarrow>
          (case first_initialize (ie_first_io env) (rt_store (st_runtime u)) of
             (s, Some err) \<Rightarrow> (set_store s u, Some (not_ready ''initial safety store write failed'' err))
           | (s, None) \<Rightarrow> ((set_store s u)\<lparr>st_initialized_flag := True\<rparr>, None))
      | INTERRUPTED_INITIALIZATION \<Rightarrow> (u\<lparr>st_initialized_flag := True\<rparr>, None)
      | INTEGRITY_LOSS \<Rightarrow>
          (case reconstruct_after_integrity_loss (ie_uid env) (ie_day_text env) (ie_detection_date env)
                  (ie_zone_budgets env) (ie_reconstruct_io env) (rt_store (st_runtime u)) of
             (s, Some err) \<Rightarrow> (set_store s u, Some (not_ready ''integrity reconstruction write failed'' err))
           | (s, None) \<Rightarrow> (set_store s u, None))
      | INITIALIZED_OK \<Rightarrow> (u, None))"

definition defensive_reconciliation :: "plan_env \<Rightarrow> Runtime \<Rightarrow> string list result" where
  "defensive_reconciliation e rt =
     (case ss_data (rt_store rt) of
        None \<Rightarrow> Inr []
      | Some data \<Rightarrow> defensive_off_targets e (st_zone_histories data) (map snd (st_safety_records data)))"

definition begin_run :: "init_env \<Rightarrow> Startup \<Rightarrow> Startup entry_outcome" where
  "begin_run env u =
     (let rt = st_runtime u
      in case runtime_transact (ie_run_io env) (begin_new_run_plan (rt_run_id rt)) rt of
           (rt1, Some (StoreWriteVerificationError m)) \<Rightarrow>
             (case defensive_reconciliation (ie_home env) rt1 of
                Inl err \<Rightarrow> (u\<lparr>st_runtime := rt1\<rparr>, Some (Plain err))
              | Inr targets \<Rightarrow>
                  (u\<lparr>st_runtime := rt1, st_defensive_off := targets\<rparr>,
                   Some (ConfigEntryNotReady ''run-id persistence failed'')))
         | (rt1, Some err) \<Rightarrow> (u\<lparr>st_runtime := rt1\<rparr>, Some (Plain err))
         | (rt1, None) \<Rightarrow>
             (u\<lparr>st_runtime := rt1\<lparr>rt_previous_run := map_option st_run (ss_data (rt_store rt))\<rparr>\<rparr>, None))"

definition start_coordinator :: "init_env \<Rightarrow> Startup \<Rightarrow> Startup entry_outcome" where
  "start_coordinator env u =
     (case ie_start env (observe_configuration (ie_later_snapshot env) (st_runtime u)) of
        (rt1, Some message) \<Rightarrow> (u\<lparr>st_runtime := rt1\<rparr>, Some (ConfigEntryNotReady message))
      | (rt1, None) \<Rightarrow> (u\<lparr>st_runtime := rt1\<lparr>rt_slots := enable_grants (rt_slots rt1)\<rparr>\<rparr>, None))"

definition async_initialize :: "init_env \<Rightarrow> Startup \<Rightarrow> Startup entry_outcome" where
  "async_initialize env u =
     (let u1 = u\<lparr>st_runtime := observe_configuration (ie_snapshot env) (st_runtime u)\<rparr>
      in case ie_snapshot env of
           None \<Rightarrow> (u1, Some (ConfigEntryNotReady ''initial configuration snapshot could not be normalized''))
         | Some snapshot \<Rightarrow>
             (case migration_contexts snapshot of
                Inl err \<Rightarrow> (u1, Some (Plain err))
              | Inr contexts \<Rightarrow>
                  (case classify_setup (ie_uid env) (ie_readers env) (ie_migration_io env) (st_initialized_flag u1)
                          (Some contexts) (rt_store (st_runtime u1)) of
                     (s, Inl err) \<Rightarrow> (set_store s u1, Some (Plain err))
                   | (s, Inr (classification, _)) \<Rightarrow>
                       and_also (settle_classification env classification (set_store s u1)) (\<lambda>u2.
                       and_also (begin_run env u2) (start_coordinator env)))))"

end
