(* ===== verification/Lifecycle_Safety.thy ===== *)
theory Lifecycle_Safety
  imports Entry_Operator Planning_Safety On_Authority_Safety
begin

text \<open>
  What the lifecycle of an entry guarantees: when a persisted soak is resumed, that the live blockers
  become exactly the durable ones, what an operator's acknowledgements require and change, and what a
  rename does to a session that is under way.
\<close>

section \<open>Frames\<close>

lemma and_also_None: "and_also r f = (s, None) \<longleftrightarrow> (\<exists>s1. r = (s1, None) \<and> f s1 = (s, None))"
  by (auto simp: and_also_def split: prod.splits option.splits)

lemma and_then_None: "and_then r f = (s, None) \<longleftrightarrow> (\<exists>s1. r = (s1, None) \<and> f s1 = (s, None))"
  by (auto simp: and_then_def split: prod.splits option.splits)

lemma fst_plain [simp]: "fst (plain r) = fst r"
  by (simp add: plain_def)

lemma snd_plain [simp]: "snd (plain r) = map_option Plain (snd r)"
  by (simp add: plain_def)

lemma plain_None [simp]: "plain r = (s, None) \<longleftrightarrow> r = (s, None)"
  by (cases r) (simp add: plain_def)

lemma fst_and_also: "fst (and_also r f) = (if snd r = None then fst (f (fst r)) else fst r)"
  by (auto simp: and_also_def split: prod.splits option.splits)

text \<open>Operations of one controller leave the adoptions of the runtime alone.\<close>

lemma world_adoptions [simp]: "rt_soaking_adoptions (with_world ref w rt) = rt_soaking_adoptions rt"
  by (simp add: with_world_def)

lemma on_world_adoptions [simp]: "rt_soaking_adoptions (fst (on_world ref f rt)) = rt_soaking_adoptions rt"
  by (simp add: on_world_def split: prod.splits)

lemma dispatch_adoptions [simp]:
  "rt_soaking_adoptions (fst (dispatch env u now ref ev rt)) = rt_soaking_adoptions rt"
  by (simp add: dispatch_def)

lemma attach_adoptions [simp]: "rt_soaking_adoptions (fst (attach e ref rt)) = rt_soaking_adoptions rt"
  by (simp add: attach_def Let_def split: sum.splits)

lemma transact_adoptions [simp]:
  "rt_soaking_adoptions (fst (runtime_transact io plan rt)) = rt_soaking_adoptions rt"
  by (simp add: runtime_transact_def split: prod.splits)

section \<open>Recovery of a soak\<close>

lemma rejected_not_adopted:
  assumes "map_of (rt_soaking_adoptions (fst (reject_soaking su ref rt))) z = Some True"
  shows "map_of (rt_soaking_adoptions rt) z = Some True"
  using assms
  by (auto simp: reject_soaking_def fst_and_also set_adoption_def update_conv split: if_splits)

lemma rebase_result:
  assumes "rebase_soaking_owner_plan i run_id d = Inr d'"
  shows "\<exists>data k h p. d' = Some data \<and> map_of (st_zone_histories data) k = Some h \<and>
    zr_session (zh_zone_runtime h) = Some p \<and> ses_owner_run_id (ps_context p) = run_id"
proof (cases d')
  case None
  with assms show ?thesis
    by (auto simp: rebase_soaking_owner_plan_def res_bind_eq_Inr commit_plan_not_None split: option.splits)
next
  case (Some data)
  have "\<exists>h p. data = next_revision (d\<lparr>st_zone_histories := AList.update (zh_zone_history_id h)
       (h\<lparr>zh_zone_runtime := (zh_zone_runtime h)\<lparr>zr_session :=
         Some (p\<lparr>ps_context := (ps_context p)\<lparr>ses_owner_run_id := run_id\<rparr>\<rparr>)\<rparr>\<rparr>) (st_zone_histories d)\<rparr>)"
    using assms unfolding Some
    by (fastforce simp: rebase_soaking_owner_plan_def res_bind_eq_Inr commit_plan_Inr mk_session_eq_Inr
        dest!: mk_ids split: option.splits)
  then obtain h p where "data = next_revision (d\<lparr>st_zone_histories := AList.update (zh_zone_history_id h)
       (h\<lparr>zh_zone_runtime := (zh_zone_runtime h)\<lparr>zr_session :=
         Some (p\<lparr>ps_context := (ps_context p)\<lparr>ses_owner_run_id := run_id\<rparr>\<rparr>)\<rparr>\<rparr>) (st_zone_histories d)\<rparr>)"
    by blast
  then have "map_of (st_zone_histories data) (zh_zone_history_id h) =
       Some (h\<lparr>zh_zone_runtime := (zh_zone_runtime h)\<lparr>zr_session :=
         Some (p\<lparr>ps_context := (ps_context p)\<lparr>ses_owner_run_id := run_id\<rparr>\<rparr>)\<rparr>\<rparr>)"
    by (simp add: update_lookup)
  with Some show ?thesis by fastforce
qed

definition session_owned_by :: "string \<Rightarrow> SafetyStore \<Rightarrow> bool" where
  "session_owned_by run_id s \<longleftrightarrow>
     (\<exists>data k h p. ss_data s = Some data \<and> map_of (st_zone_histories data) k = Some h \<and>
        zr_session (zh_zone_runtime h) = Some p \<and> ses_owner_run_id (ps_context p) = run_id)"

lemma rebase_verified:
  assumes "runtime_transact io (rebase_soaking_owner_plan i run_id) rt = (rt1, None)"
  shows "session_owned_by run_id (rt_store rt1)"
proof -
  from assms have "transact io (rebase_soaking_owner_plan i run_id) (rt_store rt) = (rt_store rt1, None)"
    by (auto simp: runtime_transact_def split: prod.splits)
  then show ?thesis
    by (cases rule: transact_cases) (auto simp: session_owned_by_def dest!: rebase_result)
qed

text \<open>(C12) A persisted soak is resumed only under complete trust: the previous run ended cleanly and owned the
  session, its timing is consistent, its configuration fingerprint is the current one, the actuator is
  available and proven OFF, and the transfer of the session to this run has been verified in the store.\<close>

theorem soak_resumed_only_when_trusted:
  assumes "reconcile_soaking ep su ref s a rt = (rt', err)"
    and "map_of (rt_soaking_adoptions rt') z = Some True"
    and "map_of (rt_soaking_adoptions rt) z \<noteq> Some True"
  shows "\<exists>previous rt1. rt_previous_run rt = Some previous \<and> previous_run_was_clean previous \<and>
     Some (ses_owner_run_id s) = run_last_clean_shutdown_run_id previous \<and>
     session_structure_valid s \<and>
     ses_config_fingerprint s = config_fingerprint (ep_digest ep) (ctl_config (rt_heap rt ref)) (ep_tz_name ep) \<and>
     act_available a \<and> act_proven_off a \<and>
     runtime_transact (su_rebase_io su)
       (rebase_soaking_owner_plan (ctl_safety_record_id (rt_heap rt ref)) (rt_run_id rt)) rt = (rt1, None) \<and>
     session_owned_by (rt_run_id rt) (rt_store rt1) \<and> (rt', err) = resume_soaking su ref rt1"
proof (cases "rt_previous_run rt")
  case None
  with assms show ?thesis by (simp add: reconcile_soaking_def)
next
  case (Some previous)
  have rej: "(rt', err) \<noteq> reject_soaking su ref rt"
    using rejected_not_adopted [of su ref rt z] assms(2,3) by (metis fst_conv)
  let ?tr = "runtime_transact (su_rebase_io su)
       (rebase_soaking_owner_plan (ctl_safety_record_id (rt_heap rt ref)) (rt_run_id rt)) rt"
  from rej assms(1) Some have t: "soak_trusted ep previous s a (rt_heap rt ref)"
    by (auto simp: reconcile_soaking_def split: if_splits)
  have kept: "rt_soaking_adoptions (fst ?tr) = rt_soaking_adoptions rt" by simp
  obtain rt1 e where tr: "?tr = (rt1, e)" by force
  have "e = None"
    using assms(1-3) Some t tr kept
    by (cases e rule: option.exhaust) (auto simp: reconcile_soaking_def split: py_error.splits)
  with assms(1) Some t tr rebase_verified show ?thesis
    by (auto simp: reconcile_soaking_def soak_trusted_def previous_run_was_clean_def)
qed

section \<open>Live and durable blockers\<close>

context blocker_log
begin

lemma add_result:
  assumes "resource_add persist key c = (c', None)"
  shows "sl_blockers (fst c') = insert key (sl_blockers (fst c))"
  using assms
  by (auto simp: resource_add_def slot_simps split: if_splits option.splits prod.splits)

lemma remove_result:
  assumes "resource_remove persist key c = (c', None)"
  shows "sl_blockers (fst c') = sl_blockers (fst c) - {key}"
  using assms
  by (auto simp: resource_remove_def slot_simps split: if_splits option.splits prod.splits)

lemma add_durable:
  assumes "resource_add persist key c = (c', err)" and "key \<in> durable (snd c)"
  shows "durable (snd c') = durable (snd c)"
  using assms
  by (auto simp: resource_add_def slot_simps insert_absorb split: if_splits option.splits prod.splits
      dest!: write_ok write_failed)

lemma remove_durable:
  assumes "resource_remove persist key c = (c', err)" and "key \<notin> durable (snd c)"
  shows "durable (snd c') = durable (snd c)"
  using assms
  by (auto simp: resource_remove_def slot_simps split: if_splits option.splits prod.splits
      dest!: write_ok write_failed)

end

lemma on_resource_eq:
  "on_resource f rt = (rt', err) \<longleftrightarrow>
     (\<exists>c. f (rt_slots rt, rt_store rt) = (c, err) \<and> rt' = rt\<lparr>rt_slots := fst c, rt_store := snd c\<rparr>)"
  by (auto simp: on_resource_def split: prod.splits)

lemma add_blockers_result:
  assumes "add_blockers io ks rt = (rt', None)" and "set ks \<subseteq> durable_blockers (rt_store rt)"
  shows "sl_blockers (rt_slots rt') = sl_blockers (rt_slots rt) \<union> set ks \<and>
     durable_blockers (rt_store rt') = durable_blockers (rt_store rt)"
  using assms
proof (induction ks arbitrary: rt)
  case (Cons k ks)
  then obtain c where c: "resource_add (persist_slot_blocker io) k (rt_slots rt, rt_store rt) = (c, None)"
    and rest: "add_blockers io ks (rt\<lparr>rt_slots := fst c, rt_store := snd c\<rparr>) = (rt', None)"
    by (auto simp: and_then_None on_resource_eq)
  have d: "durable_blockers (snd c) = durable_blockers (rt_store rt)"
    using blog.add_durable [OF c] Cons.prems(2) by simp
  show ?case
    using Cons.IH [OF rest] Cons.prems(2) d blog.add_result [OF c] by auto
qed simp

lemma remove_blockers_result:
  assumes "remove_blockers io ks rt = (rt', None)" and "set ks \<inter> durable_blockers (rt_store rt) = {}"
  shows "sl_blockers (rt_slots rt') = sl_blockers (rt_slots rt) - set ks \<and>
     durable_blockers (rt_store rt') = durable_blockers (rt_store rt)"
  using assms
proof (induction ks arbitrary: rt)
  case (Cons k ks)
  then obtain c where c: "resource_remove (persist_slot_blocker io) k (rt_slots rt, rt_store rt) = (c, None)"
    and rest: "remove_blockers io ks (rt\<lparr>rt_slots := fst c, rt_store := snd c\<rparr>) = (rt', None)"
    by (auto simp: and_then_None on_resource_eq)
  have d: "durable_blockers (snd c) = durable_blockers (rt_store rt)"
    using blog.remove_durable [OF c] Cons.prems(2) by simp
  show ?case
    using Cons.IH [OF rest] Cons.prems(2) d blog.remove_result [OF c] by auto
qed simp

lemma record_blocker_key:
  "(i, b) \<in> set (record_blocker_keys data) \<longleftrightarrow>
     (\<exists>r. r \<in> snd ` set (st_safety_records data) \<and> sr_safety_record_id r = i \<and> b \<in> set (sr_blocker_reasons r))"
proof -
  have "(i, b) \<in> set (map (Pair a) bs) \<longleftrightarrow> a = i \<and> b \<in> set bs" for a and bs :: "BlockerReason list"
    by auto
  then show ?thesis by (simp add: record_blocker_keys_def Bex_def)
qed

lemma record_keys_durable:
  assumes s: "ss_data s = Some data" and "keyed_snapshot data"
  shows "set (record_blocker_keys data) = durable_blockers s"
proof -
  from assms(2) have k: "distinct (map fst (st_safety_records data))"
    "\<And>k r. (k, r) \<in> set (st_safety_records data) \<Longrightarrow> sr_safety_record_id r = k"
    by (auto simp: keyed_snapshot_def keyed_def)
  have "(i, b) \<in> set (record_blocker_keys data) \<longleftrightarrow>
      (\<exists>r. map_of (st_safety_records data) i = Some r \<and> b \<in> set (sr_blocker_reasons r))" for i b
    unfolding record_blocker_key using k(2) map_of_eq_Some_iff [OF k(1), of i] by force
  then show ?thesis using s by (simp add: durable_blockers_def set_eq_iff)
qed


section \<open>Acknowledgements\<close>

lemma update_same_view:
  assumes "map_of al k = Some v" and "f v' = f v"
  shows "map (f \<circ> snd) (AList.update k v' al) = map (f \<circ> snd) al"
  using assms by (induction al) (auto split: if_splits)

lemma update_elem:
  assumes "map_of al k = Some v" and "(i, w) \<in> set (AList.update k v' al)"
  shows "(i, w) \<in> set al \<or> i = k \<and> w = v' \<and> (k, v) \<in> set al"
  using assms by (induction al) (auto split: if_splits dest: map_of_SomeD)

text \<open>A record may be replaced by one with the same references.\<close>

lemma replaced_record_valid:
  assumes v: "validate_store_data d = Inr ()" and r: "map_of (st_safety_records d) k = Some r"
    and same: "sr_safety_record_id r' = sr_safety_record_id r" "sr_safety_lineage_id r' = sr_safety_lineage_id r"
      "sr_active_subentry_id r' = sr_active_subentry_id r" "sr_zone_history_id r' = sr_zone_history_id r"
      "sr_runtime_lifecycle r' = sr_runtime_lifecycle r"
  shows "validate_store_data (next_revision (d\<lparr>st_safety_records := AList.update k r' (st_safety_records d)\<rparr>)) = Inr ()"
proof -
  let ?al = "st_safety_records d" and ?al' = "AList.update k r' (st_safety_records d)"
  note view = update_same_view [OF r, of _ r']
  have keys: "fst ` set ?al' = fst ` set ?al"
    using r by (simp add: dom_update insert_absorb weak_map_of_SomeI map_of_SomeD image_iff)
       (metis fst_conv insert_absorb map_of_SomeD image_iff)
  have ids: "sr_safety_record_id ` snd ` set ?al' = sr_safety_record_id ` snd ` set ?al"
    using view [of sr_safety_record_id] same(1) by (metis image_comp list.set_map)
  have refs: "(\<forall>(i, w) \<in> set ?al'. \<exists>h. map_of (st_zone_histories d) (sr_zone_history_id w) = Some h \<and>
        (sr_runtime_lifecycle w = ACTIVE \<longrightarrow> zh_active_subentry_id h = sr_active_subentry_id w))"
    using v same unfolding validate_iff store_refs_ok_def by (fastforce dest!: update_elem [OF r])
  have owners: "(\<forall>(i, h) \<in> set (st_zone_histories d). \<forall>p. zr_session (zh_zone_runtime h) = Some p \<longrightarrow>
        (\<exists>w. map_of ?al' (ps_owner_safety_record_id p) = Some w \<and> sr_zone_history_id w = zh_zone_history_id h))"
    using v r same unfolding validate_iff store_refs_ok_def by (fastforce simp: update_lookup)
  have con: "all_contributions (next_revision (d\<lparr>st_safety_records := ?al'\<rparr>)) = all_contributions d"
    by (simp add: all_contributions_def)
  have lin: "map (sr_safety_lineage_id \<circ> snd) ?al' = map (sr_safety_lineage_id \<circ> snd) ?al"
    and act: "map (sr_active_subentry_id \<circ> snd) ?al' = map (sr_active_subentry_id \<circ> snd) ?al"
    using view same by blast+
  let ?d' = "next_revision (d\<lparr>st_safety_records := ?al'\<rparr>)"
  have sel: "st_safety_records ?d' = ?al'" "st_zone_histories ?d' = st_zone_histories d"
    by simp_all
  from v have "store_keys_ok d" and "store_refs_ok d" by (simp_all add: validate_iff)
  have "store_keys_ok ?d'"
    using \<open>store_keys_ok d\<close> unfolding store_keys_ok_def
    by (simp only: sel keys ids lin act)
  moreover have "store_refs_ok ?d'"
    using \<open>store_refs_ok d\<close> refs owners unfolding store_refs_ok_def con sel keys by blast
  moreover have "st_version ?d' = 3 \<and> st_generation_id ?d' \<noteq> [] \<and> 1 \<le> st_store_revision ?d'"
    using v by (simp add: validate_iff next_revision_def)
  ultimately show ?thesis by (simp add: validate_iff)
qed

lemma recovery_context_facts:
  assumes "removed_actuator_recovery_context e i l rt = Some (r, uuid)" and "ss_data (rt_store rt) = Some d"
  shows "map_of (st_safety_records d) i = Some r \<and> sr_safety_lineage_id r = l \<and>
     sr_runtime_lifecycle r \<noteq> ACTIVE \<and> record_uuid r = Some uuid \<and>
     ai_identity_status (sr_actuator_identity r) = MISSING \<and> pe_registry e uuid = None \<and>
     (\<forall>w \<in> snd ` set (st_safety_records d). sr_runtime_lifecycle w = ACTIVE \<longrightarrow>
        sr_safety_record_id w = i \<or> record_uuid w \<noteq> Some uuid) \<and>
     sr_possible_flow_owner r = None \<and> sr_actuator_fault r = None \<and> \<not> sr_acknowledgement_required r \<and>
     (\<exists>h. map_of (st_zone_histories d) (sr_zone_history_id r) = Some h \<and>
        zr_session (zh_zone_runtime h) = None)"
  using assms
  by (auto simp: removed_actuator_recovery_context_def list_ex_iff Let_def split: option.splits if_splits)

lemma ack_keeps_checks:
  assumes "mk_safety_record r = Inr r" and "sr_runtime_lifecycle r \<noteq> ACTIVE"
  shows "mk_safety_record (r\<lparr>sr_removed_actuator_ack := a\<rparr>) = Inr (r\<lparr>sr_removed_actuator_ack := a\<rparr>)"
  using assms
  by (auto simp: mk_safety_record_def record_lifecycle_check_def res_bind_eq_Inr split: if_splits option.splits)

text \<open>A removal acknowledgement that is offered goes through: in a consistent snapshot the recovery context
  implies every check of the transaction, and the transaction adds the acknowledgement to that record and
  changes nothing else.\<close>

theorem offered_removal_is_accepted:
  assumes "removed_actuator_recovery_context e i l rt = Some (r, uuid)"
    and "ss_data (rt_store rt) = Some d" and "validate_store_data d = Inr ()"
    and "mk_safety_record r = Inr r"
    and "mk_actuator_identity (sr_actuator_identity r) = Inr (sr_actuator_identity r)"
  shows "acknowledge_removed_actuator_plan i l uuid t d =
     Inr (Some (next_revision (d\<lparr>st_safety_records := AList.update i
       (r\<lparr>sr_removed_actuator_ack := Some
          \<lparr>rak_acknowledged_at_utc = t, rak_registry_entry_id = uuid,
           rak_last_known_entity_id = ai_last_known_entity_id (sr_actuator_identity r)\<rparr>\<rparr>)
       (st_safety_records d)\<rparr>)))"
proof -
  note facts = recovery_context_facts [OF assms(1,2)]
  have uuid: "uuid \<noteq> []" using assms(5) facts by (auto simp: mk_actuator_identity_def record_uuid_def split: if_splits)
  let ?r = "r\<lparr>sr_removed_actuator_ack := Some
          \<lparr>rak_acknowledged_at_utc = t, rak_registry_entry_id = uuid,
           rak_last_known_entity_id = ai_last_known_entity_id (sr_actuator_identity r)\<rparr>\<rparr>"
  have "commit_record d i ?r =
      Inr (Some (next_revision (d\<lparr>st_safety_records := AList.update i ?r (st_safety_records d)\<rparr>)))"
    using facts assms(3,4)
    by (simp add: commit_record_Inr ack_keeps_checks replaced_record_valid [of d i r])
  with facts uuid show ?thesis
    by (auto simp: acknowledge_removed_actuator_plan_def Let_def record_session_def record_uuid_def mk_removed_ack_def)
qed

lemma res_map_fst:
  assumes "res_map (\<lambda>(k, v). res_bind (f v) (\<lambda>y. Inr (k, y))) xs = Inr ys"
  shows "map fst ys = map fst xs"
  using assms by (induction xs arbitrary: ys) (auto simp: res_bind_eq_Inr)

lemma absent_not_assessed:
  assumes "tombstone_assessments e d = Inr as" and "keyed_snapshot d"
    and "map_of (st_safety_records d) i = Some r" and "record_uuid r = Some uuid" and "pe_registry e uuid = None"
  shows "map_of as i = None"
proof (rule ccontr)
  assume "map_of as i \<noteq> None"
  then have "i \<in> set (map fst as)" by (auto simp: map_of_eq_None_iff)
  note fsts = res_map_fst [OF assms(1) [unfolded tombstone_assessments_def]]
  from \<open>i \<in> set (map fst as)\<close> obtain w u entry where w: "w \<in> snd ` set (st_safety_records d)" "sr_safety_record_id w = i"
    "record_uuid w = Some u" "pe_registry e u = Some entry"
    unfolding fsts by (auto simp: image_iff dest!: sym [where t = "record_uuid _"] sym [where t = "pe_registry _ _"]
        split: if_splits option.splits)
  from w(1,2) assms(2) have "map_of (st_safety_records d) i = Some w"
    by (auto simp: keyed_snapshot_def keyed_def)
  with w(3,4) assms(3-5) show False by simp
qed

lemma refresh_records_lookup:
  assumes "refresh_records e as hs rs = Inr rs'" and "map_of rs i = Some r"
  shows "if sr_runtime_lifecycle r = ACTIVE then map_of rs' i = Some r
    else \<exists>h r'. map_of hs (sr_zone_history_id r) = Some h \<and>
      reconcile_retained_record e r h (map_of as i) = Inr r' \<and> map_of rs' i = Some r'"
  using assms
proof (induction rs arbitrary: rs')
  case (Cons x rs)
  then show ?case by (cases x) (auto simp: res_bind_eq_Inr dict_item_eq_Inr split: if_splits)
qed simp

lemma acknowledged_steps:
  assumes "reconcile_retained_record e r h None = Inr r'"
    and "sr_removed_actuator_ack r = Some ack" and "record_uuid r = Some (rak_registry_entry_id ack)"
    and "pe_registry e (rak_registry_entry_id ack) = None" and "sr_possible_flow_owner r = None"
    and "zr_session (zh_zone_runtime h) = None"
    and "set (sr_blocker_reasons r) \<subseteq> {ACTUATOR_NOT_PROVEN_OFF, EXTERNAL_FLOW}"
  shows "sr_runtime_lifecycle r' = RETIRED \<and> sr_blocker_reasons r' = [] \<and> sr_identity_incident r' = None"
proof -
  have r1: "retained_identity_after_rename e r = Inr r"
    using assms(3,4) by (simp add: retained_identity_after_rename_def record_uuid_def Let_def split: option.split)
  have proof1: "operator_proof r None"
    using assms(2,3) by (simp add: operator_proof_def ack_covers_def record_uuid_def)
  have none: "without_blockers (sr_blocker_reasons r) [ACTUATOR_NOT_PROVEN_OFF, EXTERNAL_FLOW] = []"
    using assms(7) by (auto simp: without_blockers_def filter_empty_conv)
  from assms(1) obtain r2 r3 where r2: "reconcile_active_record r h None True = Inr r2"
    and r3: "retained_identity r2 None True = Inr r3"
    and r': "r' = r3\<lparr>sr_runtime_lifecycle := (if safe_to_retire r3 h None True then RETIRED else DELETE_PENDING)\<rparr>"
    using r1 proof1 by (auto elim!: retained_steps)
  from r2 none have "r2 = r\<lparr>sr_blocker_reasons := [], sr_possible_flow_owner := None\<rparr>"
    using assms(5) by (auto simp: reconcile_active_record_def resolve_by_off_def Let_def dest!: plan_ids(3) split: if_splits)
  with r3 have "sr_blocker_reasons r3 = [] \<and> sr_possible_flow_owner r3 = None \<and> sr_identity_incident r3 = None"
    by (auto simp: retained_identity_def res_bind_eq_Inr dest!: plan_ids(3))
  with r' assms(6) show ?thesis by (simp add: safe_to_retire_def)
qed

text \<open>The refresh after an acknowledgement retires the record: with the actuator still absent, no session, no flow
  owner and only the blockers that OFF evidence resolves, the record becomes retired, without blockers and
  without an identity incident.\<close>

theorem acknowledged_record_retires:
  assumes "tombstone_assessments e d = Inr as" and "refresh_tombstones e as d = Inr (Some d')"
    and "keyed_snapshot d" and "map_of (st_safety_records d) i = Some r"
    and "sr_runtime_lifecycle r \<noteq> ACTIVE" and "sr_removed_actuator_ack r = Some ack"
    and "record_uuid r = Some (rak_registry_entry_id ack)"
    and "pe_registry e (rak_registry_entry_id ack) = None" and "sr_possible_flow_owner r = None"
    and "map_of (st_zone_histories d) (sr_zone_history_id r) = Some h"
    and "zr_session (zh_zone_runtime h) = None"
    and "set (sr_blocker_reasons r) \<subseteq> {ACTUATOR_NOT_PROVEN_OFF, EXTERNAL_FLOW}"
  shows "\<exists>r'. map_of (st_safety_records d') i = Some r' \<and> sr_runtime_lifecycle r' = RETIRED \<and>
     sr_blocker_reasons r' = [] \<and> sr_identity_incident r' = None \<and> st_zone_histories d' = st_zone_histories d"
proof -
  from assms(2) obtain records where rec: "refresh_records e as (st_zone_histories d) (st_safety_records d) = Inr records"
    and d': "st_safety_records d' = records" "st_zone_histories d' = st_zone_histories d"
    by (auto simp: refresh_tombstones_def reconcile_plan_def res_bind_eq_Inr commit_plan_Inr)
  have "map_of as i = None" by (rule absent_not_assessed [OF assms(1,3,4,7,8)])
  then obtain r' where "reconcile_retained_record e r h None = Inr r'" "map_of records i = Some r'"
    using refresh_records_lookup [OF rec assms(4)] assms(5,10) by auto
  with acknowledged_steps assms d' show ?thesis by blast
qed

lemma acknowledged_record_safe:
  assumes "acknowledge_safety_record e io env u b i l rt = (rt', None)"
  shows "b \<and> (\<exists>d r h. ss_data (rt_store rt) = Some d \<and> map_of (st_safety_records d) i = Some r \<and>
       sr_safety_lineage_id r = l \<and> sr_actuator_fault r = Some ACTUATOR_OFF_TIMEOUT \<and>
       sr_blocker_reasons r = [] \<and> sr_possible_flow_owner r = None \<and> sr_identity_incident r = None \<and>
       map_of (st_zone_histories d) (sr_zone_history_id r) = Some h \<and> zr_session (zh_zone_runtime h) = None \<and>
       (controller_for_safety_record i rt = None \<longrightarrow> sr_runtime_lifecycle r = RETIRED)) \<and>
     \<not> fault_remains i rt'"
proof -
  have ok: "record_acknowledgement_refusal b i l rt = None"
    using assms by (auto simp: acknowledge_safety_record_def split: option.splits)
  then obtain d r h where d: "b" "ss_data (rt_store rt) = Some d" "map_of (st_safety_records d) i = Some r"
      "sr_safety_lineage_id r = l" "sr_actuator_fault r = Some ACTUATOR_OFF_TIMEOUT"
      "sr_blocker_reasons r = []" "sr_possible_flow_owner r = None" "sr_identity_incident r = None"
      "map_of (st_zone_histories d) (sr_zone_history_id r) = Some h" "zr_session (zh_zone_runtime h) = None"
    by (auto simp: record_acknowledgement_refusal_def Let_def split: option.splits if_splits)
  show ?thesis
  proof (cases "controller_for_safety_record i rt")
    case (Some ref)
    with assms ok have "\<not> fault_remains i rt'"
      by (auto simp: acknowledge_safety_record_def clear_fault_of_controller_def Let_def and_also_None
          split: sum.splits if_splits)
    with Some d show ?thesis by auto
  next
    case None
    with assms ok d have ret: "sr_runtime_lifecycle r = RETIRED"
      by (auto simp: acknowledge_safety_record_def split: if_splits)
    with None assms ok d obtain rt1 where
      "runtime_transact io (acknowledge_actuator_fault_plan i l ACTUATOR_OFF_TIMEOUT) rt = (rt1, None)"
      and st: "rt_store rt' = rt_store rt1"
      by (auto simp: acknowledge_safety_record_def split: prod.splits option.splits py_error.splits)
    then have "transact io (acknowledge_actuator_fault_plan i l ACTUATOR_OFF_TIMEOUT) (rt_store rt) = (rt_store rt1, None)"
      by (auto simp: runtime_transact_def split: prod.splits)
    then have "\<not> fault_remains i rt'"
    proof (cases rule: transact_cases)
      case (unchanged d1)
      with d(2) show ?thesis
        by (auto simp: acknowledge_actuator_fault_plan_def Let_def commit_record_def commit_plan_not_None
            res_bind_eq_Inr split: option.splits if_splits)
    next
      case (written d1 data loaded)
      with d(2,3) st show ?thesis
        by (auto simp: acknowledge_actuator_fault_plan_def Let_def commit_record_Inr fault_remains_def update_lookup
            res_bind_eq_Inr split: option.splits if_splits)
    qed simp
    with ret None d show ?thesis by auto
  qed
qed

text \<open>(C17) The acknowledgement of a retained record succeeds only for a record without blocker, flow owner, session or
  identity incident, and after it neither the fault nor the request remains; a detached record must be retired.\<close>

theorem record_acknowledgement_succeeds_only_when_safe:
  assumes "acknowledge_safety_record e io env u b i l rt = (rt', None)"
  shows "b \<and> (\<exists>d r h. ss_data (rt_store rt) = Some d \<and> map_of (st_safety_records d) i = Some r \<and>
       sr_safety_lineage_id r = l \<and> sr_actuator_fault r = Some ACTUATOR_OFF_TIMEOUT \<and>
       sr_blocker_reasons r = [] \<and> sr_possible_flow_owner r = None \<and> sr_identity_incident r = None \<and>
       map_of (st_zone_histories d) (sr_zone_history_id r) = Some h \<and> zr_session (zh_zone_runtime h) = None \<and>
       (controller_for_safety_record i rt = None \<longrightarrow> sr_runtime_lifecycle r = RETIRED)) \<and>
     \<not> fault_remains i rt'"
  using assms by (rule acknowledged_record_safe)

section \<open>Renames\<close>

lemma renamed_controller:
  assumes "on_sensor_renamed digest tz_name e store new c a = (c', a', Some change)"
  shows "c' = c\<lparr>ctl_config := (ctl_config c)\<lparr>cfg_moisture_sensor := new\<rparr>,
                ctl_fingerprint := config_fingerprint digest ((ctl_config c)\<lparr>cfg_moisture_sensor := new\<rparr>) tz_name\<rparr> \<and>
    cfg_moisture_sensor (ctl_config c) \<noteq> new"
  using assms by (auto simp: on_sensor_renamed_def Let_def split: if_splits)

text \<open>(C35) A rename of the moisture sensor ends a session under way, although the comment on the rename handler calls it
  no configuration change: the controller recomputes its fingerprint from the new entity identifier, so the
  final ON guards refuse the next pulse of every session that started before, and the refusal is handled as
  a change of configuration.\<close>

theorem rename_refuses_next_pulse:
  assumes "on_sensor_renamed digest tz_name e store new c a = (c', a', Some change)"
    and "ctl_session c = Some s"
    and "ses_config_fingerprint s = config_fingerprint digest (ctl_config c) tz_name"
    and "config_fingerprint digest ((ctl_config c)\<lparr>cfg_moisture_sensor := new\<rparr>) tz_name \<noteq>
         config_fingerprint digest (ctl_config c) tz_name"
    and "obs_classification (ctl_observation c) = VALID" and "stale_watchdog_event now s c = None"
  shows "''session_config_mismatch'' \<in> set (final_on_guard_failures (ses_session_id s) daily pre_dispatch now c') \<and>
     final_gate_refusal_event True [''ordinary_runtime_guards''] now c' = ConfigChangedPrepare"
proof -
  note c' = renamed_controller [OF assms(1), THEN conjunct1]
  have "stale_watchdog_event now s c' = None" using assms(6) by (simp add: c' stale_watchdog_event_def)
  then show ?thesis
    using assms(2-5) by (simp add: c' final_on_guard_failures_def check_def final_gate_refusal_event_def)
qed

section \<open>A concrete entry\<close>

definition home :: plan_env where
  "home = plan_home\<lparr>pe_now := 600000000,
     pe_registry := (\<lambda>i. if i = ''sensor.new'' then Some \<lparr>re_id = ''uuid-s'', re_entity_id = ''sensor.new''\<rparr> else None)\<rparr>"

definition plain_digest :: "ConfigPayload \<Rightarrow> string" where
  "plain_digest p = cfg_moisture_sensor (cp_config p) @ cfg_actuator (cp_config p)"

definition soak_session :: SessionContext where
  "soak_session = (sample_session AUTO)
     \<lparr>ses_owner_run_id := ''run0'', ses_config_fingerprint := ''sensor.bedswitch.bed'',
      ses_off_confirmed_at_utc := Some 300000000\<rparr>"

definition soak_data :: StoreData where
  "soak_data = active_data
     \<lparr>st_zone_histories := [(''h'', sample_history\<lparr>zh_active_subentry_id := Some ''z'',
        zh_zone_runtime := (zh_zone_runtime sample_history)
          \<lparr>zr_state := SOAKING,
           zr_session := Some \<lparr>ps_owner_safety_record_id = ''r'', ps_context = soak_session\<rparr>\<rparr>\<rparr>)]\<rparr>"

definition entry_runtime :: "StoreData \<Rightarrow> Runtime" where
  "entry_runtime data =
     \<lparr>rt_en = command_entry, rt_heap = (\<lambda>_. sample_controller DISABLED None), rt_next_ref = 1, rt_retained = [],
      rt_slots = slot_init True, rt_store = \<lparr>ss_generation_id = ''g'', ss_data = Some data\<rparr>, rt_emitted = [],
      rt_run_id = ''run1'',
      rt_previous_run = Some \<lparr>run_active_run_id = Some ''run0'', run_last_clean_shutdown_run_id = Some ''run0''\<rparr>,
      rt_soaking_adoptions = []\<rparr>"

definition accepting :: "StoreData option result \<Rightarrow> store_io" where
  "accepting planned =
     \<lparr>io_save_raises = False,
      io_read_back = (case planned of Inr (Some data) \<Rightarrow> Loaded data | _ \<Rightarrow> NoData)\<rparr>"

definition soak_startup :: startup_env where
  "soak_startup =
     \<lparr>su_home = home, su_clear_io = accepting (Inr None),
      su_rebase_io = accepting (rebase_soaking_owner_plan ''r'' ''run1'' soak_data),
      su_dispatch = broken_env, su_grace = broken_env, su_uuid = ''s2'', su_later = 600000000\<rparr>"

definition soak_outcome :: "Runtime entry_outcome" where
  "soak_outcome =
     reconcile_soaking \<lparr>ep_digest = plain_digest, ep_tz_name = ''UTC''\<rparr> soak_startup 0 soak_session
       \<lparr>act_available = True, act_proven_off = True, act_observed_on = False\<rparr> (entry_runtime soak_data)"

lemma soak_adopted: "map_of (rt_soaking_adoptions (fst soak_outcome)) ''z'' = Some True"
  by code_simp

theorem soak_resumed_only_when_trusted_witness:
  "\<exists>rt1. session_owned_by ''run1'' (rt_store rt1) \<and> soak_outcome = resume_soaking soak_startup 0 rt1"
proof -
  obtain rt' err where o: "soak_outcome = (rt', err)" by force
  have "map_of (rt_soaking_adoptions rt') ''z'' = Some True" using soak_adopted unfolding o by simp
  moreover have "map_of (rt_soaking_adoptions (entry_runtime soak_data)) ''z'' \<noteq> Some True"
    by (simp add: entry_runtime_def)
  ultimately show ?thesis
    using soak_resumed_only_when_trusted [OF o [unfolded soak_outcome_def], of "''z''"] o
    by (auto simp: entry_runtime_def)
qed

text \<open>A tombstone whose actuator has left the registry, before and after the acknowledgement.\<close>

definition removed_record :: SafetyRecord where
  "removed_record =
     returning_record\<lparr>sr_removed_actuator_ack := None, sr_blocker_reasons := [ACTUATOR_NOT_PROVEN_OFF]\<rparr>"

definition removed_data :: "RemovedActuatorAcknowledgement option \<Rightarrow> StoreData" where
  "removed_data ack =
     sample_data\<lparr>st_safety_records := [(''r'', removed_record\<lparr>sr_removed_actuator_ack := ack\<rparr>)]\<rparr>"

definition removal_ack :: RemovedActuatorAcknowledgement where
  "removal_ack =
     \<lparr>rak_acknowledged_at_utc = 0, rak_registry_entry_id = ''uuid-b'', rak_last_known_entity_id = None\<rparr>"

lemmas removed_defs = removed_data_def removed_record_def returning_record_def replaced_record_def sample_store_defs

lemma removed_keyed: "keyed_snapshot (removed_data a)"
  by (simp add: keyed_snapshot_def keyed_def removed_defs)

definition stale_runtime :: Runtime where
  "stale_runtime = (entry_runtime (removed_data None))
     \<lparr>rt_slots := (slot_init True)\<lparr>sl_blockers := {(''r'', EXTERNAL_FLOW)}\<rparr>\<rparr>"

definition stale_order :: "BlockerKey set \<Rightarrow> BlockerKey list" where
  "stale_order B = filter (\<lambda>k. k \<in> B) [(''r'', EXTERNAL_FLOW)]"

definition no_io :: store_io where
  "no_io = accepting (Inr None)"

lemma stale_republished:
  "snd (republish_record_blockers no_io stale_order stale_runtime) = None" by code_simp


lemma removed_offered:
  "removed_actuator_recovery_context home ''r'' ''l'' (entry_runtime (removed_data None)) = Some (removed_record, ''uuid-b'')"
  by code_simp

theorem offered_removal_is_accepted_witness:
  "\<exists>d'. acknowledge_removed_actuator_plan ''r'' ''l'' ''uuid-b'' 0 (removed_data None) = Inr (Some d')"
proof -
  have "validate_store_data (removed_data None) = Inr ()" by code_simp
  moreover have "mk_safety_record removed_record = Inr removed_record" by code_simp
  moreover have "mk_actuator_identity (sr_actuator_identity removed_record) = Inr (sr_actuator_identity removed_record)"
    by code_simp
  moreover have "ss_data (rt_store (entry_runtime (removed_data None))) = Some (removed_data None)"
    by (simp add: entry_runtime_def)
  ultimately show ?thesis using offered_removal_is_accepted [OF removed_offered] by blast
qed

lemma removed_refreshed:
  "tombstone_assessments home (removed_data (Some removal_ack)) = Inr []"
  "case refresh_tombstones home [] (removed_data (Some removal_ack)) of Inl e \<Rightarrow> False | Inr d \<Rightarrow> d \<noteq> None"
  by code_simp+

theorem acknowledged_record_retires_witness:
  "\<exists>d' r'. refresh_tombstones home [] (removed_data (Some removal_ack)) = Inr (Some d') \<and>
     map_of (st_safety_records d') ''r'' = Some r' \<and> sr_runtime_lifecycle r' = RETIRED"
proof -
  obtain d' where d': "refresh_tombstones home [] (removed_data (Some removal_ack)) = Inr (Some d')"
    using removed_refreshed(2) by (auto split: sum.splits)
  note retires = acknowledged_record_retires [OF removed_refreshed(1) d' removed_keyed, of "''r''" _ removal_ack sample_history]
  have "map_of (st_safety_records (removed_data (Some removal_ack))) ''r'' =
      Some (removed_record\<lparr>sr_removed_actuator_ack := Some removal_ack\<rparr>)"
    by (simp add: removed_data_def)
  from retires [OF this] d' show ?thesis
    by (auto simp: removed_defs removal_ack_def record_uuid_def home_def)
qed

definition detached_runtime :: Runtime where
  "detached_runtime = (entry_runtime sample_data)\<lparr>rt_en := command_entry\<lparr>en_controllers := []\<rparr>\<rparr>"

definition detached_acknowledgement :: "Runtime entry_outcome" where
  "detached_acknowledgement =
     acknowledge_safety_record home (accepting (acknowledge_actuator_fault_plan ''r'' ''l'' ACTUATOR_OFF_TIMEOUT sample_data))
       broken_env ''s2'' True ''r'' ''l'' detached_runtime"

lemma detached_acknowledged: "snd detached_acknowledgement = None" by code_simp

theorem record_acknowledgement_succeeds_only_when_safe_witness:
  "\<not> fault_remains ''r'' (fst detached_acknowledgement)"
proof -
  obtain rt' where r: "detached_acknowledgement = (rt', None)"
    using detached_acknowledged by (metis prod.collapse)
  show ?thesis
    using record_acknowledgement_succeeds_only_when_safe [OF r [unfolded detached_acknowledgement_def]]
    unfolding r by simp
qed

definition renaming_controller :: ZoneController where
  "renaming_controller = sample_controller SOAKING (Some soak_session)"

definition renaming_store :: SafetyStore where
  "renaming_store = \<lparr>ss_generation_id = ''g'', ss_data = Some (soak_data
     \<lparr>st_zone_histories := [(''h'', sample_history\<lparr>zh_zone_runtime := (zh_zone_runtime sample_history)
        \<lparr>zr_sensor_identity := \<lparr>si_registry_entry_id = Some ''uuid-s'', si_last_known_entity_id = Some ''sensor.bed''\<rparr>\<rparr>\<rparr>)]\<rparr>)\<rparr>"

lemma sensor_renamed:
  "snd (snd (on_sensor_renamed plain_digest ''UTC'' home renaming_store ''sensor.new'' renaming_controller
     (new_moisture_adapter ''sensor.bed'' 3600))) = Some (''sensor.bed'', ''sensor.new'')"
  by code_simp

theorem rename_refuses_next_pulse_witness:
  "\<exists>c'. fst (on_sensor_renamed plain_digest ''UTC'' home renaming_store ''sensor.new'' renaming_controller
       (new_moisture_adapter ''sensor.bed'' 3600)) = c' \<and>
     ''session_config_mismatch'' \<in> set (final_on_guard_failures ''s1'' 0 True 0 c')"
proof -
  obtain c' a' where r: "on_sensor_renamed plain_digest ''UTC'' home renaming_store ''sensor.new'' renaming_controller
       (new_moisture_adapter ''sensor.bed'' 3600) = (c', a', Some (''sensor.bed'', ''sensor.new''))"
    using sensor_renamed by (metis prod.collapse)
  have "ses_session_id soak_session = ''s1''" by (simp add: soak_session_def sample_defs)
  with rename_refuses_next_pulse [OF r, of soak_session 0 0 True] r show ?thesis
    by (simp add: renaming_controller_def sample_controller_def config_fingerprint_def plain_digest_def soak_session_def
        sample_defs stale_watchdog_event_def)
qed

end
