(* ===== verification/Shutdown_Safety.thy ===== *)
theory Shutdown_Safety
  imports Entry_Shutdown Entry_Startup Lifecycle_Safety
begin

text \<open>
  What the end and the start of an entry guarantee: the synchronous region closes every way to water,
  a clean report is honest, an unclean end leaves the marker of the run alone, a soak is kept exactly
  when it may be, and grants are released only after a verified start.
\<close>

section \<open>The run marker is left alone\<close>

definition run_of :: "SafetyStore \<Rightarrow> RunIds option" where
  "run_of s = map_option st_run (ss_data s)"

named_theorems run_kept

lemma transact_run:
  assumes "\<And>d d'. plan d = Inr (Some d') \<Longrightarrow> st_run d' = st_run d"
  shows "run_of (fst (transact io plan s)) = run_of s"
proof -
  obtain s' err where t: "transact io plan s = (s', err)" by force
  then have "run_of s' = run_of s" by (cases rule: transact_cases) (auto simp: run_of_def dest: assms)
  with t show ?thesis by simp
qed

lemma update_run [run_kept]:
  "run_of (fst (transact io (update_controller_runtime_plan i h w) s)) = run_of s"
  by (rule transact_run)
    (auto simp: update_controller_runtime_plan_def commit_plan_Inr res_bind_eq_Inr split: option.splits if_splits)

lemma blocker_run [run_kept]:
  "run_of (fst (transact io (set_record_blocker_plan i r a) s)) = run_of s"
  by (rule transact_run)
    (auto simp: set_record_blocker_plan_def Let_def commit_record_Inr split: option.splits if_splits)

lemma persist_blocker_run [run_kept]: "run_of (fst (persist_slot_blocker io k a s)) = run_of s"
  by (auto simp: persist_slot_blocker_def run_kept split: option.splits)

lemma resource_run [run_kept]:
  "run_of (snd (fst (resource_add (persist_slot_blocker io) k c))) = run_of (snd c)"
  "run_of (snd (fst (resource_remove (persist_slot_blocker io) k c))) = run_of (snd c)"
  using persist_blocker_run [of io k True "snd c"] persist_blocker_run [of io k False "snd c"]
  by (auto simp: resource_add_def resource_remove_def split: sum.splits suspension.splits prod.splits option.splits)

lemma persist_locked_run [run_kept]: "run_of (w_store (fst (persist_locked env w))) = run_of (w_store w)"
  using update_run
  by (auto simp: persist_locked_def Let_def split: sum.splits prod.splits) (metis fst_conv)

lemma action_run [run_kept]: "run_of (w_store (fst (apply_action_locked env d a w))) = run_of (w_store w)"
  using resource_run persist_locked_run
  by (cases a)
    (auto simp: on_ctl_def emit_def with_slots_def Let_def split: option.splits prod.splits if_splits, (metis fst_conv snd_conv)+)

lemma actions_run [run_kept]: "run_of (w_store (fst (apply_actions env k d as w))) = run_of (w_store w)"
proof (induction as arbitrary: k w)
  case (Cons a as)
  obtain w1 err where a: "apply_action_locked (env k) d a w = (w1, err)" by force
  with action_run [of "env k" d a w] have "run_of (w_store w1) = run_of (w_store w)" by simp
  with a Cons show ?case by (auto simp: and_then_def split: option.split)
qed simp

lemma failure_run [run_kept]: "run_of (w_store (handle_persist_failure_locked w)) = run_of (w_store w)"
  by (simp add: handle_persist_failure_locked_def emit_def on_ctl_def Let_def)

lemma apply_locked_run [run_kept]: "run_of (w_store (fst (apply_locked env now d inp w))) = run_of (w_store w)"
proof -
  have a: "run_of (w_store (fst (apply_actions env 0 d (dec_actions d) (w\<lparr>w_ctl := c\<rparr>)))) = run_of (w_store w)" for c
    using actions_run [of env 0 d "dec_actions d" "w\<lparr>w_ctl := c\<rparr>"] by simp
  obtain c e where "apply_data d inp now (w_ctl w) = (c, e)" by force
  moreover obtain w2 e2 where w2: "apply_actions env 0 d (dec_actions d) (w\<lparr>w_ctl := c\<rparr>) = (w2, e2)" by force
  moreover from a [of c] w2 have "run_of (w_store w2) = run_of (w_store w)" by simp
  ultimately show ?thesis
    by (auto simp: apply_locked_def on_ctl_def failure_run Let_def split: option.split py_error.split)
qed

lemma decide_run [run_kept]: "run_of (w_store (fst (decide_and_apply env u now ev w))) = run_of (w_store w)"
  using apply_locked_run [of env now _ _ "on_ctl (current_daily now) w"]
  by (auto simp: decide_and_apply_def on_ctl_def Let_def split: sum.split)

abbreviation runtime_run :: "Runtime \<Rightarrow> RunIds option" where
  "runtime_run rt \<equiv> run_of (rt_store rt)"

lemma on_world_run:
  "(\<And>w. run_of (w_store (fst (f w))) = run_of (w_store w)) \<Longrightarrow> runtime_run (fst (on_world ref f rt)) = runtime_run rt"
  by (auto simp: on_world_def with_world_def world_of_def split: prod.splits) (metis World.select_convs(3) fst_conv)

lemma dispatch_run [run_kept]: "runtime_run (fst (dispatch env u now ref ev rt)) = runtime_run rt"
  by (simp add: dispatch_def on_world_run decide_run)

lemma on_controller_store [simp]: "rt_store (on_controller ref f rt) = rt_store rt"
  by (simp add: on_controller_def)

lemma begin_off_store [simp]: "rt_store (begin_shutdown_off ref rt) = rt_store rt"
  by (simp add: begin_shutdown_off_def Let_def)

text \<open>Phases of the shutdown.\<close>

definition keeps_run :: "(stage \<Rightarrow> stage_outcome) \<Rightarrow> bool" where
  "keeps_run f \<longleftrightarrow> (\<forall>s. runtime_run (fst (fst (f s))) = runtime_run (fst s))"

lemma keeps_runD: "keeps_run f \<Longrightarrow> runtime_run (fst (fst (f s))) = runtime_run (fst s)"
  unfolding keeps_run_def by blast

lemma next_stage_run:
  assumes "keeps_run f"
  shows "runtime_run (fst (fst (next_stage r f))) = runtime_run (fst (fst r))"
  using keeps_runD [OF assms] by (auto simp: next_stage_def split: prod.split option.split)

lemma each_stage_run: "(\<And>ref. keeps_run (f ref)) \<Longrightarrow> keeps_run (each_stage f refs)"
proof (induction refs)
  case (Cons ref refs)
  then show ?case
    using next_stage_run [of "each_stage f refs" "f ref _"] by (simp add: keeps_run_def)
qed (simp add: keeps_run_def)

lemma signal_active_run: "keeps_run (signal_active env fz ref)"
  by (auto simp: keeps_run_def signal_active_def soaking_shutdown_outcome_def staged_def next_stage_def
      res_bind_eq_Inr Let_def dispatch_run split: sum.split option.split prod.split)

lemma persist_outcome_run: "keeps_run (persist_outcome env ref)"
proof -
  have p: "runtime_run (fst (on_world ref (persist_locked e) rt)) = runtime_run rt" for e rt
    by (simp add: on_world_run persist_locked_run)
  show ?thesis
    unfolding keeps_run_def
  proof (intro allI)
    fix s :: stage
    obtain rt l where s: "s = (rt, l)" by force
    obtain rt1 err where o: "on_world ref (persist_locked (sh_persist env ref)) rt = (rt1, err)" by force
    with p [of "sh_persist env ref" rt] have "runtime_run rt1 = runtime_run rt" by simp
    with o show "runtime_run (fst (fst (persist_outcome env ref s))) = runtime_run (fst s)"
      by (auto simp: persist_outcome_def s Let_def split: option.split py_error.split)
  qed
qed

lemma check_terminal_run: "keeps_run (check_terminal_off env ref)"
  by (auto simp: keeps_run_def check_terminal_off_def Let_def split: sum.split)

text \<open>What the rest of the program does while the shutdown waits.\<close>

definition environment_keeps_run :: "shutdown_env \<Rightarrow> bool" where
  "environment_keeps_run env \<longleftrightarrow>
     (\<forall>ref rt. runtime_run (fst (sh_off env ref rt)) = runtime_run rt) \<and>
     (\<forall>rt. runtime_run (fst (sh_join env rt)) = runtime_run rt)"

lemma converge_run: "environment_keeps_run env \<Longrightarrow> keeps_run (converge env ref)"
  by (auto simp: keeps_run_def converge_def environment_keeps_run_def Let_def split: prod.split) (metis fst_conv)+

lemma join_run: "environment_keeps_run env \<Longrightarrow> keeps_run (join_handoff env)"
  by (auto simp: keeps_run_def join_handoff_def environment_keeps_run_def split: prod.split) (metis fst_conv)+

section \<open>The report\<close>

lemma next_stage_None: "next_stage r f = (s, None) \<longleftrightarrow> (\<exists>s1. r = (s1, None) \<and> f s1 = (s, None))"
  by (auto simp: next_stage_def split: prod.splits option.splits)

definition stage_clean :: "stage_outcome \<Rightarrow> bool" where
  "stage_clean r \<longleftrightarrow> snd r = None \<and> lg_failures (snd (fst r)) = []"

lemma report_clean: "rep_clean (stage1_report r) = stage_clean r"
  by (auto simp: stage1_report_def stage_clean_def Let_def split: option.split stage_end.split)

text \<open>A phase that has a failure in its log keeps it.\<close>

definition keeps_failures :: "(stage \<Rightarrow> stage_outcome) \<Rightarrow> bool" where
  "keeps_failures f \<longleftrightarrow> (\<forall>s. set (lg_failures (snd s)) \<subseteq> set (lg_failures (snd (fst (f s)))))"

lemma keeps_failuresD: "keeps_failures f \<Longrightarrow> f s = (s', e) \<Longrightarrow> lg_failures (snd s') = [] \<Longrightarrow> lg_failures (snd s) = []"
  unfolding keeps_failures_def by (metis fst_conv list.set(1) set_empty subset_empty)

lemma each_stage_failures: "(\<And>ref. keeps_failures (f ref)) \<Longrightarrow> keeps_failures (each_stage f refs)"
proof (induction refs)
  case (Cons ref refs)
  then show ?case
    unfolding keeps_failures_def next_stage_def each_stage.simps
    by (auto split: prod.split option.split) (metis fst_conv snd_conv subsetD)+
qed (simp add: keeps_failures_def)

lemma check_terminal_failures: "keeps_failures (check_terminal_off env ref)"
  by (auto simp: keeps_failures_def check_terminal_off_def log_failure_def Let_def split: sum.split)

lemma persist_failures: "keeps_failures (persist_outcome env ref)"
  by (auto simp: keeps_failures_def persist_outcome_def log_failure_def Let_def split: prod.split option.split py_error.split)

section \<open>The terminal check\<close>

definition proven_off_if :: "string set \<Rightarrow> nat \<Rightarrow> Runtime \<Rightarrow> bool" where
  "proven_off_if ids ref rt \<longleftrightarrow>
     (ctl_safety_record_id (rt_heap rt ref) \<in> ids \<longrightarrow> act_proven_off (ctl_assessment (rt_heap rt ref)))"

lemma check_terminal_effect:
  assumes "check_terminal_off env ref (rt, l) = ((rt', l'), None)" and "lg_failures l' = []"
  shows "proven_off_if (set (lg_watering l) \<union> set (lg_preserved l)) ref rt'"
    and "rt_store rt' = rt_store rt" and "lg_watering l' = lg_watering l" and "lg_preserved l' = lg_preserved l"
    and "i \<noteq> ref \<Longrightarrow> rt_heap rt' i = rt_heap rt i"
  using assms
  by (auto simp: check_terminal_off_def Let_def proven_off_if_def on_controller_def log_failure_def
      refresh_actuator_for_final_gate_def res_bind_eq_Inr split: if_splits sum.splits)

lemma check_terminal_all:
  assumes "each_stage (check_terminal_off env) refs (rt, l) = ((rt', l'), None)" and "lg_failures l' = []"
    and "\<forall>ref \<in> R. proven_off_if (set (lg_watering l) \<union> set (lg_preserved l)) ref rt"
  shows "(\<forall>ref \<in> set refs \<union> R. proven_off_if (set (lg_watering l) \<union> set (lg_preserved l)) ref rt') \<and>
    rt_store rt' = rt_store rt \<and> lg_watering l' = lg_watering l \<and> lg_preserved l' = lg_preserved l"
  using assms
proof (induction refs arbitrary: rt l R)
  case (Cons ref refs)
  from Cons.prems(1) obtain rt1 l1 where one: "check_terminal_off env ref (rt, l) = ((rt1, l1), None)"
    and rest: "each_stage (check_terminal_off env) refs (rt1, l1) = ((rt', l'), None)"
    by (auto simp: next_stage_None)
  have l1: "lg_failures l1 = []"
    using keeps_failuresD [OF each_stage_failures [OF check_terminal_failures] rest] Cons.prems(2) by simp
  note eff = check_terminal_effect [OF one l1]
  have "\<forall>i \<in> insert ref R. proven_off_if (set (lg_watering l1) \<union> set (lg_preserved l1)) i rt1"
    using eff Cons.prems(3) by (metis insertE proven_off_if_def)
  from Cons.IH [OF rest Cons.prems(2) this] eff show ?case by auto
qed simp

lemma marked_clean:
  assumes "mark_clean env (rt, l) = ((rt', l'), None)" and "lg_failures l' = []" and "ss_data (rt_store rt) = Some data"
  shows "\<exists>data'. ss_data (rt_store rt') = Some data' \<and> st_safety_records data' = st_safety_records data \<and>
    run_last_clean_shutdown_run_id (st_run data') = run_active_run_id (st_run data') \<and>
    rt_heap rt' = rt_heap rt \<and> l' = l \<and>
    (\<exists>loaded. io_read_back (sh_mark env) = Loaded loaded \<and> persisted_view loaded = persisted_view data')"
proof -
  have l: "lg_failures l = []" using assms(1,2) by (auto simp: mark_clean_def split: if_splits)
  obtain rt1 err where t: "runtime_transact (sh_mark env) mark_clean_shutdown_plan rt = (rt1, err)" by force
  with assms l have e: "err = None" and r: "rt' = rt1" "l' = l"
    by (auto simp: mark_clean_def log_failure_def split: option.splits py_error.splits)
  from t e have s: "transact (sh_mark env) mark_clean_shutdown_plan (rt_store rt) = (rt_store rt1, None)"
    and h: "rt_heap rt1 = rt_heap rt"
    by (auto simp: runtime_transact_def split: prod.splits)
  from s show ?thesis
  proof (cases rule: transact_cases)
    case (unchanged d)
    then show ?thesis by (simp add: mark_clean_shutdown_plan_def commit_plan_not_None)
  next
    case (written d data' loaded)
    with assms(3) h r show ?thesis
      by (auto simp: mark_clean_shutdown_plan_def commit_plan_Inr next_revision_def)
  qed simp
qed

text \<open>(C13) A clean shutdown report is honest: the last write was the verified marker of this run; in the data it was
  written with, no record owes an OFF of the integration; and every controller that was watering, or whose
  soak was kept, has a live actuator reading that proves OFF.\<close>

theorem clean_shutdown_is_honest:
  assumes "run_stage1_shutdown env refs rt = ((rt', l'), e)"
    and "rep_clean (stage1_report ((rt', l'), e))"
  shows "\<exists>data. ss_data (rt_store rt') = Some data \<and>
     run_last_clean_shutdown_run_id (st_run data) = run_active_run_id (st_run data) \<and>
     (\<forall>r \<in> snd ` set (st_safety_records data). \<not> record_owes_flow r) \<and>
     (\<forall>ref \<in> set refs. ctl_safety_record_id (rt_heap rt' ref) \<in> set (lg_watering l') \<union> set (lg_preserved l') \<longrightarrow>
        act_proven_off (ctl_assessment (rt_heap rt' ref))) \<and>
     (\<exists>loaded. io_read_back (sh_mark env) = Loaded loaded \<and> persisted_view loaded = persisted_view data)"
proof -
  from assms(2) have e: "e = None" and f: "lg_failures l' = []" by (auto simp: report_clean stage_clean_def)
  from assms(1) e obtain s4 where agg: "aggregate env refs s4 = ((rt', l'), None)"
    by (auto simp: run_stage1_shutdown_def next_stage_None split: prod.splits)
  obtain rt4 l4 where s4: "s4 = (rt4, l4)" by force
  obtain data rt5 l5 where d: "ss_data (rt_store rt4) = Some data"
    and chk: "each_stage (check_terminal_off env) refs
        (rt4, l4\<lparr>lg_failures := lg_failures l4 @ unconfirmed_records data\<rparr>) = ((rt5, l5), None)"
    and mark: "mark_clean env (rt5, l5) = ((rt', l'), None)"
  proof (cases "ss_data (rt_store rt4)")
    case None
    with agg f show ?thesis by (auto simp: aggregate_def s4 log_failure_def)
  next
    case (Some data)
    with agg that [of data] show ?thesis by (auto simp: aggregate_def s4 next_stage_None)
  qed
  have l5: "lg_failures l5 = []" using mark f by (auto simp: mark_clean_def split: if_splits)
  have "unconfirmed_records data = []"
    using keeps_failuresD [OF each_stage_failures [OF check_terminal_failures] chk] l5 by simp
  then have owes: "\<forall>r \<in> snd ` set (st_safety_records data). \<not> record_owes_flow r"
    by (auto simp: unconfirmed_records_def filter_empty_conv)
  note all = check_terminal_all [OF chk l5, of "{}"]
  from all d have "ss_data (rt_store rt5) = Some data" by simp
  from marked_clean [OF mark f this] owes all show ?thesis
    by (auto simp: proven_off_if_def)
qed

definition keeps_run_unless_clean :: "(stage \<Rightarrow> stage_outcome) \<Rightarrow> bool" where
  "keeps_run_unless_clean f \<longleftrightarrow>
     (\<forall>s. stage_clean (f s) \<or> runtime_run (fst (fst (f s))) = runtime_run (fst s))"

lemma sequence_run:
  assumes "keeps_run g" and "keeps_run_unless_clean f"
  shows "keeps_run_unless_clean (\<lambda>s. next_stage (g s) f)"
  unfolding keeps_run_unless_clean_def
proof
  fix s :: stage
  obtain s1 e where g: "g s = (s1, e)" by (cases "g s")
  with keeps_runD [OF assms(1), of s] have "runtime_run (fst s1) = runtime_run (fst s)" by simp
  moreover have "stage_clean (f s1) \<or> runtime_run (fst (fst (f s1))) = runtime_run (fst s1)"
    using assms(2) unfolding keeps_run_unless_clean_def by blast
  ultimately show "stage_clean (next_stage (g s) f) \<or> runtime_run (fst (fst (next_stage (g s) f))) = runtime_run (fst s)"
    by (cases e) (auto simp: next_stage_def g)
qed

lemma mark_clean_run: "keeps_run_unless_clean (mark_clean env)"
  unfolding keeps_run_unless_clean_def
proof
  fix s :: stage
  obtain rt l where s: "s = (rt, l)" by force
  obtain rt1 err where t: "runtime_transact (sh_mark env) mark_clean_shutdown_plan rt = (rt1, err)" by force
  then have "transact (sh_mark env) mark_clean_shutdown_plan (rt_store rt) = (rt_store rt1, err)"
    by (auto simp: runtime_transact_def split: prod.splits)
  then have "err \<noteq> None \<Longrightarrow> rt_store rt1 = rt_store rt" by (cases rule: transact_cases) auto
  then show "stage_clean (mark_clean env s) \<or> runtime_run (fst (fst (mark_clean env s))) = runtime_run (fst s)"
    using t by (auto simp: mark_clean_def s stage_clean_def log_failure_def split: option.split py_error.split)
qed

lemma aggregate_run: "keeps_run_unless_clean (aggregate env refs)"
proof -
  have tail: "keeps_run_unless_clean (\<lambda>s. next_stage (each_stage (check_terminal_off env) refs s) (mark_clean env))"
    by (rule sequence_run [OF each_stage_run [OF check_terminal_run] mark_clean_run])
  show ?thesis
    unfolding keeps_run_unless_clean_def
  proof
    fix s :: stage
    obtain rt l where s: "s = (rt, l)" by force
    show "stage_clean (aggregate env refs s) \<or> runtime_run (fst (fst (aggregate env refs s))) = runtime_run (fst s)"
    proof (cases "ss_data (rt_store rt)")
      case (Some data)
      with tail [unfolded keeps_run_unless_clean_def, rule_format,
          of "(rt, l\<lparr>lg_failures := lg_failures l @ unconfirmed_records data\<rparr>)"]
      show ?thesis by (simp add: aggregate_def s)
    qed (simp add: aggregate_def s)
  qed
qed


section \<open>The synchronous region\<close>

definition quiesced :: "ZoneController \<Rightarrow> bool" where
  "quiesced c \<longleftrightarrow>
     ctl_quiescing c \<and> ctl_pending_manual c = None \<and> ctl_timers c = (\<lambda>_. None) \<and>
     ctl_watchdog_handle c = None \<and> \<not> ctl_runtime_eligible c"

lemma begin_quiescing_quiesced: "quiesced (begin_quiescing c)"
  by (simp add: quiesced_def begin_quiescing_def cancel_all_timers_def cancel_watchdog_def)

lemma quiesced_fold:
  assumes "ref \<in> set refs \<or> quiesced (rt_heap rt ref)"
  shows "quiesced (rt_heap (fold (\<lambda>ref. on_controller ref begin_quiescing) refs rt) ref)"
  using assms
proof (induction refs arbitrary: rt)
  case (Cons i refs)
  have "ref \<in> set refs \<or> quiesced (rt_heap (on_controller i begin_quiescing rt) ref)"
    using Cons.prems begin_quiescing_quiesced by (auto simp: on_controller_def)
  from Cons.IH [OF this] show ?case by simp
qed simp

lemma quiesced_frame:
  "rt_en (fold (\<lambda>ref. on_controller ref begin_quiescing) refs rt) = rt_en rt"
  "rt_slots (fold (\<lambda>ref. on_controller ref begin_quiescing) refs rt) = rt_slots rt"
  by (induction refs arbitrary: rt) (simp_all add: on_controller_def)

lemma cancelled_fold [simp]:
  fixes m :: SlotManager
  shows "sl_queue (fold (\<lambda>r. cancel_future (rq_ref r)) rs m) = sl_queue m"
    and "sl_grants_enabled (fold (\<lambda>r. cancel_future (rq_ref r)) rs m) = sl_grants_enabled m"
  by (induction rs arbitrary: m) (simp_all add: cancel_future_def)

lemma admission_closed:
  "sl_queue (close_admission_now m) = [] \<and> \<not> sl_grants_enabled (close_admission_now m)"
  by (simp add: close_admission_now_def)

lemma stopping_refuses:
  assumes "en_process_stopping en" and "authorize_on live now ref sid aid en w = Inr (r, en1, w1)"
  shows "\<not> authorized r"
proof
  assume "authorized r"
  from evaluate_authorized(1) [OF authorize_on_authorized(1) [OF assms(2) this] this] assms(1)
  show False by (simp add: on_authority_def admission_clear_def Let_def)
qed

text \<open>Before the shutdown waits for the first time, every way to water is closed: the queue is empty and grants are
  off, every controller has lost its timers, its queued manual start and its command authority, and no ON
  authorization succeeds any more while the process is stopping.\<close>

theorem stage1_closes_admission_first:
  assumes "rt' = begin_stage1 rt" and "ref \<in> set (all_controllers rt)"
  shows "sl_queue (rt_slots rt') = [] \<and> \<not> sl_grants_enabled (rt_slots rt') \<and>
     ctl_pending_manual (rt_heap rt' ref) = None \<and> ctl_timers (rt_heap rt' ref) = (\<lambda>_. None) \<and>
     ctl_watchdog_handle (rt_heap rt' ref) = None \<and> \<not> command_authorization_open (rt_heap rt' ref) \<and>
     co_stopping (en_coordinator (rt_en rt')) \<and>
     (authorize_on live now i sid aid (rt_en rt') w = Inr (r, en1, w1) \<longrightarrow> \<not> authorized r)"
proof -
  obtain co m x where c: "close_publication_now (en_coordinator (rt_en rt), (rt_slots rt, None)) = (co, (m, x))"
    by (cases "close_publication_now (en_coordinator (rt_en rt), (rt_slots rt, None))") auto
  then have "co_stopping co"
    by (auto simp: close_publication_now_def set_barrier_def cancel_pending_reload_def co_stopping_def Let_def split: if_splits)
  moreover have all: "all_controllers (rt\<lparr>rt_en := (rt_en rt)\<lparr>en_process_stopping := True\<rparr>\<rparr>) = all_controllers rt"
    by (simp add: all_controllers_def)
  moreover have stop: "en_process_stopping (rt_en rt')"
    using assms(1) c by (simp add: begin_stage1_def quiesced_frame Let_def)
  moreover have "rt_slots rt' = close_admission_now m" "en_coordinator (rt_en rt') = co"
    using assms(1) c by (simp_all add: begin_stage1_def quiesced_frame Let_def)
  moreover have "quiesced (rt_heap rt' ref)"
    using assms c all by (auto simp: begin_stage1_def Let_def intro!: quiesced_fold)
  ultimately show ?thesis
    using admission_closed [of m] stopping_refuses [OF stop]
    by (auto simp: quiesced_def command_authorization_open_def)
qed


section \<open>The start\<close>

lemma begun_run:
  assumes "begin_run env u = (u', None)"
  shows "\<exists>d loaded. ss_data (rt_store (st_runtime u')) = Some d \<and>
     run_active_run_id (st_run d) = Some (rt_run_id (st_runtime u)) \<and>
     io_read_back (ie_run_io env) = Loaded loaded \<and> persisted_view loaded = persisted_view d \<and>
     rt_previous_run (st_runtime u') = run_of (rt_store (st_runtime u)) \<and>
     rt_slots (st_runtime u') = rt_slots (st_runtime u)"
proof -
  obtain rt1 err where t: "runtime_transact (ie_run_io env) (begin_new_run_plan (rt_run_id (st_runtime u))) (st_runtime u) = (rt1, err)"
    by force
  with assms have e: "err = None"
    and u': "u' = u\<lparr>st_runtime := rt1\<lparr>rt_previous_run := run_of (rt_store (st_runtime u))\<rparr>\<rparr>"
    by (auto simp: begin_run_def run_of_def Let_def split: option.splits py_error.splits sum.splits)
  from t have tr: "transact (ie_run_io env) (begin_new_run_plan (rt_run_id (st_runtime u))) (rt_store (st_runtime u)) = (rt_store rt1, err)"
    and sl: "rt_slots rt1 = rt_slots (st_runtime u)"
    by (auto simp: runtime_transact_def split: prod.splits)
  from tr show ?thesis
  proof (cases rule: transact_cases)
    case (unchanged d)
    then show ?thesis by (simp add: begin_new_run_plan_def commit_plan_not_None)
  next
    case (written d data loaded)
    then show ?thesis using sl by (auto simp: u' begin_new_run_plan_def commit_plan_Inr next_revision_def)
  qed (use e in simp)
qed

text \<open>(C15) Grants are released only after a verified start: the identifier of this run was read back from the store,
  the identifiers of the previous run were kept for the trust checks, and the first reconciliation succeeded.\<close>

theorem grants_need_verified_start:
  assumes "async_initialize env u = (u', None)"
  shows "\<exists>rt1 rt2 d loaded. ie_start env (observe_configuration (ie_later_snapshot env) rt1) = (rt2, None) \<and>
     st_runtime u' = rt2\<lparr>rt_slots := enable_grants (rt_slots rt2)\<rparr> \<and>
     ss_data (rt_store rt1) = Some d \<and> run_active_run_id (st_run d) = Some (rt_run_id (st_runtime u)) \<and>
     io_read_back (ie_run_io env) = Loaded loaded \<and> persisted_view loaded = persisted_view d \<and>
     ie_snapshot env \<noteq> None"
proof -
  have kept: "rt_run_id (st_runtime (fst (settle_classification env k v))) = rt_run_id (st_runtime v)" for k v
    by (auto simp: settle_classification_def set_store_def split: SetupClassification.split prod.split option.split)
  from assms obtain s k data u2 u3 where
    u2: "settle_classification env k (set_store s (u\<lparr>st_runtime := observe_configuration (ie_snapshot env) (st_runtime u)\<rparr>)) = (u2, None)"
    and u3: "begin_run env u2 = (u3, None)" and st: "start_coordinator env u3 = (u', None)"
    and sn: "ie_snapshot env \<noteq> None"
    by (auto simp: async_initialize_def and_also_None Let_def split: option.splits sum.splits prod.splits)
  from u2 kept [of k "set_store s (u\<lparr>st_runtime := observe_configuration (ie_snapshot env) (st_runtime u)\<rparr>)"]
  have "rt_run_id (st_runtime u2) = rt_run_id (st_runtime u)"
    by (simp add: set_store_def observe_configuration_def split: prod.splits)
  with begun_run [OF u3] obtain d loaded where d: "ss_data (rt_store (st_runtime u3)) = Some d"
    "run_active_run_id (st_run d) = Some (rt_run_id (st_runtime u))"
    "io_read_back (ie_run_io env) = Loaded loaded" "persisted_view loaded = persisted_view d"
    by auto
  from st obtain rt2 where "ie_start env (observe_configuration (ie_later_snapshot env) (st_runtime u3)) = (rt2, None)"
    "st_runtime u' = rt2\<lparr>rt_slots := enable_grants (rt_slots rt2)\<rparr>"
    by (auto simp: start_coordinator_def split: prod.splits option.splits)
  with d sn show ?thesis by blast
qed

lemma granted_flag [simp]: "sl_grants_enabled (try_grant_locked m) = sl_grants_enabled m"
  by (cases rule: try_grant_cases [of m]) auto

lemma observed_grants: "sl_grants_enabled (rt_slots (observe_configuration b rt)) = sl_grants_enabled (rt_slots rt)"
  by (auto simp: observe_configuration_def observe_current_def set_barrier_def set_reconciliation_state_def Let_def
      split: prod.splits if_splits)

lemma settled_slots: "rt_slots (st_runtime (fst (settle_classification env k v))) = rt_slots (st_runtime v)"
  by (auto simp: settle_classification_def set_store_def split: SetupClassification.split prod.split option.split)

lemma begun_slots: "rt_slots (st_runtime (fst (begin_run env v))) = rt_slots (st_runtime v)"
  by (auto simp: begin_run_def runtime_transact_def Let_def
      split: prod.splits option.splits py_error.splits sum.splits)

text \<open>A start that fails releases no grant: whatever the error, the grants are as they were before the start,
  provided that the first reconciliation itself does not release them.\<close>

theorem failed_start_grants_nothing:
  assumes "async_initialize env u = (u', Some err)"
    and "\<And>rt. sl_grants_enabled (rt_slots (fst (ie_start env rt))) = sl_grants_enabled (rt_slots rt)"
  shows "sl_grants_enabled (rt_slots (st_runtime u')) = sl_grants_enabled (rt_slots (st_runtime u))"
proof -
  let ?g = "\<lambda>v. sl_grants_enabled (rt_slots (st_runtime v))"
  let ?u1 = "u\<lparr>st_runtime := observe_configuration (ie_snapshot env) (st_runtime u)\<rparr>"
  have start: "?g v' = ?g v" if "start_coordinator env v = (v', Some e)" for v v' e
    using that assms(2) [of "observe_configuration (ie_later_snapshot env) (st_runtime v)"]
    by (auto simp: start_coordinator_def observed_grants split: prod.splits option.splits)
  have rest: "?g v' = ?g v" if "and_also (begin_run env v) (start_coordinator env) = (v', Some e)" for v v' e
    using that begun_slots [of env v] start [of "fst (begin_run env v)" v' e]
    by (auto simp: and_also_def split: prod.splits option.splits)
  have settle: "?g v' = ?g v"
    if "and_also (settle_classification env k v) (\<lambda>u2. and_also (begin_run env u2) (start_coordinator env)) = (v', Some e)"
    for k v v' e
    using that settled_slots [of env k v] rest [of "fst (settle_classification env k v)" v' e]
    by (auto simp: and_also_def [of "settle_classification env k v"] split: prod.splits option.splits)
  have s: "?g (set_store s ?u1) = ?g u" for s by (simp add: set_store_def observed_grants)
  show ?thesis
    using assms(1) s settle [of _ "set_store _ ?u1" u']
    by (auto simp: async_initialize_def observed_grants Let_def split: option.splits sum.splits prod.splits)
qed

section \<open>A concrete shutdown and start\<close>

text \<open>A soak is under way, every write is read back as planned, and the actuator is off.\<close>

definition kept_controller :: ZoneController where
  "kept_controller = sample_controller SOAKING (Some soak_session)"

definition kept_runtime :: Runtime where
  "kept_runtime = (entry_runtime soak_data)\<lparr>rt_heap := (\<lambda>_. kept_controller)\<rparr>"

definition written :: "StoreData \<Rightarrow> StoreData" where
  "written d =
     (case update_controller_runtime_plan ''r'' ''h'' (controller_snapshot kept_controller None) d of
        Inr (Some d') \<Rightarrow> d' | _ \<Rightarrow> d)"

definition honest_step :: "StoreData \<Rightarrow> step_env" where
  "honest_step d = \<lparr>env_now = 600000000, env_io = honest_io d\<rparr>"

definition kept_env :: "store_io \<Rightarrow> shutdown_env" where
  "kept_env mark =
     \<lparr>sh_home = home, sh_dispatch = (\<lambda>_ _. honest_step (written soak_data)), sh_uuid = ''s2'',
      sh_off = (\<lambda>_ rt. (rt, False)), sh_join = (\<lambda>rt. (rt, False)),
      sh_persist = (\<lambda>_. honest_step (written (written soak_data))), sh_final = home, sh_mark = mark\<rparr>"

definition kept_shutdown :: "store_io \<Rightarrow> stage_outcome" where
  "kept_shutdown mark = run_stage1_shutdown (kept_env mark) [0] (begin_stage1 kept_runtime)"

definition good_mark :: store_io where
  "good_mark = accepting (mark_clean_shutdown_plan (written (written soak_data)))"

lemma kept_clean: "rep_clean (stage1_report (kept_shutdown good_mark))"
  and kept_preserved: "lg_preserved (snd (fst (kept_shutdown good_mark))) = [''r'']"
  and kept_unclean: "\<not> rep_clean (stage1_report (kept_shutdown no_io))"
  by code_simp+

theorem clean_shutdown_is_honest_witness:
  "\<exists>data. ss_data (rt_store (fst (fst (kept_shutdown good_mark)))) = Some data \<and>
     run_last_clean_shutdown_run_id (st_run data) = run_active_run_id (st_run data)"
proof -
  obtain rt' l' e where r: "kept_shutdown good_mark = ((rt', l'), e)" by (metis prod.collapse)
  from clean_shutdown_is_honest [OF r [unfolded kept_shutdown_def]] kept_clean
  show ?thesis unfolding r by auto
qed


lemma kept_member: "0 \<in> set (all_controllers kept_runtime)" by code_simp

theorem stage1_closes_admission_first_witness:
  "\<not> command_authorization_open (rt_heap (begin_stage1 kept_runtime) 0)"
  using stage1_closes_admission_first [OF refl kept_member] by blast

lemma kept_outcome:
  "case soaking_shutdown_outcome home (by_subentry_id command_snapshot) 0 kept_runtime of
     Inl e \<Rightarrow> False | Inr (rt', event, eligible, needs_off) \<Rightarrow> eligible"
  by code_simp


definition first_data :: StoreData where
  "first_data =
     \<lparr>st_generation_id = ''g'', st_store_revision = 1,
      st_run = \<lparr>run_active_run_id = None, run_last_clean_shutdown_run_id = None\<rparr>,
      st_zone_histories = [], st_safety_records = [], st_version = STORE_SCHEMA_VERSION\<rparr>"

definition first_start :: "store_io \<Rightarrow> init_env" where
  "first_start run_io =
     \<lparr>ie_uid = (\<lambda>a b c. a), ie_readers = [Loads None], ie_migration_io = \<lparr>ji_save_raises = True, ji_load = LoadEmpty\<rparr>,
      ie_first_io = honest_io first_data, ie_reconstruct_io = no_io, ie_day_text = ''day'', ie_detection_date = 0,
      ie_zone_budgets = [], ie_run_io = run_io, ie_home = home,
      ie_snapshot = Some \<lparr>es_observed_generation = 0, es_entry_snapshot_fingerprint = ''e'', es_zones = []\<rparr>,
      ie_later_snapshot = None, ie_start = (\<lambda>rt. (rt, None))\<rparr>"

definition empty_startup :: Startup where
  "empty_startup =
     \<lparr>st_runtime = (entry_runtime sample_data)\<lparr>rt_store := \<lparr>ss_generation_id = ''g'', ss_data = None\<rparr>\<rparr>,
      st_initialized_flag = False, st_defensive_off = []\<rparr>"

lemma first_started:
  "snd (async_initialize (first_start (accepting (begin_new_run_plan ''run1'' first_data))) empty_startup) = None"
  and first_refused: "snd (async_initialize (first_start no_io) empty_startup) \<noteq> None"
  by code_simp+

theorem grants_need_verified_start_witness:
  "\<exists>u'. async_initialize (first_start (accepting (begin_new_run_plan ''run1'' first_data))) empty_startup = (u', None) \<and>
     (\<exists>rt2. st_runtime u' = rt2\<lparr>rt_slots := enable_grants (rt_slots rt2)\<rparr>)"
proof -
  obtain u' where u': "async_initialize (first_start (accepting (begin_new_run_plan ''run1'' first_data))) empty_startup = (u', None)"
    using first_started by (metis prod.collapse)
  from grants_need_verified_start [OF u'] u' show ?thesis by blast
qed

theorem failed_start_grants_nothing_witness:
  "\<not> sl_grants_enabled (rt_slots (st_runtime (fst (async_initialize (first_start no_io) empty_startup))))"
proof -
  obtain u' err where u': "async_initialize (first_start no_io) empty_startup = (u', Some err)"
    using first_refused by (metis prod.collapse not_None_eq)
  have "\<not> sl_grants_enabled (rt_slots (st_runtime empty_startup))"
    by (simp add: empty_startup_def entry_runtime_def slot_init_def)
  with failed_start_grants_nothing [OF u'] u' show ?thesis by (simp add: first_start_def)
qed

end
