(* ===== verification/Entry_Actions.thy ===== *)
theory Entry_Actions
  imports Entry_Operator Samples
begin

text \<open>
  The actions of the integration (\<open>services.py\<close>): the resolution of a device to the controller of
  its zone, the translation of a refused decision into an error, and the four handlers.  Devices and
  entries are those of Home Assistant; the schemas of the service calls are left out.
\<close>

section \<open>Devices and entries\<close>

record device_entry =
  dv_identifiers :: "(string \<times> string) list"
  dv_config_entries :: "string list"
  dv_entry_subentries :: "(string \<times> string list) list"

record config_entry =
  ce_entry_id :: string
  ce_subentries :: "string list"
  ce_loaded :: bool
  ce_runtime_data :: "Runtime option"

definition MOISTURE_LOOP :: string where
  "MOISTURE_LOOP = ''moisture_loop''"

text \<open>The result is the error key, or the runtime with the controller in it.\<close>

definition resolve_controller ::
  "(string \<Rightarrow> device_entry option) \<Rightarrow> config_entry list \<Rightarrow> string \<Rightarrow> string + Runtime \<times> nat" where
  "resolve_controller devices entries device_id =
     (case devices device_id of
        None \<Rightarrow> Inl ''device_not_found''
      | Some device \<Rightarrow>
          (case map snd (filter (\<lambda>i. fst i = MOISTURE_LOOP) (dv_identifiers device)) of
             [subentry_id] \<Rightarrow>
               (case filter (\<lambda>x. ce_entry_id x \<in> set (dv_config_entries device)) entries of
                  [entry1] \<Rightarrow>
                    if subentry_id \<notin> set (ce_subentries entry1) \<or>
                       subentry_id \<notin> (case map_of (dv_entry_subentries device) (ce_entry_id entry1) of
                                        None \<Rightarrow> {} | Some subs \<Rightarrow> set subs)
                    then Inl ''zone_deleted''
                    else if \<not> ce_loaded entry1 then Inl ''entry_not_loaded''
                    else (case ce_runtime_data entry1 of
                            None \<Rightarrow> Inl ''zone_not_ready''
                          | Some rt \<Rightarrow>
                              (case map_of (en_controllers (rt_en rt)) subentry_id of
                                 None \<Rightarrow> Inl ''zone_not_ready''
                               | Some ref \<Rightarrow>
                                   (case action_refusal_key ref (rt_en rt) (world_of ref rt) of
                                      Some refusal \<Rightarrow> Inl refusal
                                    | None \<Rightarrow> Inr (rt, ref))))
                | _ \<Rightarrow> Inl ''not_a_zone_device'')
           | _ \<Rightarrow> Inl ''not_a_zone_device''))"

section \<open>Refusals\<close>

definition ends_with :: "string \<Rightarrow> string \<Rightarrow> bool" where
  "ends_with suffix1 tag \<longleftrightarrow>
     length suffix1 \<le> length tag \<and> drop (length tag - length suffix1) tag = suffix1"

definition refusal_of_guards :: "string list \<Rightarrow> string option" where
  "refusal_of_guards failed =
     (if GUARD_ENABLED \<in> set failed then Some ''zone_disabled''
      else if list_ex (ends_with ''invalid_duration'') failed then Some ''invalid_duration''
      else if list_ex (ends_with ''active_session'') failed then Some ''session_active''
      else if GUARD_MANUAL_SENSOR \<in> set failed then Some ''fault_blocks_manual''
      else if GUARD_ACTUATOR \<in> set failed then Some ''actuator_not_ready''
      else if list_ex (ends_with ''daily_exhausted'') failed then Some ''daily_budget_exhausted''
      else if list_ex (ends_with ''water_resource_occupied'') failed then Some ''water_resource_occupied''
      else if GUARD_SLOT \<in> set failed then None
      else Some ''request_refused'')"

definition raise_for_refusal :: "Decision \<Rightarrow> string option" where
  "raise_for_refusal d =
     (case dec_guard_result d of
        None \<Rightarrow> None
      | Some g \<Rightarrow> if gr_passed g then None else refusal_of_guards (gr_failed_guards g))"

section \<open>Handlers\<close>

datatype action_error = Refused string | ActionRaised py_error

record action_env =
  ac_devices :: "string \<Rightarrow> device_entry option"
  ac_entries :: "config_entry list"
  ac_step :: "nat \<Rightarrow> step_env"
  ac_uuid :: string
  ac_now :: utc

definition acted :: "Runtime outcome \<Rightarrow> string option \<Rightarrow> Runtime option \<times> action_error option" where
  "acted r refusal =
     (case r of
        (rt, Some err) \<Rightarrow> (Some rt, Some (ActionRaised err))
      | (rt, None) \<Rightarrow> (Some rt, map_option Refused refusal))"

definition start_manual_watering ::
  "action_env \<Rightarrow> string \<Rightarrow> pyfloat \<Rightarrow> Runtime option \<times> action_error option" where
  "start_manual_watering env device_id duration =
     (case resolve_controller (ac_devices env) (ac_entries env) device_id of
        Inl key \<Rightarrow> (None, Some (Refused key))
      | Inr (rt, ref) \<Rightarrow>
          if \<not> fl_isfinite duration then (None, Some (Refused ''invalid_duration''))
          else acted (on_world ref (async_manual_start (ac_step env) (ac_uuid env) (ac_now env) duration) rt)
                 (if ctl_runtime_eligible (rt_heap rt ref)
                  then (case event_decision (ac_uuid env) (ac_now env) (ManualStartRequested duration) ref rt of
                          None \<Rightarrow> None | Some d \<Rightarrow> raise_for_refusal d)
                  else None))"

definition stop_watering :: "action_env \<Rightarrow> string \<Rightarrow> Runtime option \<times> action_error option" where
  "stop_watering env device_id =
     (case resolve_controller (ac_devices env) (ac_entries env) device_id of
        Inl key \<Rightarrow> (None, Some (Refused key))
      | Inr (rt, ref) \<Rightarrow> acted (dispatch (ac_step env) (ac_uuid env) (ac_now env) ref StopRequested rt) None)"

definition evaluate_zone :: "action_env \<Rightarrow> string \<Rightarrow> Runtime option \<times> action_error option" where
  "evaluate_zone env device_id =
     (case resolve_controller (ac_devices env) (ac_entries env) device_id of
        Inl key \<Rightarrow> (None, Some (Refused key))
      | Inr (rt, ref) \<Rightarrow>
          acted (on_world ref (async_evaluate (ac_step env) (ac_uuid env) (ac_now env)) rt) None)"

definition clear_fault :: "action_env \<Rightarrow> string \<Rightarrow> Runtime option \<times> action_error option" where
  "clear_fault env device_id =
     (case resolve_controller (ac_devices env) (ac_entries env) device_id of
        Inl key \<Rightarrow> (None, Some (Refused key))
      | Inr (rt, ref) \<Rightarrow>
          acted (dispatch (ac_step env) (ac_uuid env) (ac_now env) ref ClearFaultRequested rt)
            (case event_decision (ac_uuid env) (ac_now env) ClearFaultRequested ref rt of
               None \<Rightarrow> None
             | Some d \<Rightarrow> if dec_transition_id d = Some ''T44'' then Some ''fault_not_clearable'' else None))"

section \<open>Properties\<close>

lemma tag_suffixes:
  "ends_with ''invalid_duration'' (GUARD_MANUAL_SAFE @ '':invalid_duration'')"
  "ends_with ''active_session'' (GUARD_MANUAL_SAFE @ '':active_session'')"
  "ends_with ''daily_exhausted'' (GUARD_MANUAL_SAFE @ '':daily_exhausted'')"
  "ends_with ''water_resource_occupied'' (GUARD_MANUAL_SAFE @ '':water_resource_occupied'')"
  by code_simp+

lemma slot_not_manual:
  "GUARD_SLOT \<notin> set (manual_guard_failures inp q)"
  by (auto simp: manual_guard_failures_def check_def GUARD_MANUAL_SAFE_def GUARD_SLOT_def GUARD_ENABLED_def
      GUARD_MANUAL_SENSOR_def GUARD_ACTUATOR_def)

lemma refusal_without_slot: "GUARD_SLOT \<notin> set failed \<Longrightarrow> refusal_of_guards failed \<noteq> None"
  by (simp add: refusal_of_guards_def)

lemma slot_alone: "refusal_of_guards [GUARD_SLOT] = None"
  by code_simp

lemma refusal_mk_guard:
  "mk_guard_result ok failed = Inr g \<Longrightarrow> gr_passed g = ok \<and> gr_failed_guards g = failed"
  by (auto simp: mk_guard_result_def split: if_splits)

text \<open>The two outcomes of a manual start: a refusal that the action reports, or water.\<close>

lemma manual_start_reported:
  assumes "manual_start inp q row = Inr d"
  shows "raise_for_refusal d = None \<longleftrightarrow> TurnOn \<in> set (dec_actions d) \<or> RequestSlot \<in> set (dec_actions d)"
proof (cases "manual_guard_failures inp q = []")
  case False
  then show ?thesis
    using assms refusal_without_slot [OF slot_not_manual, of inp q]
    by (auto simp: manual_start_def Let_def mk_decision_eq_Inr raise_for_refusal_def decision_defaults_def
        res_bind_eq_Inr dest!: refusal_mk_guard)
next
  case True
  then show ?thesis
    using assms
    by (auto simp: manual_start_def Let_def mk_decision_eq_Inr raise_for_refusal_def decision_defaults_def
        slot_alone res_bind_eq_Inr split: if_splits option.splits prod.splits dest!: refusal_mk_guard)
qed

lemma refuse_active_session_reported:
  "refuse_active_session = Inr d \<Longrightarrow> raise_for_refusal d \<noteq> None \<and> dec_actions d = []"
  by (auto simp: refuse_active_session_def mk_decision_eq_Inr raise_for_refusal_def decision_defaults_def
      refusal_of_guards_def tag_suffixes res_bind_eq_Inr dest!: refusal_mk_guard)


text \<open>The case the refusals miss: soaking, with an external interference committed.\<close>

definition interfered_input :: TransitionInput where
  "interfered_input =
     sample_input SOAKING
       (Some ((sample_session AUTO)\<lparr>ses_pending_termination_reason := Some EXTERNAL_ACTUATOR_STATE_CHANGE\<rparr>))
       100 (ManualStartRequested (Fin 600))"

lemma interfered_silent: "case decide interfered_input of Inl e \<Rightarrow> False | Inr d \<Rightarrow> dec_actions d = []"
  by code_simp


end
