(* ===== verification/Config_Flow.thy ===== *)
theory Config_Flow
  imports Entry_Shutdown
begin

text \<open>
  The flows that create the entry and that add or reconfigure a zone (\<open>config_flow.py\<close>), with the
  reading of a subentry (\<open>zone_config_from_subentry\<close> of \<open>runtime.py\<close>).

  A step takes what its form submits; the schema of the form (an external library) makes sure that all
  of its fields are there, so the data of a flow is what each of the three forms has given so far.
  Numbers arrive as floats.  A form is shown with the fields of its schema: key, value shown first, and
  selector.  The home, the subentries of the entry, the features of an actuator and the loaded store
  are the environment.  The texts of the forms are left out, save for whether the warning is shown.
\<close>

section \<open>Data\<close>

record identity_input =
  ii_name :: string
  ii_moisture_sensor :: string
  ii_actuator :: string

record threshold_input =
  ti_start_threshold :: pyfloat
  ti_target_threshold :: pyfloat
  ti_pulse_duration :: pyfloat
  ti_soak_duration :: pyfloat

record limit_input =
  li_max_cycles :: pyfloat
  li_max_session_runtime :: pyfloat
  li_max_daily_runtime :: pyfloat
  li_min_session_interval :: pyfloat
  li_sensor_max_age :: pyfloat
  li_actuator_confirm_timeout :: pyfloat
  li_manual_max_duration :: pyfloat

record zone_data =
  zd_identity :: identity_input
  zd_thresholds :: threshold_input
  zd_limits :: limit_input

record flow_data =
  fd_identity :: "identity_input option"
  fd_thresholds :: "threshold_input option"
  fd_limits :: "limit_input option"

record zone_flow =
  zf_data :: flow_data
  zf_shared_sensor_warning :: bool

record flow_env =
  fe_home :: plan_env
  fe_features :: "string \<Rightarrow> int"
  fe_subentries :: "(string \<times> zone_data subentry) list"
  fe_store :: "StoreData option"

definition new_zone_flow :: zone_flow where
  "new_zone_flow =
     \<lparr>zf_data = \<lparr>fd_identity = None, fd_thresholds = None, fd_limits = None\<rparr>, zf_shared_sensor_warning = False\<rparr>"

text \<open>The data as one dictionary; a form that was never submitted leaves its keys missing.\<close>

definition merged :: "flow_data \<Rightarrow> zone_data result" where
  "merged d =
     (case (fd_identity d, fd_thresholds d, fd_limits d) of
        (Some i, Some t, Some l) \<Rightarrow> Inr \<lparr>zd_identity = i, zd_thresholds = t, zd_limits = l\<rparr>
      | _ \<Rightarrow> Inl KeyError)"

section \<open>Python conversions\<close>

text \<open>\<open>int(x)\<close> of a float cuts towards zero.\<close>

definition trunc_int :: "rat \<Rightarrow> int" where
  "trunc_int q = (if q < 0 then \<lceil>q\<rceil> else \<lfloor>q\<rfloor>)"

fun py_int :: "pyfloat \<Rightarrow> int result" where
  "py_int (Fin q) = Inr (trunc_int q)"
| "py_int NaN = Inl (ValueError ''cannot convert float NaN to integer'')"
| "py_int PosInf = Inl OverflowError"
| "py_int NegInf = Inl OverflowError"

definition py_space :: "char \<Rightarrow> bool" where
  "py_space c \<longleftrightarrow> (let n = char_code c in 9 \<le> n \<and> n \<le> 13 \<or> 28 \<le> n \<and> n \<le> 32 \<or> n = 133 \<or> n = 160)"

definition py_strip :: "string \<Rightarrow> string" where
  "py_strip s = rev (dropWhile py_space (rev (dropWhile py_space s)))"

text \<open>\<open>casefold\<close>: of the 8-bit characters, capital letters become small ones and the sharp s two
  letters.  The micro sign, whose image has no 8 bits, stays itself; no other character has that image.\<close>

definition fold_char :: "char \<Rightarrow> string" where
  "fold_char c =
     (let n = char_code c
      in if 65 \<le> n \<and> n \<le> 90 \<or> 192 \<le> n \<and> n \<le> 222 \<and> n \<noteq> 215 then [char_of (n + 32)]
         else if n = 223 then ''ss'' else [c])"

definition casefold :: "string \<Rightarrow> string" where
  "casefold s = concat (map fold_char s)"

definition starts_with :: "string \<Rightarrow> string \<Rightarrow> bool" where
  "starts_with p s \<longleftrightarrow> take (length p) s = p"

section \<open>Reading a subentry\<close>

text \<open>\<open>None\<close> where a threshold is not finite, which the configuration of this development cannot hold
  and which the bounds refuse.\<close>

definition zone_config_from_subentry :: "zone_data \<Rightarrow> ZoneConfig option result" where
  "zone_config_from_subentry d =
     (let i = zd_identity d; t = zd_thresholds d; l = zd_limits d
      in res_bind (py_int (ti_pulse_duration t)) (\<lambda>pulse.
         res_bind (py_int (ti_soak_duration t)) (\<lambda>soak.
         res_bind (py_int (li_max_cycles l)) (\<lambda>cycles.
         res_bind (py_int (li_max_session_runtime l)) (\<lambda>session.
         res_bind (py_int (li_max_daily_runtime l)) (\<lambda>daily.
         res_bind (py_int (li_min_session_interval l)) (\<lambda>interval.
         res_bind (py_int (li_sensor_max_age l)) (\<lambda>age.
         res_bind (py_int (li_actuator_confirm_timeout l)) (\<lambda>timeout.
         res_bind (py_int (li_manual_max_duration l)) (\<lambda>manual.
           Inr (case (ti_start_threshold t, ti_target_threshold t) of
              (Fin start, Fin target) \<Rightarrow>
                Some \<lparr>cfg_name = ii_name i, cfg_moisture_sensor = ii_moisture_sensor i,
                      cfg_actuator = ii_actuator i, cfg_start_threshold = start,
                      cfg_target_threshold = target, cfg_pulse_duration_s = pulse,
                      cfg_soak_duration_s = soak, cfg_max_cycles = cycles,
                      cfg_max_session_runtime_s = session, cfg_max_daily_runtime_s = daily,
                      cfg_min_session_interval_s = interval, cfg_sensor_max_age_s = age,
                      cfg_actuator_confirm_timeout_s = timeout, cfg_manual_max_duration_s = manual\<rparr>
            | _ \<Rightarrow> None)))))))))))"

section \<open>Validation\<close>

definition normalize_zone :: "zone_data \<Rightarrow> zone_data result" where
  "normalize_zone d =
     (let i = zd_identity d; t = zd_thresholds d; l = zd_limits d; whole = (\<lambda>n. Fin (of_int n))
      in res_bind (py_int (ti_pulse_duration t)) (\<lambda>pulse.
         res_bind (py_int (ti_soak_duration t)) (\<lambda>soak.
         res_bind (py_int (li_max_cycles l)) (\<lambda>cycles.
         res_bind (py_int (li_max_session_runtime l)) (\<lambda>session.
         res_bind (py_int (li_max_daily_runtime l)) (\<lambda>daily.
         res_bind (py_int (li_min_session_interval l)) (\<lambda>interval.
         res_bind (py_int (li_sensor_max_age l)) (\<lambda>age.
         res_bind (py_int (li_actuator_confirm_timeout l)) (\<lambda>timeout.
         res_bind (py_int (li_manual_max_duration l)) (\<lambda>manual.
           Inr \<lparr>zd_identity = i\<lparr>ii_name := py_strip (ii_name i)\<rparr>,
                zd_thresholds = t\<lparr>ti_pulse_duration := whole pulse, ti_soak_duration := whole soak\<rparr>,
                zd_limits =
                  \<lparr>li_max_cycles = whole cycles, li_max_session_runtime = whole session,
                   li_max_daily_runtime = whole daily, li_min_session_interval = whole interval,
                   li_sensor_max_age = whole age, li_actuator_confirm_timeout = whole timeout,
                   li_manual_max_duration = whole manual\<rparr>\<rparr>))))))))))"

definition same_registry_identity :: "plan_env \<Rightarrow> string \<Rightarrow> string \<Rightarrow> bool" where
  "same_registry_identity e first second \<longleftrightarrow>
     first = second \<or>
     (case (pe_registry e first, pe_registry e second) of
        (Some a, Some b) \<Rightarrow> re_id a = re_id b | _ \<Rightarrow> False)"

definition other_zones :: "flow_env \<Rightarrow> string option \<Rightarrow> zone_data list" where
  "other_zones env reconfigure_id =
     map (\<lambda>(_, sub). sub_data sub)
       (filter (\<lambda>(subentry_id, sub). sub_type sub = ''zone'' \<and> Some subentry_id \<noteq> reconfigure_id)
          (fe_subentries env))"

definition record_disputes :: "string option \<Rightarrow> string \<Rightarrow> string option \<Rightarrow> SafetyRecord \<Rightarrow> bool" where
  "record_disputes candidate_uuid actuator reconfigure_id r \<longleftrightarrow>
     ai_last_known_entity_id (sr_actuator_identity r) = Some actuator \<and>
     (case candidate_uuid of
        None \<Rightarrow> sr_active_subentry_id r \<noteq> reconfigure_id
      | Some uuid \<Rightarrow>
          record_uuid r \<notin> {None, Some uuid} \<or>
          record_uuid r = None \<and> sr_active_subentry_id r \<noteq> reconfigure_id)"

definition retained_actuator_identity_error ::
  "flow_env \<Rightarrow> string \<Rightarrow> string option \<Rightarrow> string option" where
  "retained_actuator_identity_error env actuator reconfigure_id =
     (case fe_store env of
        None \<Rightarrow> None
      | Some data \<Rightarrow>
          (let candidate_uuid = map_option re_id (pe_registry (fe_home env) actuator);
               records = map snd (st_safety_records data);
               exact = filter (\<lambda>r. candidate_uuid \<noteq> None \<and> record_uuid r = candidate_uuid) records
           in if length exact > 1 then Some ''actuator_identity_conflict''
              else if exact \<noteq> [] \<and> sr_active_subentry_id (hd exact) \<notin> {None, reconfigure_id}
              then Some ''duplicate_actuator''
              else if list_ex (record_disputes candidate_uuid actuator reconfigure_id) records
              then Some ''actuator_identity_conflict'' else None))"

definition name_error :: "flow_env \<Rightarrow> string \<Rightarrow> string option \<Rightarrow> string option" where
  "name_error env given reconfigure_id =
     (let n = py_strip given
      in if \<not> (1 \<le> length n \<and> length n \<le> 64) then Some ''invalid_name''
         else if list_ex (\<lambda>d. casefold (ii_name (zd_identity d)) = casefold n) (other_zones env reconfigure_id)
         then Some ''duplicate_name'' else None)"

text \<open>The error of the sensor, and whether another zone uses the same one.\<close>

definition sensor_error :: "flow_env \<Rightarrow> string \<Rightarrow> string option \<Rightarrow> string option \<times> bool" where
  "sensor_error env sensor reconfigure_id =
     (if sensor = [] \<or> pe_states (fe_home env) sensor = None then (Some ''entity_not_found'', False)
      else if \<not> starts_with ''sensor.'' sensor then (Some ''wrong_domain'', False)
      else (None, list_ex (\<lambda>d. same_registry_identity (fe_home env) (ii_moisture_sensor (zd_identity d)) sensor)
                    (other_zones env reconfigure_id)))"

definition actuator_error :: "flow_env \<Rightarrow> string \<Rightarrow> string option \<Rightarrow> string option" where
  "actuator_error env actuator reconfigure_id =
     (if actuator = [] \<or> pe_states (fe_home env) actuator = None then Some ''entity_not_found''
      else if \<not> (starts_with ''switch.'' actuator \<or> starts_with ''valve.'' actuator) then Some ''wrong_domain''
      else if starts_with ''valve.'' actuator \<and>
              \<not> (bit (fe_features env actuator) 0 \<and> bit (fe_features env actuator) 1)
      then Some ''valve_features_missing''
      else if list_ex (\<lambda>d. same_registry_identity (fe_home env) (ii_actuator (zd_identity d)) actuator)
                (other_zones env reconfigure_id)
      then Some ''duplicate_actuator''
      else retained_actuator_identity_error env actuator reconfigure_id)"

type_synonym form_errors = "(string \<times> string) list"

definition error_entry :: "string \<Rightarrow> string option \<Rightarrow> form_errors" where
  "error_entry key err = (case err of None \<Rightarrow> [] | Some m \<Rightarrow> [(key, m)])"

definition validate_identity :: "flow_env \<Rightarrow> identity_input \<Rightarrow> string option \<Rightarrow> form_errors \<times> bool" where
  "validate_identity env i reconfigure_id =
     (case sensor_error env (ii_moisture_sensor i) reconfigure_id of
        (sensor, shared) \<Rightarrow>
          (error_entry ''name'' (name_error env (ii_name i) reconfigure_id) @
           error_entry ''moisture_sensor'' sensor @
           error_entry ''actuator'' (actuator_error env (ii_actuator i) reconfigure_id), shared))"

definition validate_partial :: "threshold_input \<Rightarrow> form_errors" where
  "validate_partial t =
     (if fl_less (ti_start_threshold t) (ti_target_threshold t) then []
      else [(''target_threshold'', ''target_not_above_start'')])"

definition validate_full ::
  "flow_env \<Rightarrow> zone_data \<Rightarrow> string option \<Rightarrow> (form_errors \<times> bool) result" where
  "validate_full env candidate reconfigure_id =
     (case validate_identity env (zd_identity candidate) reconfigure_id of
        (errors, shared) \<Rightarrow>
          (let found = errors @ validate_partial (zd_thresholds candidate)
           in if found \<noteq> [] then Inr (found, shared)
              else res_bind (zone_config_from_subentry candidate) (\<lambda>config.
                Inr (if (case config of None \<Rightarrow> True | Some c \<Rightarrow> validation_errors c \<noteq> [])
                     then [(''base'', ''invalid_configuration'')] else [], shared))))"

section \<open>Forms\<close>

datatype form_selector =
    TextSelector
  | EntitySelector "string list"
  | NumberSelector int int string

datatype form_value = TextValue string | NumberValue pyfloat

record form_field =
  sf_key :: string
  sf_default :: "form_value option"
  sf_selector :: form_selector

definition DEFAULT_START_THRESHOLD :: pyfloat where "DEFAULT_START_THRESHOLD = Fin 30"
definition DEFAULT_TARGET_THRESHOLD :: pyfloat where "DEFAULT_TARGET_THRESHOLD = Fin 40"
definition DEFAULT_PULSE_DURATION_S :: pyfloat where "DEFAULT_PULSE_DURATION_S = Fin (60 * 60)"
definition DEFAULT_SOAK_DURATION_S :: pyfloat where "DEFAULT_SOAK_DURATION_S = Fin (20 * 60)"
definition DEFAULT_MAX_CYCLES :: pyfloat where "DEFAULT_MAX_CYCLES = Fin 2"
definition DEFAULT_MAX_SESSION_RUNTIME_S :: pyfloat where
  "DEFAULT_MAX_SESSION_RUNTIME_S = Fin (2 * 60 * 60 + 5 * 60)"
definition DEFAULT_MAX_DAILY_RUNTIME_S :: pyfloat where "DEFAULT_MAX_DAILY_RUNTIME_S = Fin (4 * 60 * 60)"
definition DEFAULT_MIN_SESSION_INTERVAL_S :: pyfloat where "DEFAULT_MIN_SESSION_INTERVAL_S = Fin (6 * 60 * 60)"
definition DEFAULT_SENSOR_MAX_AGE_S :: pyfloat where "DEFAULT_SENSOR_MAX_AGE_S = Fin (2 * 60 * 60)"
definition DEFAULT_ACTUATOR_CONFIRM_TIMEOUT_S :: pyfloat where "DEFAULT_ACTUATOR_CONFIRM_TIMEOUT_S = Fin 30"
definition DEFAULT_MANUAL_MAX_DURATION_S :: pyfloat where "DEFAULT_MANUAL_MAX_DURATION_S = Fin (60 * 60)"

definition form_get :: "'i option \<Rightarrow> ('i \<Rightarrow> 'v) \<Rightarrow> 'v \<Rightarrow> 'v" where
  "form_get defaults item missing = (case defaults of None \<Rightarrow> missing | Some i \<Rightarrow> item i)"

definition form_number :: "string \<Rightarrow> pyfloat \<Rightarrow> form_selector \<Rightarrow> form_field" where
  "form_number key shown selector = \<lparr>sf_key = key, sf_default = Some (NumberValue shown), sf_selector = selector\<rparr>"

definition identity_schema :: "identity_input option \<Rightarrow> form_field list" where
  "identity_schema defaults =
     [\<lparr>sf_key = ''name'', sf_default = Some (TextValue (form_get defaults ii_name [])), sf_selector = TextSelector\<rparr>,
      \<lparr>sf_key = ''moisture_sensor'', sf_default = map_option (TextValue \<circ> ii_moisture_sensor) defaults,
       sf_selector = EntitySelector [''sensor'']\<rparr>,
      \<lparr>sf_key = ''actuator'', sf_default = map_option (TextValue \<circ> ii_actuator) defaults,
       sf_selector = EntitySelector [''switch'', ''valve'']\<rparr>]"

definition thresholds_schema :: "threshold_input option \<Rightarrow> form_field list" where
  "thresholds_schema defaults =
     [form_number ''start_threshold'' (form_get defaults ti_start_threshold DEFAULT_START_THRESHOLD)
        (NumberSelector 1 99 ''%''),
      form_number ''target_threshold'' (form_get defaults ti_target_threshold DEFAULT_TARGET_THRESHOLD)
        (NumberSelector 2 100 ''%''),
      form_number ''pulse_duration'' (form_get defaults ti_pulse_duration DEFAULT_PULSE_DURATION_S)
        (NumberSelector 30 3600 ''s''),
      form_number ''soak_duration'' (form_get defaults ti_soak_duration DEFAULT_SOAK_DURATION_S)
        (NumberSelector 60 14400 ''s'')]"

definition limits_schema :: "limit_input option \<Rightarrow> form_field list" where
  "limits_schema defaults =
     [form_number ''max_cycles'' (form_get defaults li_max_cycles DEFAULT_MAX_CYCLES) (NumberSelector 1 20 ''cycles''),
      form_number ''max_session_runtime'' (form_get defaults li_max_session_runtime DEFAULT_MAX_SESSION_RUNTIME_S)
        (NumberSelector 30 14400 ''s''),
      form_number ''max_daily_runtime'' (form_get defaults li_max_daily_runtime DEFAULT_MAX_DAILY_RUNTIME_S)
        (NumberSelector 30 43200 ''s''),
      form_number ''min_session_interval'' (form_get defaults li_min_session_interval DEFAULT_MIN_SESSION_INTERVAL_S)
        (NumberSelector 900 604800 ''s''),
      form_number ''sensor_max_age'' (form_get defaults li_sensor_max_age DEFAULT_SENSOR_MAX_AGE_S)
        (NumberSelector 300 86400 ''s''),
      form_number ''actuator_confirm_timeout''
        (form_get defaults li_actuator_confirm_timeout DEFAULT_ACTUATOR_CONFIRM_TIMEOUT_S) (NumberSelector 5 300 ''s''),
      form_number ''manual_max_duration'' (form_get defaults li_manual_max_duration DEFAULT_MANUAL_MAX_DURATION_S)
        (NumberSelector 60 7200 ''s'')]"

section \<open>The flow of the entry\<close>

datatype flow_result =
    ShowForm string "form_field list" form_errors bool
  | CreateZone string zone_data
  | UpdateZone string zone_data
  | AbortFlow string
  | CreateController string bool

definition controller_step_user :: "bool \<Rightarrow> string \<Rightarrow> bool \<Rightarrow> flow_result" where
  "controller_step_user has_entries uuid submitted =
     (if has_entries then AbortFlow ''single_instance_allowed''
      else if submitted then CreateController uuid False
      else ShowForm ''user'' [] [] False)"

section \<open>Adding a zone\<close>

definition show_form :: "string \<Rightarrow> form_field list \<Rightarrow> form_errors \<Rightarrow> zone_flow \<Rightarrow> zone_flow \<times> flow_result" where
  "show_form step schema errors f = (f, ShowForm step schema errors (zf_shared_sensor_warning f))"

text \<open>The form of thresholds or of limits, with what was submitted or what the flow has collected.\<close>

definition show_thresholds ::
  "string \<Rightarrow> threshold_input option \<Rightarrow> form_errors \<Rightarrow> zone_flow \<Rightarrow> zone_flow \<times> flow_result" where
  "show_thresholds step user_input errors f =
     show_form step (thresholds_schema (case user_input of None \<Rightarrow> fd_thresholds (zf_data f) | t \<Rightarrow> t)) errors f"

definition show_limits ::
  "string \<Rightarrow> limit_input option \<Rightarrow> form_errors \<Rightarrow> zone_flow \<Rightarrow> zone_flow \<times> flow_result" where
  "show_limits step user_input errors f =
     show_form step (limits_schema (case user_input of None \<Rightarrow> fd_limits (zf_data f) | l \<Rightarrow> l)) errors f"

definition warn :: "bool \<Rightarrow> zone_flow \<Rightarrow> zone_flow" where
  "warn shared f = f\<lparr>zf_shared_sensor_warning := shared\<rparr>"

text \<open>An identity form and a threshold form; the flow goes on to the form named \<open>next_step\<close>.\<close>

definition identity_step ::
  "string \<Rightarrow> string \<Rightarrow> flow_env \<Rightarrow> string option \<Rightarrow> identity_input option \<Rightarrow> zone_flow \<Rightarrow>
   zone_flow \<times> flow_result" where
  "identity_step step next_step env reconfigure_id user_input f =
     (case user_input of
        None \<Rightarrow> show_form step (identity_schema (fd_identity (zf_data f))) [] f
      | Some i \<Rightarrow>
          (case validate_identity env i reconfigure_id of
             (errors, shared) \<Rightarrow>
               if errors \<noteq> [] then show_form step (identity_schema user_input) errors (warn shared f)
               else show_thresholds next_step None []
                      ((warn shared f)\<lparr>zf_data := (zf_data f)\<lparr>fd_identity := Some i\<rparr>\<rparr>)))"

definition threshold_step ::
  "string \<Rightarrow> string \<Rightarrow> threshold_input option \<Rightarrow> zone_flow \<Rightarrow> zone_flow \<times> flow_result" where
  "threshold_step step next_step user_input f =
     (case user_input of
        None \<Rightarrow> show_thresholds step None [] f
      | Some t \<Rightarrow>
          if validate_partial t \<noteq> [] then show_thresholds step user_input (validate_partial t) f
          else show_limits next_step None [] (f\<lparr>zf_data := (zf_data f)\<lparr>fd_thresholds := Some t\<rparr>\<rparr>))"

definition step_user :: "flow_env \<Rightarrow> identity_input option \<Rightarrow> zone_flow \<Rightarrow> zone_flow \<times> flow_result" where
  "step_user env = identity_step ''user'' ''thresholds'' env None"

definition step_thresholds :: "threshold_input option \<Rightarrow> zone_flow \<Rightarrow> zone_flow \<times> flow_result" where
  "step_thresholds = threshold_step ''thresholds'' ''limits''"

definition step_limits ::
  "flow_env \<Rightarrow> limit_input option \<Rightarrow> zone_flow \<Rightarrow> (zone_flow \<times> flow_result) result" where
  "step_limits env user_input f =
     (case user_input of
        None \<Rightarrow> Inr (show_limits ''limits'' None [] f)
      | Some l \<Rightarrow>
          res_bind (merged ((zf_data f)\<lparr>fd_limits := Some l\<rparr>)) (\<lambda>d.
          res_bind (normalize_zone d) (\<lambda>candidate.
          res_bind (validate_full env candidate None) (\<lambda>(errors, shared).
            Inr (if errors \<noteq> [] then show_limits ''limits'' user_input errors (warn shared f)
                 else (warn shared f, CreateZone (ii_name (zd_identity candidate)) candidate))))))"

section \<open>Reconfiguring a zone\<close>

definition adopt_subentry :: "zone_data \<Rightarrow> zone_flow \<Rightarrow> zone_flow" where
  "adopt_subentry d f =
     (if zf_data f = zf_data new_zone_flow
      then f\<lparr>zf_data := \<lparr>fd_identity = Some (zd_identity d), fd_thresholds = Some (zd_thresholds d),
                         fd_limits = Some (zd_limits d)\<rparr>\<rparr>
      else f)"

definition step_reconfigure ::
  "flow_env \<Rightarrow> string \<Rightarrow> zone_data \<Rightarrow> identity_input option \<Rightarrow> zone_flow \<Rightarrow> zone_flow \<times> flow_result" where
  "step_reconfigure env subentry_id stored user_input f =
     identity_step ''reconfigure'' ''reconfigure_thresholds'' env (Some subentry_id) user_input
       (adopt_subentry stored f)"

definition step_reconfigure_thresholds :: "threshold_input option \<Rightarrow> zone_flow \<Rightarrow> zone_flow \<times> flow_result" where
  "step_reconfigure_thresholds = threshold_step ''reconfigure_thresholds'' ''reconfigure_limits''"

text \<open>What the last step asks for.  The runtime is there when the entry is loaded.\<close>

definition prepare_zone ::
  "shutdown_env \<Rightarrow> string \<Rightarrow> Runtime option \<Rightarrow> Runtime option \<times> py_error option" where
  "prepare_zone env subentry_id runtime =
     (case runtime of
        None \<Rightarrow> (None, None)
      | Some rt \<Rightarrow> (case prepare_reconfigure env subentry_id rt of (rt', err) \<Rightarrow> (Some rt', err)))"

definition step_reconfigure_limits ::
  "flow_env \<Rightarrow> shutdown_env \<Rightarrow> string \<Rightarrow> zone_data \<Rightarrow> limit_input option \<Rightarrow> zone_flow \<Rightarrow> Runtime option \<Rightarrow>
   Runtime option \<times> (zone_flow \<times> flow_result) result" where
  "step_reconfigure_limits env prep subentry_id stored user_input f runtime =
     (case user_input of
        None \<Rightarrow> (runtime, Inr (show_limits ''reconfigure_limits'' None [] f))
      | Some l \<Rightarrow>
          (case res_bind (merged ((zf_data f)\<lparr>fd_limits := Some l\<rparr>)) (\<lambda>d.
                  res_bind (normalize_zone d) (\<lambda>candidate.
                  res_bind (validate_full env candidate (Some subentry_id)) (\<lambda>(errors, shared).
                    Inr (candidate, errors, shared)))) of
             Inl err \<Rightarrow> (runtime, Inl err)
           | Inr (candidate, errors, shared) \<Rightarrow>
               if errors \<noteq> [] then (runtime, Inr (show_limits ''reconfigure_limits'' user_input errors (warn shared f)))
               else (case normalize_zone stored of
                  Inl err \<Rightarrow> (runtime, Inl err)
                | Inr current \<Rightarrow>
                    if candidate = current
                    then (runtime, Inr (warn shared f, AbortFlow ''reconfigure_successful''))
                    else (case prepare_zone prep subentry_id runtime of
                            (runtime', Some err) \<Rightarrow> (runtime', Inl err)
                          | (runtime', None) \<Rightarrow>
                              (runtime', Inr (warn shared f,
                                 UpdateZone (ii_name (zd_identity candidate)) candidate))))))"

end
