(* ===== verification/Config_Safety.thy ===== *)
theory Config_Safety
  imports Config_Flow Shutdown_Safety
begin

text \<open>
  What the configuration flows guarantee: the data of a zone that they create or update is normalized,
  within every bound and in conflict with no other zone; a reconfiguration that changes nothing touches
  nothing; and one case of conflicting evidence that they let through.
\<close>

section \<open>Normal forms\<close>

lemma dropWhile_idem [simp]: "dropWhile P (dropWhile P xs) = dropWhile P xs"
  by (induction xs) auto

lemma dropWhile_end:
  assumes "xs = [] \<or> \<not> P (hd xs)"
  shows "dropWhile P (rev (dropWhile P (rev xs))) = rev (dropWhile P (rev xs))"
proof (cases "rev (dropWhile P (rev xs))")
  case (Cons y ys)
  have "xs = rev (takeWhile P (rev xs) @ dropWhile P (rev xs))"
    by (simp only: takeWhile_dropWhile_id rev_rev_ident)
  then have "xs = rev (dropWhile P (rev xs)) @ rev (takeWhile P (rev xs))"
    by (simp only: rev_append)
  with Cons have "hd xs = y" "xs \<noteq> []" by (metis append_Cons list.sel(1), auto)
  with assms Cons show ?thesis by simp
qed (simp only: dropWhile.simps)

lemma py_strip_idem [simp]: "py_strip (py_strip s) = py_strip s"
proof -
  let ?t = "dropWhile py_space s"
  have "?t = [] \<or> \<not> py_space (hd ?t)" using hd_dropWhile [of py_space s] by blast
  from dropWhile_end [of ?t py_space, OF this] show ?thesis by (simp add: py_strip_def)
qed

lemma trunc_int_of_int [simp]: "trunc_int (of_int n) = n"
  by (simp add: trunc_int_def)

lemma normalize_zone_fixed: "normalize_zone d = Inr d' \<Longrightarrow> normalize_zone d' = Inr d'"
  by (auto simp: normalize_zone_def Let_def res_bind_eq_Inr)

lemma normalize_zone_strips: "normalize_zone d = Inr d' \<Longrightarrow> py_strip (ii_name (zd_identity d')) = ii_name (zd_identity d')"
  by (auto simp: normalize_zone_def Let_def res_bind_eq_Inr)

section \<open>Accepted data\<close>

text \<open>The data of a zone that may be stored beside the other zones of the entry.\<close>

definition sound_zone :: "flow_env \<Rightarrow> string option \<Rightarrow> zone_data \<Rightarrow> bool" where
  "sound_zone env reconfigure_id d \<longleftrightarrow>
     normalize_zone d = Inr d \<and>
     (\<exists>c. zone_config_from_subentry d = Inr (Some c) \<and> config_validate c = Inr () \<and>
        pe_states (fe_home env) (cfg_moisture_sensor c) \<noteq> None \<and>
        pe_states (fe_home env) (cfg_actuator c) \<noteq> None \<and>
        (\<forall>w \<in> set (other_zones env reconfigure_id).
           casefold (ii_name (zd_identity w)) \<noteq> casefold (cfg_name c) \<and>
           \<not> same_registry_identity (fe_home env) (ii_actuator (zd_identity w)) (cfg_actuator c)))"

lemma config_fields:
  "zone_config_from_subentry d = Inr (Some c) \<Longrightarrow>
   cfg_name c = ii_name (zd_identity d) \<and> cfg_moisture_sensor c = ii_moisture_sensor (zd_identity d) \<and>
   cfg_actuator c = ii_actuator (zd_identity d)"
  by (cases "ti_start_threshold (zd_thresholds d)"; cases "ti_target_threshold (zd_thresholds d)")
     (auto simp: zone_config_from_subentry_def Let_def res_bind_eq_Inr)

lemma error_entry_Nil [simp]: "error_entry k e = [] \<longleftrightarrow> e = None"
  by (simp add: error_entry_def split: option.split)

lemma no_name_error:
  "name_error env n i = None \<Longrightarrow> w \<in> set (other_zones env i) \<Longrightarrow>
   casefold (ii_name (zd_identity w)) \<noteq> casefold (py_strip n)"
  by (auto simp: name_error_def Let_def list_ex_iff split: if_splits)

lemma no_sensor_error: "sensor_error env s i = (None, b) \<Longrightarrow> pe_states (fe_home env) s \<noteq> None"
  by (auto simp: sensor_error_def split: if_splits)

lemma no_actuator_error:
  assumes "actuator_error env a i = None"
  shows "pe_states (fe_home env) a \<noteq> None"
    and "w \<in> set (other_zones env i) \<Longrightarrow> \<not> same_registry_identity (fe_home env) (ii_actuator (zd_identity w)) a"
  using assms by (auto simp: actuator_error_def list_ex_iff split: if_splits)

lemma accepted_sound:
  assumes "normalize_zone d0 = Inr d" and "validate_full env d i = Inr ([], shared)"
  shows "sound_zone env i d"
proof -
  obtain sensor b where s: "sensor_error env (ii_moisture_sensor (zd_identity d)) i = (sensor, b)" by force
  from assms(2) s have n: "name_error env (ii_name (zd_identity d)) i = None" "sensor = None"
    "actuator_error env (ii_actuator (zd_identity d)) i = None"
    by (auto simp: validate_full_def validate_identity_def Let_def res_bind_eq_Inr split: if_splits)
  from assms(2) s n obtain c where c: "zone_config_from_subentry d = Inr (Some c)" "validation_errors c = []"
    by (auto simp: validate_full_def validate_identity_def Let_def res_bind_eq_Inr split: if_splits option.splits)
  have v: "config_validate c = Inr ()" using c(2) by (simp add: config_validate_def)
  have name: "py_strip (ii_name (zd_identity d)) = ii_name (zd_identity d)" by (rule normalize_zone_strips [OF assms(1)])
  show ?thesis
    unfolding sound_zone_def
    using normalize_zone_fixed [OF assms(1)] c(1) v config_fields [OF c(1)] no_sensor_error [OF s [unfolded n(2)]]
      no_actuator_error [OF n(3)] no_name_error [OF n(1), unfolded name]
    by auto
qed

text \<open>(C36) A zone that the flow creates is sound: its data is its own normal form, describes a configuration
  within every bound, its title is the stripped name, sensor and actuator exist, and no other zone of the
  entry has the name (up to case) or the identity of the actuator.\<close>

theorem created_zone_is_sound:
  assumes "step_limits env (Some l) f = Inr (f', CreateZone title d)"
  shows "sound_zone env None d \<and> title = ii_name (zd_identity d) \<and> py_strip title = title"
proof -
  from assms obtain d0 where n: "normalize_zone d0 = Inr d" and v: "\<exists>shared. validate_full env d None = Inr ([], shared)"
    and t: "title = ii_name (zd_identity d)"
    by (auto simp: step_limits_def res_bind_eq_Inr show_limits_def show_form_def split: if_splits prod.splits)
  with accepted_sound [OF n] normalize_zone_strips [OF n] show ?thesis by blast
qed

text \<open>(C37) A reconfiguration does what it shows: an update is sound, differs from what is stored and comes only
  after the old runtime was prepared without an error; in every other outcome but that preparation failing
  the runtime is left alone, and the flow ends as a no-op exactly for data with the normal form of the stored one.\<close>

theorem reconfiguration_prepares_before_update:
  assumes "step_reconfigure_limits env prep i stored (Some l) f rt = (rt', r)"
  shows "(\<forall>f' title d. r = Inr (f', UpdateZone title d) \<longrightarrow>
        sound_zone env (Some i) d \<and> normalize_zone stored \<noteq> Inr d \<and> prepare_zone prep i rt = (rt', None)) \<and>
     (\<forall>f' reason. r = Inr (f', AbortFlow reason) \<longrightarrow> rt' = rt \<and>
        (\<exists>d. merged ((zf_data f)\<lparr>fd_limits := Some l\<rparr>) = Inr d \<and> normalize_zone d = normalize_zone stored)) \<and>
     (rt' \<noteq> rt \<longrightarrow> fst (prepare_zone prep i rt) = rt')"
proof -
  let ?q = "res_bind (merged ((zf_data f)\<lparr>fd_limits := Some l\<rparr>)) (\<lambda>d.
                  res_bind (normalize_zone d) (\<lambda>candidate.
                  res_bind (validate_full env candidate (Some i)) (\<lambda>(errors, shared).
                    Inr (candidate, errors, shared))))"
  show ?thesis
  proof (cases ?q)
    case (Inl err)
    with assms show ?thesis by (auto simp: step_reconfigure_limits_def)
  next
    case (Inr q)
    obtain d errors shared where q: "q = (d, errors, shared)" by (cases q) auto
    from Inr q obtain d0 where d0: "merged ((zf_data f)\<lparr>fd_limits := Some l\<rparr>) = Inr d0" "normalize_zone d0 = Inr d"
      "validate_full env d (Some i) = Inr (errors, shared)"
      by (auto simp: res_bind_eq_Inr split: prod.splits)
    have snd1: "errors = [] \<Longrightarrow> sound_zone env (Some i) d" using accepted_sound [OF d0(2)] d0(3) by blast
    obtain rt1 e where p: "prepare_zone prep i rt = (rt1, e)" by force
    show ?thesis
      using assms Inr q d0 snd1 p
      by (auto simp: step_reconfigure_limits_def show_limits_def show_form_def split: if_splits sum.splits option.splits)
  qed
qed

section \<open>Forms\<close>

text \<open>The value that a field shows is one that its selector lets through.\<close>

fun offered :: "form_field \<Rightarrow> bool" where
  "offered f =
     (case (sf_default f, sf_selector f) of
        (Some (NumberValue x), NumberSelector least most _) \<Rightarrow>
          fl_le (Fin (of_int least)) x \<and> fl_le x (Fin (of_int most))
      | (Some (TextValue _), TextSelector) \<Rightarrow> True
      | (Some (TextValue v), EntitySelector ds) \<Rightarrow> entity_domain v \<in> set ds
      | _ \<Rightarrow> False)"

lemma offered_number [simp]:
  "offered (form_number k x (NumberSelector a b u)) \<longleftrightarrow> (\<exists>q. x = Fin q \<and> of_int a \<le> q \<and> q \<le> of_int b)"
  by (cases x) (auto simp: form_number_def not_less)

declare offered.simps [simp del]

lemma offered_text [simp]:
  "offered \<lparr>sf_key = k, sf_default = Some (TextValue v), sf_selector = EntitySelector ds\<rparr> \<longleftrightarrow> entity_domain v \<in> set ds"
  by (simp add: offered.simps)

lemma trunc_int_within: "of_int a \<le> q \<Longrightarrow> q \<le> of_int b \<Longrightarrow> a \<le> trunc_int q \<and> trunc_int q \<le> b"
  unfolding trunc_int_def by (auto simp: le_floor_iff floor_le_iff ceiling_le_iff le_ceiling_iff)

lemma offered_int:
  assumes "offered (form_number k x (NumberSelector a b u))"
  obtains n where "py_int x = Inr n" "a \<le> n" "n \<le> b"
  using assms trunc_int_within [of a _ b] by auto

lemma form_get_Some [simp]: "form_get (Some i) g m = g i"
  by (simp add: form_get_def)

lemmas configuration_bounds =
  NAME_MIN_LENGTH_def NAME_MAX_LENGTH_def START_THRESHOLD_MIN_def START_THRESHOLD_MAX_def
  TARGET_THRESHOLD_MIN_def TARGET_THRESHOLD_MAX_def PULSE_DURATION_MIN_S_def PULSE_DURATION_MAX_S_def
  SOAK_DURATION_MIN_S_def SOAK_DURATION_MAX_S_def MAX_CYCLES_MIN_def MAX_CYCLES_MAX_def
  MAX_SESSION_RUNTIME_MAX_S_def MAX_DAILY_RUNTIME_MAX_S_def MIN_SESSION_INTERVAL_MIN_S_def
  MIN_SESSION_INTERVAL_MAX_S_def SENSOR_MAX_AGE_MIN_S_def SENSOR_MAX_AGE_MAX_S_def
  ACTUATOR_CONFIRM_TIMEOUT_MIN_S_def ACTUATOR_CONFIRM_TIMEOUT_MAX_S_def MANUAL_MAX_DURATION_MIN_S_def
  MANUAL_MAX_DURATION_MAX_S_def ACTUATOR_DOMAIN_SWITCH_def ACTUATOR_DOMAIN_VALVE_def SENSOR_DOMAIN_def

text \<open>(C40) The forms and the checks agree: values that the selectors of the three forms let through, with a
  name of legal length, the target above the start, and both runtime limits at least one pulse, violate no
  bound of the configuration.\<close>

theorem forms_agree_with_bounds:
  assumes "list_all offered (identity_schema (Some i))" and "list_all offered (thresholds_schema (Some t))"
    and "list_all offered (limits_schema (Some l))"
    and "1 \<le> length (ii_name i)" and "length (ii_name i) \<le> 64"
    and "fl_less (ti_start_threshold t) (ti_target_threshold t)"
    and "py_int (ti_pulse_duration t) = Inr pulse"
    and "py_int (li_max_session_runtime l) = Inr session" and "pulse \<le> session"
    and "py_int (li_max_daily_runtime l) = Inr daily" and "pulse \<le> daily"
  shows "\<exists>c. zone_config_from_subentry \<lparr>zd_identity = i, zd_thresholds = t, zd_limits = l\<rparr> = Inr (Some c) \<and>
             validation_errors c = []"
proof -
  note [simp] = thresholds_schema_def limits_schema_def identity_schema_def
  from assms(2) obtain start target where t: "ti_start_threshold t = Fin start" "1 \<le> start" "start \<le> 99"
    "ti_target_threshold t = Fin target" "2 \<le> target" "target \<le> 100" by auto
  from assms(2) obtain n where p: "py_int (ti_pulse_duration t) = Inr n" "30 \<le> n" "n \<le> 3600"
    by (auto simp del: offered_number elim!: offered_int)
  from assms(2) obtain soak where k: "py_int (ti_soak_duration t) = Inr soak" "60 \<le> soak" "soak \<le> 14400"
    by (auto simp del: offered_number elim!: offered_int)
  from assms(3) obtain cycles s0 d0 interval age timeout manual where
    l: "py_int (li_max_cycles l) = Inr cycles" "1 \<le> cycles" "cycles \<le> 20"
      "py_int (li_max_session_runtime l) = Inr s0" "s0 \<le> 14400" "py_int (li_max_daily_runtime l) = Inr d0" "d0 \<le> 43200"
      "py_int (li_min_session_interval l) = Inr interval" "900 \<le> interval" "interval \<le> 604800"
      "py_int (li_sensor_max_age l) = Inr age" "300 \<le> age" "age \<le> 86400"
      "py_int (li_actuator_confirm_timeout l) = Inr timeout" "5 \<le> timeout" "timeout \<le> 300"
      "py_int (li_manual_max_duration l) = Inr manual" "60 \<le> manual" "manual \<le> 7200"
    by (auto simp del: offered_number elim!: offered_int)
  have d: "entity_domain (ii_moisture_sensor i) = ''sensor''" "entity_domain (ii_actuator i) \<in> {''switch'', ''valve''}"
    using assms(1) by auto
  have "start < target" using assms(6) t by simp
  moreover have "n = pulse" "s0 = session" "d0 = daily" using assms p l by auto
  ultimately show ?thesis
    using assms(4,5,9,11) t p k l d
    by (simp add: zone_config_from_subentry_def validation_errors_def check_def configuration_bounds)
qed

text \<open>The values that the forms of a new zone show first.\<close>

definition default_thresholds :: threshold_input where
  "default_thresholds =
     \<lparr>ti_start_threshold = DEFAULT_START_THRESHOLD, ti_target_threshold = DEFAULT_TARGET_THRESHOLD,
      ti_pulse_duration = DEFAULT_PULSE_DURATION_S, ti_soak_duration = DEFAULT_SOAK_DURATION_S\<rparr>"

definition default_limits :: limit_input where
  "default_limits =
     \<lparr>li_max_cycles = DEFAULT_MAX_CYCLES, li_max_session_runtime = DEFAULT_MAX_SESSION_RUNTIME_S,
      li_max_daily_runtime = DEFAULT_MAX_DAILY_RUNTIME_S, li_min_session_interval = DEFAULT_MIN_SESSION_INTERVAL_S,
      li_sensor_max_age = DEFAULT_SENSOR_MAX_AGE_S,
      li_actuator_confirm_timeout = DEFAULT_ACTUATOR_CONFIRM_TIMEOUT_S,
      li_manual_max_duration = DEFAULT_MANUAL_MAX_DURATION_S\<rparr>"

theorem forms_agree_with_bounds_witness:
  "thresholds_schema (Some default_thresholds) = thresholds_schema None \<and>
   limits_schema (Some default_limits) = limits_schema None \<and>
   (\<exists>c. zone_config_from_subentry
          \<lparr>zd_identity = \<lparr>ii_name = ''Bed'', ii_moisture_sensor = ''sensor.bed'', ii_actuator = ''switch.bed''\<rparr>,
           zd_thresholds = default_thresholds, zd_limits = default_limits\<rparr> = Inr (Some c) \<and>
        validation_errors c = [])"
proof (intro conjI)
  let ?i = "\<lparr>ii_name = ''Bed'', ii_moisture_sensor = ''sensor.bed'', ii_actuator = ''switch.bed''\<rparr>"
  have ok: "list_all offered (identity_schema (Some ?i))" "list_all offered (thresholds_schema (Some default_thresholds))"
    "list_all offered (limits_schema (Some default_limits))" by code_simp+
  have v: "fl_less (ti_start_threshold default_thresholds) (ti_target_threshold default_thresholds)"
    "py_int (ti_pulse_duration default_thresholds) = Inr 3600"
    "py_int (li_max_session_runtime default_limits) = Inr 7500"
    "py_int (li_max_daily_runtime default_limits) = Inr 14400" by code_simp+
  show "\<exists>c. zone_config_from_subentry
          \<lparr>zd_identity = ?i, zd_thresholds = default_thresholds, zd_limits = default_limits\<rparr> = Inr (Some c) \<and>
        validation_errors c = []"
    by (rule forms_agree_with_bounds [OF ok _ _ v(1,2,3) _ v(4)]) simp_all
qed (code_simp+)

section \<open>Evidence that the flow lets through\<close>

lemma conflict_recorded:
  "flag_records kind detail rs p = Inr p' \<Longrightarrow> pl_conflicts p' = pl_conflicts p"
  by (induction rs arbitrary: p) (auto simp: res_bind_eq_Inr put_record_def)

lemma refused_conflict:
  assumes "refuse_zone kind detail cs p = Inr (p', chosen)"
  shows "chosen = None \<and> pl_conflicts p' \<noteq> []"
proof -
  from assms have "flag_records kind detail cs (add_conflict detail p) = Inr p'" "chosen = None"
    by (auto simp: refuse_zone_def res_bind_eq_Inr)
  with conflict_recorded [OF this(1)] show ?thesis by (simp add: add_conflict_def)
qed

text \<open>The flow promises that conflicting or ambiguous evidence fails before the configuration changes.  It
  does not for an added zone whose actuator has no registry entry: a retained record of that entity
  identifier with another durable identity passes the check, because its missing subentry equals the missing
  subentry of the new zone, and planning then refuses the stored zone with an identity conflict.\<close>

theorem add_flow_misses_retained_identity:
  assumes "pe_registry (fe_home env) a = None" and "fe_store env = Some data"
    and "\<And>w. w \<in> snd ` set (st_safety_records data) \<Longrightarrow>
           ai_last_known_entity_id (sr_actuator_identity w) = Some a \<Longrightarrow> sr_active_subentry_id w = None"
    and "r \<in> set (all_records p)" and "ai_last_known_entity_id (sr_actuator_identity r) = Some a"
    and "record_uuid r \<noteq> None"
    and "current_actuator z = a" and "zone_uuid z = None"
  shows "retained_actuator_identity_error env a None = None \<and>
     (select_record e snapshot prior z p = Inr (p', chosen) \<longrightarrow> chosen = None \<and> pl_conflicts p' \<noteq> [])"
proof
  have "\<not> record_disputes None a None w" if "w \<in> snd ` set (st_safety_records data)" for w
    using assms(3) [OF that] by (auto simp: record_disputes_def)
  then have "\<not> list_ex (record_disputes None a None) (map snd (st_safety_records data))"
    unfolding list_ex_iff set_map by blast
  then show "retained_actuator_identity_error env a None = None"
    using assms(1,2) by (simp add: retained_actuator_identity_error_def)
  have "r \<in> set (textual_conflicts z p)" using assms(4-8) by (auto simp: textual_conflicts_def)
  then have t: "textual_conflicts z p \<noteq> []" by auto
  show "select_record e snapshot prior z p = Inr (p', chosen) \<longrightarrow> chosen = None \<and> pl_conflicts p' \<noteq> []"
  proof
    assume "select_record e snapshot prior z p = Inr (p', chosen)"
    with t obtain detail cs where "refuse_zone IDENTITY_CONFLICT detail cs p = Inr (p', chosen)"
      unfolding select_record_def Let_def by (simp split: if_splits)
    then show "chosen = None \<and> pl_conflicts p' \<noteq> []" by (rule refused_conflict)
  qed
qed

section \<open>A concrete flow\<close>

definition garden :: plan_env where
  "garden = home\<lparr>pe_states := (\<lambda>i. Some (\<lparr>st_state = StateText ''off'', st_current_position = None\<rparr>, 0)),
                 pe_registry := (\<lambda>_. None)\<rparr>"

definition bed_identity :: "string \<Rightarrow> identity_input" where
  "bed_identity n = \<lparr>ii_name = n, ii_moisture_sensor = ''sensor.bed'', ii_actuator = ''switch.bed''\<rparr>"

definition bed_thresholds :: threshold_input where
  "bed_thresholds = \<lparr>ti_start_threshold = Fin 30, ti_target_threshold = Fin 45,
     ti_pulse_duration = Fin (601 / 2), ti_soak_duration = Fin 1200\<rparr>"

definition bed_limits :: "rat \<Rightarrow> limit_input" where
  "bed_limits n = \<lparr>li_max_cycles = Fin n, li_max_session_runtime = Fin 1800, li_max_daily_runtime = Fin 3600,
     li_min_session_interval = Fin 21600, li_sensor_max_age = Fin 3600, li_actuator_confirm_timeout = Fin 30,
     li_manual_max_duration = Fin 1800\<rparr>"

definition bed_data :: zone_data where
  "bed_data = \<lparr>zd_identity = bed_identity ''Bed'', zd_thresholds = bed_thresholds, zd_limits = bed_limits 4\<rparr>"

definition garden_env :: "StoreData option \<Rightarrow> flow_env" where
  "garden_env loaded =
     \<lparr>fe_home = garden, fe_features = (\<lambda>_. 0),
      fe_subentries = [(''y'', \<lparr>sub_type = ''zone'',
        sub_data = bed_data\<lparr>zd_identity := \<lparr>ii_name = ''Lawn'', ii_moisture_sensor = ''sensor.bed'',
                                          ii_actuator = ''switch.lawn''\<rparr>\<rparr>\<rparr>)],
      fe_store = loaded\<rparr>"

definition bed_flow :: zone_flow where
  "bed_flow =
     fst (step_thresholds (Some bed_thresholds)
       (fst (step_user (garden_env None) (Some (bed_identity '' Bed '')) new_zone_flow)))"

definition created_bed :: "(zone_flow \<times> flow_result) result" where
  "created_bed = step_limits (garden_env None) (Some (bed_limits 4)) bed_flow"

text \<open>The zone that a result creates or updates.\<close>

fun stored_zone :: "(zone_flow \<times> flow_result) result \<Rightarrow> (zone_flow \<times> bool \<times> string \<times> zone_data) option" where
  "stored_zone (Inr (f, CreateZone title d)) = Some (f, True, title, d)"
| "stored_zone (Inr (f, UpdateZone title d)) = Some (f, False, title, d)"
| "stored_zone _ = None"

lemma stored_zone_Some:
  "stored_zone r = Some (f, created, title, d) \<Longrightarrow>
   r = Inr (f, if created then CreateZone title d else UpdateZone title d)"
  by (induction r rule: stored_zone.induct) auto

lemma bed_created: "map_option (\<lambda>(f, created, title, d). (created, title)) (stored_zone created_bed) = Some (True, ''Bed'')"
  by code_simp

theorem created_zone_is_sound_witness:
  "\<exists>f' d. created_bed = Inr (f', CreateZone ''Bed'' d) \<and> sound_zone (garden_env None) None d"
proof -
  obtain f' d where r: "created_bed = Inr (f', CreateZone ''Bed'' d)"
    using bed_created by (auto dest!: stored_zone_Some)
  from created_zone_is_sound [OF r [unfolded created_bed_def]] r show ?thesis by blast
qed

definition changed_bed :: "Runtime option \<times> (zone_flow \<times> flow_result) result" where
  "changed_bed =
     step_reconfigure_limits (garden_env None) (kept_env no_io) ''z'' bed_data (Some (bed_limits 5))
       (adopt_subentry bed_data new_zone_flow) None"

lemma bed_changed: "map_option (\<lambda>(f, created, title, d). created) (stored_zone (snd changed_bed)) = Some False"
  by code_simp

theorem reconfiguration_prepares_before_update_witness:
  "\<exists>f' title d. snd changed_bed = Inr (f', UpdateZone title d) \<and> sound_zone (garden_env None) (Some ''z'') d"
proof -
  obtain f' title d where u: "snd changed_bed = Inr (f', UpdateZone title d)"
    using bed_changed by (auto dest!: stored_zone_Some)
  obtain rt' r where r: "changed_bed = (rt', r)" by (cases changed_bed)
  with u have "r = Inr (f', UpdateZone title d)" by (metis snd_conv)
  with reconfiguration_prepares_before_update [OF r [unfolded changed_bed_def]]
  have "sound_zone (garden_env None) (Some ''z'') d" by blast
  with u show ?thesis by blast
qed

definition retained_plan :: plan_state where
  "retained_plan =
     \<lparr>pl_records = st_safety_records (removed_data None), pl_histories = [], pl_conflicts = [], pl_minted = 0\<rparr>"

definition returning_zone :: ImmutableZoneSnapshot where
  "returning_zone = (sample_zone ''new'' ''fp1'')\<lparr>iz_current_actuator_entity_id := Some ''switch.old'',
     iz_actuator_identity := (iz_actuator_identity (sample_zone ''new'' ''fp1''))\<lparr>ae_registry_entry_id := None\<rparr>\<rparr>"

theorem add_flow_misses_retained_identity_witness:
  "retained_actuator_identity_error (garden_env (Some (removed_data None))) ''switch.old'' None = None"
proof -
  have r: "removed_record \<in> set (all_records retained_plan)"
    and l: "ai_last_known_entity_id (sr_actuator_identity removed_record) = Some ''switch.old''"
    and u: "record_uuid removed_record \<noteq> None"
    and z: "current_actuator returning_zone = ''switch.old''" "zone_uuid returning_zone = None"
    by code_simp+
  have "pe_registry (fe_home (garden_env (Some (removed_data None)))) ''switch.old'' = None"
    by (simp add: garden_env_def garden_def)
  moreover have "sr_active_subentry_id w = None" if "w \<in> snd ` set (st_safety_records (removed_data None))" for w
    using that by (auto simp: removed_data_def removed_record_def returning_record_def sample_record_def)
  ultimately show ?thesis
    using add_flow_misses_retained_identity [OF _ _ _ r l u z, of "garden_env (Some (removed_data None))" "removed_data None"]
    by (simp add: garden_env_def)
qed

end
