(* ===== verification/Entry_Repairs.thy ===== *)
theory Entry_Repairs
  imports Entry_Operator Json_Codec
begin

text \<open>
  The Repairs of the integration: the issues of \<open>repairs.py\<close> with their fix flows, and the methods of
  \<open>runtime.py\<close> that keep them in step with the store (\<open>_update_repairs\<close>,
  \<open>_sync_repairs_from_authority\<close>).  The issue registry of Home Assistant is a map from issue identifiers;
  creating an issue replaces the one with the same identifier.  Logging is left out.
\<close>

section \<open>Issues\<close>

definition ISSUE_SENSOR_MISSING :: string where "ISSUE_SENSOR_MISSING = ''zone_sensor_missing''"
definition ISSUE_ACTUATOR_MISSING :: string where "ISSUE_ACTUATOR_MISSING = ''zone_actuator_missing''"
definition ISSUE_TOMBSTONE_ACTUATOR_MISSING :: string where
  "ISSUE_TOMBSTONE_ACTUATOR_MISSING = ''tombstone_actuator_missing''"
definition ISSUE_TOMBSTONE_ACTUATOR_REMOVED :: string where
  "ISSUE_TOMBSTONE_ACTUATOR_REMOVED = ''tombstone_actuator_removed''"
definition ISSUE_IDENTITY_CONFLICT :: string where "ISSUE_IDENTITY_CONFLICT = ''actuator_identity_conflict''"
definition ISSUE_RECONCILIATION_FAILED :: string where
  "ISSUE_RECONCILIATION_FAILED = ''configuration_reconciliation_failed''"
definition ISSUE_OFF_UNCONFIRMED :: string where "ISSUE_OFF_UNCONFIRMED = ''actuator_off_unconfirmed''"
definition ISSUE_INTEGRITY_LOST :: string where "ISSUE_INTEGRITY_LOST = ''runtime_store_integrity_lost''"

datatype severity = SeverityError | SeverityCritical

record issue =
  is_fixable :: bool
  is_severity :: severity
  is_translation_key :: string
  is_placeholders :: "(string \<times> string) list"
  is_data :: "(string \<times> string) list option"

type_synonym issues = "string \<Rightarrow> issue option"

definition create_issue :: "string \<Rightarrow> issue \<Rightarrow> issues \<Rightarrow> issues" where
  "create_issue issue_id i is = is(issue_id \<mapsto> i)"

definition delete_issue :: "string \<Rightarrow> issues \<Rightarrow> issues" where
  "delete_issue issue_id is = is(issue_id := None)"

section \<open>Texts\<close>

definition short :: "string option \<Rightarrow> string" where
  "short value = (case value of None \<Rightarrow> ''unavailable'' | Some v \<Rightarrow> if v = [] then ''unavailable'' else take 8 v)"

fun nat_text :: "nat \<Rightarrow> string" where
  "nat_text n = (if n < 10 then [char_of (48 + n)] else nat_text (n div 10) @ [char_of (48 + n mod 10)])"

definition int_text :: "int \<Rightarrow> string" where
  "int_text i = (if i < 0 then ''-'' @ nat_text (nat (- i)) else nat_text (nat i))"

definition member_text :: "'e enum_table \<Rightarrow> 'e \<Rightarrow> string" where
  "member_text table x = (case enum_value table x of JStr s \<Rightarrow> s | _ \<Rightarrow> [])"

fun comma_join :: "string list \<Rightarrow> string" where
  "comma_join [] = []"
| "comma_join [s] = s"
| "comma_join (s # ss) = s @ '', '' @ comma_join ss"

definition record_issue_id :: "string \<Rightarrow> string \<Rightarrow> string \<Rightarrow> string" where
  "record_issue_id entry_id record_id issue_type = issue_type @ ''_'' @ entry_id @ ''_'' @ record_id"

definition zone_issue_id :: "string \<Rightarrow> string \<Rightarrow> string" where
  "zone_issue_id kind zone_id = kind @ ''_'' @ zone_id"

definition record_placeholders :: "SafetyRecord \<Rightarrow> string \<Rightarrow> (string \<times> string) list" where
  "record_placeholders r zone_name =
     [(''zone_name'', zone_name),
      (''safety_record_id'', short (Some (sr_safety_record_id r))),
      (''safety_lineage_id'', short (Some (sr_safety_lineage_id r))),
      (''registry_entry_id'', short (record_uuid r)),
      (''entity_id'', or_else (ai_last_known_entity_id (sr_actuator_identity r)) ''unavailable''),
      (''lifecycle'', member_text lifecycles (sr_runtime_lifecycle r)),
      (''fault'', case sr_actuator_fault r of None \<Rightarrow> ''none'' | Some f \<Rightarrow> member_text fault_codes f),
      (''blockers'', or_else (Some (comma_join (map (member_text blocker_values) (sr_blocker_reasons r)))) ''none''),
      (''accounting'', if sr_possible_flow_owner r \<noteq> None then ''open'' else ''closed or not owned'')]"

definition record_issue_data :: "string \<Rightarrow> SafetyRecord \<Rightarrow> string \<Rightarrow> (string \<times> string) list option" where
  "record_issue_data entry_id r issue_type =
     Some [(''entry_id'', entry_id), (''safety_record_id'', sr_safety_record_id r),
           (''safety_lineage_id'', sr_safety_lineage_id r), (''issue_type'', issue_type)]"

section \<open>Creating and deleting issues\<close>

definition create_off_unconfirmed_issue :: "string \<Rightarrow> SafetyRecord \<Rightarrow> string \<Rightarrow> issues \<Rightarrow> issues" where
  "create_off_unconfirmed_issue entry_id r zone_name =
     create_issue (record_issue_id entry_id (sr_safety_record_id r) ISSUE_OFF_UNCONFIRMED)
       \<lparr>is_fixable = True, is_severity = SeverityCritical, is_translation_key = ISSUE_OFF_UNCONFIRMED,
        is_placeholders = record_placeholders r zone_name,
        is_data = record_issue_data entry_id r ISSUE_OFF_UNCONFIRMED\<rparr>"

definition create_identity_issue ::
  "string \<Rightarrow> SafetyRecord \<Rightarrow> string \<Rightarrow> string \<Rightarrow> bool \<Rightarrow> issues \<Rightarrow> issues" where
  "create_identity_issue entry_id r issue_type zone_name removal_recoverable =
     create_issue (record_issue_id entry_id (sr_safety_record_id r) issue_type)
       \<lparr>is_fixable = removal_recoverable, is_severity = SeverityError,
        is_translation_key =
          (if removal_recoverable \<and> issue_type = ISSUE_TOMBSTONE_ACTUATOR_MISSING
           then ISSUE_TOMBSTONE_ACTUATOR_REMOVED else issue_type),
        is_placeholders = record_placeholders r zone_name @
          [(''detail'', case sr_identity_incident r of None \<Rightarrow> ''identity unresolved'' | Some i \<Rightarrow> inc_detail i)],
        is_data = record_issue_data entry_id r
          (if removal_recoverable then ISSUE_TOMBSTONE_ACTUATOR_REMOVED else issue_type)\<rparr>"

definition delete_record_issue :: "string \<Rightarrow> string \<Rightarrow> string \<Rightarrow> issues \<Rightarrow> issues" where
  "delete_record_issue entry_id record_id issue_type = delete_issue (record_issue_id entry_id record_id issue_type)"

definition create_reconciliation_issue :: "string \<Rightarrow> string \<Rightarrow> int \<Rightarrow> int \<Rightarrow> issues \<Rightarrow> issues" where
  "create_reconciliation_issue entry_id error observed_generation applied_generation =
     create_issue (ISSUE_RECONCILIATION_FAILED @ ''_'' @ entry_id)
       \<lparr>is_fixable = False, is_severity = SeverityError, is_translation_key = ISSUE_RECONCILIATION_FAILED,
        is_placeholders =
          [(''entry_id'', short (Some entry_id)), (''error'', error),
           (''observed_generation'', int_text observed_generation),
           (''applied_generation'', int_text applied_generation)],
        is_data = Some [(''entry_id'', entry_id), (''issue_type'', ISSUE_RECONCILIATION_FAILED)]\<rparr>"

definition delete_reconciliation_issue :: "string \<Rightarrow> issues \<Rightarrow> issues" where
  "delete_reconciliation_issue entry_id = delete_issue (ISSUE_RECONCILIATION_FAILED @ ''_'' @ entry_id)"

definition create_entity_missing_issue :: "string \<Rightarrow> string \<Rightarrow> string \<Rightarrow> bool \<Rightarrow> issues \<Rightarrow> issues" where
  "create_entity_missing_issue zone_id zone_name entity_id actuator =
     (let kind = (if actuator then ISSUE_ACTUATOR_MISSING else ISSUE_SENSOR_MISSING)
      in create_issue (zone_issue_id kind zone_id)
           \<lparr>is_fixable = False, is_severity = SeverityError, is_translation_key = kind,
            is_placeholders = [(''zone_name'', zone_name), (''entity_id'', entity_id)], is_data = None\<rparr>)"

definition delete_entity_missing_issues :: "string \<Rightarrow> issues \<Rightarrow> issues" where
  "delete_entity_missing_issues zone_id =
     delete_issue (zone_issue_id ISSUE_ACTUATOR_MISSING zone_id) \<circ>
     delete_issue (zone_issue_id ISSUE_SENSOR_MISSING zone_id)"

definition create_integrity_issue :: "string \<Rightarrow> issues \<Rightarrow> issues" where
  "create_integrity_issue entry_id =
     create_issue (ISSUE_INTEGRITY_LOST @ ''_'' @ entry_id)
       \<lparr>is_fixable = False, is_severity = SeverityError, is_translation_key = ISSUE_INTEGRITY_LOST,
        is_placeholders = [], is_data = None\<rparr>"

definition delete_integrity_issue :: "string \<Rightarrow> issues \<Rightarrow> issues" where
  "delete_integrity_issue entry_id = delete_issue (ISSUE_INTEGRITY_LOST @ ''_'' @ entry_id)"

section \<open>Repairs follow the events\<close>

definition create_if :: "bool \<Rightarrow> (issues \<Rightarrow> issues) \<Rightarrow> issues \<Rightarrow> issues" where
  "create_if b f is = (if b then f is else is)"

definition zone_name_of :: "string \<Rightarrow> Runtime \<Rightarrow> string" where
  "zone_name_of zone_id rt =
     (case map_of (en_controllers (rt_en rt)) zone_id of
        None \<Rightarrow> zone_id | Some ref \<Rightarrow> cfg_name (ctl_config (rt_heap rt ref)))"

definition fault_set_repairs ::
  "plan_env \<Rightarrow> string \<Rightarrow> string \<Rightarrow> string option \<Rightarrow> FaultCode \<Rightarrow> Runtime \<Rightarrow> issues \<Rightarrow> issues result" where
  "fault_set_repairs e entry_id zone_id record_id fault rt is =
     (if fault = ACTUATOR_OFF_TIMEOUT \<and> record_id \<noteq> None
      then res_bind (store_data (rt_store rt)) (\<lambda>data.
             Inr (case map_of (st_safety_records data) (the record_id) of
                    None \<Rightarrow> is
                  | Some r \<Rightarrow> create_off_unconfirmed_issue entry_id r (zone_name_of zone_id rt) is))
      else if fault = CONFIGURATION_INVALID \<and> map_of (en_controllers (rt_en rt)) zone_id \<noteq> None
      then Inr (let config = ctl_config (rt_heap rt (the (map_of (en_controllers (rt_en rt)) zone_id)));
                    sensor = cfg_moisture_sensor config; actuator = cfg_actuator config; n = zone_name_of zone_id rt
                in create_if (pe_states e actuator = None) (create_entity_missing_issue zone_id n actuator True)
                     (create_if (pe_states e sensor = None) (create_entity_missing_issue zone_id n sensor False) is))
      else if fault = RESTORED_FROM_UNSAFE_STATE then Inr (create_integrity_issue entry_id is)
      else Inr is)"

definition fault_cleared_repairs ::
  "string \<Rightarrow> string \<Rightarrow> string option \<Rightarrow> FaultCode \<Rightarrow> Runtime \<Rightarrow> issues \<Rightarrow> issues" where
  "fault_cleared_repairs entry_id zone_id record_id fault rt is =
     (if fault = ACTUATOR_OFF_TIMEOUT \<and> record_id \<noteq> None
      then delete_record_issue entry_id (the record_id) ISSUE_OFF_UNCONFIRMED is
      else if fault = CONFIGURATION_INVALID then delete_entity_missing_issues zone_id is
      else if fault = RESTORED_FROM_UNSAFE_STATE \<and>
              \<not> list_ex (\<lambda>(_, ref). ctl_active_fault (rt_heap rt ref) = Some RESTORED_FROM_UNSAFE_STATE)
                 (en_controllers (rt_en rt))
      then delete_integrity_issue entry_id is
      else is)"

section \<open>Repairs follow the store\<close>

record repairs_state =
  rs_issues :: issues
  rs_known_identity_incidents :: "string set"
  rs_reconciliation_issue_active :: bool

definition incident_issue_type :: "IdentityIncident \<Rightarrow> string" where
  "incident_issue_type i =
     (if inc_kind i \<in> {IDENTITY_MISSING, MIGRATION_UNRESOLVED}
      then ISSUE_TOMBSTONE_ACTUATOR_MISSING else ISSUE_IDENTITY_CONFLICT)"

definition record_name :: "SafetyRecord \<Rightarrow> string" where
  "record_name r =
     (case sr_applied_config r of None \<Rightarrow> sr_zone_id r | Some shadow \<Rightarrow> ns_name (sh_normalized_settings shadow))"

definition sync_off_issue :: "string \<Rightarrow> SafetyRecord \<Rightarrow> issues \<Rightarrow> issues" where
  "sync_off_issue entry_id r =
     (if sr_actuator_fault r = Some ACTUATOR_OFF_TIMEOUT \<and> sr_acknowledgement_required r
      then create_off_unconfirmed_issue entry_id r (record_name r)
      else delete_record_issue entry_id (sr_safety_record_id r) ISSUE_OFF_UNCONFIRMED)"

definition sync_identity_issue :: "plan_env \<Rightarrow> string \<Rightarrow> Runtime \<Rightarrow> SafetyRecord \<Rightarrow> issues \<Rightarrow> issues" where
  "sync_identity_issue e entry_id rt r =
     (case sr_identity_incident r of
        Some i \<Rightarrow>
          (let issue_type = incident_issue_type i
           in create_identity_issue entry_id r issue_type (record_name r)
                (issue_type = ISSUE_TOMBSTONE_ACTUATOR_MISSING \<and>
                 removed_actuator_recovery_context e (sr_safety_record_id r) (sr_safety_lineage_id r) rt \<noteq> None))
      | None \<Rightarrow>
          delete_record_issue entry_id (sr_safety_record_id r) ISSUE_TOMBSTONE_ACTUATOR_MISSING \<circ>
          delete_record_issue entry_id (sr_safety_record_id r) ISSUE_IDENTITY_CONFLICT)"

definition sync_record :: "plan_env \<Rightarrow> string \<Rightarrow> Runtime \<Rightarrow> SafetyRecord \<Rightarrow> issues \<Rightarrow> issues" where
  "sync_record e entry_id rt r is = sync_identity_issue e entry_id rt r (sync_off_issue entry_id r is)"

definition current_incidents :: "string \<Rightarrow> SafetyRecord list \<Rightarrow> string set" where
  "current_incidents entry_id rs =
     set (concat (map (\<lambda>r. case sr_identity_incident r of
        None \<Rightarrow> []
      | Some i \<Rightarrow> [record_issue_id entry_id (sr_safety_record_id r) (incident_issue_type i)]) rs))"

text \<open>The coordinator's last error is an argument.\<close>

definition sync_repairs_from_authority ::
  "plan_env \<Rightarrow> string \<Rightarrow> string option \<Rightarrow> Runtime \<Rightarrow> repairs_state \<Rightarrow> repairs_state" where
  "sync_repairs_from_authority e entry_id last_error rt s =
     (case ss_data (rt_store rt) of
        None \<Rightarrow> s
      | Some data \<Rightarrow>
          (let records = map snd (st_safety_records data);
               synced = fold (sync_record e entry_id rt) records (rs_issues s);
               current = current_incidents entry_id records;
               gone = rs_known_identity_incidents s - current;
               cleared = (\<lambda>k. if k \<in> gone then None else synced k);
               co = en_coordinator (rt_en rt)
           in \<lparr>rs_issues =
                 (if co_failed co
                  then create_reconciliation_issue entry_id
                         (or_else last_error ''configuration reconciliation failed'')
                         (co_observed_generation co) (co_applied_generation co) cleared
                  else delete_reconciliation_issue entry_id cleared),
               rs_known_identity_incidents = current,
               rs_reconciliation_issue_active = co_failed co\<rparr>))"

section \<open>Fix flows\<close>

record fix_flow_data =
  ff_entry_id :: string
  ff_record_id :: string
  ff_lineage_id :: string
  ff_issue_type :: string

datatype fix_flow = ExactRecordFault fix_flow_data | RemovedActuator fix_flow_data | ConfirmOnly

datatype fix_result = FixForm "(string \<times> string) list" "string option" | FixDone

definition unknown_placeholders :: "fix_flow_data \<Rightarrow> (string \<times> string) list" where
  "unknown_placeholders d =
     [(''zone_name'', ''retained zone''), (''safety_record_id'', short (Some (ff_record_id d))),
      (''safety_lineage_id'', short (Some (ff_lineage_id d))), (''registry_entry_id'', ''unavailable''),
      (''entity_id'', ''unavailable''), (''lifecycle'', ''unknown''), (''fault'', ''unknown''),
      (''blockers'', ''unknown''), (''accounting'', ''unknown'')]"

definition shown :: "fix_flow_data \<Rightarrow> SafetyRecord option \<Rightarrow> (string \<times> string) list" where
  "shown d r = (case r of None \<Rightarrow> unknown_placeholders d | Some r \<Rightarrow> record_placeholders r (record_name r))"

text \<open>The answer of the runtime to an acknowledgement: another exception than a refusal leaves the flow.\<close>

definition answered ::
  "(string \<times> string) list \<Rightarrow> Runtime entry_outcome \<Rightarrow> Runtime option \<times> (entry_error + fix_result)" where
  "answered placeholders r =
     (case r of
        (rt, None) \<Rightarrow> (Some rt, Inr FixDone)
      | (rt, Some (AcknowledgementError key)) \<Rightarrow> (Some rt, Inr (FixForm placeholders (Some key)))
      | (rt, Some err) \<Rightarrow> (Some rt, Inl err))"

text \<open>\<open>async_step_confirm\<close> of both flows; the runtime is that of the loaded entry, and
  \<open>acknowledge\<close> is the method of the runtime that the flow calls.\<close>

definition exact_fault_confirm ::
  "(string \<Rightarrow> string \<Rightarrow> bool \<Rightarrow> Runtime \<Rightarrow> Runtime entry_outcome) \<Rightarrow> fix_flow_data \<Rightarrow> bool \<Rightarrow> Runtime option \<Rightarrow>
   Runtime option \<times> (entry_error + fix_result)" where
  "exact_fault_confirm acknowledge d submitted runtime =
     (let record1 = (case runtime of None \<Rightarrow> None | Some rt \<Rightarrow>
            (case ss_data (rt_store rt) of None \<Rightarrow> None | Some data \<Rightarrow> map_of (st_safety_records data) (ff_record_id d)));
          form = (\<lambda>err. (runtime, Inr (FixForm (shown d record1) err)))
      in if \<not> submitted then form None
         else (case runtime of
            None \<Rightarrow> form (Some ''record_entry_not_loaded'')
          | Some rt \<Rightarrow>
              if (case record1 of None \<Rightarrow> True | Some r \<Rightarrow> sr_safety_lineage_id r \<noteq> ff_lineage_id d)
              then form (Some ''record_not_found'')
              else answered (shown d record1)
                     (acknowledge (ff_record_id d) (ff_lineage_id d) (ff_issue_type d = ISSUE_OFF_UNCONFIRMED) rt)))"

text \<open>\<open>assertion\<close> is the value of the check box, if the input carries it.\<close>

definition removed_confirm ::
  "plan_env \<Rightarrow> (string \<Rightarrow> string \<Rightarrow> Runtime \<Rightarrow> Runtime entry_outcome) \<Rightarrow> fix_flow_data \<Rightarrow> bool option \<Rightarrow>
   Runtime option \<Rightarrow> Runtime option \<times> (entry_error + fix_result)" where
  "removed_confirm e acknowledge d assertion runtime =
     (let context = (case runtime of None \<Rightarrow> None | Some rt \<Rightarrow>
            removed_actuator_recovery_context e (ff_record_id d) (ff_lineage_id d) rt);
          placeholders = shown d (map_option fst context);
          form = (\<lambda>err. (runtime, Inr (FixForm placeholders err)))
      in case assertion of
           None \<Rightarrow> form None
         | Some checked \<Rightarrow>
             (case runtime of
                None \<Rightarrow> form (Some ''record_entry_not_loaded'')
              | Some rt \<Rightarrow>
                  if context = None then form (Some ''record_removal_not_confirmed'')
                  else if \<not> checked then form (Some ''record_confirmation_required'')
                  else answered placeholders (acknowledge (ff_record_id d) (ff_lineage_id d) rt)))"

text \<open>What the operator submits: nothing, or a form, which for a removed actuator has a check box.\<close>

datatype submission = NotSubmitted | Submitted "bool option"

record fix_env =
  fx_home :: plan_env
  fx_acknowledge_record :: "string \<Rightarrow> string \<Rightarrow> bool \<Rightarrow> Runtime \<Rightarrow> Runtime entry_outcome"
  fx_acknowledge_removed :: "string \<Rightarrow> string \<Rightarrow> Runtime \<Rightarrow> Runtime entry_outcome"

definition fix_flow_confirm ::
  "fix_env \<Rightarrow> fix_flow \<Rightarrow> submission \<Rightarrow> Runtime option \<Rightarrow> Runtime option \<times> (entry_error + fix_result)" where
  "fix_flow_confirm env f submission runtime =
     (case f of
        ExactRecordFault d \<Rightarrow>
          exact_fault_confirm (fx_acknowledge_record env) d (submission \<noteq> NotSubmitted) runtime
      | RemovedActuator d \<Rightarrow>
          removed_confirm (fx_home env) (fx_acknowledge_removed env) d
            (case submission of NotSubmitted \<Rightarrow> None | Submitted assertion \<Rightarrow> assertion) runtime
      | ConfirmOnly \<Rightarrow>
          (runtime, Inr (if submission = NotSubmitted then FixForm [] None else FixDone)))"

text \<open>\<open>async_step_init\<close>: what Home Assistant passes in is ignored.\<close>

definition fix_flow_init ::
  "fix_env \<Rightarrow> fix_flow \<Rightarrow> submission \<Rightarrow> Runtime option \<Rightarrow> Runtime option \<times> (entry_error + fix_result)" where
  "fix_flow_init env f seed runtime = fix_flow_confirm env f NotSubmitted runtime"

definition create_fix_flow :: "(string \<times> string) list option \<Rightarrow> fix_flow" where
  "create_fix_flow data =
     (let item = (\<lambda>k. case data of None \<Rightarrow> [] | Some d \<Rightarrow> (case map_of d k of None \<Rightarrow> [] | Some v \<Rightarrow> v));
          d = \<lparr>ff_entry_id = item ''entry_id'', ff_record_id = item ''safety_record_id'',
               ff_lineage_id = item ''safety_lineage_id'', ff_issue_type = item ''issue_type''\<rparr>
      in if list_all (\<lambda>k. item k \<noteq> []) [''entry_id'', ''safety_record_id'', ''safety_lineage_id'']
         then (if item ''issue_type'' = ISSUE_OFF_UNCONFIRMED then ExactRecordFault d
               else if item ''issue_type'' = ISSUE_TOMBSTONE_ACTUATOR_REMOVED then RemovedActuator d
               else ConfirmOnly)
         else ConfirmOnly)"

end
