(* ===== verification/Repairs_Safety.thy ===== *)
theory Repairs_Safety
  imports Entry_Repairs Shutdown_Safety
begin

text \<open>
  What Repairs guarantee: after a synchronization the issues of every record are exactly those that the
  store calls for -- but for one stale issue -- and no fix flow acts before the operator confirms.
\<close>

section \<open>Identifiers of issues\<close>

definition record_kinds :: "string set" where
  "record_kinds = {ISSUE_OFF_UNCONFIRMED, ISSUE_TOMBSTONE_ACTUATOR_MISSING, ISSUE_IDENTITY_CONFLICT}"

lemmas issue_kind_defs = ISSUE_OFF_UNCONFIRMED_def ISSUE_TOMBSTONE_ACTUATOR_MISSING_def ISSUE_IDENTITY_CONFLICT_def
  ISSUE_RECONCILIATION_FAILED_def

lemma kinds_differ [simp]:
  "ISSUE_OFF_UNCONFIRMED \<noteq> ISSUE_TOMBSTONE_ACTUATOR_MISSING" "ISSUE_OFF_UNCONFIRMED \<noteq> ISSUE_IDENTITY_CONFLICT"
  "ISSUE_TOMBSTONE_ACTUATOR_MISSING \<noteq> ISSUE_IDENTITY_CONFLICT"
  "ISSUE_TOMBSTONE_ACTUATOR_MISSING \<noteq> ISSUE_OFF_UNCONFIRMED" "ISSUE_IDENTITY_CONFLICT \<noteq> ISSUE_OFF_UNCONFIRMED"
  "ISSUE_IDENTITY_CONFLICT \<noteq> ISSUE_TOMBSTONE_ACTUATOR_MISSING"
  by (simp_all add: issue_kind_defs)

lemma record_issue_id_eq:
  assumes "k \<in> record_kinds" and "k' \<in> record_kinds"
  shows "record_issue_id entry i k = record_issue_id entry i' k' \<longleftrightarrow> k = k' \<and> i = i'"
  using assms by (auto simp: record_kinds_def record_issue_id_def issue_kind_defs)

lemma not_reconciliation_id:
  "k \<in> record_kinds \<Longrightarrow> record_issue_id entry i k \<noteq> ISSUE_RECONCILIATION_FAILED @ ''_'' @ entry"
  by (auto simp: record_kinds_def record_issue_id_def issue_kind_defs)

lemma incident_kind [simp]:
  "incident_issue_type c \<in> record_kinds" "incident_issue_type c \<noteq> ISSUE_OFF_UNCONFIRMED"
  by (simp_all add: incident_issue_type_def record_kinds_def)

section \<open>One record\<close>

lemmas issue_defs = create_off_unconfirmed_issue_def create_identity_issue_def delete_record_issue_def
  create_issue_def delete_issue_def

lemma sync_record_frame:
  assumes "\<And>k. k \<in> record_kinds \<Longrightarrow> x \<noteq> record_issue_id entry (sr_safety_record_id r) k"
  shows "sync_record e entry rt r is x = is x"
  using assms [of ISSUE_OFF_UNCONFIRMED] assms [of ISSUE_TOMBSTONE_ACTUATOR_MISSING] assms [of ISSUE_IDENTITY_CONFLICT]
  by (auto simp: sync_record_def sync_identity_issue_def sync_off_issue_def issue_defs record_kinds_def
      incident_issue_type_def Let_def split: option.split)

lemma sync_records_frame:
  assumes "\<And>r k. r \<in> set rs \<Longrightarrow> k \<in> record_kinds \<Longrightarrow> x \<noteq> record_issue_id entry (sr_safety_record_id r) k"
  shows "fold (sync_record e entry rt) rs is x = is x"
  using assms
proof (induction rs arbitrary: "is")
  case (Cons r rs)
  from Cons.IH [of "sync_record e entry rt r is"] Cons.prems sync_record_frame [of x entry r e rt "is"]
  show ?case by simp
qed simp

text \<open>The issues of one record after a synchronization are those after its own turn.\<close>

lemma sync_records_at:
  assumes "distinct (map sr_safety_record_id rs)" and "r \<in> set rs" and "k \<in> record_kinds"
  shows "\<exists>is'. fold (sync_record e entry rt) rs is (record_issue_id entry (sr_safety_record_id r) k) =
       sync_record e entry rt r is' (record_issue_id entry (sr_safety_record_id r) k) \<and>
     (\<forall>k \<in> record_kinds. is' (record_issue_id entry (sr_safety_record_id r) k) =
        is (record_issue_id entry (sr_safety_record_id r) k))"
proof -
  from assms(2) obtain xs ys where rs: "rs = xs @ r # ys" by (meson split_list)
  have other: "record_issue_id entry (sr_safety_record_id r) k1 \<noteq> record_issue_id entry (sr_safety_record_id q) k2"
    if "q \<in> set xs \<union> set ys" "k1 \<in> record_kinds" "k2 \<in> record_kinds" for q k1 k2
    using that assms(1) rs record_issue_id_eq [of k1 k2 entry "sr_safety_record_id r" "sr_safety_record_id q"] by auto
  let ?is = "fold (sync_record e entry rt) xs is"
  have "fold (sync_record e entry rt) rs is (record_issue_id entry (sr_safety_record_id r) k) =
        sync_record e entry rt r ?is (record_issue_id entry (sr_safety_record_id r) k)"
    unfolding rs using other assms(3) by (simp add: sync_records_frame)
  moreover have "\<forall>k \<in> record_kinds. ?is (record_issue_id entry (sr_safety_record_id r) k) =
        is (record_issue_id entry (sr_safety_record_id r) k)"
    using other by (auto intro!: sync_records_frame)
  ultimately show ?thesis by blast
qed

lemma sync_record_values:
  fixes "is" :: issues
  defines "after \<equiv> \<lambda>e entry rt r k. sync_record e entry rt r is (record_issue_id entry (sr_safety_record_id r) k)"
  shows "after e entry rt r ISSUE_OFF_UNCONFIRMED \<noteq> None \<longleftrightarrow>
      sr_actuator_fault r = Some ACTUATOR_OFF_TIMEOUT \<and> sr_acknowledgement_required r"
    and "sr_identity_incident r = None \<Longrightarrow>
      after e entry rt r ISSUE_TOMBSTONE_ACTUATOR_MISSING = None \<and> after e entry rt r ISSUE_IDENTITY_CONFLICT = None"
    and "sr_identity_incident r = Some c \<Longrightarrow>
      (\<exists>i. after e entry rt r (incident_issue_type c) = Some i \<and>
         (is_fixable i \<longleftrightarrow> incident_issue_type c = ISSUE_TOMBSTONE_ACTUATOR_MISSING \<and>
            removed_actuator_recovery_context e (sr_safety_record_id r) (sr_safety_lineage_id r) rt \<noteq> None)) \<and>
      (\<forall>k \<in> record_kinds - {ISSUE_OFF_UNCONFIRMED, incident_issue_type c}.
         after e entry rt r k = is (record_issue_id entry (sr_safety_record_id r) k))"
  unfolding after_def
  by (auto simp: sync_record_def sync_identity_issue_def sync_off_issue_def issue_defs record_kinds_def Let_def
      record_issue_id_eq incident_issue_type_def split: option.split)

section \<open>The whole synchronization\<close>

definition identity_ids :: "string \<Rightarrow> string set" where
  "identity_ids entry = {record_issue_id entry i k | i k. k \<in> record_kinds - {ISSUE_OFF_UNCONFIRMED}}"

lemma current_identity: "current_incidents entry rs \<subseteq> identity_ids entry"
proof
  fix x assume "x \<in> current_incidents entry rs"
  then obtain r :: SafetyRecord and c where "x = record_issue_id entry (sr_safety_record_id r) (incident_issue_type c)"
    by (auto simp: current_incidents_def split: option.splits)
  then show "x \<in> identity_ids entry" using incident_kind [of c] unfolding identity_ids_def by blast
qed

lemma off_id_no_identity: "record_issue_id entry i ISSUE_OFF_UNCONFIRMED \<notin> identity_ids entry"
  by (auto simp: identity_ids_def record_issue_id_eq record_kinds_def)

lemma keyed_records:
  assumes "keyed_snapshot data"
  shows "distinct (map sr_safety_record_id (map snd (st_safety_records data)))"
proof -
  have eq: "map sr_safety_record_id (map snd (st_safety_records data)) = map fst (st_safety_records data)"
    using assms by (auto simp: keyed_snapshot_def keyed_def)
  show ?thesis unfolding eq using assms by (simp add: keyed_snapshot_def keyed_def)
qed

lemma synchronized_at:
  assumes "ss_data (rt_store rt) = Some data" and "keyed_snapshot data"
    and "r \<in> snd ` set (st_safety_records data)" and "k \<in> record_kinds"
  shows "\<exists>is'. rs_issues (sync_repairs_from_authority e entry err rt s) (record_issue_id entry (sr_safety_record_id r) k) =
       (if record_issue_id entry (sr_safety_record_id r) k \<in>
           rs_known_identity_incidents s - current_incidents entry (map snd (st_safety_records data))
        then None else sync_record e entry rt r is' (record_issue_id entry (sr_safety_record_id r) k)) \<and>
     (\<forall>k \<in> record_kinds. is' (record_issue_id entry (sr_safety_record_id r) k) =
          rs_issues s (record_issue_id entry (sr_safety_record_id r) k))"
proof -
  let ?x = "record_issue_id entry (sr_safety_record_id r) k"
  have r: "r \<in> set (map snd (st_safety_records data))" using assms(3) by simp
  from sync_records_at [OF keyed_records [OF assms(2)] r assms(4)] obtain is' where is':
    "fold (sync_record e entry rt) (map snd (st_safety_records data)) (rs_issues s) ?x = sync_record e entry rt r is' ?x"
    "\<forall>k \<in> record_kinds. is' (record_issue_id entry (sr_safety_record_id r) k) =
          rs_issues s (record_issue_id entry (sr_safety_record_id r) k)"
    by blast
  have "rs_issues (sync_repairs_from_authority e entry err rt s) ?x =
       (if ?x \<in> rs_known_identity_incidents s - current_incidents entry (map snd (st_safety_records data))
        then None else sync_record e entry rt r is' ?x)"
    using is'(1) not_reconciliation_id [OF assms(4), of entry "sr_safety_record_id r"]
    by (simp add: sync_repairs_from_authority_def assms(1) Let_def create_reconciliation_issue_def
        delete_reconciliation_issue_def create_issue_def delete_issue_def)
  with is'(2) show ?thesis by blast
qed


text \<open>An identity incident that changes its kind while no runtime watches leaves a stale issue: with the set of
  known incidents empty, as after a reload of the entry, the synchronization does not touch the issue of the
  other kind, whatever it says and whether or not it can be fixed.\<close>

theorem stale_identity_issue_survives:
  assumes "ss_data (rt_store rt) = Some data" and "keyed_snapshot data"
    and "r \<in> snd ` set (st_safety_records data)" and "sr_identity_incident r = Some c"
    and "rs_known_identity_incidents s = {}"
    and "{k, incident_issue_type c} = {ISSUE_TOMBSTONE_ACTUATOR_MISSING, ISSUE_IDENTITY_CONFLICT}"
  shows "rs_issues (sync_repairs_from_authority e entry err rt s) (record_issue_id entry (sr_safety_record_id r) k) =
         rs_issues s (record_issue_id entry (sr_safety_record_id r) k)"
proof -
  from assms(6) have k: "k \<in> record_kinds" "k \<in> record_kinds - {ISSUE_OFF_UNCONFIRMED, incident_issue_type c}"
    by (auto simp: doubleton_eq_iff record_kinds_def)
  from synchronized_at [OF assms(1-3) k(1), of e entry err s] assms(5) obtain is' where
    "rs_issues (sync_repairs_from_authority e entry err rt s) (record_issue_id entry (sr_safety_record_id r) k) =
       sync_record e entry rt r is' (record_issue_id entry (sr_safety_record_id r) k)"
    "is' (record_issue_id entry (sr_safety_record_id r) k) =
       rs_issues s (record_issue_id entry (sr_safety_record_id r) k)"
    using k(1) by auto
  with sync_record_values(3) [OF assms(4), of e entry rt is'] k(2) show ?thesis by simp
qed

section \<open>Fix flows\<close>

text \<open>(C39) No fix flow acts before the operator confirms.  Opening it shows a form and changes nothing, whatever the
  framework passes in; only a submission changes the runtime, for a removed actuator one with the box ticked
  while the recovery is still offered; and a flow that ends has cleared the fault of the record.\<close>

theorem fix_flow_acts_only_when_confirmed:
  assumes "fx_acknowledge_record env = (\<lambda>i l b. acknowledge_safety_record e io se u b i l)"
    and "fix_flow_confirm env f submission runtime = (runtime', result)"
  shows "(\<exists>ps. fix_flow_init env f seed runtime = (runtime, Inr (FixForm ps None))) \<and>
     (runtime' \<noteq> runtime \<longrightarrow>
        submission \<noteq> NotSubmitted \<and>
        (\<forall>d. f = RemovedActuator d \<longrightarrow> submission = Submitted (Some True) \<and>
           (\<exists>rt. runtime = Some rt \<and>
              removed_actuator_recovery_context (fx_home env) (ff_record_id d) (ff_lineage_id d) rt \<noteq> None))) \<and>
     (\<forall>d. f = ExactRecordFault d \<and> result = Inr FixDone \<longrightarrow>
        (\<exists>rt'. runtime' = Some rt' \<and> \<not> fault_remains (ff_record_id d) rt'))"
proof -
  have init: "\<exists>ps. fix_flow_init env f seed runtime = (runtime, Inr (FixForm ps None))"
    by (cases f) (auto simp: fix_flow_init_def fix_flow_confirm_def exact_fault_confirm_def removed_confirm_def Let_def)
  have change: "runtime' \<noteq> runtime \<longrightarrow> submission \<noteq> NotSubmitted \<and>
        (\<forall>d. f = RemovedActuator d \<longrightarrow> submission = Submitted (Some True) \<and>
           (\<exists>rt. runtime = Some rt \<and>
              removed_actuator_recovery_context (fx_home env) (ff_record_id d) (ff_lineage_id d) rt \<noteq> None))"
    using assms(2)
    by (cases f; cases submission)
       (auto simp: fix_flow_confirm_def exact_fault_confirm_def removed_confirm_def Let_def
         split: option.splits if_splits bool.splits)
  have done1: "\<exists>rt'. runtime' = Some rt' \<and> \<not> fault_remains (ff_record_id d) rt'"
    if f: "f = ExactRecordFault d" and res: "result = Inr FixDone" for d
  proof -
    from assms(2) f res obtain rt ps where "answered ps (acknowledge_safety_record e io se u
        (ff_issue_type d = ISSUE_OFF_UNCONFIRMED) (ff_record_id d) (ff_lineage_id d) rt) = (runtime', Inr FixDone)"
      by (auto simp: fix_flow_confirm_def exact_fault_confirm_def Let_def assms(1) split: option.splits if_splits)
    then obtain rt' where "acknowledge_safety_record e io se u (ff_issue_type d = ISSUE_OFF_UNCONFIRMED)
        (ff_record_id d) (ff_lineage_id d) rt = (rt', None)" "runtime' = Some rt'"
      by (auto simp: answered_def split: prod.splits option.splits entry_error.splits)
    with acknowledged_record_safe [OF this(1)] show ?thesis by blast
  qed
  show ?thesis using init change done1 by blast
qed

section \<open>Concrete repairs\<close>

definition no_issues :: repairs_state where
  "no_issues =
     \<lparr>rs_issues = (\<lambda>_. None), rs_known_identity_incidents = {}, rs_reconciliation_issue_active = False\<rparr>"

lemma sample_keyed: "keyed_snapshot sample_data" by code_simp

lemma sample_waits:
  "list_ex (\<lambda>r. sr_safety_record_id r = ''r'' \<and> sr_actuator_fault r = Some ACTUATOR_OFF_TIMEOUT \<and>
     sr_acknowledgement_required r) (map snd (st_safety_records sample_data))"
  by code_simp


text \<open>A record with a conflict, and an issue of the removal that is left from before.\<close>

definition disputed_record :: SafetyRecord where
  "disputed_record = removed_record\<lparr>sr_identity_incident := Some \<lparr>inc_kind = IDENTITY_CONFLICT, inc_detail = ''two''\<rparr>\<rparr>"

definition disputed_data :: StoreData where
  "disputed_data = sample_data\<lparr>st_safety_records := [(''r'', disputed_record)]\<rparr>"

definition left_over :: repairs_state where
  "left_over = no_issues\<lparr>rs_issues :=
     create_identity_issue ''e'' removed_record ISSUE_TOMBSTONE_ACTUATOR_MISSING ''Bed'' True (\<lambda>_. None)\<rparr>"

lemma disputed_facts:
  "keyed_snapshot disputed_data" "sr_safety_record_id disputed_record = ''r''"
  "rs_issues left_over (record_issue_id ''e'' ''r'' ISSUE_TOMBSTONE_ACTUATOR_MISSING) \<noteq> None"
  by code_simp+

theorem stale_identity_issue_survives_witness:
  "rs_issues (sync_repairs_from_authority home ''e'' None (entry_runtime disputed_data) left_over)
     (record_issue_id ''e'' ''r'' ISSUE_TOMBSTONE_ACTUATOR_MISSING) \<noteq> None"
proof -
  let ?c = "\<lparr>inc_kind = IDENTITY_CONFLICT, inc_detail = ''two''\<rparr>"
  have d: "ss_data (rt_store (entry_runtime disputed_data)) = Some disputed_data" by (simp add: entry_runtime_def)
  have r: "disputed_record \<in> snd ` set (st_safety_records disputed_data)" by (simp add: disputed_data_def)
  have c: "sr_identity_incident disputed_record = Some ?c" by (simp add: disputed_record_def)
  have n: "rs_known_identity_incidents left_over = {}" by (simp add: left_over_def no_issues_def)
  have "{ISSUE_TOMBSTONE_ACTUATOR_MISSING, incident_issue_type ?c} =
        {ISSUE_TOMBSTONE_ACTUATOR_MISSING, ISSUE_IDENTITY_CONFLICT}"
    by (simp add: incident_issue_type_def)
  from stale_identity_issue_survives [OF d disputed_facts(1) r c n this, of home "''e''" None] disputed_facts(2,3)
  show ?thesis by simp
qed

definition acknowledging :: fix_env where
  "acknowledging =
     \<lparr>fx_home = home,
      fx_acknowledge_record = (\<lambda>i l b. acknowledge_safety_record home
        (accepting (acknowledge_actuator_fault_plan ''r'' ''l'' ACTUATOR_OFF_TIMEOUT sample_data)) broken_env ''s2'' b i l),
      fx_acknowledge_removed = (\<lambda>_ _ rt. (rt, None))\<rparr>"

definition off_flow :: fix_flow where
  "off_flow = create_fix_flow (record_issue_data ''e'' sample_record ISSUE_OFF_UNCONFIRMED)"

definition confirmed :: "Runtime option \<times> (entry_error + fix_result)" where
  "confirmed = fix_flow_confirm acknowledging off_flow (Submitted None) (Some detached_runtime)"

lemma confirmed_done: "map_sum (\<lambda>_. ()) id (snd confirmed) = Inr FixDone"
  and off_flow_record: "off_flow = ExactRecordFault \<lparr>ff_entry_id = ''e'', ff_record_id = ''r'', ff_lineage_id = ''l'',
       ff_issue_type = ISSUE_OFF_UNCONFIRMED\<rparr>"
  by code_simp+

theorem fix_flow_acts_only_when_confirmed_witness:
  "\<exists>rt'. fst confirmed = Some rt' \<and> \<not> fault_remains ''r'' rt'"
proof -
  obtain d where d: "off_flow = ExactRecordFault d" "ff_record_id d = ''r''"
    using off_flow_record by simp
  obtain rt' result where c: "confirmed = (rt', result)" by (cases confirmed)
  have "result = Inr FixDone" using confirmed_done c by (cases result) (metis snd_conv map_sum.simps sum.distinct(1) sum.inject(2) id_apply)+
  moreover have "fx_acknowledge_record acknowledging = (\<lambda>i l b. acknowledge_safety_record home
        (accepting (acknowledge_actuator_fault_plan ''r'' ''l'' ACTUATOR_OFF_TIMEOUT sample_data)) broken_env ''s2'' b i l)"
    by (simp add: acknowledging_def)
  note confirmed_only = fix_flow_acts_only_when_confirmed [OF this c [unfolded confirmed_def]]
  ultimately obtain rt1 where "rt' = Some rt1" "\<not> fault_remains ''r'' rt1"
    using confirmed_only d by metis
  then show ?thesis unfolding c by simp
qed

end
