(* ===== verification/Spec2Isabelle.thy ===== *)
theory Spec2Isabelle
  imports On_Authority_Safety Migration_Safety Planning_Safety Shutdown_Safety Entry_Actions Config_Safety
    Repairs_Safety
begin

text \<open>
  MoistureLoop is an integration of Home Assistant that waters garden zones by soil moisture.  This
  development models its program logic (\<open>src/custom_components/moisture_loop\<close>) and proves what the
  program promises: water flows only under full authority and within its budgets, whatever may be
  flowing is durable before it flows, a failure closes the zone, and neither a restart, a change of
  configuration nor an operator can make the program forget a valve it has not proven OFF.

  \<^bold>\<open>How the program is put together.\<close>  For each zone a \<^emph>\<open>controller\<close> (\<open>zone_controller.py\<close>) turns
  what it observes into events, asks the \<^emph>\<open>pure state machine\<close> (\<open>state_machine.py\<close>, \<open>decide\<close>) for a
  decision, and executes its actions one after the other.  Two components are shared by all zones:
  the \<^emph>\<open>slot manager\<close> (\<open>slot_manager.py\<close>) hands out the one watering slot, and refuses it while a
  blocker is set or while a reconciliation is open; the \<^emph>\<open>safety store\<close> (\<open>storage.py\<close>) keeps records and
  histories, writes each new snapshot and reads it back before it counts.  The \<^emph>\<open>entry runtime\<close>
  (\<open>runtime.py\<close>) starts and ends all of them, unites configuration and store, and is asked for
  authority (\<open>authorize_on\<close>) before every ON call; the \<^emph>\<open>coordinator\<close> (\<open>reconciliation.py\<close>) makes sure
  that only the latest configuration is ever applied.  \<open>models.py\<close> holds the data, its checks and its
  JSON form, \<open>const.py\<close> the bounds, \<open>services.py\<close> the actions of the user.

  \<^bold>\<open>Theories and sources.\<close>  A definition has the name of the Python function it translates, without
  leading underscores and, where the name is taken, with the class or the module in front; the fields
  of a class carry a prefix (\<open>ctl_\<close> controller, \<open>ses_\<close> session, \<open>sr_\<close> safety record, \<open>zh_\<close>/\<open>zr_\<close> zone
  history and runtime, \<open>cfg_\<close> configuration, \<open>sl_\<close> slot manager, \<open>co_\<close> coordinator, \<open>en_\<close>/\<open>rt_\<close> runtime).

  \<^item> \<open>Prelude\<close>, \<open>Transition_System\<close>: floats, instants, exceptions, results; the locales of a component
    driven by steps, with and without a guarded resource.
  \<^item> \<open>Vocabulary\<close>, \<open>Zone_Config\<close>, \<open>Observation\<close>, \<open>Session\<close>: constants, enumerations and fault matrix
    (\<open>const.py\<close>, \<open>models.py\<close>), settings and their validation, the classification of readings and actuator
    states, sessions, events, actions and decisions.
  \<^item> \<open>State_Machine\<close> (\<open>state_machine.py\<close>); \<open>Zone_Safety\<close> and \<open>Zone_Lifecycle\<close> prove it correct;
    \<open>Samples\<close> has the concrete zones of the witnesses.
  \<^item> \<open>Slot_Manager\<close>, \<open>Slot_Safety\<close> (\<open>slot_manager.py\<close>): queue, barrier and blockers as a step relation
    over the synchronous methods and the halves of the asynchronous ones.
  \<^item> \<open>Accounting\<close>, \<open>Store_Data\<close>, \<open>Safety_Store\<close>, \<open>Store_Safety\<close>, \<open>Water_Resource\<close>: daily runtime,
    the persisted records with the checks of their constructors, the operations of the store, and the
    slot manager on top of the store.
  \<^item> \<open>Iso_Time\<close>, \<open>Json_Codec\<close>, \<open>Store_Codec\<close>, \<open>Store_Migration\<close>, and for their proofs \<open>Codec_Laws\<close>,
    \<open>Codec_Roundtrip\<close>, \<open>Store_Roundtrip\<close>, \<open>Migration_Safety\<close>: the JSON payload, its strict readers, the
    migrations of schema 1 and 2 and the classification of what a start finds.
  \<^item> \<open>Zone_Controller\<close>, \<open>Controller_Safety\<close>, \<open>Controller_Off\<close>, \<open>Controller_Identity\<close>: the controller, its
    decide-and-apply core, the OFF operation, construction, listeners and renames.
  \<^item> \<open>Reconciliation\<close>, \<open>Reconciliation_Safety\<close>, \<open>On_Authority\<close>, \<open>On_Authority_Safety\<close>: the coordinator,
    the final gate and the envelope around the ON call, cut at their suspension points.
  \<^item> \<open>Store_Planning\<close>, \<open>Planning_Safety\<close>: snapshots of the configuration and the plan of the next store.
  \<^item> \<open>Entry_Lifecycle\<close>, \<open>Entry_Operator\<close>, \<open>Lifecycle_Safety\<close>: recovery of persisted sessions, publication
    of controllers, tombstones, live blockers, acknowledgements of an operator.
  \<^item> \<open>Entry_Startup\<close>, \<open>Entry_Shutdown\<close>, \<open>Shutdown_Safety\<close>: start, process shutdown, unload.
  \<^item> \<open>Entry_Actions\<close> (\<open>services.py\<close>): the actions and how a refusal is reported.

  \<^bold>\<open>What the lemmas show.\<close>  The properties carry the tags (C1), (C2), \<dots> above their statements.
  State machine: it refines the transition table of the specification, is total on well-formed input,
  turns water on under the stated guards and budgets only, and the first termination wins.  Controller:
  an ON request is durable, a failed write fails closed, the OFF operation ends after a bounded number
  of calls.  Gate and envelope: the ON service is called, and a pulse goes on, under full authority
  only; an uncertain call is answered by OFF.  Slot, store and coordinator: grants are safe and in
  order, snapshots always valid and verified, a quiet worker publishes the latest configuration.
  Payload: round trip, well-typedness and the exact errors of the readers.  Planning, lifecycle, start
  and end: no record, session or hazard is lost, a soak is resumed or kept under full trust only, grants
  follow a verified start, and a clean report is honest.  Where the program does not do what its
  specification says, the theorem states what it does (C-numbers of kind error).

  \<^bold>\<open>Effects, bounds and termination.\<close>  A function that may raise returns \<open>Inl\<close> an exception; a method
  that changes state and may raise returns the state it leaves behind with the exception.  Where the
  program awaits, the model is cut, and the rest takes an environment that says what came back and what
  other tasks did meanwhile: \<open>step_env\<close>, \<open>resume_env\<close>, \<open>off_env\<close>, \<open>store_io\<close>, \<open>json_io\<close>, \<open>startup_env\<close>,
  \<open>shutdown_env\<close>, \<open>init_env\<close>.  The theorems hold for every environment, or name what they assume.  All
  recursion is structural or over a list or a given number of attempts, so every definition is total and
  no fuel is needed.  Python's \<open>int\<close> is \<open>int\<close>; a float is \<open>pyfloat\<close>, an exact rational or one of the
  non-finite values; an instant is an integer of microseconds.  Dictionaries are association lists in
  insertion order, sets that are iterated take their order as an argument.

  \<^bold>\<open>Parameters.\<close>  Code outside the repository is an argument: the name-based UUID and the reading and
  writing of Home Assistant's \<open>Store\<close>; SHA-256 over canonical JSON (\<open>digest\<close>); entity states, entity
  registry, clock, time zone and \<open>uuid4\<close> (\<open>plan_env\<close>); the service call and what happens during it.

  \<^bold>\<open>Restrictions.\<close>  Rounding of floats is not modelled, rationals are exact.  Characters have 8 bits.
  ISO 8601 texts have the extended spelling that the program itself writes.  Error texts carry no
  interpolated values, except for the identifiers the conflict texts of planning quote.

  \<^bold>\<open>Not modelled.\<close>  \<open>config_flow.py\<close> (forms; the checks repeat those of planning and of the settings),
  \<open>repairs.py\<close> and the parts of \<open>runtime.py\<close> that keep Repairs in step, \<open>diagnostics.py\<close> and the entity
  platforms (\<open>entity.py\<close>, \<open>sensor.py\<close>, \<open>binary_sensor.py\<close>, \<open>button.py\<close>, \<open>switch.py\<close>), which present state
  or forward to the controller; registration of services, listeners and jobs; logging; the asyncio tasks
  that wait with a budget (\<open>_await_off_within_budget\<close>), which are environments here; the scripts of
  the repository, which check texts and not the program.
\<close>

end
